(* ===== verification/Transitions.thy ===== *)
theory Transitions
  imports Main
begin

text \<open>
  The contract between a step relation and an invariant, stated once: what the single steps keep,
  every sequence of steps keeps.
\<close>

locale transition_invariant =
  fixes step :: "'s \<Rightarrow> 's \<Rightarrow> bool" and inv :: "'s \<Rightarrow> bool"
  assumes step_inv: "step s s' \<Longrightarrow> inv s \<Longrightarrow> inv s'"
begin

lemma steps_inv: "step\<^sup>*\<^sup>* s s' \<Longrightarrow> inv s \<Longrightarrow> inv s'"
  by (induction rule: rtranclp_induct) (auto intro: step_inv)

text \<open>A left fold whose steps are sequences of transitions is one.\<close>

lemma foldl_steps:
  assumes "\<And>s x. inv s \<Longrightarrow> x \<in> set xs \<Longrightarrow> step\<^sup>*\<^sup>* s (f s x)" "inv s"
  shows "step\<^sup>*\<^sup>* s (foldl f s xs)"
  using assms
proof (induction xs arbitrary: s)
  case (Cons x xs)
  then have "step\<^sup>*\<^sup>* s (f s x)" by simp
  moreover from this Cons.prems(2) have "inv (f s x)" by (rule steps_inv)
  ultimately show ?case using Cons.IH[of "f s x"] Cons.prems(1) by (simp add: rtranclp_trans)
qed simp

end

locale monotone_measure =
  fixes step :: "'s \<Rightarrow> 's \<Rightarrow> bool" and size_of :: "'s \<Rightarrow> nat"
  assumes step_mono: "step s s' \<Longrightarrow> size_of s \<le> size_of s'"
begin

lemma steps_mono: "step\<^sup>*\<^sup>* s s' \<Longrightarrow> size_of s \<le> size_of s'"
  by (induction rule: rtranclp_induct) (auto dest: step_mono)

end

end
