(* ===== verification/Go_Strings.thy ===== *)
theory Go_Strings
  imports Main "HOL-Library.Sublist"
begin

text \<open>
  Prelude of the development, first part: the functions of Go's \<^verbatim>\<open>strings\<close>,
  \<^verbatim>\<open>strconv\<close> and \<^verbatim>\<open>fmt\<close> packages that the gateway calls, on byte strings.

  A Go string is a sequence of bytes and so is a value of type \<^typ>\<open>string\<close> (a list of 8-bit
  characters). Both wire protocols are ASCII; case mapping, case folding and white space are
  modelled on ASCII, bytes from 128 on are neither letters nor spaces.  Slicing, searching,
  splitting and formatting are byte-wise in Go too.

  Go's \<^verbatim>\<open>int\<close> is a 64-bit integer.  The only places where the gateway reads an integer from the
  wire or from a file are calls of \<^verbatim>\<open>strconv.Atoi\<close>, which reports a value out of range; the
  conversion is modelled with that check, so values of type \<^typ>\<open>int\<close> obtained by it stay in range.
\<close>

named_theorems go_defs \<open>definitions of the modelled Go library functions\<close>

named_theorems go_simps \<open>rewrite rules for the modelled Go library functions\<close>

subsection \<open>Bytes\<close>

abbreviation byte :: "char \<Rightarrow> int" where
  "byte c \<equiv> of_char c"

abbreviation DQ :: char where "DQ \<equiv> CHR 0x22"
abbreviation BSL :: char where "BSL \<equiv> CHR 0x5C"
abbreviation NL :: char where "NL \<equiv> CHR 0x0A"
abbreviation CR :: char where "CR \<equiv> CHR 0x0D"
abbreviation TAB :: char where "TAB \<equiv> CHR 0x09"
abbreviation CRLF :: string where "CRLF \<equiv> [CR, NL]"

definition isDigit :: "char \<Rightarrow> bool" where
  "isDigit c \<longleftrightarrow> 48 \<le> byte c \<and> byte c \<le> 57"

definition isUpper :: "char \<Rightarrow> bool" where
  "isUpper c \<longleftrightarrow> 65 \<le> byte c \<and> byte c \<le> 90"

definition isLower :: "char \<Rightarrow> bool" where
  "isLower c \<longleftrightarrow> 97 \<le> byte c \<and> byte c \<le> 122"

definition lowerByte :: "char \<Rightarrow> char" where
  "lowerByte c = (if isUpper c then char_of (byte c + 32) else c)"

definition upperByte :: "char \<Rightarrow> char" where
  "upperByte c = (if isLower c then char_of (byte c - 32) else c)"

text \<open>\<^verbatim>\<open>unicode.IsSpace\<close> on ASCII: tab, newline, vertical tab, form feed, carriage return, space.\<close>

definition isSpaceU :: "char \<Rightarrow> bool" where
  "isSpaceU c \<longleftrightarrow> (9 \<le> byte c \<and> byte c \<le> 13) \<or> byte c = 32"

subsection \<open>Durations\<close>

text \<open>
  Times and durations are in nanoseconds.  A duration is a 64-bit integer, so the product of a
  configured number of seconds and the length of a second wraps around.
\<close>

definition wrap64 :: "int \<Rightarrow> int" where
  "wrap64 n = (n + 2 ^ 63) mod 2 ^ 64 - 2 ^ 63"

abbreviation Second :: int where "Second \<equiv> 1000000000"
abbreviation Millisecond :: int where "Millisecond \<equiv> 1000000"

definition seconds :: "int \<Rightarrow> int" where
  "seconds n = wrap64 (n * Second)"

definition milliseconds :: "int \<Rightarrow> int" where
  "milliseconds n = wrap64 (n * Millisecond)"

subsection \<open>Slices and scanning loops\<close>

text \<open>The slice \<^verbatim>\<open>s[a:b]\<close>.\<close>

definition slice :: "string \<Rightarrow> nat \<Rightarrow> nat \<Rightarrow> string" where
  "slice s a b = take (b - a) (drop a s)"

text \<open>Where the loop \<^verbatim>\<open>for i < len(s) && p(s[i]) { i++ }\<close> stops when it starts at \<open>i\<close>.\<close>

definition scanWhile :: "(char \<Rightarrow> bool) \<Rightarrow> string \<Rightarrow> nat \<Rightarrow> nat" where
  "scanWhile p s i = i + length (takeWhile p (drop i s))"

subsection \<open>Package strings\<close>

definition ToLower :: "string \<Rightarrow> string" where
  "ToLower s = map lowerByte s"

definition ToUpper :: "string \<Rightarrow> string" where
  "ToUpper s = map upperByte s"

definition EqualFold :: "string \<Rightarrow> string \<Rightarrow> bool" where
  "EqualFold a b \<longleftrightarrow> ToLower a = ToLower b"

definition HasPrefix :: "string \<Rightarrow> string \<Rightarrow> bool" where
  "HasPrefix s p \<longleftrightarrow> prefix p s"

definition HasSuffix :: "string \<Rightarrow> string \<Rightarrow> bool" where
  "HasSuffix s p \<longleftrightarrow> prefix (rev p) (rev s)"

definition TrimPrefix :: "string \<Rightarrow> string \<Rightarrow> string" where
  "TrimPrefix s p = (if HasPrefix s p then drop (length p) s else s)"

definition TrimSuffix :: "string \<Rightarrow> string \<Rightarrow> string" where
  "TrimSuffix s p = (if HasSuffix s p then take (length s - length p) s else s)"

definition trimFunc :: "(char \<Rightarrow> bool) \<Rightarrow> string \<Rightarrow> string" where
  "trimFunc f s = rev (dropWhile f (rev (dropWhile f s)))"

definition TrimSpace :: "string \<Rightarrow> string" where
  "TrimSpace s = trimFunc isSpaceU s"

definition Trim :: "string \<Rightarrow> string \<Rightarrow> string" where
  "Trim s cutset = trimFunc (\<lambda>c. c \<in> set cutset) s"

text \<open>\<^verbatim>\<open>strings.Index\<close>: the first position of a substring, \<^term>\<open>None\<close> for Go's \<open>-1\<close>.\<close>

fun Index :: "string \<Rightarrow> string \<Rightarrow> nat option" where
  "Index [] sub = (if sub = [] then Some 0 else None)"
| "Index (x # xs) sub = (if prefix sub (x # xs) then Some 0 else map_option Suc (Index xs sub))"

definition Contains :: "string \<Rightarrow> string \<Rightarrow> bool" where
  "Contains s sub \<longleftrightarrow> Index s sub \<noteq> None"

fun IndexFunc :: "(char \<Rightarrow> bool) \<Rightarrow> string \<Rightarrow> nat option" where
  "IndexFunc f [] = None"
| "IndexFunc f (x # xs) = (if f x then Some 0 else map_option Suc (IndexFunc f xs))"

definition IndexByte :: "string \<Rightarrow> char \<Rightarrow> nat option" where
  "IndexByte s c = IndexFunc (\<lambda>x. x = c) s"

definition IndexAny :: "string \<Rightarrow> string \<Rightarrow> nat option" where
  "IndexAny s chars = IndexFunc (\<lambda>x. x \<in> set chars) s"

definition LastIndexByte :: "string \<Rightarrow> char \<Rightarrow> nat option" where
  "LastIndexByte s c = map_option (\<lambda>k. length s - Suc k) (IndexByte (rev s) c)"

text \<open>\<^verbatim>\<open>strings.Cut\<close>: text before and after the first separator, and whether there is one.\<close>

definition Cut :: "string \<Rightarrow> string \<Rightarrow> string \<times> string \<times> bool" where
  "Cut s sep = (case Index s sep of
     None \<Rightarrow> (s, [], False)
   | Some i \<Rightarrow> (take i s, drop (i + length sep) s, True))"

text \<open>\<^verbatim>\<open>strings.Split\<close> with a separator of one byte, the only use the gateway makes of it.\<close>

fun SplitByte :: "char \<Rightarrow> string \<Rightarrow> string list" where
  "SplitByte c [] = [[]]"
| "SplitByte c (x # xs) =
     (if x = c then [] # SplitByte c xs
      else (case SplitByte c xs of [] \<Rightarrow> [[x]] | y # ys \<Rightarrow> (x # y) # ys))"

text \<open>\<^verbatim>\<open>strings.ReplaceAll\<close> with a non-empty pattern.\<close>

function ReplaceAll :: "string \<Rightarrow> string \<Rightarrow> string \<Rightarrow> string" where
  "ReplaceAll [] old new = []"
| "ReplaceAll (x # xs) old new =
     (if old \<noteq> [] \<and> prefix old (x # xs)
      then new @ ReplaceAll (drop (length old) (x # xs)) old new
      else x # ReplaceAll xs old new)"
  by pat_completeness auto
termination
  by (relation "measure (\<lambda>(s, old, new). length s)") auto

function Fields :: "string \<Rightarrow> string list" where
  "Fields s = (case dropWhile isSpaceU s of
     [] \<Rightarrow> []
   | x # xs \<Rightarrow> (x # takeWhile (\<lambda>c. \<not> isSpaceU c) xs) # Fields (dropWhile (\<lambda>c. \<not> isSpaceU c) xs))"
  by pat_completeness auto
termination
proof (relation "measure length", simp)
  fix s :: string and x xs
  assume "dropWhile isSpaceU s = x # xs"
  then have "length (x # xs) \<le> length s"
    by (metis length_dropWhile_le)
  moreover have "length (dropWhile (\<lambda>c. \<not> isSpaceU c) xs) \<le> length xs"
    by (rule length_dropWhile_le)
  ultimately show "(dropWhile (\<lambda>c. \<not> isSpaceU c) xs, s) \<in> measure length"
    by simp
qed

declare Fields.simps [simp del]

fun Join :: "string list \<Rightarrow> string \<Rightarrow> string" where
  "Join [] sep = []"
| "Join [x] sep = x"
| "Join (x # y # ys) sep = x @ sep @ Join (y # ys) sep"

subsection \<open>Packages strconv and fmt\<close>

definition digitChar :: "int \<Rightarrow> char" where
  "digitChar d = char_of (48 + d)"

definition digitVal :: "char \<Rightarrow> int" where
  "digitVal c = byte c - 48"

function decDigits :: "int \<Rightarrow> string" where
  "decDigits n = (if n < 10 then [digitChar n] else decDigits (n div 10) @ [digitChar (n mod 10)])"
  by pat_completeness auto
termination
  by (relation "measure nat") auto

declare decDigits.simps [simp del]

text \<open>\<^verbatim>\<open>strconv.Itoa\<close>, and \<^verbatim>\<open>%d\<close> of \<^verbatim>\<open>fmt\<close>.\<close>

definition Itoa :: "int \<Rightarrow> string" where
  "Itoa n = (if n < 0 then CHR ''-'' # decDigits (- n) else decDigits n)"

text \<open>\<^verbatim>\<open>strconv.FormatUint(n, 10)\<close>, the argument read as a non-negative integer.\<close>

definition FormatUint :: "int \<Rightarrow> string" where
  "FormatUint n = decDigits n"

text \<open>\<^verbatim>\<open>%0wd\<close>: decimal digits, padded with zeros on the left to width \<open>w\<close>.\<close>

definition padZero :: "nat \<Rightarrow> string \<Rightarrow> string" where
  "padZero w s = replicate (w - length s) (CHR ''0'') @ s"

definition hexDigit :: "int \<Rightarrow> char" where
  "hexDigit d = (if d < 10 then char_of (48 + d) else char_of (87 + d))"

function hexDigits :: "int \<Rightarrow> string" where
  "hexDigits n = (if n < 16 then [hexDigit n] else hexDigits (n div 16) @ [hexDigit (n mod 16)])"
  by pat_completeness auto
termination
  by (relation "measure nat") auto

declare hexDigits.simps [simp del]

datatype num_error = ErrSyntax | ErrRange

text \<open>
  \<^verbatim>\<open>strconv.ParseUint(s, 10, 64)\<close>, the digit loop: a byte that is no digit is a syntax error, a
  value above \<open>2 ^ 64 - 1\<close> a range error, whichever comes first.
\<close>

fun parseUintLoop :: "int \<Rightarrow> string \<Rightarrow> num_error + int" where
  "parseUintLoop n [] = Inr n"
| "parseUintLoop n (c # cs) =
     (if \<not> isDigit c then Inl ErrSyntax
      else let n1 = 10 * n + digitVal c in
        if n1 \<ge> 2 ^ 64 then Inl ErrRange else parseUintLoop n1 cs)"

definition ParseUint :: "string \<Rightarrow> num_error + int" where
  "ParseUint s = (if s = [] then Inl ErrSyntax else parseUintLoop 0 s)"

text \<open>
  \<^verbatim>\<open>strconv.Atoi\<close>: the value and the error; on a range error the value is the nearest 64-bit
  integer, on a syntax error it is 0.
\<close>

definition Atoi :: "string \<Rightarrow> int \<times> num_error option" where
  "Atoi s =
     (let neg = (s \<noteq> [] \<and> hd s = CHR ''-'');
          body = (if s \<noteq> [] \<and> (hd s = CHR ''-'' \<or> hd s = CHR ''+'') then tl s else s)
      in case ParseUint body of
           Inl ErrSyntax \<Rightarrow> (0, Some ErrSyntax)
         | Inl ErrRange \<Rightarrow> ((if neg then - (2 ^ 63) else 2 ^ 63 - 1), Some ErrRange)
         | Inr un \<Rightarrow>
             if \<not> neg \<and> un \<ge> 2 ^ 63 then (2 ^ 63 - 1, Some ErrRange)
             else if neg \<and> un > 2 ^ 63 then (- (2 ^ 63), Some ErrRange)
             else ((if neg then - un else un), None))"

abbreviation atoiVal :: "string \<Rightarrow> int" where
  "atoiVal s \<equiv> fst (Atoi s)"

abbreviation atoiOk :: "string \<Rightarrow> bool" where
  "atoiOk s \<equiv> snd (Atoi s) = None"

text \<open>\<^verbatim>\<open>strconv.Quote\<close> (\<^verbatim>\<open>%q\<close>) on ASCII bytes.\<close>

definition quoteByte :: "char \<Rightarrow> string" where
  "quoteByte c =
     (if c = DQ \<or> c = BSL then [BSL, c]
      else if byte c = 7 then BSL # ''a''
      else if byte c = 8 then BSL # ''b''
      else if byte c = 12 then BSL # ''f''
      else if byte c = 10 then BSL # ''n''
      else if byte c = 13 then BSL # ''r''
      else if byte c = 9 then BSL # ''t''
      else if byte c = 11 then BSL # ''v''
      else if 32 \<le> byte c \<and> byte c < 127 then [c]
      else BSL # ''x'' @ padZero 2 (hexDigits (byte c)))"

definition Quote :: "string \<Rightarrow> string" where
  "Quote s = [DQ] @ concat (map quoteByte s) @ [DQ]"

end
