(* ===== verification/Go_Net.thy ===== *)
theory Go_Net
  imports Go_Strings
begin

text \<open>
  Prelude of the development, second part: what the gateway uses of Go's \<^verbatim>\<open>net\<close> package.  UDP
  addresses, splitting and joining of host and port, and the parser of textual IP addresses.
  Name resolution (\<^verbatim>\<open>net.ResolveUDPAddr\<close>) asks the host's resolver; the definitions that need
  it take it as an argument.
\<close>

subsection \<open>UDP addresses\<close>

text \<open>A \<^verbatim>\<open>net.UDPAddr\<close>; the IP address is kept in its textual form.\<close>

record udp_addr =
  ip :: string
  port :: int
  zone :: string

definition JoinHostPort :: "string \<Rightarrow> string \<Rightarrow> string" where
  "JoinHostPort host p =
     (if IndexByte host (CHR '':'') \<noteq> None then ''['' @ host @ '']:'' @ p else host @ '':'' @ p)"

definition addrString :: "udp_addr \<Rightarrow> string" where
  "addrString a =
     (if zone a \<noteq> [] then JoinHostPort (ip a @ ''%'' @ zone a) (Itoa (port a))
      else JoinHostPort (ip a) (Itoa (port a)))"

datatype addr_error = MissingPort | TooManyColons | MissingBracket | UnexpectedOpen | UnexpectedClose

text \<open>\<^verbatim>\<open>net.SplitHostPort\<close>.\<close>

definition splitTail :: "string \<Rightarrow> nat \<Rightarrow> nat \<Rightarrow> nat \<Rightarrow> string \<Rightarrow> addr_error + string \<times> string" where
  "splitTail hostport i j k host =
     (if IndexByte (drop j hostport) (CHR ''['') \<noteq> None then Inl UnexpectedOpen
      else if IndexByte (drop k hostport) (CHR '']'') \<noteq> None then Inl UnexpectedClose
      else Inr (host, drop (Suc i) hostport))"

definition SplitHostPort :: "string \<Rightarrow> addr_error + string \<times> string" where
  "SplitHostPort hostport =
     (case LastIndexByte hostport (CHR '':'') of
        None \<Rightarrow> Inl MissingPort
      | Some i \<Rightarrow>
          if hd hostport = CHR ''['' then
            (case IndexByte hostport (CHR '']'') of
               None \<Rightarrow> Inl MissingBracket
             | Some e \<Rightarrow>
                 if Suc e = length hostport then Inl MissingPort
                 else if Suc e = i then splitTail hostport i 1 (Suc e) (take (e - 1) (drop 1 hostport))
                 else if hostport ! Suc e = CHR '':'' then Inl TooManyColons
                 else Inl MissingPort)
          else if IndexByte (take i hostport) (CHR '':'') \<noteq> None then Inl TooManyColons
          else splitTail hostport i 0 0 (take i hostport))"

subsection \<open>Textual IP addresses\<close>

text \<open>
  \<^verbatim>\<open>net.ParseIP\<close>, which calls \<^verbatim>\<open>netip.ParseAddr\<close> and refuses a zone.  The result is the 16-byte
  form; an IPv4 address is mapped into \<open>::ffff:0:0/96\<close>.  A field of an IPv4 address has one to three
  digits, at most 255, and no leading zero.
\<close>

definition ipv4Field :: "string \<Rightarrow> int option" where
  "ipv4Field s =
     (if s = [] \<or> \<not> list_all isDigit s \<or> length s > 3 \<or> (length s > 1 \<and> hd s = CHR ''0'') then None
      else (case ParseUint s of Inr n \<Rightarrow> if n \<le> 255 then Some n else None | Inl _ \<Rightarrow> None))"

definition parseIPv4Fields :: "string \<Rightarrow> int list option" where
  "parseIPv4Fields s =
     (let fs = map ipv4Field (SplitByte (CHR ''.'') s)
      in if length fs = 4 \<and> list_all (\<lambda>f. f \<noteq> None) fs then Some (map the fs) else None)"

definition hexVal :: "char \<Rightarrow> int option" where
  "hexVal c =
     (if isDigit c then Some (byte c - 48)
      else if 97 \<le> byte c \<and> byte c \<le> 102 then Some (byte c - 87)
      else if 65 \<le> byte c \<and> byte c \<le> 70 then Some (byte c - 55)
      else None)"

text \<open>The hexadecimal group at the front: its value, the number of digits and the rest.\<close>

fun hexGroup :: "int \<Rightarrow> nat \<Rightarrow> string \<Rightarrow> int \<times> nat \<times> string" where
  "hexGroup acc n [] = (acc, n, [])"
| "hexGroup acc n (c # cs) =
     (case hexVal c of None \<Rightarrow> (acc, n, c # cs) | Some v \<Rightarrow> hexGroup (16 * acc + v) (Suc n) cs)"

text \<open>
  The group loop of \<^verbatim>\<open>parseIPv6\<close>: \<open>bs\<close> are the bytes read so far, \<open>ell\<close> the position of the
  ellipsis.  Each round reads one group or the trailing IPv4 part; \<open>fuel\<close> bounds the rounds by the
  eight groups an address can have.
\<close>

fun ipv6Loop :: "nat \<Rightarrow> int list \<Rightarrow> nat option \<Rightarrow> string \<Rightarrow> (int list \<times> nat option \<times> string) option" where
  "ipv6Loop 0 bs ell s = Some (bs, ell, s)"
| "ipv6Loop (Suc fuel) bs ell s =
     (if length bs \<ge> 16 then Some (bs, ell, s) else
      (case hexGroup 0 0 s of (acc, n, rest) \<Rightarrow>
        if n = 0 \<or> n > 4 then None
        else if rest \<noteq> [] \<and> hd rest = CHR ''.'' then
          (if (ell = None \<and> length bs \<noteq> 12) \<or> length bs + 4 > 16 then None
           else map_option (\<lambda>v4. (bs @ v4, ell, [])) (parseIPv4Fields s))
        else
          (let bs' = bs @ [acc div 256, acc mod 256] in
           if rest = [] then Some (bs', ell, [])
           else if hd rest \<noteq> CHR '':'' \<or> length rest = 1 then None
           else if rest ! 1 = CHR '':'' then
             (if ell \<noteq> None then None
              else if length rest = 2 then Some (bs', Some (length bs'), [])
              else ipv6Loop fuel bs' (Some (length bs')) (drop 2 rest))
           else ipv6Loop fuel bs' ell (drop 1 rest))))"

definition parseIPv6 :: "string \<Rightarrow> int list option" where
  "parseIPv6 s =
     (let ell = (if prefix ''::'' s then Some 0 else None);
          s' = (if prefix ''::'' s then drop 2 s else s)
      in if ell = Some 0 \<and> s' = [] then Some (replicate 16 0) else
         (case ipv6Loop 8 [] ell s' of
            None \<Rightarrow> None
          | Some (bs, e, rest) \<Rightarrow>
              if rest \<noteq> [] then None
              else if length bs < 16 then
                (case e of None \<Rightarrow> None
                 | Some k \<Rightarrow> Some (take k bs @ replicate (16 - length bs) 0 @ drop k bs))
              else if e \<noteq> None then None else Some bs))"

definition ParseIP :: "string \<Rightarrow> int list option" where
  "ParseIP s =
     (case IndexFunc (\<lambda>c. c = CHR ''.'' \<or> c = CHR '':'' \<or> c = CHR ''%'') s of
        None \<Rightarrow> None
      | Some i \<Rightarrow>
          if s ! i = CHR ''.'' then
            map_option (\<lambda>v4. replicate 10 0 @ [255, 255] @ v4) (parseIPv4Fields s)
          else if s ! i = CHR ''%'' then None
          else if IndexByte s (CHR ''%'') \<noteq> None then None
          else parseIPv6 s)"

definition IsUnspecified :: "int list \<Rightarrow> bool" where
  "IsUnspecified a \<longleftrightarrow> a = replicate 16 0 \<or> a = replicate 10 0 @ [255, 255, 0, 0, 0, 0]"

end
