(* ===== verification/Gateway_Config.thy ===== *)
theory Gateway_Config
  imports Go_Net
begin

text \<open>
  The configuration (\<^verbatim>\<open>internal/config/config.go\<close>): its defaults, the reader of the small
  YAML-like file format and the validation that the gateway requires before it opens a socket.
  The file is given by its contents; \<^term>\<open>None\<close> is a file that does not exist, which the source
  treats like an empty one.
\<close>

subsection \<open>Data\<close>

record sip_config =
  sipListen :: string
  sipBindDevice :: string
  sipAdvertisedAddress :: string
  sipDomain :: string
  sipTrunkURI :: string
  sipOutboundProxy :: string
  sipUserAgent :: string

record h248_config =
  h248Listen :: string
  h248BindDevice :: string
  h248Transport :: string
  h248Encoding :: string
  h248Version :: int
  h248MGID :: string
  h248MGC :: string
  h248BackupMGC :: string
  h248SCMethod :: string
  h248SCReason :: string
  h248SCProfile :: string
  h248SCAddress :: string
  h248SCRetrySeconds :: int
  h248SCMaxAttempts :: int
  h248FailureTimeoutSeconds :: int
  h248StabilizationSeconds :: int
  h248DigitDelayMillis :: int
  h248PhysicalTermination :: string
  h248EphemeralPrefix :: string

record media_config =
  mediaRTPIP :: string
  mediaH248RTPIP :: string
  mediaPortMin :: int
  mediaPortMax :: int
  mediaDTMF :: int
  mediaH248DTMF :: int
  mediaH248DTMFMode :: string
  mediaPTime :: int
  mediaCodecs :: "string list"

record config =
  cfgSIP :: sip_config
  cfgH248 :: h248_config
  cfgMedia :: media_config

datatype config_error =
    ConfigLine string
  | ConfigNumber string num_error
  | ConfigUnknownKey string string
  | ConfigLineTooLong
  | ConfigHostPort string
  | ConfigTrunkURI
  | ConfigTransport
  | ConfigEncoding
  | ConfigVersion
  | ConfigMGID
  | ConfigTermination
  | ConfigRetry
  | ConfigFailureTimeout
  | ConfigStabilization
  | ConfigDigitDelay
  | ConfigRTPIP
  | ConfigH248RTPIP
  | ConfigPortRange
  | ConfigPayloadType
  | ConfigDTMFMode
  | ConfigPTime
  | ConfigCodecs

definition Default :: config where
  "Default = \<lparr>
     cfgSIP = \<lparr> sipListen = ''0.0.0.0:5060'', sipBindDevice = [], sipAdvertisedAddress = [],
       sipDomain = ''h248-sip-gateway.local'', sipTrunkURI = ''sip:h248-line@ippbx.local'',
       sipOutboundProxy = [], sipUserAgent = ''h248-sip-gateway'' \<rparr>,
     cfgH248 = \<lparr> h248Listen = ''0.0.0.0:2944'', h248BindDevice = [], h248Transport = ''udp'',
       h248Encoding = ''text'', h248Version = 1, h248MGID = ''mgw-1'', h248MGC = [], h248BackupMGC = [],
       h248SCMethod = ''Restart'', h248SCReason = ''901 Cold Boot'', h248SCProfile = [],
       h248SCAddress = [], h248SCRetrySeconds = 5, h248SCMaxAttempts = 3,
       h248FailureTimeoutSeconds = 360, h248StabilizationSeconds = 5, h248DigitDelayMillis = 200,
       h248PhysicalTermination = ''aaln/1'', h248EphemeralPrefix = ''RTP/'' \<rparr>,
     cfgMedia = \<lparr> mediaRTPIP = ''127.0.0.1'', mediaH248RTPIP = ''127.0.0.1'', mediaPortMin = 20000,
       mediaPortMax = 29998, mediaDTMF = 101, mediaH248DTMF = 102, mediaH248DTMFMode = ''rfc4733'',
       mediaPTime = 20, mediaCodecs = [''PCMA/8000'', ''PCMU/8000''] \<rparr> \<rparr>"

subsection \<open>Reading\<close>

definition splitList :: "string \<Rightarrow> string list" where
  "splitList value0 =
     (let v = Trim value0 ''[]'' in
      if v = [] then []
      else filter (\<lambda>p. p \<noteq> []) (map (\<lambda>p. Trim (TrimSpace p) [DQ]) (SplitByte (CHR '','') v)))"

definition setSIP :: "config \<Rightarrow> (sip_config \<Rightarrow> sip_config) \<Rightarrow> config_error + config" where
  "setSIP cfg f = Inr (cfg\<lparr>cfgSIP := f (cfgSIP cfg)\<rparr>)"

definition setH248 :: "config \<Rightarrow> (h248_config \<Rightarrow> h248_config) \<Rightarrow> config_error + config" where
  "setH248 cfg f = Inr (cfg\<lparr>cfgH248 := f (cfgH248 cfg)\<rparr>)"

definition setMedia :: "config \<Rightarrow> (media_config \<Rightarrow> media_config) \<Rightarrow> config_error + config" where
  "setMedia cfg f = Inr (cfg\<lparr>cfgMedia := f (cfgMedia cfg)\<rparr>)"

text \<open>A numeric setting: the name for the error, the text and what to do with the number.\<close>

definition withInt :: "string \<Rightarrow> string \<Rightarrow> (int \<Rightarrow> config_error + config) \<Rightarrow> config_error + config" where
  "withInt name v f = (case Atoi v of (n, Some e) \<Rightarrow> Inl (ConfigNumber name e) | (n, None) \<Rightarrow> f n)"

definition applySetting :: "config \<Rightarrow> string \<Rightarrow> string \<Rightarrow> string \<Rightarrow> config_error + config" where
  "applySetting cfg section key v =
     (let name = section @ ''.'' @ key in
      if name = ''sip.listen'' then setSIP cfg (\<lambda>c. c\<lparr>sipListen := v\<rparr>)
      else if name = ''sip.bind_device'' then setSIP cfg (\<lambda>c. c\<lparr>sipBindDevice := v\<rparr>)
      else if name = ''sip.advertised_address'' then setSIP cfg (\<lambda>c. c\<lparr>sipAdvertisedAddress := v\<rparr>)
      else if name = ''sip.domain'' then setSIP cfg (\<lambda>c. c\<lparr>sipDomain := v\<rparr>)
      else if name = ''sip.trunk_uri'' then setSIP cfg (\<lambda>c. c\<lparr>sipTrunkURI := v\<rparr>)
      else if name = ''sip.outbound_proxy'' then setSIP cfg (\<lambda>c. c\<lparr>sipOutboundProxy := v\<rparr>)
      else if name = ''sip.user_agent'' then setSIP cfg (\<lambda>c. c\<lparr>sipUserAgent := v\<rparr>)
      else if name = ''h248.listen'' then setH248 cfg (\<lambda>c. c\<lparr>h248Listen := v\<rparr>)
      else if name = ''h248.bind_device'' then setH248 cfg (\<lambda>c. c\<lparr>h248BindDevice := v\<rparr>)
      else if name = ''h248.transport'' then setH248 cfg (\<lambda>c. c\<lparr>h248Transport := ToLower v\<rparr>)
      else if name = ''h248.encoding'' then setH248 cfg (\<lambda>c. c\<lparr>h248Encoding := ToLower v\<rparr>)
      else if name = ''h248.version'' then withInt name v (\<lambda>n. setH248 cfg (\<lambda>c. c\<lparr>h248Version := n\<rparr>))
      else if name = ''h248.mg_id'' then setH248 cfg (\<lambda>c. c\<lparr>h248MGID := v\<rparr>)
      else if name = ''h248.mgc'' then setH248 cfg (\<lambda>c. c\<lparr>h248MGC := v\<rparr>)
      else if name = ''h248.backup_mgc'' then setH248 cfg (\<lambda>c. c\<lparr>h248BackupMGC := v\<rparr>)
      else if name = ''h248.service_change_method'' then setH248 cfg (\<lambda>c. c\<lparr>h248SCMethod := v\<rparr>)
      else if name = ''h248.service_change_reason'' then setH248 cfg (\<lambda>c. c\<lparr>h248SCReason := v\<rparr>)
      else if name = ''h248.service_change_profile'' then setH248 cfg (\<lambda>c. c\<lparr>h248SCProfile := v\<rparr>)
      else if name = ''h248.service_change_address'' then setH248 cfg (\<lambda>c. c\<lparr>h248SCAddress := v\<rparr>)
      else if name = ''h248.service_change_retry_seconds'' then withInt name v (\<lambda>n. setH248 cfg (\<lambda>c. c\<lparr>h248SCRetrySeconds := n\<rparr>))
      else if name = ''h248.service_change_max_attempts'' then withInt name v (\<lambda>n. setH248 cfg (\<lambda>c. c\<lparr>h248SCMaxAttempts := n\<rparr>))
      else if name = ''h248.mgc_failure_timeout_seconds'' then withInt name v (\<lambda>n. setH248 cfg (\<lambda>c. c\<lparr>h248FailureTimeoutSeconds := n\<rparr>))
      else if name = ''h248.origination_stabilization_seconds'' then withInt name v (\<lambda>n. setH248 cfg (\<lambda>c. c\<lparr>h248StabilizationSeconds := n\<rparr>))
      else if name = ''h248.digit_report_delay_milliseconds'' then withInt name v (\<lambda>n. setH248 cfg (\<lambda>c. c\<lparr>h248DigitDelayMillis := n\<rparr>))
      else if name = ''h248.physical_termination'' then setH248 cfg (\<lambda>c. c\<lparr>h248PhysicalTermination := v\<rparr>)
      else if name = ''h248.ephemeral_termination_prefix'' then setH248 cfg (\<lambda>c. c\<lparr>h248EphemeralPrefix := v\<rparr>)
      else if name = ''media.rtp_ip'' then setMedia cfg (\<lambda>c. c\<lparr>mediaRTPIP := v\<rparr>)
      else if name = ''media.h248_rtp_ip'' then setMedia cfg (\<lambda>c. c\<lparr>mediaH248RTPIP := v\<rparr>)
      else if name = ''media.port_min'' then withInt name v (\<lambda>n. setMedia cfg (\<lambda>c. c\<lparr>mediaPortMin := n\<rparr>))
      else if name = ''media.port_max'' then withInt name v (\<lambda>n. setMedia cfg (\<lambda>c. c\<lparr>mediaPortMax := n\<rparr>))
      else if name = ''media.dtmf_payload_type'' then withInt name v (\<lambda>n. setMedia cfg (\<lambda>c. c\<lparr>mediaDTMF := n\<rparr>))
      else if name = ''media.h248_dtmf_payload_type'' then withInt name v (\<lambda>n. setMedia cfg (\<lambda>c. c\<lparr>mediaH248DTMF := n\<rparr>))
      else if name = ''media.h248_dtmf_mode'' then setMedia cfg (\<lambda>c. c\<lparr>mediaH248DTMFMode := ToLower v\<rparr>)
      else if name = ''media.ptime_ms'' then withInt name v (\<lambda>n. setMedia cfg (\<lambda>c. c\<lparr>mediaPTime := n\<rparr>))
      else if name = ''media.codecs'' then setMedia cfg (\<lambda>c. c\<lparr>mediaCodecs := splitList v\<rparr>)
      else Inl (ConfigUnknownKey section key))"

text \<open>One line of the file: the section it is in, and the configuration so far.\<close>

definition loadLine :: "string \<Rightarrow> string \<times> config \<Rightarrow> config_error + string \<times> config" where
  "loadLine raw sc =
     (case sc of (section, cfg) \<Rightarrow>
       (let line = (case IndexByte raw (CHR ''#'') of None \<Rightarrow> raw | Some i \<Rightarrow> take i raw) in
        if TrimSpace line = [] then Inr (section, cfg)
        else if \<not> HasPrefix line '' '' \<and> HasSuffix (TrimSpace line) '':''
        then Inr (TrimSuffix (TrimSpace line) '':'', cfg)
        else (case Cut (TrimSpace line) '':'' of (key, v, ok) \<Rightarrow>
          if \<not> ok then Inl (ConfigLine line)
          else (case applySetting cfg section (TrimSpace key) (Trim (TrimSpace v) [DQ]) of
                  Inl e \<Rightarrow> Inl e | Inr cfg' \<Rightarrow> Inr (section, cfg')))))"

fun loadLines :: "string list \<Rightarrow> string \<times> config \<Rightarrow> config_error + config" where
  "loadLines [] sc = Inr (snd sc)"
| "loadLines (l # ls) sc =
     (if int (length l) \<ge> 65536 then Inl ConfigLineTooLong
      else case loadLine l sc of Inl e \<Rightarrow> Inl e | Inr sc' \<Rightarrow> loadLines ls sc')"

text \<open>\<^verbatim>\<open>bufio.ScanLines\<close>: lines without their end, a trailing carriage return removed, and no line
  after the last line feed.\<close>

definition scanLines :: "string \<Rightarrow> string list" where
  "scanLines s =
     (let ls = SplitByte NL s; ls' = (if last ls = [] then butlast ls else ls)
      in map (\<lambda>l. if l \<noteq> [] \<and> last l = CR then butlast l else l) ls')"

definition Load :: "string option \<Rightarrow> config_error + config" where
  "Load file = (case file of None \<Rightarrow> Inr Default | Some s \<Rightarrow> loadLines (scanLines s) ([], Default))"

subsection \<open>Validation\<close>

definition validateHostPort :: "string \<Rightarrow> bool" where
  "validateHostPort address =
     (case SplitHostPort address of
        Inl e \<Rightarrow> False
      | Inr (host, portText) \<Rightarrow>
          TrimSpace host \<noteq> [] \<and> atoiOk portText \<and> atoiVal portText > 0 \<and> atoiVal portText \<le> 65535)"

definition firstRTPPort :: "media_config \<Rightarrow> int" where
  "firstRTPPort m = (if mediaPortMin m mod 2 \<noteq> 0 then mediaPortMin m + 1 else mediaPortMin m)"

definition validateH248 :: "h248_config \<Rightarrow> config_error option" where
  "validateH248 h =
     (if h248Transport h \<noteq> ''udp'' then Some ConfigTransport
      else if h248Encoding h \<noteq> ''text'' then Some ConfigEncoding
      else if h248Version h < 1 \<or> h248Version h > 3 then Some ConfigVersion
      else if h248MGID h = [] then Some ConfigMGID
      else if h248MGC h \<noteq> [] \<and> h248PhysicalTermination h = [] then Some ConfigTermination
      else if h248SCRetrySeconds h \<le> 0 \<or> h248SCMaxAttempts h \<le> 0 then Some ConfigRetry
      else if h248FailureTimeoutSeconds h < 1 then Some ConfigFailureTimeout
      else if h248StabilizationSeconds h < 0 \<or> h248StabilizationSeconds h > 300 then Some ConfigStabilization
      else if h248DigitDelayMillis h < 0 \<or> h248DigitDelayMillis h > 10000 then Some ConfigDigitDelay
      else None)"

definition validateMedia :: "media_config \<Rightarrow> config_error option" where
  "validateMedia m =
     (if ParseIP (mediaRTPIP m) = None then Some ConfigRTPIP
      else if ParseIP (mediaH248RTPIP m) = None then Some ConfigH248RTPIP
      else if mediaPortMin m \<le> 0 \<or> mediaPortMax m > 65534 \<or> firstRTPPort m + 2 > mediaPortMax m
      then Some ConfigPortRange
      else if mediaDTMF m \<le> 0 \<or> mediaDTMF m \<ge> 128 \<or> mediaH248DTMF m \<le> 0 \<or> mediaH248DTMF m \<ge> 128
      then Some ConfigPayloadType
      else if mediaH248DTMFMode m \<noteq> ''rfc4733'' \<and> mediaH248DTMFMode m \<noteq> ''inband'' then Some ConfigDTMFMode
      else if mediaPTime m \<le> 0 \<or> mediaPTime m > 200 then Some ConfigPTime
      else if mediaCodecs m = [] then Some ConfigCodecs
      else None)"

text \<open>The source iterates over Go maps of two addresses; which of two bad ones is reported first is
  unspecified, here it is the one written first.\<close>

definition Validate :: "config \<Rightarrow> config_error option" where
  "Validate cfg =
     (let s = cfgSIP cfg; h = cfgH248 cfg in
      if \<not> validateHostPort (sipListen s) then Some (ConfigHostPort ''sip.listen'')
      else if \<not> validateHostPort (h248Listen h) then Some (ConfigHostPort ''h248.listen'')
      else if h248MGC h \<noteq> [] \<and> \<not> validateHostPort (h248MGC h) then Some (ConfigHostPort ''h248.mgc'')
      else if h248BackupMGC h \<noteq> [] \<and> \<not> validateHostPort (h248BackupMGC h)
      then Some (ConfigHostPort ''h248.backup_mgc'')
      else if sipAdvertisedAddress s \<noteq> [] \<and> \<not> validateHostPort (sipAdvertisedAddress s)
      then Some (ConfigHostPort ''sip.advertised_address'')
      else if sipOutboundProxy s \<noteq> [] \<and> \<not> validateHostPort (sipOutboundProxy s)
      then Some (ConfigHostPort ''sip.outbound_proxy'')
      else if \<not> HasPrefix (ToLower (sipTrunkURI s)) ''sip:'' then Some ConfigTrunkURI
      else (case validateH248 h of Some e \<Rightarrow> Some e | None \<Rightarrow> validateMedia (cfgMedia cfg)))"

end
