(* ===== verification/Sip_Message.thy ===== *)
theory Sip_Message
  imports Go_Net
begin

text \<open>
  The SIP message codec (\<^verbatim>\<open>internal/sip/message.go\<close>).  Header fields are a map from the canonical
  name to the list of values, as in the source.  The Go maps that \<^verbatim>\<open>BuildResponse\<close> and
  \<^verbatim>\<open>BuildRequest\<close> print are iterated in an unspecified order; here they are lists of pairs in the
  order of iteration, and every theorem holds for each such order.
\<close>

subsection \<open>Data\<close>

type_synonym sip_headers = "string \<rightharpoonup> string list"

record sip_message =
  smStartLine :: string
  smMethod :: string
  smURI :: string
  smStatus :: int
  smReason :: string
  smHeaders :: sip_headers
  smBody :: string
  smSource :: "udp_addr option"

datatype sip_error =
    EmptySIP
  | InvalidResponseLine string
  | InvalidStatus num_error
  | InvalidRequestLine string
  | FoldedWithoutHeader
  | InvalidHeader string

subsection \<open>Header names\<close>

definition capitalize :: "string \<Rightarrow> string" where
  "capitalize w = (if w = [] then [] else ToUpper (take 1 w) @ drop 1 w)"

definition canonicalHeader :: "string \<Rightarrow> string" where
  "canonicalHeader name =
     (let l = ToLower (TrimSpace name) in
      if l = ''v'' then ''Via''
      else if l = ''f'' then ''From''
      else if l = ''t'' then ''To''
      else if l = ''i'' then ''Call-ID''
      else if l = ''m'' then ''Contact''
      else if l = ''l'' then ''Content-Length''
      else if l = ''c'' then ''Content-Type''
      else Join (map capitalize (SplitByte (CHR ''-'') l)) ''-'')"

subsection \<open>Parsing\<close>

definition appendValue :: "string \<Rightarrow> string \<Rightarrow> sip_headers \<Rightarrow> sip_headers" where
  "appendValue key v h = h(key \<mapsto> (case h key of None \<Rightarrow> [] | Some vs \<Rightarrow> vs) @ [v])"

text \<open>A folded line continues the last value of the current header field.\<close>

definition foldValue :: "string \<Rightarrow> string \<Rightarrow> sip_headers \<Rightarrow> sip_headers" where
  "foldValue key v h =
     (case h key of
        None \<Rightarrow> h
      | Some vs \<Rightarrow> h(key \<mapsto> butlast vs @ [last vs @ '' '' @ v]))"

fun parseHeaderLines :: "string \<Rightarrow> sip_headers \<Rightarrow> string list \<Rightarrow> sip_error + sip_headers" where
  "parseHeaderLines current h [] = Inr h"
| "parseHeaderLines current h (raw # rest) =
     (if raw = [] then parseHeaderLines current h rest
      else if HasPrefix raw '' '' \<or> HasPrefix raw [TAB] then
        (if current = [] then Inl FoldedWithoutHeader
         else parseHeaderLines current (foldValue current (TrimSpace raw) h) rest)
      else (case Cut raw '':'' of (name, v, ok) \<Rightarrow>
        if \<not> ok then Inl (InvalidHeader raw)
        else (let key = canonicalHeader name in
              parseHeaderLines key (appendValue key (TrimSpace v) h) rest)))"

text \<open>The start line: method, URI, status and reason.\<close>

definition parseStartLine :: "string \<Rightarrow> sip_error + string \<times> string \<times> int \<times> string" where
  "parseStartLine line =
     (let fields = Fields line in
      if HasPrefix line ''SIP/2.0 '' then
        (if length fields < 2 then Inl (InvalidResponseLine line)
         else (case Atoi (fields ! 1) of
                 (n, Some e) \<Rightarrow> Inl (InvalidStatus e)
               | (n, None) \<Rightarrow> Inr ([], [], n, (if length fields > 2 then Join (drop 2 fields) '' '' else []))))
      else if length fields \<noteq> 3 \<or> fields ! 2 \<noteq> ''SIP/2.0'' then Inl (InvalidRequestLine line)
      else Inr (fields ! 0, fields ! 1, 0, []))"

definition sipParse :: "string \<Rightarrow> sip_error + sip_message" where
  "sipParse data =
     (let text = ReplaceAll data CRLF [NL] in
      case Cut text [NL, NL] of (head, body, found) \<Rightarrow>
        (let lines = SplitByte NL head in
         if lines = [] \<or> TrimSpace (hd lines) = [] then Inl EmptySIP
         else
           (let start = TrimSpace (hd lines) in
            case parseStartLine start of
              Inl e \<Rightarrow> Inl e
            | Inr (m, u, st, rs) \<Rightarrow>
                (case parseHeaderLines [] Map.empty (tl lines) of
                   Inl e \<Rightarrow> Inl e
                 | Inr h \<Rightarrow> Inr \<lparr> smStartLine = start, smMethod = m, smURI = u, smStatus = st,
                                   smReason = rs, smHeaders = h, smBody = body, smSource = None \<rparr>))))"

subsection \<open>Access\<close>

definition HeaderValues :: "sip_message \<Rightarrow> string \<Rightarrow> string list" where
  "HeaderValues m name = (case smHeaders m (canonicalHeader name) of None \<Rightarrow> [] | Some vs \<Rightarrow> vs)"

definition Header :: "sip_message \<Rightarrow> string \<Rightarrow> string" where
  "Header m name = (case HeaderValues m name of [] \<Rightarrow> [] | v # _ \<Rightarrow> v)"

definition CallID :: "sip_message \<Rightarrow> string" where
  "CallID m = (if Header m ''Call-ID'' \<noteq> [] then Header m ''Call-ID'' else Header m ''i'')"

definition CSeqMethod :: "sip_message \<Rightarrow> string" where
  "CSeqMethod m = (let fields = Fields (Header m ''CSeq'') in
     if length fields = 2 then fields ! 1 else [])"

definition CSeqNumber :: "sip_message \<Rightarrow> string" where
  "CSeqNumber m = (let fields = Fields (Header m ''CSeq'') in
     if length fields \<ge> 1 then fields ! 0 else ''1'')"

subsection \<open>Building\<close>

definition headerLine :: "string \<times> string \<Rightarrow> string" where
  "headerLine kv = fst kv @ '': '' @ snd kv"

text \<open>The lines of a message and its body, as written on the wire.\<close>

definition wireMessage :: "string list \<Rightarrow> string \<Rightarrow> string" where
  "wireMessage lines body = concat (map (\<lambda>l. l @ CRLF) lines) @ CRLF @ body"

definition bodyHeaders :: "string \<Rightarrow> (string \<times> string) list" where
  "bodyHeaders body =
     (if body \<noteq> [] then [(''Content-Type'', ''application/sdp'')] else []) @
     [(''Content-Length'', Itoa (int (length body)))]"

definition responseHeaders ::
  "sip_message \<Rightarrow> int \<Rightarrow> string \<Rightarrow> string \<Rightarrow> (string \<times> string) list \<Rightarrow> (string \<times> string) list" where
  "responseHeaders req status body localContact extra =
     map (\<lambda>via. (''Via'', via)) (HeaderValues req ''Via'') @
     [(''From'', Header req ''From''),
      (''To'', Header req ''To'' @
        (if status \<noteq> 100 \<and> \<not> Contains (ToLower (Header req ''To'')) ''tag='' then '';tag=gw'' else [])),
      (''Call-ID'', CallID req),
      (''CSeq'', Header req ''CSeq'')] @
     (if localContact \<noteq> [] then [(''Contact'', ''<'' @ localContact @ ''>'')] else []) @
     extra @ bodyHeaders body"

definition BuildResponse ::
  "sip_message \<Rightarrow> int \<Rightarrow> string \<Rightarrow> string \<Rightarrow> string \<Rightarrow> (string \<times> string) list \<Rightarrow> string" where
  "BuildResponse req status reason body localContact extra =
     wireMessage ((''SIP/2.0 '' @ Itoa status @ '' '' @ reason)
       # map headerLine (responseHeaders req status body localContact extra)) body"

definition BuildRequest :: "string \<Rightarrow> string \<Rightarrow> (string \<times> string) list \<Rightarrow> string \<Rightarrow> string" where
  "BuildRequest method uri headers body =
     wireMessage ((method @ '' '' @ uri @ '' SIP/2.0'')
       # map headerLine (headers @ bodyHeaders body)) body"

end
