(* ===== verification/Bridge_Uri.thy ===== *)
theory Bridge_Uri
  imports Gateway_Config Sip_Message
begin

text \<open>
  The pure helpers of the bridge on SIP URIs, addresses and header fields (the end of
  \<^verbatim>\<open>internal/bridge/sip.go\<close> and \<^verbatim>\<open>localContact\<close> of \<^verbatim>\<open>internal/bridge/bridge.go\<close>).
\<close>

subsection \<open>Addresses\<close>

definition advertisedSIPAddress :: "string \<Rightarrow> string \<Rightarrow> string \<Rightarrow> string" where
  "advertisedSIPAddress configured listen fallbackIP =
     (let v = (if TrimSpace configured = [] then TrimSpace listen else TrimSpace configured);
          hp = (case SplitHostPort v of Inl e \<Rightarrow> (Trim v ''[]'', ''5060'') | Inr x \<Rightarrow> x);
          host = fst hp;
          parsed = ParseIP (Trim host ''[]'');
          host' = (if host = [] \<or> (case parsed of None \<Rightarrow> False | Some a \<Rightarrow> IsUnspecified a)
                   then fallbackIP else host)
      in JoinHostPort (Trim host' ''[]'') (snd hp))"

definition advertised :: "config \<Rightarrow> string" where
  "advertised cfg = advertisedSIPAddress (sipAdvertisedAddress (cfgSIP cfg)) (sipListen (cfgSIP cfg))
     (mediaRTPIP (cfgMedia cfg))"

definition localContact :: "config \<Rightarrow> string" where
  "localContact cfg =
     (let address = (if sipAdvertisedAddress (cfgSIP cfg) = [] then sipListen (cfgSIP cfg)
                     else sipAdvertisedAddress (cfgSIP cfg));
          hp = (case SplitHostPort address of Inl e \<Rightarrow> (address, ''5060'') | Inr x \<Rightarrow> x);
          host = fst hp;
          host' = (if host = [] \<or> (case ParseIP host of None \<Rightarrow> False | Some a \<Rightarrow> IsUnspecified a)
                   then mediaRTPIP (cfgMedia cfg) else host)
      in ''sip:gateway@'' @ JoinHostPort (Trim host' ''[]'') (snd hp))"

definition hostOnly :: "string \<Rightarrow> string" where
  "hostOnly address =
     (case SplitHostPort address of Inr (host, p) \<Rightarrow> Trim host ''[]'' | Inl e \<Rightarrow> Trim address ''[]'')"

subsection \<open>URIs\<close>

definition afterFirst :: "string \<Rightarrow> char \<Rightarrow> string" where
  "afterFirst s c = (case IndexByte s c of None \<Rightarrow> s | Some i \<Rightarrow> drop (Suc i) s)"

definition afterLast :: "string \<Rightarrow> char \<Rightarrow> string" where
  "afterLast s c = (case LastIndexByte s c of None \<Rightarrow> s | Some i \<Rightarrow> drop (Suc i) s)"

definition beforeAny :: "string \<Rightarrow> string \<Rightarrow> string" where
  "beforeAny s cs = (case IndexAny s cs of None \<Rightarrow> s | Some i \<Rightarrow> take i s)"

definition sipPeerTarget :: "string \<Rightarrow> string \<Rightarrow> string" where
  "sipPeerTarget outboundProxy requestURI =
     (let t0 = (if TrimSpace outboundProxy = []
                then beforeAny (afterLast (afterFirst requestURI (CHR '':'')) (CHR ''@'')) '';?>''
                else TrimSpace outboundProxy);
          t1 = Trim (TrimSpace t0) ''<>'';
          t2 = (if HasPrefix (ToLower t1) ''sip:'' then drop 4 t1 else t1);
          t3 = afterLast t2 (CHR ''@'')
      in case SplitHostPort t3 of
           Inr _ \<Rightarrow> t3
         | Inl _ \<Rightarrow>
             if IndexByte t3 (CHR '':'') = None then JoinHostPort t3 ''5060''
             else if ParseIP (Trim t3 ''[]'') \<noteq> None then JoinHostPort (Trim t3 ''[]'') ''5060''
             else t3)"

definition resolveSIPPeer :: "(string \<Rightarrow> udp_addr option) \<Rightarrow> string \<Rightarrow> string \<Rightarrow> udp_addr option" where
  "resolveSIPPeer resolve outboundProxy requestURI = resolve (sipPeerTarget outboundProxy requestURI)"

definition normalizeSIPURI :: "string \<Rightarrow> string" where
  "normalizeSIPURI value0 =
     (let v = Trim (TrimSpace value0) ''<>'' in
      if HasPrefix (ToLower v) ''sip:'' then v else ''sip:'' @ v)"

definition sipURIUser :: "string \<Rightarrow> string" where
  "sipURIUser uri0 =
     (let u1 = afterFirst (Trim (TrimSpace uri0) ''<>'') (CHR '':'');
          u2 = beforeAny u1 ''@'';
          u3 = beforeAny u2 '';?''
      in TrimSpace u3)"

definition firstURI :: "string \<Rightarrow> string" where
  "firstURI value0 =
     (let v = TrimSpace value0;
          rest = TrimSpace (beforeAny v '';,'')
      in case IndexByte v (CHR ''<'') of
           None \<Rightarrow> rest
         | Some start \<Rightarrow>
             (case IndexByte (drop (Suc start) v) (CHR ''>'') of
                None \<Rightarrow> rest
              | Some e \<Rightarrow> take e (drop (Suc start) v)))"

definition sanitizeSIPUser :: "string \<Rightarrow> string" where
  "sanitizeSIPUser v =
     filter (\<lambda>c. isDigit c \<or> c = CHR ''+'' \<or> c = CHR ''*'' \<or> c = CHR ''#'') (TrimSpace v)"

subsection \<open>Header fields\<close>

definition headerParameter :: "string \<Rightarrow> string \<Rightarrow> string" where
  "headerParameter value name =
     (case find (\<lambda>part. case Cut (TrimSpace part) ''='' of (key, param, ok) \<Rightarrow> ok \<and> EqualFold key name)
             (SplitByte (CHR '';'') value) of
        None \<Rightarrow> []
      | Some part \<Rightarrow> Trim (fst (snd (Cut (TrimSpace part) ''=''))) [DQ])"

definition addHeaderParameter :: "string \<Rightarrow> string \<Rightarrow> string \<Rightarrow> string" where
  "addHeaderParameter value name parameter =
     (if headerParameter value name \<noteq> [] then value else value @ '';'' @ name @ ''='' @ parameter)"

definition containsCodec :: "string list \<Rightarrow> string \<Rightarrow> bool" where
  "containsCodec codecs want \<longleftrightarrow> list_ex (\<lambda>codec. EqualFold codec want) codecs"

definition parseCSeqNumber :: "string \<Rightarrow> int" where
  "parseCSeqNumber value = (if \<not> atoiOk value \<or> atoiVal value \<le> 0 then 1 else atoiVal value)"

text \<open>\<^verbatim>\<open>randomToken\<close>: the prefix and the time in nanoseconds, in hexadecimal.\<close>

definition randomToken :: "int \<Rightarrow> string \<Rightarrow> string" where
  "randomToken now pfx = pfx @ ''-'' @ hexDigits now"

end
