(* ===== verification/Media_Relay.thy ===== *)
theory Media_Relay
  imports Go_Net Complex_Main "HOL-Library.Word"
begin

unbundle bit_operations_syntax

text \<open>
  The RTP/RTCP relay (\<^verbatim>\<open>internal/bridge/media.go\<close>): allocation of its four sockets, learning of
  peers, payload type rewriting, and the synthesis of telephone events as A-law tones.  Packets are
  lists of 8-bit words; time stamps and sample counters are 32-bit words that wrap around, packet
  counters 64-bit words.

  Opening a socket is up to the host: \<open>listen\<close> tells for an address and a device whether it works.
  The value \<^verbatim>\<open>5500*sin(..) + 5500*sin(..)\<close> of a tone is computed by the source in floating point
  and rounded to 16 bits; the functions that need it take it as the argument \<open>tone\<close>.
\<close>

subsection \<open>State\<close>

datatype side = H248Side | SIPSide

record media_relay =
  mrCallID :: string
  mrSockets :: "string list"
  mrClosed :: bool
  h248Peer :: "udp_addr option"
  sipPeer :: "udp_addr option"
  h248RTCPPeer :: "udp_addr option"
  sipRTCPPeer :: "udp_addr option"
  h248DTMF :: int
  sipDTMF :: int
  h248DTMFMode :: string
  dtmfSamples :: int
  h248ToSIP :: "64 word"
  sipToH248 :: "64 word"
  h248RTCPToSIP :: "64 word"
  sipRTCPToH248 :: "64 word"

datatype relay_error = ListenH248RTP | ListenH248RTCP | ListenSIPRTP | ListenSIPRTCP

datatype sock_event = SockOpen string | SockClose string

text \<open>The four addresses in the order in which they are opened.\<close>

definition relayAddresses :: "string \<Rightarrow> int \<Rightarrow> string \<Rightarrow> int \<Rightarrow> string list" where
  "relayAddresses h248IP h248Port sipIP sipPort =
     [JoinHostPort h248IP (Itoa h248Port), JoinHostPort h248IP (Itoa (h248Port + 1)),
      JoinHostPort sipIP (Itoa sipPort), JoinHostPort sipIP (Itoa (sipPort + 1))]"

definition relayOf :: "string \<Rightarrow> string list \<Rightarrow> int \<Rightarrow> int \<Rightarrow> string \<Rightarrow> int \<Rightarrow> media_relay" where
  "relayOf callID socks h248DTMF0 sipDTMF0 mode ptime =
     \<lparr> mrCallID = callID, mrSockets = socks, mrClosed = False,
       h248Peer = None, sipPeer = None, h248RTCPPeer = None, sipRTCPPeer = None,
       h248DTMF = h248DTMF0, sipDTMF = sipDTMF0, h248DTMFMode = mode,
       dtmfSamples = (if ptime * 8 \<le> 0 then 160 else ptime * 8),
       h248ToSIP = 0, sipToH248 = 0, h248RTCPToSIP = 0, sipRTCPToH248 = 0 \<rparr>"

text \<open>Opens the sockets; on an error those already open are closed again.\<close>

definition newMediaRelay ::
  "(string \<Rightarrow> string \<Rightarrow> bool) \<Rightarrow> string \<Rightarrow> string \<Rightarrow> int \<Rightarrow> string \<Rightarrow> string \<Rightarrow> int \<Rightarrow> string \<Rightarrow>
     int \<Rightarrow> int \<Rightarrow> string \<Rightarrow> int \<Rightarrow> (relay_error + media_relay) \<times> sock_event list" where
  "newMediaRelay listen callID h248IP h248Port h248Device sipIP sipPort sipDevice
       h248DTMF0 sipDTMF0 mode ptime =
     (let a = JoinHostPort h248IP (Itoa h248Port);
          b = JoinHostPort h248IP (Itoa (h248Port + 1));
          c = JoinHostPort sipIP (Itoa sipPort);
          d = JoinHostPort sipIP (Itoa (sipPort + 1))
      in if \<not> listen a h248Device then (Inl ListenH248RTP, [])
         else if \<not> listen b h248Device then (Inl ListenH248RTCP, [SockOpen a, SockClose a])
         else if \<not> listen c sipDevice then
           (Inl ListenSIPRTP, [SockOpen a, SockOpen b, SockClose a, SockClose b])
         else if \<not> listen d sipDevice then
           (Inl ListenSIPRTCP,
            [SockOpen a, SockOpen b, SockOpen c, SockClose a, SockClose b, SockClose c])
         else
           (Inr (relayOf callID [a, c, b, d] h248DTMF0 sipDTMF0 mode ptime),
            [SockOpen a, SockOpen b, SockOpen c, SockOpen d]))"

text \<open>\<^verbatim>\<open>Close\<close>, guarded by a \<^verbatim>\<open>sync.Once\<close>.\<close>

definition closeRelay :: "media_relay \<Rightarrow> media_relay \<times> sock_event list" where
  "closeRelay r =
     (if mrClosed r then (r, [])
      else (r\<lparr>mrClosed := True, mrSockets := []\<rparr>, map SockClose (mrSockets r)))"

subsection \<open>Peers\<close>

definition adjacentRTCPAddr :: "udp_addr option \<Rightarrow> udp_addr option" where
  "adjacentRTCPAddr rtp =
     (case rtp of
        None \<Rightarrow> None
      | Some a \<Rightarrow> if port a \<le> 0 \<or> port a \<ge> 65535 then None else Some (a\<lparr>port := port a + 1\<rparr>))"

definition SetH248Peer :: "udp_addr option \<Rightarrow> int \<Rightarrow> media_relay \<Rightarrow> media_relay" where
  "SetH248Peer peer pt r =
     (let r' = r\<lparr>h248Peer := peer, h248RTCPPeer := adjacentRTCPAddr peer\<rparr>
      in if pt > 0 \<and> pt < 128 then r'\<lparr>h248DTMF := pt\<rparr> else r')"

definition SetSIPPeer :: "udp_addr option \<Rightarrow> int \<Rightarrow> media_relay \<Rightarrow> media_relay" where
  "SetSIPPeer peer pt r =
     (let r' = r\<lparr>sipPeer := peer, sipRTCPPeer := adjacentRTCPAddr peer\<rparr>
      in if pt > 0 \<and> pt < 128 then r'\<lparr>sipDTMF := pt\<rparr> else r')"

definition SetH248DTMFPayloadType :: "int \<Rightarrow> media_relay \<Rightarrow> media_relay" where
  "SetH248DTMFPayloadType pt r = (if pt \<le> 0 \<or> pt \<ge> 128 then r else r\<lparr>h248DTMF := pt\<rparr>)"

text \<open>The state, the peer to forward to, and the payload types of source and destination.\<close>

definition forwardingState ::
  "side \<Rightarrow> udp_addr option \<Rightarrow> media_relay \<Rightarrow> media_relay \<times> udp_addr option \<times> int \<times> int" where
  "forwardingState src observed r =
     (case src of
        H248Side \<Rightarrow>
          (let r' = (if observed \<noteq> None then r\<lparr>h248Peer := observed\<rparr> else r)
           in (r', sipPeer r', h248DTMF r', sipDTMF r'))
      | SIPSide \<Rightarrow>
          (let r' = (if observed \<noteq> None then r\<lparr>sipPeer := observed\<rparr> else r)
           in (r', h248Peer r', sipDTMF r', h248DTMF r')))"

definition rtcpForwardingState :: "side \<Rightarrow> udp_addr option \<Rightarrow> media_relay \<Rightarrow> media_relay \<times> udp_addr option" where
  "rtcpForwardingState src observed r =
     (case src of
        H248Side \<Rightarrow>
          (let r' = (if observed \<noteq> None then r\<lparr>h248RTCPPeer := observed\<rparr> else r) in (r', sipRTCPPeer r'))
      | SIPSide \<Rightarrow>
          (let r' = (if observed \<noteq> None then r\<lparr>sipRTCPPeer := observed\<rparr> else r) in (r', h248RTCPPeer r')))"

subsection \<open>RTP packets\<close>

type_synonym packet = "8 word list"

definition be16 :: "packet \<Rightarrow> nat \<Rightarrow> 16 word" where
  "be16 p i = push_bit 8 (ucast (p ! i)) OR ucast (p ! (i + 1))"

definition be32 :: "packet \<Rightarrow> nat \<Rightarrow> 32 word" where
  "be32 p i = push_bit 24 (ucast (p ! i)) OR push_bit 16 (ucast (p ! (i + 1))) OR
     push_bit 8 (ucast (p ! (i + 2))) OR ucast (p ! (i + 3))"

definition bytes32 :: "32 word \<Rightarrow> packet" where
  "bytes32 w = [ucast (drop_bit 24 w), ucast (drop_bit 16 w), ucast (drop_bit 8 w), ucast w]"

definition rtpPayloadType :: "packet \<Rightarrow> int" where
  "rtpPayloadType p =
     (if length p < 12 \<or> drop_bit 6 (p ! 0) \<noteq> 2 then - 1 else uint (p ! 1 AND 0x7f))"

definition rewriteRTPPayloadType :: "packet \<Rightarrow> int \<Rightarrow> int \<Rightarrow> packet" where
  "rewriteRTPPayloadType p src dst =
     (if length p < 12 \<or> drop_bit 6 (p ! 0) \<noteq> 2 \<or> src \<le> 0 \<or> src \<ge> 128 \<or> dst \<le> 0 \<or> dst \<ge> 128 then p
      else if uint (p ! 1 AND 0x7f) \<noteq> src then p
      else p[1 := (p ! 1 AND 0x80) OR word_of_int dst])"

definition rtpHeaderLength :: "packet \<Rightarrow> nat option" where
  "rtpHeaderLength p =
     (if length p < 12 \<or> drop_bit 6 (p ! 0) \<noteq> 2 then None
      else
        (let n = 12 + unat (p ! 0 AND 0x0f) * 4 in
         if length p < n then None
         else if p ! 0 AND 0x10 \<noteq> 0 then
           (if length p < n + 4 then None
            else
              (let n' = n + 4 + unat (be16 p (n + 2)) * 4 in
               if length p < n' then None else Some n'))
         else Some n))"

subsection \<open>Telephone events as tones\<close>

record tone_state =
  tsActive :: bool
  tsEvent :: "8 word"
  tsSSRC :: "32 word"
  tsTimestamp :: "32 word"
  tsSamples :: "32 word"

definition initToneState :: tone_state where
  "initToneState = \<lparr> tsActive = False, tsEvent = 0, tsSSRC = 0, tsTimestamp = 0, tsSamples = 0 \<rparr>"

definition dtmfTable :: "(int \<times> int) list" where
  "dtmfTable = [(941, 1336), (697, 1209), (697, 1336), (697, 1477),
     (770, 1209), (770, 1336), (770, 1477), (852, 1209),
     (852, 1336), (852, 1477), (941, 1209), (941, 1477),
     (697, 1633), (770, 1633), (852, 1633), (941, 1633)]"

definition dtmfFrequencies :: "8 word \<Rightarrow> (int \<times> int) option" where
  "dtmfFrequencies ev = (if unat ev \<ge> length dtmfTable then None else Some (dtmfTable ! unat ev))"

text \<open>The segment search of \<^verbatim>\<open>linearToALaw\<close>; \<open>n\<close> counts the rounds that are left of the seven.\<close>

fun alawSegment :: "nat \<Rightarrow> nat \<Rightarrow> int \<Rightarrow> int \<Rightarrow> nat" where
  "alawSegment 0 segment threshold v = segment"
| "alawSegment (Suc n) segment threshold v =
     (if v \<ge> threshold then alawSegment n (Suc segment) (2 * threshold) v else segment)"

definition linearToALaw :: "16 word \<Rightarrow> 8 word" where
  "linearToALaw sample =
     (let v0 = sint sample;
          mask = (if v0 < 0 then 0x55 else 0xd5);
          v1 = (if v0 < 0 then - v0 - 8 else v0);
          v2 = (if v1 < 0 then 0 else v1);
          v3 = (if v2 > 32635 then 32635 else v2);
          segment = alawSegment 7 0 64 v3;
          mantissa = (if segment < 2 then v3 div 16 else v3 div 2 ^ (segment + 3));
          encoded = word_of_int (int segment * 16) OR (word_of_int mantissa AND 0x0f)
      in encoded XOR mask)"

definition toneStateFor :: "packet \<Rightarrow> 8 word \<Rightarrow> tone_state \<Rightarrow> tone_state" where
  "toneStateFor p event st =
     (let ssrc = be32 p 8; ts = be32 p 4; marker = (p ! 1 AND 0x80 \<noteq> 0) in
      if \<not> tsActive st \<or> marker \<or> tsEvent st \<noteq> event \<or> tsSSRC st \<noteq> ssrc \<or> tsTimestamp st \<noteq> ts
      then \<lparr> tsActive = True, tsEvent = event, tsSSRC = ssrc, tsTimestamp = ts, tsSamples = 0 \<rparr>
      else st)"

definition toneHeader :: "packet \<Rightarrow> nat \<Rightarrow> 32 word \<Rightarrow> packet" where
  "toneHeader p n ts =
     (let h = take n p in
      [h ! 0 AND NOT 0x20, (h ! 1 AND 0x80) OR 8, h ! 2, h ! 3] @ bytes32 ts @ drop 8 h)"

text \<open>\<open>tone low high k\<close>: sample \<open>k\<close> of the two tones, rounded to a 16-bit integer.\<close>

definition synthesizeTelephoneEventAsPCMA ::
  "(int \<Rightarrow> int \<Rightarrow> 32 word \<Rightarrow> 16 word) \<Rightarrow> packet \<Rightarrow> tone_state \<Rightarrow> int \<Rightarrow> (packet \<times> tone_state) option" where
  "synthesizeTelephoneEventAsPCMA tone p st samplesPerPacket =
     (case rtpHeaderLength p of
        None \<Rightarrow> None
      | Some n \<Rightarrow>
          if length p < n + 4 \<or> samplesPerPacket \<le> 0 then None
          else (case dtmfFrequencies (p ! n) of
             None \<Rightarrow> None
           | Some (low, high) \<Rightarrow>
               (let st' = toneStateFor p (p ! n) st;
                    payload = map (\<lambda>i. linearToALaw (tone low high (tsSamples st' + of_nat i)))
                                [0..<nat samplesPerPacket]
                in Some (toneHeader p n (tsTimestamp st' + tsSamples st') @ payload,
                         st'\<lparr>tsSamples := tsSamples st' + word_of_int samplesPerPacket\<rparr>))))"

subsection \<open>Forwarding\<close>

definition countRTP :: "side \<Rightarrow> media_relay \<Rightarrow> media_relay" where
  "countRTP src r = (case src of
     H248Side \<Rightarrow> r\<lparr>h248ToSIP := h248ToSIP r + 1\<rparr> | SIPSide \<Rightarrow> r\<lparr>sipToH248 := sipToH248 r + 1\<rparr>)"

definition countRTCP :: "side \<Rightarrow> media_relay \<Rightarrow> media_relay" where
  "countRTCP src r = (case src of
     H248Side \<Rightarrow> r\<lparr>h248RTCPToSIP := h248RTCPToSIP r + 1\<rparr>
   | SIPSide \<Rightarrow> r\<lparr>sipRTCPToH248 := sipRTCPToH248 r + 1\<rparr>)"

text \<open>
  One round of the loop of \<^verbatim>\<open>forward\<close> for a packet that was read; \<open>written\<close> tells whether the
  write to the other side succeeds.  The result holds the datagram sent, if any.
\<close>

definition forwardStep ::
  "(int \<Rightarrow> int \<Rightarrow> 32 word \<Rightarrow> 16 word) \<Rightarrow> bool \<Rightarrow> side \<Rightarrow> packet \<Rightarrow> udp_addr option \<Rightarrow>
     media_relay \<times> tone_state \<Rightarrow> (media_relay \<times> tone_state) \<times> (packet \<times> udp_addr) option" where
  "forwardStep tone written src p sourcePeer rt =
     (case rt of (r, st) \<Rightarrow>
      case forwardingState src sourcePeer r of (r', peer, sourceDTMF, destinationDTMF) \<Rightarrow>
        (case peer of
           None \<Rightarrow> ((r', st), None)
         | Some dest \<Rightarrow>
             if src = SIPSide \<and> h248DTMFMode r' = ''inband'' \<and> rtpPayloadType p = sourceDTMF then
               (case synthesizeTelephoneEventAsPCMA tone p st (dtmfSamples r') of
                  None \<Rightarrow> ((r', st), None)
                | Some (out, st') \<Rightarrow>
                    (((if written then countRTP src r' else r'), st'), Some (out, dest)))
             else
               (((if written then countRTP src r' else r'), st),
                Some (rewriteRTPPayloadType p sourceDTMF destinationDTMF, dest))))"

definition forwardRTCPStep ::
  "bool \<Rightarrow> side \<Rightarrow> packet \<Rightarrow> udp_addr option \<Rightarrow> media_relay \<Rightarrow> media_relay \<times> (packet \<times> udp_addr) option" where
  "forwardRTCPStep written src p sourcePeer r =
     (case rtcpForwardingState src sourcePeer r of (r', peer) \<Rightarrow>
        (case peer of
           None \<Rightarrow> (r', None)
         | Some dest \<Rightarrow> ((if written then countRTCP src r' else r'), Some (p, dest))))"

subsection \<open>Payload types\<close>

lemma byte_split: "(x AND 0x80) OR (x AND 0x7f) = (x :: 8 word)"
proof -
  have "(x AND 0x80) OR (x AND 0x7f) = x AND (0x80 OR 0x7f)" by (rule bit.conj_disj_distrib[symmetric])
  also have "(0x80 OR 0x7f :: 8 word) = - 1" by simp
  finally show ?thesis by simp
qed

lemma payload_small: "0 \<le> d \<Longrightarrow> d < 128 \<Longrightarrow> (word_of_int d :: 8 word) AND 0x7f = word_of_int d"
proof -
  assume d: "0 \<le> d" "d < 128"
  have "(0x7f :: 8 word) = mask 7" by (simp add: mask_eq_exp_minus_1)
  then have "(word_of_int d :: 8 word) AND 0x7f = take_bit 7 (word_of_int d)" by (simp add: take_bit_eq_mask)
  also have "\<dots> = word_of_int (take_bit 7 d)" by (simp add: take_bit_of_int)
  also have "take_bit 7 d = d" using d by (simp add: take_bit_int_eq_self_iff)
  finally show ?thesis .
qed

lemma payload_marker: "0 \<le> d \<Longrightarrow> d < 128 \<Longrightarrow> (word_of_int d :: 8 word) AND 0x80 = 0"
proof -
  assume "0 \<le> d" "d < 128"
  then have "(word_of_int d :: 8 word) AND 0x80 = (word_of_int d AND 0x7f) AND 0x80" by (simp add: payload_small)
  also have "\<dots> = word_of_int d AND (0x7f AND 0x80)" by (simp only: and.assoc)
  also have "(0x7f AND 0x80 :: 8 word) = 0" by simp
  finally show ?thesis by simp
qed

lemma payload_byte:
  assumes "0 \<le> d" "d < 128"
  shows "(((x :: 8 word) AND 0x80) OR word_of_int d) AND 0x7f = word_of_int d"
    "((x AND 0x80) OR word_of_int d) AND 0x80 = x AND 0x80"
proof -
  have "(x AND 0x80) AND 0x7f = x AND (0x80 AND 0x7f)" "(x AND 0x80) AND 0x80 = x AND (0x80 AND 0x80)"
    by (simp_all only: and.assoc)
  moreover have "(0x80 AND 0x7f :: 8 word) = 0" "(0x80 AND 0x80 :: 8 word) = 0x80" by simp_all
  ultimately show "((x AND 0x80) OR word_of_int d) AND 0x7f = word_of_int d"
    "((x AND 0x80) OR word_of_int d) AND 0x80 = x AND 0x80"
    using assms by (simp_all add: bit.conj_disj_distrib2 payload_small payload_marker)
qed

lemma uint_payload: "0 \<le> d \<Longrightarrow> d < 128 \<Longrightarrow> uint (word_of_int d :: 8 word) = d"
  by (simp add: unsigned_of_int take_bit_int_eq_self)

lemma rewrite_translates:
  assumes "12 \<le> length p" "drop_bit 6 (p ! 0) = 2" "rtpPayloadType p = src" "0 < src" "src < 128" "0 < dst" "dst < 128"
  shows "rtpPayloadType (rewriteRTPPayloadType p src dst) = dst"
    "rewriteRTPPayloadType p src dst ! 1 AND 0x80 = p ! 1 AND 0x80"
    "rewriteRTPPayloadType (rewriteRTPPayloadType p src dst) dst src = p"
proof -
  have src: "uint (p ! 1 AND 0x7f) = src" using assms(1-3) by (auto simp: rtpPayloadType_def split: if_splits)
  let ?q = "rewriteRTPPayloadType p src dst"
  have q: "?q = p[1 := (p ! 1 AND 0x80) OR word_of_int dst]"
    using assms src by (simp add: rewriteRTPPayloadType_def)
  have q1: "?q ! 1 = (p ! 1 AND 0x80) OR word_of_int dst" "?q ! 0 = p ! 0" "length ?q = length p"
    using assms(1) by (simp_all add: q)
  have pt: "uint (?q ! 1 AND 0x7f) = dst" using assms payload_byte(1)[of dst "p ! 1"] uint_payload[of dst] unfolding q1(1) by simp
  then show "rtpPayloadType ?q = dst" using assms by (simp add: rtpPayloadType_def q1(2,3))
  show "?q ! 1 AND 0x80 = p ! 1 AND 0x80" using assms payload_byte(2)[of dst "p ! 1"] unfolding q1(1) by simp
  have "(?q ! 1 AND 0x80) OR word_of_int src = p ! 1"
    using \<open>?q ! 1 AND 0x80 = p ! 1 AND 0x80\<close> src byte_split[of "p ! 1"] by (metis word_of_int_uint)
  moreover have "rewriteRTPPayloadType ?q dst src = ?q[1 := (?q ! 1 AND 0x80) OR word_of_int src]"
    using assms pt q1(2,3) by (simp add: rewriteRTPPayloadType_def[of ?q])
  ultimately show "rewriteRTPPayloadType ?q dst src = p" by (simp add: q)
qed

lemma rewrite_frame:
  "length (rewriteRTPPayloadType p src dst) = length p"
  "i \<noteq> 1 \<Longrightarrow> rewriteRTPPayloadType p src dst ! i = p ! i"
  by (simp_all add: rewriteRTPPayloadType_def)

lemma rewrite_other: "rtpPayloadType p \<noteq> src \<or> src \<le> 0 \<Longrightarrow> rewriteRTPPayloadType p src dst = p"
  by (auto simp: rewriteRTPPayloadType_def rtpPayloadType_def)

subsection \<open>Headers\<close>

lemma rtpHeaderLength_bounds: "rtpHeaderLength p = Some n \<Longrightarrow> 12 \<le> n \<and> n \<le> length p \<and> drop_bit 6 (p ! 0) = 2"
  by (auto simp: rtpHeaderLength_def Let_def split: if_splits)

lemma bytes32_be32:
  assumes "length xs = i"
  shows "be32 (xs @ bytes32 w @ ys) i = w"
proof (rule bit_word_eqI)
  fix n assume "n < LENGTH(32)"
  then consider "n < 8" | "8 \<le> n" "n < 16" | "16 \<le> n" "n < 24" | "24 \<le> n" "n < 32" by fastforce
  then show "bit (be32 (xs @ bytes32 w @ ys) i) n = bit w n"
    using assms by cases (auto simp: be32_def bytes32_def nth_append bit_simps)
qed

subsection \<open>Tones\<close>

lemma toneHeader_shape:
  assumes "12 \<le> n" "n \<le> length p" "drop_bit 6 (p ! 0) = 2"
  shows "length (toneHeader p n ts) = n" "be32 (toneHeader p n ts @ x) 4 = ts"
    "be32 (toneHeader p n ts @ x) 8 = be32 p 8" "be16 (toneHeader p n ts @ x) 2 = be16 p 2"
    "toneHeader p n ts ! 1 = (p ! 1 AND 0x80) OR 8"
proof -
  let ?h = "[take n p ! 0 AND NOT 0x20, (take n p ! 1 AND 0x80) OR 8, take n p ! 2, take n p ! 3]"
  have h: "toneHeader p n ts = ?h @ bytes32 ts @ drop 8 (take n p)" by (simp add: toneHeader_def Let_def)
  show len: "length (toneHeader p n ts) = n" using assms by (simp add: h bytes32_def)
  show "be32 (toneHeader p n ts @ x) 4 = ts" using bytes32_be32[of ?h 4 ts "drop 8 (take n p) @ x"] by (simp add: h)
  have nth: "(toneHeader p n ts @ x) ! i = p ! i" if "8 \<le> i" "i < 12" for i
  proof -
    have "length (?h @ bytes32 ts) = 8" by (simp add: bytes32_def)
    then have "((?h @ bytes32 ts) @ drop 8 (take n p) @ x) ! i = (drop 8 (take n p) @ x) ! (i - 8)"
      using that(1) by (simp only: nth_append) simp
    also have "\<dots> = p ! i" using that assms less_diff_iff[of 8 i n] by (simp add: nth_append)
    finally show ?thesis by (simp add: h)
  qed
  then show "be32 (toneHeader p n ts @ x) 8 = be32 p 8" by (simp add: be32_def)
  show "be16 (toneHeader p n ts @ x) 2 = be16 p 2" using assms by (simp add: be16_def h)
  show "toneHeader p n ts ! 1 = (p ! 1 AND 0x80) OR 8" using assms by (simp add: h)
qed

lemma synthesize_shape:
  assumes "synthesizeTelephoneEventAsPCMA tone p st k = Some (out, st')"
  obtains n where "rtpHeaderLength p = Some n" "length out = n + nat k" "be16 out 2 = be16 p 2" "be32 out 8 = be32 p 8"
    "be32 out 4 = tsTimestamp st' + (tsSamples st' - word_of_int k)" "out ! 1 = (p ! 1 AND 0x80) OR 8"
    "tsActive st'" "tsEvent st' = p ! n" "tsSSRC st' = be32 p 8" "tsTimestamp st' = be32 p 4"
    "0 < k" "tsSamples st' - word_of_int k = tsSamples (toneStateFor p (p ! n) st)"
proof -
  obtain n low high where n: "rtpHeaderLength p = Some n" "0 < k" "dtmfFrequencies (p ! n) = Some (low, high)"
    using assms by (auto simp: synthesizeTelephoneEventAsPCMA_def split: option.splits if_splits)
  define s where "s = toneStateFor p (p ! n) st"
  define payload where "payload = map (\<lambda>i. linearToALaw (tone low high (tsSamples s + of_nat i))) [0..<nat k]"
  have out: "out = toneHeader p n (tsTimestamp s + tsSamples s) @ payload"
    "st' = s\<lparr>tsSamples := tsSamples s + word_of_int k\<rparr>"
    using assms n by (auto simp: synthesizeTelephoneEventAsPCMA_def s_def payload_def Let_def split: if_splits)
  have s: "tsActive s" "tsEvent s = p ! n" "tsSSRC s = be32 p 8" "tsTimestamp s = be32 p 4"
    by (auto simp: s_def toneStateFor_def Let_def)
  note b = rtpHeaderLength_bounds[OF n(1)]
  note h = toneHeader_shape[OF b[THEN conjunct1] b[THEN conjunct2, THEN conjunct1] b[THEN conjunct2, THEN conjunct2]]
  show thesis
    by (rule that[OF n(1)]) (use h b n s in \<open>simp_all add: out payload_def nth_append s_def\<close>)
qed

subsection \<open>The A-law encoder of G.711\<close>

text \<open>The magnitude that is encoded, and the encoding of ITU-T G.711 for 16-bit samples: its first segment
  ends at 256.\<close>

definition alawMagnitude :: "16 word \<Rightarrow> int" where
  "alawMagnitude sample = (let v = sint sample in min 32635 (max 0 (if v < 0 then - v - 8 else v)))"

definition alawPack :: "nat \<Rightarrow> int \<Rightarrow> 8 word" where
  "alawPack segment mantissa = word_of_int (int segment * 16) OR (word_of_int mantissa AND 0x0f)"

definition alawCode :: "int \<Rightarrow> 16 word \<Rightarrow> 8 word" where
  "alawCode threshold sample =
     (let v = alawMagnitude sample; segment = alawSegment 7 0 threshold v
      in alawPack segment (if segment < 2 then v div 16 else v div 2 ^ (segment + 3)) XOR
         (if sint sample < 0 then 0x55 else 0xd5))"

definition g711Encode :: "16 word \<Rightarrow> 8 word" where
  "g711Encode = alawCode 256"

lemma linearToALaw_code: "linearToALaw sample = alawCode 64 sample"
proof -
  let ?v = "if sint sample < 0 then - sint sample - 8 else sint sample"
  have m: "alawMagnitude sample =
      (if (if ?v < 0 then 0 else ?v) > 32635 then 32635 else (if ?v < 0 then 0 else ?v))"
    by (simp add: alawMagnitude_def Let_def)
  show ?thesis unfolding linearToALaw_def alawCode_def alawPack_def Let_def m ..
qed

lemma alawPack_segment: "s \<le> 7 \<Longrightarrow> drop_bit 4 (alawPack s m) = word_of_nat s"
proof -
  assume "s \<le> 7"
  then have "s \<in> {0, 1, 2, 3, 4, 5, 6, 7}" by auto
  moreover have "drop_bit 4 (word_of_int m AND 0x0f :: 8 word) = 0" by (simp add: drop_bit_and)
  ultimately show ?thesis unfolding alawPack_def drop_bit_or by auto
qed

lemma alawPack_inj: "s \<le> 7 \<Longrightarrow> s' \<le> 7 \<Longrightarrow> alawPack s m XOR k = alawPack s' m' XOR k \<Longrightarrow> s = s'"
proof -
  assume le: "s \<le> 7" "s' \<le> 7" and "alawPack s m XOR k = alawPack s' m' XOR k"
  then have "(alawPack s m XOR k) XOR k = (alawPack s' m' XOR k) XOR k" by simp
  then have "alawPack s m = alawPack s' m'" by (simp add: xor.assoc)
  then have "(word_of_nat s :: 8 word) = word_of_nat s'" using alawPack_segment le by metis
  then have "unat (word_of_nat s :: 8 word) = unat (word_of_nat s' :: 8 word)" by simp
  then show "s = s'" using le by (simp add: unsigned_of_nat take_bit_nat_eq_self)
qed

lemma alawSegment_le: "alawSegment n s t v \<le> s + n"
  by (induction n s t v rule: alawSegment.induct) auto

lemma alawCode_segment:
  "alawCode t sample = alawCode u sample \<Longrightarrow>
     alawSegment 7 0 t (alawMagnitude sample) = alawSegment 7 0 u (alawMagnitude sample)"
  using alawSegment_le[of 7 0 t "alawMagnitude sample"] alawSegment_le[of 7 0 u "alawMagnitude sample"]
  unfolding alawCode_def Let_def by (intro alawPack_inj) simp_all

lemma segments_differ:
  assumes "0 \<le> v" "v \<le> 32635"
  shows "alawSegment 7 0 64 v = alawSegment 7 0 256 v \<longleftrightarrow> v < 64 \<or> 16384 \<le> v"
  using assms by (simp add: eval_nat_numeral)

subsection \<open>Properties\<close>

definition demoPacket :: packet where
  "demoPacket = [0x80, 0xe5, 0, 1, 0, 0, 0, 160, 1, 2, 3, 4, 5, 10, 0, 160]"

definition demoTone :: "int \<Rightarrow> int \<Rightarrow> 32 word \<Rightarrow> 16 word" where
  "demoTone low high k = ucast k"

definition demoPacket2 :: packet where
  "demoPacket2 = [0x80, 0x65, 0, 2, 0, 0, 0, 160, 1, 2, 3, 4, 5, 10, 1, 64]"

text \<open>C29: The A-law encoder agrees with the encoder of G.711 exactly on samples whose magnitude is below 64 or at
  least 16384; in between it selects another segment.\<close>

theorem alaw_matches_g711_iff:
  "linearToALaw sample = g711Encode sample \<longleftrightarrow> alawMagnitude sample < 64 \<or> 16384 \<le> alawMagnitude sample"
proof -
  have "0 \<le> alawMagnitude sample" "alawMagnitude sample \<le> 32635" by (simp_all add: alawMagnitude_def Let_def)
  note seg = segments_differ[OF this]
  show ?thesis
  proof
    assume "linearToALaw sample = g711Encode sample"
    then have "alawCode 64 sample = alawCode 256 sample" by (simp only: linearToALaw_code g711Encode_def)
    then show "alawMagnitude sample < 64 \<or> 16384 \<le> alawMagnitude sample" using alawCode_segment seg by blast
  next
    assume "alawMagnitude sample < 64 \<or> 16384 \<le> alawMagnitude sample"
    then have "alawSegment 7 0 64 (alawMagnitude sample) = alawSegment 7 0 256 (alawMagnitude sample)" using seg by simp
    then show "linearToALaw sample = g711Encode sample" unfolding linearToALaw_code g711Encode_def alawCode_def by simp
  qed
qed

text \<open>C26: Rewriting the payload type of an RTP packet changes the payload type to the one of the other side, keeps the
  marker and every other byte, and is undone by the opposite rewriting.\<close>

theorem payload_type_translated:
  assumes "12 \<le> length p" "drop_bit 6 (p ! 0) = 2" "rtpPayloadType p = src" "0 < src" "src < 128" "0 < dst" "dst < 128"
  shows "rtpPayloadType (rewriteRTPPayloadType p src dst) = dst \<and>
    rewriteRTPPayloadType p src dst ! 1 AND 0x80 = p ! 1 AND 0x80 \<and>
    length (rewriteRTPPayloadType p src dst) = length p \<and>
    (\<forall>i. i \<noteq> 1 \<longrightarrow> rewriteRTPPayloadType p src dst ! i = p ! i) \<and>
    rewriteRTPPayloadType (rewriteRTPPayloadType p src dst) dst src = p"
  using rewrite_translates[OF assms] rewrite_frame by blast

theorem payload_type_translated_witness:
  "rtpPayloadType demoPacket = 101 \<and> rtpPayloadType (rewriteRTPPayloadType demoPacket 101 102) = 102"
proof -
  have "length demoPacket = 16" "drop_bit 6 (demoPacket ! 0) = 2" "rtpPayloadType demoPacket = 101" by code_simp+
  with payload_type_translated[of demoPacket 101 102] show ?thesis by simp
qed

text \<open>C27: Two successive packets of one telephone event become tone packets of one RTP stream: same SSRC, the sequence
  number of the event packet, a time stamp advanced by the number of samples of the first, and one payload byte per sample.\<close>

theorem tone_packets_continue:
  assumes "synthesizeTelephoneEventAsPCMA tone p st k = Some (out, st1)"
    "synthesizeTelephoneEventAsPCMA tone p' st1 k = Some (out', st2)"
    "rtpHeaderLength p = Some n" "rtpHeaderLength p' = Some n'" "p' ! n' = p ! n" "be32 p' 8 = be32 p 8"
    "be32 p' 4 = be32 p 4" "p' ! 1 AND 0x80 = 0"
  shows "be32 out' 4 = be32 out 4 + word_of_int k \<and> be32 out' 8 = be32 out 8 \<and> be16 out' 2 = be16 p' 2 \<and>
    length out = n + nat k \<and> length out' = n' + nat k"
proof -
  obtain m where 1: "rtpHeaderLength p = Some m" "length out = m + nat k" "be32 out 8 = be32 p 8"
    "be32 out 4 = tsTimestamp st1 + (tsSamples st1 - word_of_int k)" "tsActive st1" "tsEvent st1 = p ! m"
    "tsSSRC st1 = be32 p 8" "tsTimestamp st1 = be32 p 4" by (rule synthesize_shape[OF assms(1)])
  obtain m' where 2: "rtpHeaderLength p' = Some m'" "length out' = m' + nat k" "be16 out' 2 = be16 p' 2" "be32 out' 8 = be32 p' 8"
    "be32 out' 4 = tsTimestamp st2 + (tsSamples st2 - word_of_int k)" "tsTimestamp st2 = be32 p' 4"
    "tsSamples st2 - word_of_int k = tsSamples (toneStateFor p' (p' ! m') st1)" by (rule synthesize_shape[OF assms(2)])
  have "m = n" "m' = n'" using 1(1) 2(1) assms(3,4) by simp_all
  moreover have "toneStateFor p' (p' ! n') st1 = st1"
    using 1 assms(5-8) \<open>m = n\<close> by (simp add: toneStateFor_def)
  ultimately show ?thesis using 1 2 assms(6,7) by (simp add: algebra_simps)
qed

theorem tone_packets_continue_witness:
  "\<exists>out st1 out' st2. synthesizeTelephoneEventAsPCMA demoTone demoPacket initToneState 8 = Some (out, st1) \<and>
     synthesizeTelephoneEventAsPCMA demoTone demoPacket2 st1 8 = Some (out', st2) \<and>
     be32 out' 4 = be32 out 4 + 8"
proof -
  define r1 where "r1 = synthesizeTelephoneEventAsPCMA demoTone demoPacket initToneState 8"
  have h: "rtpHeaderLength demoPacket = Some 12" "rtpHeaderLength demoPacket2 = Some 12" by code_simp+
  have f: "demoPacket2 ! 12 = demoPacket ! 12" "be32 demoPacket2 8 = be32 demoPacket 8" "be32 demoPacket2 4 = be32 demoPacket 4"
    "demoPacket2 ! 1 AND 0x80 = 0" by code_simp+
  have d: "dtmfFrequencies (demoPacket ! 12) = Some (770, 1336)" "length demoPacket = 16" "length demoPacket2 = 16" by code_simp+
  then obtain out st1 where 1: "synthesizeTelephoneEventAsPCMA demoTone demoPacket initToneState 8 = Some (out, st1)"
    using h(1) by (simp add: synthesizeTelephoneEventAsPCMA_def Let_def)
  obtain out' st2 where 2: "synthesizeTelephoneEventAsPCMA demoTone demoPacket2 st1 8 = Some (out', st2)"
    using h(2) d f(1) by (simp add: synthesizeTelephoneEventAsPCMA_def Let_def)
  from tone_packets_continue[OF 1 2 h f] 1 2 show ?thesis by auto
qed

text \<open>C28: The relay is symmetric: after a packet was received on one side, what is forwarded to that side goes to the
  address the packet came from.\<close>

theorem relay_answers_observed_source:
  assumes "forwardStep tone w src p (Some a) (r, st) = ((r1, st1), sent)"
    "forwardStep tone' w' (if src = H248Side then SIPSide else H248Side) p' observed (r1, st') = (rt2, Some (q, d))"
  shows "d = a"
  using assms by (cases src) (auto simp: forwardStep_def forwardingState_def countRTP_def Let_def
      split: option.splits if_splits prod.splits)

theorem relay_answers_observed_source_witness:
  "\<exists>r1 st1 sent rt2 q. forwardStep demoTone True H248Side demoPacket (Some \<lparr> ip = ''192.0.2.7'', port = 4000, zone = [] \<rparr>)
      (relayOf ''c'' [] 102 101 ''rfc4733'' 20, initToneState) = ((r1, st1), sent) \<and>
    forwardStep demoTone True SIPSide demoPacket None (r1, st1) = (rt2, Some (q, \<lparr> ip = ''192.0.2.7'', port = 4000, zone = [] \<rparr>))"
proof -
  let ?a = "\<lparr> ip = ''192.0.2.7'', port = 4000, zone = [] \<rparr>"
  let ?r = "relayOf ''c'' [] 102 101 ''rfc4733'' 20"
  have 1: "forwardStep demoTone True H248Side demoPacket (Some ?a) (?r, initToneState) = ((?r\<lparr>h248Peer := Some ?a\<rparr>, initToneState), None)"
    by (simp add: forwardStep_def forwardingState_def relayOf_def)
  obtain rt2 q d where 2: "forwardStep demoTone True SIPSide demoPacket None (?r\<lparr>h248Peer := Some ?a\<rparr>, initToneState) = (rt2, Some (q, d))"
    by (simp add: forwardStep_def forwardingState_def relayOf_def)
  have "d = ?a" using relay_answers_observed_source[OF 1, of demoTone True demoPacket None] 2 by simp
  with 1 2 show ?thesis by blast
qed

end
