(* ===== verification/Go_Regexp.thy ===== *)
theory Go_Regexp
  imports Go_Strings
begin

text \<open>
  Prelude of the development, third part: the fragment of Go's \<^verbatim>\<open>regexp\<close> package that the H.248
  code uses.  Regular expressions are a datatype, so each pattern of the source is transcribed
  symbol by symbol; the matcher is the leftmost-first (Perl) one, written with a continuation so
  that the first successful alternative in priority order is the result.  A relational semantics
  \<open>sem\<close> says which text a pattern can consume, and \<open>mtch_sound\<close> relates the two.
\<close>

subsection \<open>Patterns\<close>

datatype re =
    REps
  | RClass "char \<Rightarrow> bool"
  | RSeq re re
  | RAlt re re
  | RStar re
  | ROpt re
  | RGroup nat re
  | RWordB
  | RLineStart
  | RTextStart

text \<open>The state of a match: the byte before the position, the text from it, the captures so far.\<close>

type_synonym caps = "(nat \<times> string) list"
datatype mst = Pos (m_prev: "char option") (m_rest: string) (m_caps: caps)

definition reSpace :: "char \<Rightarrow> bool" where
  "reSpace c \<longleftrightarrow> byte c = 9 \<or> byte c = 10 \<or> byte c = 12 \<or> byte c = 13 \<or> byte c = 32"

definition wordByte :: "char \<Rightarrow> bool" where
  "wordByte c \<longleftrightarrow> isDigit c \<or> isUpper c \<or> isLower c \<or> c = CHR ''_''"

definition wordBefore :: "char option \<Rightarrow> bool" where
  "wordBefore p = (case p of None \<Rightarrow> False | Some c \<Rightarrow> wordByte c)"

definition wordAfter :: "string \<Rightarrow> bool" where
  "wordAfter s = (case s of [] \<Rightarrow> False | c # _ \<Rightarrow> wordByte c)"

abbreviation RChr :: "char \<Rightarrow> re" where
  "RChr c \<equiv> RClass (\<lambda>x. x = c)"

abbreviation RPlus :: "re \<Rightarrow> re" where
  "RPlus r \<equiv> RSeq r (RStar r)"

abbreviation RNotIn :: "string \<Rightarrow> re" where
  "RNotIn cs \<equiv> RClass (\<lambda>x. x \<notin> set cs)"

abbreviation RSpaces :: re where
  "RSpaces \<equiv> RStar (RClass reSpace)"

abbreviation RDigits :: re where
  "RDigits \<equiv> RPlus (RClass isDigit)"

fun RSeqs :: "re list \<Rightarrow> re" where
  "RSeqs [] = REps"
| "RSeqs [r] = r"
| "RSeqs (r # rs) = RSeq r (RSeqs rs)"

fun RAlts :: "re list \<Rightarrow> re" where
  "RAlts [] = REps"
| "RAlts [r] = r"
| "RAlts (r # rs) = RAlt r (RAlts rs)"

definition RLit :: "string \<Rightarrow> re" where
  "RLit s = RSeqs (map RChr s)"

text \<open>A literal under the flag \<^verbatim>\<open>(?i)\<close>.\<close>

definition RLitI :: "string \<Rightarrow> re" where
  "RLitI s = RSeqs (map (\<lambda>c. RClass (\<lambda>x. lowerByte x = lowerByte c)) s)"

subsection \<open>The matcher\<close>

text \<open>
  The greedy loop: up to \<open>n\<close> rounds, each of which consumes text; when a round or what follows it
  fails, the continuation is tried at the current position.  Called with the length of the
  remaining text, which bounds the rounds.
\<close>

primrec starLoop ::
  "(mst \<Rightarrow> (mst \<Rightarrow> mst option) \<Rightarrow> mst option) \<Rightarrow> nat \<Rightarrow> mst \<Rightarrow> (mst \<Rightarrow> mst option) \<Rightarrow> mst option" where
  "starLoop f 0 s k = k s"
| "starLoop f (Suc n) s k =
     (case f s (\<lambda>t. if length (m_rest t) < length (m_rest s) then starLoop f n t k else None) of
        Some x \<Rightarrow> Some x
      | None \<Rightarrow> k s)"

definition capture :: "nat \<Rightarrow> mst \<Rightarrow> mst \<Rightarrow> mst" where
  "capture n s t = Pos (m_prev t) (m_rest t)
     ((n, take (length (m_rest s) - length (m_rest t)) (m_rest s)) # m_caps t)"

primrec mtch :: "re \<Rightarrow> mst \<Rightarrow> (mst \<Rightarrow> mst option) \<Rightarrow> mst option" where
  "mtch REps = (\<lambda>s k. k s)"
| "mtch (RClass p) = (\<lambda>s k. case m_rest s of
     [] \<Rightarrow> None | c # r \<Rightarrow> if p c then k (Pos (Some c) r (m_caps s)) else None)"
| "mtch (RSeq a b) = (\<lambda>s k. mtch a s (\<lambda>t. mtch b t k))"
| "mtch (RAlt a b) = (\<lambda>s k. case mtch a s k of Some x \<Rightarrow> Some x | None \<Rightarrow> mtch b s k)"
| "mtch (RStar r) = (\<lambda>s k. starLoop (mtch r) (length (m_rest s)) s k)"
| "mtch (ROpt r) = (\<lambda>s k. case mtch r s k of Some x \<Rightarrow> Some x | None \<Rightarrow> k s)"
| "mtch (RGroup n r) = (\<lambda>s k. mtch r s (\<lambda>t. k (capture n s t)))"
| "mtch RWordB = (\<lambda>s k. if wordBefore (m_prev s) \<noteq> wordAfter (m_rest s) then k s else None)"
| "mtch RLineStart = (\<lambda>s k. if m_prev s = None \<or> m_prev s = Some NL then k s else None)"
| "mtch RTextStart = (\<lambda>s k. if m_prev s = None then k s else None)"

subsection \<open>Searching\<close>

text \<open>
  A hit: the text before the match, the matched text, the text after it, the byte before the
  latter and the captures.
\<close>

record hit =
  h_before :: string
  h_text :: string
  h_after :: string
  h_prev :: "char option"
  h_caps :: caps

fun findFrom :: "re \<Rightarrow> char option \<Rightarrow> string \<Rightarrow> hit option" where
  "findFrom r pr s =
     (case mtch r (Pos pr s []) Some of
        Some t \<Rightarrow>
          Some \<lparr> h_before = [], h_text = take (length s - length (m_rest t)) s, h_after = m_rest t,
                 h_prev = m_prev t, h_caps = m_caps t \<rparr>
      | None \<Rightarrow>
          (case s of [] \<Rightarrow> None
           | c # cs \<Rightarrow> map_option (\<lambda>h. h\<lparr>h_before := c # h_before h\<rparr>) (findFrom r (Some c) cs)))"

declare findFrom.simps [simp del]

definition reFind :: "re \<Rightarrow> string \<Rightarrow> hit option" where
  "reFind r s = findFrom r None s"

text \<open>A capture; Go returns the empty string for a group that took no part in the match.\<close>

definition grp :: "hit \<Rightarrow> nat \<Rightarrow> string" where
  "grp h n = (case map_of (h_caps h) n of Some t \<Rightarrow> t | None \<Rightarrow> [])"

text \<open>
  \<^verbatim>\<open>FindAllStringSubmatch(s, -1)\<close> for patterns that never match the empty text: the search goes on
  after each hit.  \<open>n\<close> bounds the number of hits; the length of the text is enough.
\<close>

fun findAllFrom :: "nat \<Rightarrow> re \<Rightarrow> char option \<Rightarrow> string \<Rightarrow> hit list" where
  "findAllFrom 0 r pr s = []"
| "findAllFrom (Suc n) r pr s =
     (case findFrom r pr s of
        None \<Rightarrow> []
      | Some h \<Rightarrow> h # findAllFrom n r (h_prev h) (h_after h))"

definition reFindAll :: "re \<Rightarrow> string \<Rightarrow> hit list" where
  "reFindAll r s = findAllFrom (length s) r None s"

subsection \<open>Relational semantics and soundness\<close>

primrec sem :: "re \<Rightarrow> mst \<Rightarrow> mst \<Rightarrow> bool" where
  "sem REps = (\<lambda>s t. t = s)"
| "sem (RClass p) = (\<lambda>s t. \<exists>c r. m_rest s = c # r \<and> p c \<and> t = Pos (Some c) r (m_caps s))"
| "sem (RSeq a b) = (\<lambda>s t. \<exists>u. sem a s u \<and> sem b u t)"
| "sem (RAlt a b) = (\<lambda>s t. sem a s t \<or> sem b s t)"
| "sem (RStar r) = (sem r)\<^sup>*\<^sup>*"
| "sem (ROpt r) = (\<lambda>s t. sem r s t \<or> t = s)"
| "sem (RGroup n r) = (\<lambda>s t. \<exists>u. sem r s u \<and> t = capture n s u)"
| "sem RWordB = (\<lambda>s t. t = s \<and> wordBefore (m_prev s) \<noteq> wordAfter (m_rest s))"
| "sem RLineStart = (\<lambda>s t. t = s \<and> (m_prev s = None \<or> m_prev s = Some NL))"
| "sem RTextStart = (\<lambda>s t. t = s \<and> m_prev s = None)"

lemma starLoop_sound:
  assumes "\<And>s k x. f s k = Some x \<Longrightarrow> \<exists>t. R s t \<and> k t = Some x"
  shows "starLoop f n s k = Some x \<Longrightarrow> \<exists>t. R\<^sup>*\<^sup>* s t \<and> k t = Some x"
proof (induction n arbitrary: s)
  case 0
  then show ?case by auto
next
  case (Suc n)
  let ?k = "\<lambda>t. if length (m_rest t) < length (m_rest s) then starLoop f n t k else None"
  show ?case
  proof (cases "f s ?k")
    case None
    with Suc.prems show ?thesis by auto
  next
    case (Some y)
    with Suc.prems have "f s ?k = Some x" by simp
    then obtain t where t: "R s t" "?k t = Some x"
      using assms by blast
    then have "starLoop f n t k = Some x" by (simp split: if_splits)
    then obtain u where "R\<^sup>*\<^sup>* t u" "k u = Some x" using Suc.IH by blast
    with t show ?thesis by (meson converse_rtranclp_into_rtranclp)
  qed
qed

lemma mtch_sound: "mtch r s k = Some x \<Longrightarrow> \<exists>t. sem r s t \<and> k t = Some x"
proof (induction r arbitrary: s k x)
  case (RSeq a b)
  from RSeq.prems have "mtch a s (\<lambda>t. mtch b t k) = Some x" by simp
  then obtain u where "sem a s u" "mtch b u k = Some x" using RSeq.IH(1) by blast
  then show ?case using RSeq.IH(2) by fastforce
next
  case (RAlt a b)
  then show ?case by (fastforce split: option.splits)
next
  case (RStar r)
  then have "starLoop (mtch r) (length (m_rest s)) s k = Some x" by simp
  then show ?case using starLoop_sound [where f = "mtch r" and R = "sem r"] RStar.IH by auto
next
  case (ROpt r)
  then show ?case by (fastforce split: option.splits)
next
  case (RGroup n r)
  from RGroup.prems have "mtch r s (\<lambda>t. k (capture n s t)) = Some x" by simp
  then obtain u where "sem r s u" "k (capture n s u) = Some x" using RGroup.IH by blast
  then show ?case by auto
qed (auto split: list.splits if_splits)

text \<open>A match consumes a prefix of the text.\<close>

lemma sem_suffix: "sem r s t \<Longrightarrow> suffix (m_rest t) (m_rest s)"
proof (induction r arbitrary: s t)
  case (RStar r)
  from RStar.prems have "(sem r)\<^sup>*\<^sup>* s t" by simp
  then show ?case
    by (induction rule: rtranclp_induct) (auto intro: RStar.IH suffix_order.trans)
next
  case (RClass p)
  then show ?case by (auto simp: suffix_Cons)
next
  case (RSeq a b)
  then obtain u where "sem a s u" "sem b u t" by auto
  then show ?case using RSeq.IH suffix_order.trans by blast
qed (auto simp: capture_def)

lemma suffix_take_append: "suffix t s \<Longrightarrow> take (length s - length t) s @ t = s"
  by (auto simp: suffix_def)

lemma findFrom_sem:
  "findFrom r pr s = Some h \<Longrightarrow>
     \<exists>p. sem r (Pos p (h_text h @ h_after h) []) (Pos (h_prev h) (h_after h) (h_caps h)) \<and>
         h_before h @ h_text h @ h_after h = s"
proof (induction s arbitrary: pr h)
  case Nil
  then obtain t where t: "sem r (Pos pr [] []) t"
    and h: "h = \<lparr>h_before = [], h_text = [], h_after = m_rest t, h_prev = m_prev t, h_caps = m_caps t\<rparr>"
    by (auto simp: findFrom.simps [of r pr "[]"] split: option.splits dest!: mtch_sound)
  from sem_suffix [OF t] have "m_rest t = []" by simp
  with t h show ?case by (cases t) auto
next
  case (Cons c cs)
  show ?case
  proof (cases "mtch r (Pos pr (c # cs) []) Some")
    case None
    with Cons.prems obtain h' where "findFrom r (Some c) cs = Some h'"
      and "h = h'\<lparr>h_before := c # h_before h'\<rparr>"
      by (auto simp: findFrom.simps [of r pr "c # cs"])
    with Cons.IH show ?thesis by fastforce
  next
    case (Some t)
    then have m: "sem r (Pos pr (c # cs) []) t" by (auto dest!: mtch_sound)
    then have "suffix (m_rest t) (c # cs)" by (auto dest: sem_suffix)
    then have "take (Suc (length cs) - length (m_rest t)) (c # cs) @ m_rest t = c # cs"
      using suffix_take_append by fastforce
    with Some m Cons.prems show ?thesis
      by (cases t) (auto simp: findFrom.simps [of r pr "c # cs"])
  qed
qed

lemma reFind_sem:
  assumes "reFind r s = Some h"
  obtains p where "sem r (Pos p (h_text h @ h_after h) []) (Pos (h_prev h) (h_after h) (h_caps h))"
    "h_before h @ h_text h @ h_after h = s"
  using findFrom_sem assms unfolding reFind_def by blast

subsection \<open>Captures of a class\<close>

text \<open>A loop over a byte class consumes bytes of the class and captures nothing.\<close>

lemma sem_star_class:
  "(sem (RClass p))\<^sup>*\<^sup>* s t \<Longrightarrow>
     \<exists>w. m_rest s = w @ m_rest t \<and> list_all p w \<and> m_caps t = m_caps s"
proof (induction rule: rtranclp_induct)
  case base
  then show ?case by auto
next
  case (step u v)
  then obtain w c r where "m_rest s = w @ m_rest u" "list_all p w" "m_caps u = m_caps s"
    "m_rest u = c # r" "p c" "v = Pos (Some c) r (m_caps u)" by auto
  then show ?case by (intro exI [of _ "w @ [c]"]) auto
qed

lemma sem_plus_class_group:
  assumes "sem (RGroup n (RPlus (RClass p))) s t"
  obtains w where "w \<noteq> []" "list_all p w" "m_rest s = w @ m_rest t" "m_caps t = (n, w) # m_caps s"
proof -
  from assms obtain u v where uv: "sem (RClass p) s u" "(sem (RClass p))\<^sup>*\<^sup>* u v" "t = capture n s v"
    by auto
  from uv(1) obtain c r where c: "m_rest s = c # r" "p c" "u = Pos (Some c) r (m_caps s)" by auto
  from sem_star_class [OF uv(2)] c obtain w where
    "r = w @ m_rest v" "list_all p w" "m_caps v = m_caps s" by auto
  with uv(3) c that [of "c # w"] show thesis by (auto simp: capture_def)
qed

end
