(* ===== verification/H248_Message.thy ===== *)
theory H248_Message
  imports Go_Net Go_Regexp
begin

text \<open>
  The H.248 text codec (\<^verbatim>\<open>internal/h248/message.go\<close>): the message and command records, the
  structural parser of nested assignments with its tolerant fallback, and the builders of replies
  and of the ServiceChange request.  Positions in a text are indices, as in the source; the
  look-behind for a backslash before a quote is a read at the index before.
\<close>

subsection \<open>Data\<close>

record h248_command =
  cmdName :: string
  cmdTerm :: string
  cmdBody :: string
  cmdContext :: string
  cmdOptional :: bool

record h248_message =
  msgRaw :: string
  msgVersion :: int
  msgMID :: string
  msgType :: string
  msgTID :: string
  msgContext :: string
  msgError :: string
  msgProfile :: string
  msgCommands :: "h248_command list"

record assignment =
  asgName :: string
  asgValue :: string
  asgBody :: string
  asgOptional :: bool

datatype h248_error = EmptyMessage | UnsupportedMessage

subsection \<open>Patterns\<close>

definition headerRe :: re where
  "headerRe = RSeqs [RTextStart, RAlt (RLitI ''MEGACO'') (RChr (CHR ''!'')), RSpaces,
     RChr (CHR ''/''), RSpaces, RGroup 1 RDigits, RPlus (RClass reSpace),
     RGroup 2 (RPlus (RClass (\<lambda>c. \<not> reSpace c \<and> c \<noteq> CR \<and> c \<noteq> NL)))]"

definition transactionRe :: re where
  "transactionRe = RSeqs [RWordB,
     RGroup 1 (RAlts [RLitI ''Transaction'', RLitI ''Reply'', RLitI ''Pending'', RLitI ''T'',
                      RLitI ''P'', RLitI ''PN'']),
     RSpaces, RChr (CHR ''=''), RSpaces, RGroup 2 RDigits]"

definition contextRe :: re where
  "contextRe = RSeqs [RWordB, RLitI ''C'', RSpaces, RChr (CHR ''=''), RSpaces,
     RGroup 1 (RPlus (RClass (\<lambda>c. c \<noteq> CHR ''{'' \<and> \<not> reSpace c)))]"

text \<open>The common tail of the command patterns: an optional value and an optional body with at most
  two levels of braces.\<close>

definition commandTail :: "re list" where
  "commandTail = [RSpaces, RChr (CHR ''=''), RSpaces,
     ROpt (RGroup 2 (RPlus (RClass (\<lambda>c. c \<notin> set ''{},'' \<and> \<not> reSpace c)))),
     RSpaces,
     ROpt (RGroup 3 (RSeqs [RChr (CHR ''{''), RStar (RNotIn ''{}''),
       RStar (RSeqs [RChr (CHR ''{''), RStar (RNotIn ''{}''), RChr (CHR ''}''), RStar (RNotIn ''{}'')]),
       RChr (CHR ''}'')]))]"

definition longCommandRe :: re where
  "longCommandRe = RSeqs ([RWordB, RGroup 1 (RAlts [RLitI ''ServiceChange'',
     RLitI ''AuditCapabilities'', RLitI ''AuditValue'', RLitI ''Subtract'', RLitI ''Modify'',
     RLitI ''Notify'', RLitI ''Move'', RLitI ''Add''])] @ commandTail)"

definition compactCommandRe :: re where
  "compactCommandRe = RSeqs ([RWordB, RGroup 1 (RAlts [RLit ''SC'', RLit ''AC'', RLit ''AV'',
     RLit ''MF'', RLit ''MV'', RLit ''A'', RLit ''S'', RLit ''N''])] @ commandTail)"

definition errorRe :: re where
  "errorRe = RSeqs [RWordB, RAlt (RLitI ''Error'') (RLitI ''ER''), RSpaces, RChr (CHR ''=''),
     RSpaces, RGroup 1 RDigits]"

definition profileRe :: re where
  "profileRe = RSeqs [RWordB, RAlt (RLitI ''Profile'') (RLitI ''PF''), RSpaces, RChr (CHR ''=''),
     RSpaces, ROpt (RChr DQ),
     RGroup 1 (RPlus (RClass (\<lambda>c. c \<noteq> CHR '','' \<and> c \<noteq> CHR ''}'' \<and> \<not> reSpace c \<and> c \<noteq> DQ)))]"

subsection \<open>Scanning\<close>

definition isSpace :: "char \<Rightarrow> bool" where
  "isSpace c \<longleftrightarrow> c = CHR '' '' \<or> c = TAB \<or> c = CR \<or> c = NL"

definition isNameChar :: "char \<Rightarrow> bool" where
  "isNameChar c \<longleftrightarrow> isLower c \<or> isUpper c \<or> isDigit c \<or> c = CHR ''_''"

text \<open>A quote that toggles quoting: one that is not preceded by a backslash.\<close>

definition openQuote :: "string \<Rightarrow> nat \<Rightarrow> bool" where
  "openQuote t i \<longleftrightarrow> t ! i = DQ \<and> (i = 0 \<or> t ! (i - 1) \<noteq> BSL)"

function balLoop :: "string \<Rightarrow> nat \<Rightarrow> int \<Rightarrow> bool \<Rightarrow> nat option" where
  "balLoop t i depth quoted =
     (if i \<ge> length t then None
      else if t ! i = DQ then
        balLoop t (Suc i) depth (if openQuote t i then \<not> quoted else quoted)
      else if t ! i = CHR ''{'' then
        balLoop t (Suc i) (if quoted then depth else depth + 1) quoted
      else if t ! i = CHR ''}'' \<and> \<not> quoted then
        (if depth - 1 = 0 then Some i else balLoop t (Suc i) (depth - 1) quoted)
      else balLoop t (Suc i) depth quoted)"
  by pat_completeness auto
termination
  by (relation "measure (\<lambda>(t, i, d, q). length t - i)") auto

declare balLoop.simps [simp del]

definition balancedEnd :: "string \<Rightarrow> nat \<Rightarrow> nat option" where
  "balancedEnd t start = balLoop t start 0 False"

function skipUnknownItem :: "string \<Rightarrow> nat \<Rightarrow> nat" where
  "skipUnknownItem t i =
     (if i < length t \<and> t ! i \<noteq> CHR '','' \<and> t ! i \<noteq> CHR ''}'' then
        (if t ! i = CHR ''{'' then
           (case balancedEnd t i of Some e \<Rightarrow> Suc e | None \<Rightarrow> length t)
         else skipUnknownItem t (Suc i))
      else i)"
  by pat_completeness auto
termination
  by (relation "measure (\<lambda>(t, i). length t - i)") auto

declare skipUnknownItem.simps [simp del]

definition trimOuterBraces :: "string \<Rightarrow> string" where
  "trimOuterBraces text =
     (let t = TrimSpace text in
      if length t \<ge> 2 \<and> t ! 0 = CHR ''{'' \<and> t ! (length t - 1) = CHR ''}''
      then slice t 1 (length t - 1) else t)"

definition assignmentBody :: "string \<Rightarrow> nat \<Rightarrow> string option" where
  "assignmentBody t after =
     (let a = scanWhile isSpace t after in
      if a \<ge> length t \<or> t ! a \<noteq> CHR ''{'' then None
      else (case balancedEnd t a of None \<Rightarrow> None | Some e \<Rightarrow> Some (slice t (Suc a) e)))"

subsection \<open>Assignments\<close>

text \<open>The scan of a quoted value, from the byte after the opening quote.\<close>

function quotedEnd :: "string \<Rightarrow> nat \<Rightarrow> nat" where
  "quotedEnd t i =
     (if i < length t then (if openQuote t i then Suc i else quotedEnd t (Suc i)) else i)"
  by pat_completeness auto
termination
  by (relation "measure (\<lambda>(t, i). length t - i)") auto

declare quotedEnd.simps [simp del]

text \<open>One round of the loop of \<^verbatim>\<open>parseAssignments\<close>: it leaves the loop, skips to a position, or
  yields an item and the position after it.\<close>

datatype assign_step = Stop | Skip nat | Emit assignment nat

text \<open>The value: from the position after \<open>=\<close> and white space; the raw text's end and the value.\<close>

definition assignValue :: "string \<Rightarrow> nat \<Rightarrow> string \<times> nat" where
  "assignValue t vs =
     (let quoted = (vs < length t \<and> t ! vs = DQ);
          ve = (if quoted then quotedEnd t (Suc vs)
                else scanWhile (\<lambda>c. \<not> isSpace c \<and> c \<noteq> CHR ''{'' \<and> c \<noteq> CHR ''}'' \<and> c \<noteq> CHR '','') t vs);
          v = TrimSpace (slice t vs ve)
      in ((if quoted then Trim v [DQ] else v), ve))"

text \<open>The body: a balanced block, or the whole rest of an unbalanced text.\<close>

definition assignBlock :: "string \<Rightarrow> nat \<Rightarrow> string \<times> nat" where
  "assignBlock t i =
     (if i < length t \<and> t ! i = CHR ''{'' then
        (case balancedEnd t i of
           None \<Rightarrow> (drop i t, length t)
         | Some e \<Rightarrow> (slice t i (Suc e), Suc e))
      else ([], i))"

definition assignStep :: "string \<Rightarrow> nat \<Rightarrow> assign_step" where
  "assignStep t i0 =
     (let i = scanWhile (\<lambda>c. isSpace c \<or> c = CHR '','') t i0 in
      if i \<ge> length t \<or> t ! i = CHR ''}'' then Stop
      else
        (let start = i; ne = scanWhile (\<lambda>c. isNameChar c \<or> c = CHR ''-'') t i in
         if start = ne then Skip (Suc ne)
         else
           (let name = TrimSpace (slice t start ne);
                j = scanWhile isSpace t ne
            in
            if j \<ge> length t \<or> t ! j \<noteq> CHR ''='' then Skip (skipUnknownItem t j)
            else
              (case assignValue t (scanWhile isSpace t (Suc j)) of (value, ve) \<Rightarrow>
               case assignBlock t (scanWhile isSpace t ve) of (body, k) \<Rightarrow>
                 let optional = HasPrefix (ToUpper name) ''O-'' in
                 Emit \<lparr> asgName = (if optional then drop 2 name else name), asgValue = value,
                        asgBody = body, asgOptional = optional \<rparr> k))))"

lemma scanWhile_ge: "i \<le> scanWhile p t i"
  by (simp add: scanWhile_def)

lemma balLoop_bounds: "balLoop t i d q = Some e \<Longrightarrow> i \<le> e \<and> e < length t \<and> t ! e = CHR ''}''"
proof (induction t i d q rule: balLoop.induct)
  case (1 t i d q)
  have e: "balLoop t i d q = Some e" by fact
  show ?case
  proof (cases "i < length t")
    case True
    consider "t ! i = DQ" | "t ! i \<noteq> DQ" "t ! i = CHR ''{''"
      | "t ! i \<noteq> DQ" "t ! i \<noteq> CHR ''{''" "t ! i = CHR ''}'' \<and> \<not> q"
      | "t ! i \<noteq> DQ" "t ! i \<noteq> CHR ''{''" "\<not> (t ! i = CHR ''}'' \<and> \<not> q)"
      by blast
    then show ?thesis
    proof cases
      case 1
      then show ?thesis using e True "1.IH"(1) by (simp add: balLoop.simps [of t i])
    next
      case 2
      then show ?thesis using e True "1.IH"(2) by (simp add: balLoop.simps [of t i])
    next
      case 3
      then show ?thesis using e True "1.IH"(3) by (auto simp: balLoop.simps [of t i] split: if_splits)
    next
      case 4
      then show ?thesis using e True "1.IH"(4) by (auto simp: balLoop.simps [of t i] split: if_splits)
    qed
  qed (use e in \<open>simp add: balLoop.simps [of t i]\<close>)
qed

lemma balancedEnd_bounds:
  "balancedEnd t i = Some e \<Longrightarrow> i \<le> e \<and> e < length t \<and> t ! e = CHR ''}''"
  unfolding balancedEnd_def by (rule balLoop_bounds)

lemma skipUnknownItem_ge: "i \<le> length t \<Longrightarrow> i \<le> skipUnknownItem t i \<and> skipUnknownItem t i \<le> length t"
proof (induction t i rule: skipUnknownItem.induct)
  case (1 t i)
  then show ?case
    by (auto simp: skipUnknownItem.simps [of t i] split: option.splits dest: balancedEnd_bounds)
qed

lemma quotedEnd_ge: "i \<le> length t \<Longrightarrow> i \<le> quotedEnd t i \<and> quotedEnd t i \<le> length t"
proof (induction t i rule: quotedEnd.induct)
  case (1 t i)
  then show ?case by (auto simp: quotedEnd.simps [of t i])
qed


lemma scanWhile_le: "i \<le> length t \<Longrightarrow> scanWhile p t i \<le> length t"
  unfolding scanWhile_def by (metis add.commute le_diff_conv2 length_drop length_takeWhile_le)

lemma assignValue_ge:
  assumes "vs \<le> length t"
  shows "vs \<le> snd (assignValue t vs)"
proof (cases "vs < length t \<and> t ! vs = DQ")
  case True
  then have "Suc vs \<le> quotedEnd t (Suc vs)" using quotedEnd_ge [of "Suc vs" t] by simp
  with True show ?thesis by (simp add: assignValue_def Let_def)
next
  case False
  then show ?thesis by (auto simp: assignValue_def Let_def scanWhile_ge)
qed

lemma assignBlock_ge: "i \<le> snd (assignBlock t i)"
  by (auto simp: assignBlock_def split: option.splits dest: balancedEnd_bounds)

text \<open>Every round of the loop moves forward.\<close>

lemma assignStep_progress:
  "assignStep t i = Skip j \<Longrightarrow> i < j"
  "assignStep t i = Emit a j \<Longrightarrow> i < j"
proof -
  define p where "p = scanWhile (\<lambda>c. isSpace c \<or> c = CHR '','') t i"
  define ne where "ne = scanWhile (\<lambda>c. isNameChar c \<or> c = CHR ''-'') t p"
  define q where "q = scanWhile isSpace t ne"
  define vs where "vs = scanWhile isSpace t (Suc q)"
  have le: "i \<le> p" "p \<le> ne" "ne \<le> q" "Suc q \<le> vs"
    by (simp_all add: p_def ne_def q_def vs_def scanWhile_ge)
  have nel: "ne \<le> length t" if "p < length t" using that by (simp add: ne_def scanWhile_le)
  have ql: "q \<le> length t" if "p < length t" using nel [OF that] by (simp add: q_def scanWhile_le)
  have vl: "vs \<le> length t" if "q < length t" using that by (simp add: vs_def scanWhile_le)
  note step = assignStep_def [of t i, folded p_def, unfolded Let_def, folded ne_def, folded q_def, folded vs_def]
  show "i < j" if sk: "assignStep t i = Skip j"
  proof -
    from sk have "p < length t" and "j = (if p = ne then Suc ne else skipUnknownItem t q)"
      by (simp_all add: step split: if_splits prod.splits)
    then show ?thesis using le skipUnknownItem_ge [OF ql] by (auto split: if_splits)
  qed
  show "i < j" if e: "assignStep t i = Emit a j"
  proof -
    from e have qn: "q < length t" and "snd (assignBlock t (scanWhile isSpace t (snd (assignValue t vs)))) = j"
      by (simp_all add: step split: if_splits prod.splits)
    moreover have "vs \<le> snd (assignValue t vs)" using vl [OF qn] by (rule assignValue_ge)
    moreover have "snd (assignValue t vs) \<le> scanWhile isSpace t (snd (assignValue t vs))"
      by (rule scanWhile_ge)
    ultimately show ?thesis
      using le assignBlock_ge [of "scanWhile isSpace t (snd (assignValue t vs))" t] by linarith
  qed
qed

function parseAssignmentsFrom :: "string \<Rightarrow> nat \<Rightarrow> assignment list" where
  "parseAssignmentsFrom t i =
     (if i < length t then
        (case assignStep t i of
           Stop \<Rightarrow> []
         | Skip j \<Rightarrow> parseAssignmentsFrom t j
         | Emit a j \<Rightarrow> a # parseAssignmentsFrom t j)
      else [])"
  by pat_completeness auto
termination
  by (relation "measure (\<lambda>(t, i). length t - i)")
    (auto dest!: assignStep_progress intro: diff_less_mono2)

declare parseAssignmentsFrom.simps [simp del]

definition parseAssignments :: "string \<Rightarrow> assignment list" where
  "parseAssignments t = parseAssignmentsFrom t 0"

subsection \<open>Names\<close>

definition isCommand :: "string \<Rightarrow> bool" where
  "isCommand name \<longleftrightarrow> name \<in> {''ServiceChange'', ''Add'', ''Modify'', ''Subtract'', ''Move'',
     ''Notify'', ''AuditValue'', ''AuditCapabilities''}"

definition canonicalTransactionType :: "string \<Rightarrow> string" where
  "canonicalTransactionType name =
     (let l = ToLower name in
      if l = ''transaction'' \<or> l = ''t'' then ''Transaction''
      else if l = ''reply'' \<or> l = ''p'' then ''Reply''
      else if l = ''pending'' \<or> l = ''pn'' then ''Pending''
      else name)"

definition canonicalCommand :: "string \<Rightarrow> string" where
  "canonicalCommand name =
     (let l = ToLower name in
      if l = ''servicechange'' \<or> l = ''sc'' then ''ServiceChange''
      else if l = ''add'' \<or> l = ''a'' then ''Add''
      else if l = ''modify'' \<or> l = ''mf'' then ''Modify''
      else if l = ''subtract'' \<or> l = ''s'' then ''Subtract''
      else if l = ''move'' \<or> l = ''mv'' then ''Move''
      else if l = ''notify'' \<or> l = ''n'' then ''Notify''
      else if l = ''auditvalue'' \<or> l = ''av'' then ''AuditValue''
      else if l = ''auditcapabilities'' \<or> l = ''ac'' then ''AuditCapabilities''
      else name)"

definition CompactCommand :: "string \<Rightarrow> string" where
  "CompactCommand name =
     (if name = ''ServiceChange'' then ''SC''
      else if name = ''Add'' then ''A''
      else if name = ''Modify'' then ''MF''
      else if name = ''Subtract'' then ''S''
      else if name = ''Move'' then ''MV''
      else if name = ''Notify'' then ''N''
      else if name = ''AuditValue'' then ''AV''
      else if name = ''AuditCapabilities'' then ''AC''
      else [])"

subsection \<open>Parsing\<close>

text \<open>The commands of one action: \<^verbatim>\<open>parseActions\<close>, the inner loop.\<close>

definition actionCommands :: "string \<Rightarrow> assignment list \<Rightarrow> h248_command list" where
  "actionCommands contextID items =
     map (\<lambda>item. \<lparr> cmdName = canonicalCommand (asgName item),
                   cmdTerm = Trim (TrimSpace (asgValue item)) [DQ],
                   cmdBody = TrimSpace (asgBody item),
                   cmdContext = contextID,
                   cmdOptional = asgOptional item \<rparr>)
       (filter (\<lambda>item. isCommand (canonicalCommand (asgName item))) items)"

definition parseAction :: "h248_message \<Rightarrow> assignment \<Rightarrow> h248_message" where
  "parseAction msg action =
     (if \<not> EqualFold (asgName action) ''C'' \<or> asgBody action = [] then msg
      else
        (let contextID = Trim (TrimSpace (asgValue action)) [DQ];
             msg' = (if msgContext msg = [] then msg\<lparr>msgContext := contextID\<rparr> else msg)
         in msg'\<lparr>msgCommands := msgCommands msg' @
              actionCommands contextID (parseAssignments (trimOuterBraces (asgBody action)))\<rparr>))"

definition parseActions :: "h248_message \<Rightarrow> string \<Rightarrow> h248_message" where
  "parseActions msg transactionBody = foldl parseAction msg (parseAssignments transactionBody)"

text \<open>The parts of \<^verbatim>\<open>Parse\<close> in order: header, transaction, fallback, error code and profile.\<close>

definition emptyMessage :: "string \<Rightarrow> h248_message" where
  "emptyMessage raw = \<lparr> msgRaw = raw, msgVersion = 0, msgMID = [], msgType = [], msgTID = [],
     msgContext = [], msgError = [], msgProfile = [], msgCommands = [] \<rparr>"

definition parseHeader :: "string \<Rightarrow> h248_message \<Rightarrow> h248_message" where
  "parseHeader raw msg = (case reFind headerRe raw of
     None \<Rightarrow> msg
   | Some h \<Rightarrow> msg\<lparr>msgVersion := atoiVal (grp h 1), msgMID := grp h 2\<rparr>)"

definition parseTransaction :: "string \<Rightarrow> h248_message \<Rightarrow> h248_message" where
  "parseTransaction raw msg = (case reFind transactionRe raw of
     None \<Rightarrow> msg
   | Some h \<Rightarrow>
       (let msg' = msg\<lparr>msgType := canonicalTransactionType (grp h 1), msgTID := grp h 2\<rparr>
        in case assignmentBody raw (length (h_before h) + length (h_text h)) of
             None \<Rightarrow> msg'
           | Some body \<Rightarrow> parseActions msg' body))"

definition fallbackCommand :: "string \<Rightarrow> hit \<Rightarrow> h248_command" where
  "fallbackCommand ctx h = \<lparr> cmdName = canonicalCommand (grp h 1),
     cmdTerm = Trim (TrimSpace (grp h 2)) [DQ], cmdBody = TrimSpace (grp h 3),
     cmdContext = ctx, cmdOptional = False \<rparr>"

definition parseFallback :: "string \<Rightarrow> h248_message \<Rightarrow> h248_message" where
  "parseFallback raw msg =
     (if msgCommands msg \<noteq> [] then msg
      else
        (let msg' = (case reFind contextRe raw of
                       None \<Rightarrow> msg
                     | Some h \<Rightarrow> msg\<lparr>msgContext := Trim (grp h 1) [DQ]\<rparr>)
         in msg'\<lparr>msgCommands := map (fallbackCommand (msgContext msg'))
              (reFindAll longCommandRe raw @ reFindAll compactCommandRe raw)\<rparr>))"

definition parseErrorCode :: "string \<Rightarrow> h248_message \<Rightarrow> h248_message" where
  "parseErrorCode raw msg = (case reFind errorRe raw of
     None \<Rightarrow> msg | Some h \<Rightarrow> msg\<lparr>msgError := grp h 1\<rparr>)"

definition parseProfile :: "string \<Rightarrow> h248_message \<Rightarrow> h248_message" where
  "parseProfile raw msg = (case reFind profileRe raw of
     None \<Rightarrow> msg | Some h \<Rightarrow> msg\<lparr>msgProfile := grp h 1\<rparr>)"

definition Parse :: "string \<Rightarrow> h248_error + h248_message" where
  "Parse data =
     (let raw = TrimSpace data in
      if raw = [] then Inl EmptyMessage
      else
        (let msg = parseProfile raw (parseErrorCode raw (parseFallback raw
                     (parseTransaction raw (parseHeader raw (emptyMessage raw)))))
         in if msgCommands msg = [] \<and> msgTID msg = [] then Inl UnsupportedMessage else Inr msg))"

subsection \<open>Building\<close>

definition FormatMID :: "string \<Rightarrow> string" where
  "FormatMID mid0 =
     (let mid = TrimSpace mid0 in
      if mid = [] then ''0''
      else if HasPrefix mid ''['' \<or> ParseIP mid = None then mid
      else ''['' @ mid @ '']'')"

definition BuildReply :: "h248_message \<Rightarrow> string \<Rightarrow> string list \<Rightarrow> string" where
  "BuildReply req mgID commandReplies =
     (let tid = (if msgTID req = [] then ''1'' else msgTID req);
          replies = (if commandReplies = [] then [''Reply = 200''] else commandReplies);
          version = (if msgVersion req \<le> 0 then 1 else msgVersion req)
      in ''!/'' @ Itoa version @ '' '' @ FormatMID mgID @ [NL] @
         ''P='' @ tid @ ''{'' @ [NL] @ ''  '' @ Join replies ([NL] @ ''  '') @ [NL] @ ''}'' @ [NL])"

record action_reply =
  arContext :: string
  arCommands :: "string list"

definition actionPart :: "action_reply \<Rightarrow> string" where
  "actionPart action =
     ''C='' @ (if arContext action = [] then ''-'' else arContext action) @
     ''{'' @ Join (arCommands action) '','' @ ''}''"

definition BuildActionReply :: "h248_message \<Rightarrow> string \<Rightarrow> action_reply list \<Rightarrow> string" where
  "BuildActionReply req mgID actions =
     BuildReply req mgID (map actionPart (filter (\<lambda>a. arCommands a \<noteq> []) actions))"

definition BuildErrorReply :: "h248_message \<Rightarrow> string \<Rightarrow> string \<Rightarrow> string \<Rightarrow> string" where
  "BuildErrorReply req mgID code description =
     (let d = ReplaceAll description [DQ] [CHR 0x27] in
      if d = [] then BuildReply req mgID [''ER='' @ code]
      else BuildReply req mgID [''ER='' @ code @ ''{'' @ Quote d @ ''}''])"

definition SimpleCommandReply :: "h248_command \<Rightarrow> string" where
  "SimpleCommandReply command =
     (let token = CompactCommand (cmdName command) in
      if cmdTerm command = [] then token else token @ ''='' @ cmdTerm command)"

record service_change_options =
  scVersion :: int
  scMID :: string
  scRawMID :: bool
  scTID :: string
  scTermination :: string
  scMethod :: string
  scReason :: string
  scProfile :: string
  scAddress :: string

definition scDescriptors :: "service_change_options \<Rightarrow> string" where
  "scDescriptors options =
     (let version = (if scVersion options \<le> 0 then 1 else scVersion options);
          method = (if \<not> EqualFold (scMethod options) ''Restart'' \<and> scMethod options \<noteq> []
                    then scMethod options else ''RS'');
          reason0 = ReplaceAll (scReason options) [DQ] [CHR 0x27];
          reason = (if reason0 = [] then ''901 Cold Boot'' else reason0)
      in ''MT='' @ method @ '',RE='' @ [DQ] @ reason @ [DQ] @ '',V='' @ Itoa version @
         (if scAddress options \<noteq> [] then '',AD='' @ scAddress options else []) @
         (if scProfile options \<noteq> [] then '',PF='' @ scProfile options else []))"

definition BuildServiceChange :: "service_change_options \<Rightarrow> string" where
  "BuildServiceChange options =
     (let version = (if scVersion options \<le> 0 then 1 else scVersion options);
          mid = (if scRawMID options
                 then (if TrimSpace (scMID options) = [] then ''0'' else TrimSpace (scMID options))
                 else FormatMID (scMID options));
          termination = (if TrimSpace (scTermination options) = [] then ''ROOT''
                         else TrimSpace (scTermination options))
      in ''!/'' @ Itoa version @ '' '' @ mid @ [NL] @
         ''T='' @ scTID options @ ''{C=-{SC='' @ termination @ ''{SV{'' @ scDescriptors options @ ''}}}}'' @ [NL])"

definition CommandOK :: "h248_command \<Rightarrow> string \<Rightarrow> string" where
  "CommandOK cmd contextID0 =
     (let contextID = (if contextID0 = [] then ''-'' else contextID0) in
      if cmdTerm cmd = [] then ''C='' @ contextID @ ''{'' @ cmdName cmd @ ''=200}''
      else ''C='' @ contextID @ ''{'' @ cmdName cmd @ ''='' @ cmdTerm cmd @ ''{}}'')"

end
