(* ===== verification/H248_Interop.thy ===== *)
theory H248_Interop
  imports H248_Message
begin

text \<open>
  The carrier-specific part of the H.248 codec (\<^verbatim>\<open>internal/h248/interop.go\<close>): Notify requests,
  event request identifiers, ring signals, the \<^verbatim>\<open>andisp/dwa\<close> caller identity and the media
  descriptors.  A point in time is given by the calendar fields that \<^verbatim>\<open>time.Format\<close> prints.
\<close>

subsection \<open>Data and patterns\<close>

record civil_time =
  ctYear :: int
  ctMonth :: int
  ctDay :: int
  ctHour :: int
  ctMinute :: int
  ctSecond :: int
  ctNanosecond :: int

record media_description =
  mdIP :: string
  mdPort :: int
  mdPayloadTypes :: "int list"
  mdTelephoneEvent :: int

definition eventRequestRe :: re where
  "eventRequestRe = RSeqs [RWordB, RAlt (RLitI ''Events'') (RLitI ''E''), RSpaces, RChr (CHR ''=''),
     RSpaces, RGroup 1 RDigits, RSpaces, RChr (CHR ''{'')]"

definition hexByte :: "char \<Rightarrow> bool" where
  "hexByte c \<longleftrightarrow> hexVal c \<noteq> None"

definition andispDDBRe :: re where
  "andispDDBRe = RSeqs [RWordB, RLitI ''andisp/dwa'', RSpaces, RChr (CHR ''{''),
     RStar (RNotIn ''}''), RWordB, RLitI ''ddb'', RSpaces, RChr (CHR ''=''), RSpaces,
     ROpt (RChr DQ), RGroup 1 (RPlus (RClass hexByte))]"

definition connectionRe :: re where
  "connectionRe = RSeqs [RLineStart, RSpaces, RLitI ''c'', RSpaces, RChr (CHR ''=''), RSpaces,
     RLitI ''IN'', RPlus (RClass reSpace), RLitI ''IP4'', RPlus (RClass reSpace),
     RGroup 1 (RPlus (RClass (\<lambda>c. \<not> reSpace c \<and> c \<noteq> CHR ''}'' \<and> c \<noteq> CR \<and> c \<noteq> NL)))]"

definition audioRe :: re where
  "audioRe = RSeqs [RLineStart, RSpaces, RLitI ''m'', RSpaces, RChr (CHR ''=''), RSpaces,
     RLitI ''audio'', RPlus (RClass reSpace), RGroup 1 RDigits, RPlus (RClass reSpace),
     RLitI ''RTP/AVP'', RPlus (RClass reSpace),
     RGroup 2 (RPlus (RClass (\<lambda>c. c \<noteq> CR \<and> c \<noteq> NL \<and> c \<noteq> CHR ''}'')))]"

definition rtpmapRe :: re where
  "rtpmapRe = RSeqs [RLineStart, RSpaces, RLitI ''a'', RSpaces, RChr (CHR ''=''), RSpaces,
     RLitI ''rtpmap'', RSpaces, RChr (CHR '':''), RSpaces, RGroup 1 RDigits,
     RPlus (RClass reSpace), RLitI ''telephone-event/8000'']"

subsection \<open>Notify requests\<close>

definition FormatTimestamp :: "civil_time \<Rightarrow> string" where
  "FormatTimestamp t =
     padZero 4 (Itoa (ctYear t)) @ padZero 2 (Itoa (ctMonth t)) @ padZero 2 (Itoa (ctDay t)) @ ''T'' @
     padZero 2 (Itoa (ctHour t)) @ padZero 2 (Itoa (ctMinute t)) @ padZero 2 (Itoa (ctSecond t)) @
     padZero 2 (Itoa (ctNanosecond t div 10000000))"

definition BuildNotify ::
  "int \<Rightarrow> string \<Rightarrow> string \<Rightarrow> string \<Rightarrow> string \<Rightarrow> string \<Rightarrow> civil_time \<Rightarrow> string \<Rightarrow> string" where
  "BuildNotify version mid transactionID contextID termination requestID observedAt event =
     ''!/'' @ Itoa (if version \<le> 0 then 1 else version) @ '' '' @ FormatMID mid @ [NL] @
     ''T='' @ transactionID @ ''{C='' @ (if contextID = [] then ''-'' else contextID) @
     ''{N='' @ termination @ ''{OE='' @ requestID @ ''{'' @ FormatTimestamp observedAt @ '':'' @
     event @ ''}}}}'' @ [NL]"

definition BuildDigitMapCompleteNotify ::
  "int \<Rightarrow> string \<Rightarrow> string \<Rightarrow> string \<Rightarrow> string \<Rightarrow> string \<Rightarrow> civil_time \<Rightarrow> string \<Rightarrow> string" where
  "BuildDigitMapCompleteNotify version mid transactionID contextID termination requestID observedAt number =
     BuildNotify version mid transactionID contextID termination requestID observedAt
       (''dd/ce{ds='' @ [DQ] @ ReplaceAll number [DQ] [] @ [DQ] @ '',Meth=UM}'')"

subsection \<open>Events and signals\<close>

definition EventRequestID :: "string \<Rightarrow> string" where
  "EventRequestID raw = (case reFind eventRequestRe raw of None \<Rightarrow> [] | Some h \<Rightarrow> grp h 1)"

definition ContainsRingSignal :: "string \<Rightarrow> bool" where
  "ContainsRingSignal raw \<longleftrightarrow>
     (let lower = ToLower raw in
      Contains lower ''al/ri'' \<or> Contains lower ''cg/rt'' \<or> Contains lower ''andisp/dwa'')"

definition allDigits :: "string \<Rightarrow> bool" where
  "allDigits value \<longleftrightarrow> list_all isDigit value \<and> value \<noteq> []"

definition validCallerIDTimestamp :: "string \<Rightarrow> bool" where
  "validCallerIDTimestamp value \<longleftrightarrow>
     length value = 8 \<and> allDigits value \<and>
     (let month = atoiVal (slice value 0 2); day = atoiVal (slice value 2 4);
          hour = atoiVal (slice value 4 6); minute = atoiVal (slice value 6 8)
      in month \<ge> 1 \<and> month \<le> 12 \<and> day \<ge> 1 \<and> day \<le> 31 \<and> hour \<le> 23 \<and> minute \<le> 59)"

text \<open>\<^verbatim>\<open>hex.DecodeString\<close> on a text of even length.\<close>

fun hexDecode :: "string \<Rightarrow> string option" where
  "hexDecode [] = Some []"
| "hexDecode [c] = None"
| "hexDecode (a # b # cs) =
     (case (hexVal a, hexVal b, hexDecode cs) of
        (Some x, Some y, Some r) \<Rightarrow> Some (char_of (16 * x + y) # r)
      | _ \<Rightarrow> None)"

text \<open>The part of \<^verbatim>\<open>DecodeAndispCallerID\<close> after the pattern has found the hexadecimal field.\<close>

definition decodeDDB :: "string \<Rightarrow> string" where
  "decodeDDB hex =
     (if odd (length hex) then []
      else (case hexDecode hex of
        None \<Rightarrow> []
      | Some decoded \<Rightarrow>
          (let printable = filter (\<lambda>c. 32 \<le> byte c \<and> byte c \<le> 126) decoded;
               t = Trim printable [CHR '' '', CHR ''$'', CHR 0x00]
           in if length t > 8 \<and> allDigits t \<and> validCallerIDTimestamp (take 8 t)
              then (let candidate = drop 8 t in
                    if length candidate \<ge> 3 \<and> length candidate \<le> 20 then candidate else [])
              else [])))"

definition DecodeAndispCallerID :: "string \<Rightarrow> string" where
  "DecodeAndispCallerID raw =
     (case reFind andispDDBRe raw of None \<Rightarrow> [] | Some h \<Rightarrow> decodeDDB (grp h 1))"

subsection \<open>Media descriptors\<close>

text \<open>The search loop of \<^verbatim>\<open>descriptorBodies\<close>; the token is never empty in the source.\<close>

function descriptorBodiesFrom :: "string \<Rightarrow> string \<Rightarrow> string \<Rightarrow> nat \<Rightarrow> string list" where
  "descriptorBodiesFrom raw upper token i =
     (if i < length raw \<and> token \<noteq> [] then
        (case Index (drop i upper) token of
           None \<Rightarrow> []
         | Some d \<Rightarrow>
             (let index = d + i;
                  beforeOK = (index = 0 \<or> \<not> isNameChar (raw ! (index - 1)));
                  cursor = scanWhile isSpace raw (index + length token)
              in case (if beforeOK \<and> cursor < length raw \<and> raw ! cursor = CHR ''{''
                       then balancedEnd raw cursor else None) of
                   Some e \<Rightarrow> slice raw (Suc cursor) e # descriptorBodiesFrom raw upper token (Suc e)
                 | None \<Rightarrow> descriptorBodiesFrom raw upper token (index + length token)))
      else [])"
  by pat_completeness auto
termination
proof (relation "measure (\<lambda>(raw, upper, token, i). length raw - i)", goal_cases)
  case (3 raw upper token i d index beforeOK cursor e)
  then have "balancedEnd raw cursor = Some e" by (simp split: if_splits)
  then have "cursor \<le> e" by (simp add: balancedEnd_bounds)
  moreover have "i \<le> cursor" using 3 scanWhile_ge [of "index + length token" isSpace raw] by simp
  ultimately have "i \<le> e" by simp
  then show ?case using 3(1) by (simp add: diff_less_mono2 less_Suc_eq_le)
qed (auto simp: diff_less_mono2 length_greater_0_conv [symmetric] simp del: length_greater_0_conv)

declare descriptorBodiesFrom.simps [simp del]

definition descriptorBodies :: "string \<Rightarrow> string \<Rightarrow> string list" where
  "descriptorBodies raw token = descriptorBodiesFrom raw (ToUpper raw) (ToUpper token) 0"

definition normalizeDescriptorSDP :: "string \<Rightarrow> string" where
  "normalizeDescriptorSDP t =
     ReplaceAll (ReplaceAll t [BSL, CHR ''r'', BSL, CHR ''n''] [NL]) [BSL, CHR ''n''] [NL]"

definition payloadFields :: "string list \<Rightarrow> int list" where
  "payloadFields fs =
     map atoiVal (filter (\<lambda>f. atoiOk f \<and> atoiVal f \<ge> 0 \<and> atoiVal f < 128) fs)"

definition parseMediaDescription :: "string \<Rightarrow> media_description option" where
  "parseMediaDescription t0 =
     (let t = normalizeDescriptorSDP t0;
          connections = reFindAll connectionRe t;
          audio = reFindAll audioRe t
      in if connections = [] \<or> audio = [] then None
         else
           (let addr = grp (last connections) 1;
                portText = grp (last audio) 1
            in if addr = [] \<or> addr = ''$'' then None
               else if \<not> atoiOk portText \<or> atoiVal portText \<le> 0 \<or> atoiVal portText > 65535 then None
               else Some \<lparr> mdIP = addr, mdPort = atoiVal portText,
                           mdPayloadTypes = payloadFields (Fields (grp (last audio) 2)),
                           mdTelephoneEvent = (case reFind rtpmapRe t of
                               None \<Rightarrow> 0 | Some h \<Rightarrow> atoiVal (grp h 1)) \<rparr>))"

fun firstSome :: "('a \<Rightarrow> 'b option) \<Rightarrow> 'a list \<Rightarrow> 'b option" where
  "firstSome f [] = None"
| "firstSome f (x # xs) = (case f x of Some y \<Rightarrow> Some y | None \<Rightarrow> firstSome f xs)"

definition ExtractRemoteMedia :: "string \<Rightarrow> media_description option" where
  "ExtractRemoteMedia raw = firstSome parseMediaDescription (descriptorBodies raw ''R'')"

definition localPayload :: "string \<Rightarrow> int option" where
  "localPayload body =
     (case reFind rtpmapRe (normalizeDescriptorSDP body) of
        None \<Rightarrow> None
      | Some h \<Rightarrow>
          if atoiOk (grp h 1) \<and> atoiVal (grp h 1) > 0 \<and> atoiVal (grp h 1) < 128
          then Some (atoiVal (grp h 1)) else None)"

definition ExtractLocalTelephoneEventPayload :: "string \<Rightarrow> int option" where
  "ExtractLocalTelephoneEventPayload raw = firstSome localPayload (descriptorBodies raw ''L'')"

end
