(* ===== verification/Txn_Cache.thy ===== *)
theory Txn_Cache
  imports Go_Strings
begin

text \<open>
  The contract of the two caches that answer retransmitted requests, the H.248 reply cache and the
  SIP response cache: a map with the order of insertion and a capacity.  Storing under a new key
  appends it and drops keys from the front; storing under a known key replaces the value in place.
  The client's lemma is that an answer survives as many later answers as the capacity allows.
\<close>

definition fifoKeys :: "nat \<Rightarrow> string \<Rightarrow> string list \<Rightarrow> string list" where
  "fifoKeys cap k ks =
     (let ks' = (if k \<in> set ks then ks else ks @ [k]) in drop (length ks' - cap) ks')"

text \<open>The number of keys that were inserted after \<open>k\<close>.\<close>

fun younger :: "string \<Rightarrow> string list \<Rightarrow> nat" where
  "younger k [] = 0"
| "younger k (x # xs) = (if x = k then length xs else younger k xs)"

lemma younger_append: "k \<in> set ks \<Longrightarrow> younger k (ks @ [x]) = Suc (younger k ks)"
  by (induction ks) auto

lemma younger_last: "k \<notin> set ks \<Longrightarrow> younger k (ks @ [k]) = 0"
  by (induction ks) auto

lemma younger_drop:
  "k \<in> set ks \<Longrightarrow> n + younger k ks < length ks \<Longrightarrow> k \<in> set (drop n ks) \<and> younger k (drop n ks) = younger k ks"
proof (induction ks arbitrary: n)
  case (Cons x xs)
  then show ?case by (cases n) (auto split: if_splits)
qed simp

lemma younger_less: "k \<in> set ks \<Longrightarrow> younger k ks < length ks"
  by (induction ks) (auto split: if_splits simp: less_Suc_eq)

lemma fifoKeys_survives:
  assumes "k \<in> set ks" "length ks \<le> cap" "Suc (younger k ks) < cap \<or> k' \<in> set ks"
  shows "k \<in> set (fifoKeys cap k' ks) \<and> younger k (fifoKeys cap k' ks) \<le> Suc (younger k ks)"
proof (cases "k' \<in> set ks")
  case True
  with assms show ?thesis by (simp add: fifoKeys_def Let_def)
next
  case False
  let ?ks = "ks @ [k']"
  have "length ?ks - cap + younger k ?ks < length ?ks"
    using assms younger_append[of k ks k'] younger_less[of k ks] False by auto
  from younger_drop[OF _ this] assms(1) younger_append[of k ks k'] False show ?thesis
    by (auto simp: fifoKeys_def Let_def)
qed

lemma fifoKeys_length: "length ks \<le> cap \<Longrightarrow> length (fifoKeys cap k ks) \<le> cap"
  by (auto simp: fifoKeys_def Let_def)

lemma fifoKeys_distinct: "distinct ks \<Longrightarrow> distinct (fifoKeys cap k ks)"
  by (auto simp: fifoKeys_def Let_def)

lemma fifoKeys_self: "0 < cap \<Longrightarrow> k \<notin> set ks \<Longrightarrow> length ks \<le> cap \<Longrightarrow>
    k \<in> set (fifoKeys cap k ks) \<and> younger k (fifoKeys cap k ks) = 0"
  using younger_drop[of k "ks @ [k]" "length ks + 1 - cap"] younger_last[of k ks]
  by (auto simp: fifoKeys_def Let_def)

locale txn_cache =
  fixes inv :: "'s \<Rightarrow> bool" and keys :: "'s \<Rightarrow> string list" and lookup :: "'s \<Rightarrow> string \<Rightarrow> 'v option"
    and store :: "string \<Rightarrow> 'v \<Rightarrow> 's \<Rightarrow> 's" and cap :: nat
  assumes cap_pos: "0 < cap"
    and keys_bound: "inv s \<Longrightarrow> distinct (keys s) \<and> length (keys s) \<le> cap"
    and keys_lookup: "inv s \<Longrightarrow> k \<in> set (keys s) \<longleftrightarrow> lookup s k \<noteq> None"
    and store_inv: "inv s \<Longrightarrow> k \<noteq> [] \<Longrightarrow> inv (store k v s)"
    and store_keys: "inv s \<Longrightarrow> k \<noteq> [] \<Longrightarrow> keys (store k v s) = fifoKeys cap k (keys s)"
    and store_lookup: "inv s \<Longrightarrow> k \<noteq> [] \<Longrightarrow> k' \<in> set (keys (store k v s)) \<Longrightarrow>
      lookup (store k v s) k' = (if k' = k then Some v else lookup s k')"
begin

abbreviation stores :: "(string \<times> 'v) list \<Rightarrow> 's \<Rightarrow> 's" where
  "stores kvs \<equiv> fold (\<lambda>kv. store (fst kv) (snd kv)) kvs"

lemma stores_inv: "inv s \<Longrightarrow> [] \<notin> fst ` set kvs \<Longrightarrow> inv (stores kvs s)"
  by (induction kvs arbitrary: s) (auto simp: store_inv)

lemma stores_keep:
  assumes "inv s" "[] \<notin> fst ` set kvs" "k \<notin> fst ` set kvs" "k \<in> set (keys s)" "lookup s k = Some v"
    "younger k (keys s) + length kvs < cap"
  shows "lookup (stores kvs s) k = Some v"
  using assms
proof (induction kvs arbitrary: s)
  case Nil
  then show ?case by simp
next
  case (Cons kv kvs)
  let ?s = "store (fst kv) (snd kv) s"
  have nz: "fst kv \<noteq> []" and other: "k \<noteq> fst kv" using Cons.prems(2,3) by auto
  from fifoKeys_survives[OF Cons.prems(4)] keys_bound[OF Cons.prems(1)] Cons.prems(6)
  have keep: "k \<in> set (keys ?s)" "younger k (keys ?s) \<le> Suc (younger k (keys s))"
    by (auto simp: store_keys[OF Cons.prems(1) nz])
  have "lookup ?s k = Some v"
    using store_lookup[OF Cons.prems(1) nz keep(1)] other Cons.prems(5) by simp
  with Cons.IH[of ?s] Cons.prems keep store_inv[OF Cons.prems(1) nz] show ?case by auto
qed

text \<open>A new answer is found again until \<open>cap\<close> other keys have been stored after it.\<close>

lemma answer_survives:
  assumes "inv s" "k \<noteq> []" "lookup s k = None" "[] \<notin> fst ` set kvs" "k \<notin> fst ` set kvs" "length kvs < cap"
  shows "lookup (stores kvs (store k v s)) k = Some v"
proof -
  have "k \<notin> set (keys s)" using assms(1,3) keys_lookup by simp
  then have self: "k \<in> set (keys (store k v s))" "younger k (keys (store k v s)) = 0"
    using fifoKeys_self[OF cap_pos] keys_bound[OF assms(1)] store_keys[OF assms(1,2)] by auto
  with store_lookup[OF assms(1,2) self(1)] store_inv[OF assms(1,2)] assms(4-6)
  show ?thesis by (intro stores_keep) auto
qed

end

end
