(* ===== verification/H248_Server.thy ===== *)
theory H248_Server
  imports H248_Interop Txn_Cache Transitions
begin

text \<open>
  The H.248 UDP server (\<^verbatim>\<open>internal/h248/server.go\<close>): the gate that admits datagrams, the reply
  cache that answers retransmissions, and the registration client with its retries, its activity
  watchdog and its fail-over between controllers.

  One call of an operation is one atomic step: each critical section of the source holds its mutex.
  The state is a record; the channel of registration results is its buffer, a list of at most 16
  elements; the reply cache is a map together with the order of insertion.  Writes to the socket
  are part of the result of an operation.
\<close>

subsection \<open>State\<close>

record h248_server_config =
  hcAddress :: string
  hcDevice :: string
  hcMGC :: string
  hcBackupMGC :: string
  hcMID :: string
  hcVersion :: int
  hcMethod :: string
  hcReason :: string
  hcProfile :: string
  hcSCAddress :: string
  hcRetrySeconds :: int
  hcMaxAttempts :: int
  hcFailureTimeoutSeconds :: int
  hcPhysicalTermination :: string

record registration_result =
  rrTID :: string
  rrAccepted :: bool

record h248_server =
  hsConfig :: h248_server_config
  serviceChangeTID :: string
  serviceChangeRemote :: string
  serviceChangeReply :: "registration_result list"
  activeMGC :: string
  lastMGCActivity :: int
  registered :: bool
  replyCache :: "string \<rightharpoonup> string"
  cacheOrder :: "string list"

definition NewUDPServer :: "h248_server_config \<Rightarrow> h248_server" where
  "NewUDPServer config = \<lparr> hsConfig = config, serviceChangeTID = [], serviceChangeRemote = [],
     serviceChangeReply = [], activeMGC = [], lastMGCActivity = 0, registered = False,
     replyCache = Map.empty, cacheOrder = [] \<rparr>"

text \<open>The responder handed to the bridge: where a reply goes and under which key it is cached.\<close>

record h248_responder =
  rpRemote :: udp_addr
  rpCacheKey :: string

subsection \<open>Reply cache\<close>

definition maxCachedTransactions :: nat where
  "maxCachedTransactions = 4096"

definition cachedReply :: "string \<Rightarrow> h248_server \<Rightarrow> string" where
  "cachedReply key s =
     (if key = ''/'' then [] else (case replyCache s key of None \<Rightarrow> [] | Some m \<Rightarrow> m))"

definition cacheReply :: "string \<Rightarrow> string \<Rightarrow> h248_server \<Rightarrow> h248_server" where
  "cacheReply key message s =
     (if key = [] then s
      else
        (let order = (if replyCache s key = None then cacheOrder s @ [key] else cacheOrder s);
             cache = (replyCache s)(key \<mapsto> message)
         in if length order > maxCachedTransactions
            then s\<lparr>cacheOrder := tl order, replyCache := cache(hd order := None)\<rparr>
            else s\<lparr>cacheOrder := order, replyCache := cache\<rparr>))"

text \<open>\<^verbatim>\<open>udpResponder.Respond\<close>: the reply is cached before it is written; the datagram is the second
  component.\<close>

definition Respond :: "h248_responder \<Rightarrow> string \<Rightarrow> h248_server \<Rightarrow> h248_server \<times> (string \<times> udp_addr)" where
  "Respond r message s = (cacheReply (rpCacheKey r) message s, (message, rpRemote r))"

subsection \<open>Admission of datagrams\<close>

definition auditOnly :: "h248_message \<Rightarrow> bool" where
  "auditOnly message \<longleftrightarrow> msgCommands message \<noteq> [] \<and>
     list_all (\<lambda>c. cmdName c = ''AuditValue'' \<or> cmdName c = ''AuditCapabilities'') (msgCommands message)"

definition expectedMGCAddress :: "h248_server \<Rightarrow> string" where
  "expectedMGCAddress s = (if activeMGC s = [] then serviceChangeRemote s else activeMGC s)"

definition noteMGCActivity :: "int \<Rightarrow> udp_addr \<Rightarrow> h248_server \<Rightarrow> h248_server" where
  "noteMGCActivity now remote s =
     (if activeMGC s = addrString remote then s\<lparr>lastMGCActivity := now\<rparr> else s)"

definition isResponse :: "h248_message \<Rightarrow> bool" where
  "isResponse msg \<longleftrightarrow> msgType msg = ''Reply'' \<or> msgType msg = ''Pending''"

text \<open>The guard that drops a message from outside the active registration.\<close>

definition outsideRegistration :: "udp_addr \<Rightarrow> h248_message \<Rightarrow> h248_server \<Rightarrow> bool" where
  "outsideRegistration remote msg s \<longleftrightarrow>
     (let expected = expectedMGCAddress s;
          managed = (TrimSpace (hcMGC (hsConfig s)) \<noteq> [])
      in ((expected \<noteq> [] \<and> addrString remote \<noteq> expected) \<or> (managed \<and> expected = [])) \<and>
         (isResponse msg \<or> \<not> auditOnly msg))"

text \<open>What the server does with a datagram.\<close>

datatype h248_outcome =
    DropInvalid h248_error
  | DropOutside
  | RegistrationResponse
  | LifecycleResponse h248_message h248_responder
  | UnmatchedResponse
  | Duplicate string udp_addr
  | Dispatch h248_message h248_responder

definition registrationChannelCap :: nat where
  "registrationChannelCap = 16"

definition offerResult :: "registration_result \<Rightarrow> h248_server \<Rightarrow> h248_server" where
  "offerResult r s =
     (if length (serviceChangeReply s) < registrationChannelCap
      then s\<lparr>serviceChangeReply := serviceChangeReply s @ [r]\<rparr> else s)"

definition handleResponse :: "bool \<Rightarrow> h248_message \<Rightarrow> udp_addr \<Rightarrow> h248_server \<Rightarrow> h248_server \<times> h248_outcome" where
  "handleResponse lifecycle msg remote s =
     (if msgTID msg = serviceChangeTID s \<and> addrString remote = serviceChangeRemote s then
        ((if msgType msg = ''Reply''
          then offerResult \<lparr> rrTID = msgTID msg, rrAccepted = (msgError msg = []) \<rparr> s else s),
         RegistrationResponse)
      else if lifecycle then
        (s, LifecycleResponse msg \<lparr> rpRemote = remote, rpCacheKey = [] \<rparr>)
      else (s, UnmatchedResponse))"

definition requestKey :: "udp_addr \<Rightarrow> h248_message \<Rightarrow> string" where
  "requestKey remote msg = (if msgTID msg \<noteq> [] then addrString remote @ ''/'' @ msgTID msg else [])"

definition handleRequest :: "h248_message \<Rightarrow> udp_addr \<Rightarrow> h248_server \<Rightarrow> h248_outcome" where
  "handleRequest msg remote s =
     (let key = requestKey remote msg; cached = cachedReply key s in
      if cached \<noteq> [] then Duplicate cached remote
      else Dispatch msg \<lparr> rpRemote = remote, rpCacheKey = key \<rparr>)"

text \<open>\<open>lifecycle\<close>: whether the handler implements \<^verbatim>\<open>LifecycleHandler\<close>; \<open>now\<close>: the time.\<close>

definition handle :: "bool \<Rightarrow> int \<Rightarrow> string \<Rightarrow> udp_addr \<Rightarrow> h248_server \<Rightarrow> h248_server \<times> h248_outcome" where
  "handle lifecycle now data remote s =
     (case Parse data of
        Inl e \<Rightarrow> (s, DropInvalid e)
      | Inr msg \<Rightarrow>
          if outsideRegistration remote msg s then (s, DropOutside)
          else
            (let s' = noteMGCActivity now remote s in
             if isResponse msg then handleResponse lifecycle msg remote s'
             else (s', handleRequest msg remote s')))"

subsection \<open>Registration\<close>

definition setActiveMGC :: "int \<Rightarrow> udp_addr \<Rightarrow> h248_server \<Rightarrow> h248_server" where
  "setActiveMGC now remote s = s\<lparr>activeMGC := addrString remote, lastMGCActivity := now\<rparr>"

definition clearActiveMGC :: "udp_addr option \<Rightarrow> h248_server \<Rightarrow> h248_server" where
  "clearActiveMGC remote s =
     (case remote of
        None \<Rightarrow> s\<lparr>activeMGC := [], lastMGCActivity := 0\<rparr>
      | Some r \<Rightarrow> if activeMGC s = addrString r then s\<lparr>activeMGC := [], lastMGCActivity := 0\<rparr> else s)"

definition clearRegistrationTransaction :: "string \<Rightarrow> h248_server \<Rightarrow> h248_server" where
  "clearRegistrationTransaction tid s =
     (if serviceChangeTID s = tid then s\<lparr>serviceChangeTID := [], serviceChangeRemote := []\<rparr> else s)"

definition advertisedAddress :: "string \<Rightarrow> string" where
  "advertisedAddress address =
     (case SplitHostPort address of
        Inl e \<Rightarrow> []
      | Inr (host, p) \<Rightarrow>
          if host = [] \<or> Trim host ''0.'' = [] then []
          else if ParseIP host \<noteq> None then ''['' @ host @ '']:'' @ p
          else host @ '':'' @ p)"

text \<open>What ends one attempt: the context is cancelled, a result arrives on the channel, or the timer
  fires.  The outcome \<open>Waiting\<close> is that of a run whose list of events has ended.\<close>

datatype reg_event = CtxDone | ResultArrives registration_result | TimerFires

datatype reg_outcome = Accepted | Rejected | TimedOut | Cancelled | Waiting

definition maxRetryDelay :: int where
  "maxRetryDelay = 30 * Second"

definition nextDelay :: "int \<Rightarrow> int" where
  "nextDelay delay =
     (if delay < maxRetryDelay
      then (if 2 * delay > maxRetryDelay then maxRetryDelay else 2 * delay) else delay)"

text \<open>The attempt loop; each element of the second component is a request sent and the delay armed
  after it.\<close>

fun attemptLoop :: "string \<Rightarrow> nat \<Rightarrow> int \<Rightarrow> reg_event list \<Rightarrow> reg_outcome \<times> int list" where
  "attemptLoop tid 0 delay evs = (TimedOut, [])"
| "attemptLoop tid (Suc n) delay [] = (Waiting, [delay])"
| "attemptLoop tid (Suc n) delay (CtxDone # evs) = (Cancelled, [delay])"
| "attemptLoop tid (Suc n) delay (ResultArrives r # evs) =
     (if rrTID r \<noteq> tid
      then (case attemptLoop tid n delay evs of (out, sent) \<Rightarrow> (out, delay # sent))
      else ((if rrAccepted r then Accepted else Rejected), [delay]))"
| "attemptLoop tid (Suc n) delay (TimerFires # evs) =
     (case attemptLoop tid n (nextDelay delay) evs of (out, sent) \<Rightarrow> (out, delay # sent))"

definition retryDelay :: "h248_server_config \<Rightarrow> int" where
  "retryDelay c = (let r = seconds (hcRetrySeconds c) in if r \<le> 0 then 5 * Second else r)"

definition maxAttempts :: "h248_server_config \<Rightarrow> int" where
  "maxAttempts c = (if hcMaxAttempts c \<le> 0 then 3 else hcMaxAttempts c)"

definition serviceChangeRequest :: "h248_server_config \<Rightarrow> string \<Rightarrow> string \<Rightarrow> string" where
  "serviceChangeRequest c tid termination =
     (let root = EqualFold termination ''ROOT'' in
      BuildServiceChange \<lparr> scVersion = hcVersion c, scMID = hcMID c, scRawMID = False, scTID = tid,
        scTermination = termination, scMethod = hcMethod c, scReason = hcReason c,
        scProfile = (if root then hcProfile c else []),
        scAddress = (if root then (if hcSCAddress c = [] then advertisedAddress (hcAddress c)
                                   else hcSCAddress c) else []) \<rparr>)"

text \<open>The result: the state, the outcome, the request and the delays after each time it was sent.\<close>

definition registerTermination ::
  "int \<Rightarrow> udp_addr \<Rightarrow> string \<Rightarrow> reg_event list \<Rightarrow> h248_server \<Rightarrow>
     h248_server \<times> reg_outcome \<times> string \<times> int list" where
  "registerTermination now remote termination evs s =
     (let c = hsConfig s;
          tid = Itoa (now mod 2 ^ 31);
          s' = s\<lparr>serviceChangeTID := tid, serviceChangeRemote := addrString remote\<rparr>;
          (out, sent) = attemptLoop tid (nat (maxAttempts c)) (retryDelay c) evs
      in (s', out, serviceChangeRequest c tid termination, sent))"

text \<open>
  \<^verbatim>\<open>serviceChangeLoop\<close>: ROOT, then the physical termination.  The times are those of the two
  registrations and of the activation; the first component is the truth value the source returns,
  the last one tells whether the handler is told that the line is ready.
\<close>

definition serviceChangeLoop ::
  "int \<Rightarrow> int \<Rightarrow> int \<Rightarrow> udp_addr \<Rightarrow> reg_event list \<Rightarrow> reg_event list \<Rightarrow> h248_server \<Rightarrow>
     h248_server \<times> bool \<times> (string \<times> int list) list" where
  "serviceChangeLoop now1 now2 now3 remote evs1 evs2 s =
     (case registerTermination now1 remote ''ROOT'' evs1 s of (s1, out1, req1, sent1) \<Rightarrow>
        if out1 \<noteq> Accepted then (s1, False, [(req1, sent1)])
        else
          (let term = TrimSpace (hcPhysicalTermination (hsConfig s1));
               activate = (\<lambda>t. clearRegistrationTransaction (serviceChangeTID t)
                                 (setActiveMGC now3 remote (t\<lparr>registered := True\<rparr>)))
           in if term = [] then (activate s1, True, [(req1, sent1)])
              else (case registerTermination now2 remote term evs2 s1 of (s2, out2, req2, sent2) \<Rightarrow>
                      if out2 \<noteq> Accepted then (s2, False, [(req1, sent1), (req2, sent2)])
                      else (activate s2, True, [(req1, sent1), (req2, sent2)]))))"

subsection \<open>The activity watchdog\<close>

definition failureTimeout :: "h248_server_config \<Rightarrow> int" where
  "failureTimeout c =
     (let t = seconds (hcFailureTimeoutSeconds c) in if t \<le> 0 then 360 * Second else t)"

definition watchInterval :: "h248_server_config \<Rightarrow> int" where
  "watchInterval c =
     (let i = failureTimeout c div 4;
          i1 = (if i < 100 * Millisecond then 100 * Millisecond else i)
      in if i1 > 5 * Second then 5 * Second else i1)"

text \<open>One tick of \<^verbatim>\<open>waitForMGCFailure\<close>: true when the controller is given up.\<close>

definition watchTick :: "int \<Rightarrow> udp_addr \<Rightarrow> h248_server \<Rightarrow> bool" where
  "watchTick now remote s \<longleftrightarrow>
     activeMGC s \<noteq> addrString remote \<or> now - lastMGCActivity s \<ge> failureTimeout (hsConfig s)"

text \<open>What the registration loop does to the server when the watchdog gave the controller up.\<close>

definition giveUpMGC :: "udp_addr \<Rightarrow> h248_server \<Rightarrow> h248_server" where
  "giveUpMGC remote s = clearActiveMGC (Some remote) (s\<lparr>registered := False\<rparr>)"

subsection \<open>Fail-over\<close>

text \<open>
  \<^verbatim>\<open>registrationLoop\<close> as a machine over the candidates \<open>0, \<dots>, n - 1\<close>: where the round started, how
  far it is, and the candidates tried so far.  A candidate either fails to register, or registers
  and is given up later; the third event is the end of the context.
\<close>

record reg_loop =
  rlStart :: nat
  rlOffset :: nat
  rlTried :: "nat list"
  rlPauses :: nat
  rlDone :: bool

datatype cand_event = CandFails | CandGivenUp | LoopCancelled

definition rlIndex :: "nat \<Rightarrow> reg_loop \<Rightarrow> nat" where
  "rlIndex n l = (rlStart l + rlOffset l) mod n"

definition registrationStep :: "nat \<Rightarrow> reg_loop \<Rightarrow> cand_event \<Rightarrow> reg_loop" where
  "registrationStep n l ev =
     (if rlDone l \<or> n = 0 then l\<lparr>rlDone := True\<rparr>
      else
        (let i = rlIndex n l; l' = l\<lparr>rlTried := rlTried l @ [i]\<rparr> in
         case ev of
           LoopCancelled \<Rightarrow> l'\<lparr>rlDone := True\<rparr>
         | CandGivenUp \<Rightarrow> l'\<lparr>rlStart := (i + 1) mod n, rlOffset := 0\<rparr>
         | CandFails \<Rightarrow>
             if rlOffset l + 1 < n then l'\<lparr>rlOffset := rlOffset l + 1\<rparr>
             else l'\<lparr>rlOffset := 0, rlPauses := rlPauses l + 1\<rparr>))"

definition registrationRun :: "nat \<Rightarrow> cand_event list \<Rightarrow> reg_loop" where
  "registrationRun n evs =
     foldl (registrationStep n)
       \<lparr> rlStart = 0, rlOffset = 0, rlTried = [], rlPauses = 0, rlDone = False \<rparr> evs"

text \<open>The candidates: primary and backup address, blank ones left out, resolved by the host.\<close>

definition registrationRemotes :: "(string \<Rightarrow> udp_addr option) \<Rightarrow> h248_server_config \<Rightarrow> udp_addr list option" where
  "registrationRemotes resolve c =
     (if hcMGC c = [] then Some []
      else those (map resolve (filter (\<lambda>a. TrimSpace a \<noteq> []) [hcMGC c, hcBackupMGC c])))"

subsection \<open>The reply cache implements the contract\<close>

definition h248CacheInv :: "h248_server \<Rightarrow> bool" where
  "h248CacheInv s \<longleftrightarrow> distinct (cacheOrder s) \<and> set (cacheOrder s) = dom (replyCache s) \<and>
     length (cacheOrder s) \<le> maxCachedTransactions \<and> [] \<notin> set (cacheOrder s)"

lemma maxCachedTransactions_pos [simp]: "0 < maxCachedTransactions"
  by (simp add: maxCachedTransactions_def)

lemma cacheReply_order:
  assumes "h248CacheInv s" "k \<noteq> []"
  shows "cacheOrder (cacheReply k m s) = fifoKeys maxCachedTransactions k (cacheOrder s)"
proof (cases "replyCache s k = None \<and> length (cacheOrder s) = maxCachedTransactions")
  case True
  then have "k \<notin> set (cacheOrder s)" using assms by (auto simp: h248CacheInv_def)
  moreover from True maxCachedTransactions_pos obtain x xs where "cacheOrder s = x # xs"
    by (cases "cacheOrder s") auto
  ultimately show ?thesis using True assms
    by (auto simp: cacheReply_def Let_def fifoKeys_def drop_Suc)
next
  case False
  with assms show ?thesis
    by (auto simp: cacheReply_def h248CacheInv_def fifoKeys_def domIff split: if_splits)
qed

lemma cacheReply_cache:
  assumes "h248CacheInv s" "k \<noteq> []"
  shows "replyCache (cacheReply k m s) =
    ((replyCache s)(k \<mapsto> m)) |` set (fifoKeys maxCachedTransactions k (cacheOrder s))"
proof (cases "replyCache s k = None \<and> length (cacheOrder s) = maxCachedTransactions")
  case True
  then have new: "k \<notin> set (cacheOrder s)" using assms by (auto simp: h248CacheInv_def)
  from True maxCachedTransactions_pos obtain x xs where ks: "cacheOrder s = x # xs"
    by (cases "cacheOrder s") auto
  have "x \<notin> set xs" "set (x # xs) = dom (replyCache s)" using assms(1) ks by (auto simp: h248CacheInv_def)
  with True new ks assms(2) show ?thesis
    by (auto simp: cacheReply_def Let_def fifoKeys_def restrict_map_def fun_eq_iff drop_Suc)
next
  case False
  with assms show ?thesis
    by (auto simp: cacheReply_def h248CacheInv_def fifoKeys_def restrict_map_def fun_eq_iff domIff split: if_splits)
qed

lemma cacheReply_inv:
  assumes "h248CacheInv s"
  shows "h248CacheInv (cacheReply k m s)"
proof (cases "k = []")
  case True
  with assms show ?thesis by (simp add: cacheReply_def)
next
  case False
  let ?ks = "fifoKeys maxCachedTransactions k (cacheOrder s)"
  have sub: "set ?ks \<subseteq> insert k (set (cacheOrder s))"
    by (auto simp: fifoKeys_def Let_def dest: in_set_dropD)
  then have dom: "set ?ks \<subseteq> dom ((replyCache s)(k \<mapsto> m))" using assms by (auto simp: h248CacheInv_def)
  have "[] \<notin> set ?ks" using assms False sub by (auto simp: h248CacheInv_def)
  moreover have "distinct ?ks" "length ?ks \<le> maxCachedTransactions"
    using assms fifoKeys_length fifoKeys_distinct by (auto simp: h248CacheInv_def)
  ultimately show ?thesis
    unfolding h248CacheInv_def cacheReply_order[OF assms False] cacheReply_cache[OF assms False] dom_restrict
    using dom by auto
qed

interpretation h248_cache: txn_cache h248CacheInv cacheOrder replyCache cacheReply maxCachedTransactions
proof unfold_locales
  fix s k k' and v :: string
  assume "h248CacheInv s" "k \<noteq> []" "k' \<in> set (cacheOrder (cacheReply k v s))"
  then show "replyCache (cacheReply k v s) k' = (if k' = k then Some v else replyCache s k')"
    by (simp add: cacheReply_cache cacheReply_order restrict_map_def)
qed (simp_all add: cacheReply_inv cacheReply_order, auto simp: h248CacheInv_def)

subsection \<open>Dispatch\<close>

lemma handle_frame [simp]:
  "replyCache (fst (handle l now data remote s)) = replyCache s"
  "cacheOrder (fst (handle l now data remote s)) = cacheOrder s"
  "hsConfig (fst (handle l now data remote s)) = hsConfig s"
  "activeMGC (fst (handle l now data remote s)) = activeMGC s"
  by (auto simp: handle_def handleResponse_def offerResult_def noteMGCActivity_def Let_def
      split: sum.split)

lemma cacheReply_frame [simp]:
  "hsConfig (cacheReply k m s) = hsConfig s" "activeMGC (cacheReply k m s) = activeMGC s"
  "serviceChangeRemote (cacheReply k m s) = serviceChangeRemote s"
  "serviceChangeTID (cacheReply k m s) = serviceChangeTID s"
  by (simp_all add: cacheReply_def Let_def)

lemma outsideRegistration_cache [simp]:
  "outsideRegistration remote msg (cacheReply k m s) = outsideRegistration remote msg s"
  by (simp add: outsideRegistration_def expectedMGCAddress_def Let_def)

lemma outsideRegistration_stores [simp]:
  "outsideRegistration remote msg (fold (\<lambda>kv. cacheReply (fst kv) (snd kv)) kvs s) =
   outsideRegistration remote msg s"
  by (induction kvs arbitrary: s) simp_all

lemma requestKey_proper: "msgTID msg \<noteq> [] \<Longrightarrow> requestKey remote msg \<noteq> [] \<and> requestKey remote msg \<noteq> ''/''"
  by (auto simp: requestKey_def append_eq_Cons_conv)

lemma handle_duplicate:
  assumes "Parse data = Inr msg" "\<not> isResponse msg" "msgTID msg \<noteq> []" "\<not> outsideRegistration remote msg s"
    "replyCache s (requestKey remote msg) = Some m" "m \<noteq> []"
  shows "snd (handle l now data remote s) = Duplicate m remote"
proof -
  have "replyCache (noteMGCActivity now remote s) = replyCache s" by (simp add: noteMGCActivity_def)
  with assms requestKey_proper[of msg remote] show ?thesis
    by (simp add: handle_def handleRequest_def cachedReply_def Let_def)
qed

text \<open>The datagrams whose message reaches the bridge or the registration client.\<close>

definition admitted :: "h248_outcome \<Rightarrow> bool" where
  "admitted out = (case out of DropInvalid err \<Rightarrow> False | DropOutside \<Rightarrow> False | _ \<Rightarrow> True)"

lemma handle_admitted:
  assumes "admitted (snd (handle l now data remote s))" "TrimSpace (hcMGC (hsConfig s)) \<noteq> []"
  shows "\<exists>msg. Parse data = Inr msg \<and>
    (expectedMGCAddress s = addrString remote \<and> expectedMGCAddress s \<noteq> [] \<or> \<not> isResponse msg \<and> auditOnly msg)"
proof (cases "Parse data")
  case (Inl err)
  with assms show ?thesis by (simp add: handle_def admitted_def)
next
  case (Inr msg)
  with assms have "\<not> outsideRegistration remote msg s"
    by (auto simp: handle_def admitted_def Let_def split: if_splits)
  with Inr assms(2) show ?thesis by (auto simp: outsideRegistration_def Let_def)
qed

subsection \<open>Registration attempts\<close>

lemma nextDelay_bounds: "0 < d \<Longrightarrow> d \<le> nextDelay d \<and> nextDelay d \<le> max d maxRetryDelay"
  by (auto simp: nextDelay_def)

lemma attemptLoop_sent:
  assumes "0 < d"
  shows "length (snd (attemptLoop tid n d evs)) \<le> n \<and> sorted (snd (attemptLoop tid n d evs)) \<and>
    (\<forall>x\<in>set (snd (attemptLoop tid n d evs)). d \<le> x \<and> x \<le> max d maxRetryDelay)"
  using assms
proof (induction tid n d evs rule: attemptLoop.induct)
  case (5 tid n d evs)
  have "0 < nextDelay d" using nextDelay_bounds[OF 5(2)] 5(2) by simp
  from 5(1)[OF this] nextDelay_bounds[OF 5(2)] show ?case
    by (force split: prod.split)
next
  case (4 tid n d r evs)
  then show ?case by (auto split: prod.splits)
qed auto

lemma attemptLoop_accepted:
  "fst (attemptLoop tid n d evs) = Accepted \<Longrightarrow> \<exists>r. ResultArrives r \<in> set evs \<and> rrTID r = tid \<and> rrAccepted r"
  by (induction tid n d evs rule: attemptLoop.induct) (auto split: prod.splits if_splits)

lemma attemptLoop_silent:
  "(\<forall>ev\<in>set evs. ev = TimerFires) \<Longrightarrow> n \<le> length evs \<Longrightarrow>
     fst (attemptLoop tid n d evs) = TimedOut \<and> length (snd (attemptLoop tid n d evs)) = n"
  by (induction tid n d evs rule: attemptLoop.induct) (auto split: prod.splits)

lemma watchInterval_bounds:
  "100 * Millisecond \<le> watchInterval c \<and> watchInterval c \<le> 5 * Second"
  by (simp add: watchInterval_def Let_def)

subsection \<open>Fail-over\<close>

lemma registrationRun_snoc: "registrationRun n (evs @ [ev]) = registrationStep n (registrationRun n evs) ev"
  by (simp add: registrationRun_def)

lemma registrationRun_next:
  assumes "0 < n" "LoopCancelled \<notin> set evs"
  shows "rlTried (registrationRun n evs) = map (\<lambda>j. j mod n) [0..<length evs] \<and>
    rlIndex n (registrationRun n evs) = length evs mod n \<and> \<not> rlDone (registrationRun n evs) \<and>
    rlOffset (registrationRun n evs) < n"
  using assms(2)
proof (induction evs rule: rev_induct)
  case Nil
  then show ?case using assms(1) by (simp add: registrationRun_def rlIndex_def)
next
  case (snoc ev evs)
  let ?l = "registrationRun n evs"
  have IH: "rlTried ?l = map (\<lambda>j. j mod n) [0..<length evs]" "rlIndex n ?l = length evs mod n" "\<not> rlDone ?l"
    "rlOffset ?l < n" using snoc by auto
  have suc: "(length evs mod n + 1) mod n = Suc (length evs) mod n" by (simp add: mod_simps)
  have wrap: "rlStart ?l mod n = Suc (length evs) mod n" if "\<not> rlOffset ?l + 1 < n"
  proof -
    have "rlOffset ?l = n - 1" using that IH(4) by simp
    then have "(rlStart ?l + n - 1) mod n = length evs mod n" using IH(2) assms(1) by (simp add: rlIndex_def)
    then have "(rlStart ?l + n - 1 + 1) mod n = (length evs + 1) mod n" by (metis mod_add_left_eq)
    then show ?thesis using assms(1) by simp
  qed
  have stay: "(rlStart ?l + (rlOffset ?l + 1)) mod n = Suc (length evs) mod n"
    using IH(2) suc unfolding rlIndex_def by (metis add.assoc mod_add_left_eq)
  show ?case
    using IH suc wrap stay assms(1) snoc.prems
    by (cases ev) (auto simp: registrationRun_snoc registrationStep_def Let_def rlIndex_def)
qed

subsection \<open>Reachable states of the server\<close>

text \<open>The steps of the server: a datagram, a reply of the bridge, and the registration client.\<close>

inductive serverStep :: "h248_server \<Rightarrow> h248_server \<Rightarrow> bool" where
  datagram: "serverStep s (fst (handle l now data remote s))"
| reply: "serverStep s (fst (Respond rp m s))"
| register: "serverStep s (fst (serviceChangeLoop t1 t2 t3 remote evs1 evs2 s))"
| giveUp: "serverStep s (giveUpMGC remote s)"

lemma registerTermination_cache:
  "registerTermination t remote tm evs s = (s', x) \<Longrightarrow> replyCache s' = replyCache s \<and> cacheOrder s' = cacheOrder s"
  by (auto simp: registerTermination_def Let_def split: prod.splits)

lemma serviceChangeLoop_cache [simp]:
  "replyCache (fst (serviceChangeLoop t1 t2 t3 remote evs1 evs2 s)) = replyCache s"
  "cacheOrder (fst (serviceChangeLoop t1 t2 t3 remote evs1 evs2 s)) = cacheOrder s"
  by (auto simp: serviceChangeLoop_def clearRegistrationTransaction_def setActiveMGC_def Let_def
      dest!: registerTermination_cache split: prod.split)

lemma giveUpMGC_cache [simp]:
  "replyCache (giveUpMGC remote s) = replyCache s" "cacheOrder (giveUpMGC remote s) = cacheOrder s"
  by (simp_all add: giveUpMGC_def clearActiveMGC_def)

interpretation server: transition_invariant serverStep h248CacheInv
proof unfold_locales
  fix s s'
  assume "serverStep s s'" "h248CacheInv s"
  then show "h248CacheInv s'"
    by (induction rule: serverStep.induct) (auto simp: Respond_def intro: cacheReply_inv,
        auto simp: h248CacheInv_def)
qed

lemma NewUDPServer_inv: "h248CacheInv (NewUDPServer c)"
  by (simp add: NewUDPServer_def h248CacheInv_def)

subsection \<open>A server in service\<close>

definition demoServerConfig :: h248_server_config where
  "demoServerConfig = \<lparr> hcAddress = ''192.0.2.1:2944'', hcDevice = [], hcMGC = ''192.0.2.9:2944'', hcBackupMGC = [],
     hcMID = ''[192.0.2.1]:2944'', hcVersion = 1, hcMethod = ''Restart'', hcReason = ''901'', hcProfile = [],
     hcSCAddress = [], hcRetrySeconds = 5, hcMaxAttempts = 3, hcFailureTimeoutSeconds = 360,
     hcPhysicalTermination = ''A0'' \<rparr>"

definition demoController :: udp_addr where
  "demoController = \<lparr> ip = ''192.0.2.9'', port = 2944, zone = [] \<rparr>"

definition demoDatagram :: string where
  "demoDatagram = ''!/1 [192.0.2.9]:2944 T=5{C=-{AV=A0{}}}''"


definition demoMessage :: h248_message where
  "demoMessage = projr (Parse demoDatagram)"

lemma demo_parses: "\<not> isl (Parse demoDatagram) \<and> msgTID demoMessage = ''5'' \<and> msgType demoMessage = ''Transaction'' \<and> auditOnly demoMessage"
  by code_simp

lemma demo_parse: "Parse demoDatagram = Inr demoMessage" 
  using demo_parses by (simp add: demoMessage_def)

definition demoServer :: h248_server where
  "demoServer = (NewUDPServer demoServerConfig)\<lparr>activeMGC := ''192.0.2.9:2944'', lastMGCActivity := 1, registered := True\<rparr>"

lemma demo_inside: "expectedMGCAddress demoServer = addrString demoController" by code_simp

lemma demo_server: "h248CacheInv demoServer" "\<not> isResponse demoMessage" "msgTID demoMessage \<noteq> []"
    "\<not> outsideRegistration demoController demoMessage demoServer" "replyCache demoServer k = None"
  using demo_parses demo_inside
  by (simp_all add: demoServer_def NewUDPServer_def h248CacheInv_def isResponse_def outsideRegistration_def Let_def)

subsection \<open>Properties\<close>

lemma h248_cache_bounds:
  assumes "serverStep\<^sup>*\<^sup>* (NewUDPServer c) s"
  shows "distinct (cacheOrder s) \<and> set (cacheOrder s) = dom (replyCache s) \<and> card (dom (replyCache s)) \<le> 4096 \<and>
    replyCache s [] = None"
proof -
  have inv: "h248CacheInv s" using server.steps_inv[OF assms NewUDPServer_inv] .
  then have "card (set (cacheOrder s)) = length (cacheOrder s)"
    unfolding h248CacheInv_def by (blast intro: distinct_card)
  with inv show ?thesis by (auto simp: h248CacheInv_def maxCachedTransactions_def)
qed

text \<open>C22: When a controller is configured, a datagram reaches the bridge or the registration client only
  if it comes from the controller the gateway is registered (or registering) with, or is a request that
  consists of audit commands only.\<close>

theorem only_active_mgc_admitted:
  assumes "admitted (snd (handle l now data remote s))" "TrimSpace (hcMGC (hsConfig s)) \<noteq> []"
  shows "\<exists>msg. Parse data = Inr msg \<and>
    (expectedMGCAddress s = addrString remote \<and> expectedMGCAddress s \<noteq> [] \<or> \<not> isResponse msg \<and> auditOnly msg)"
  using assms by (rule handle_admitted)

theorem only_active_mgc_admitted_witness:
  "admitted (snd (handle True 9 demoDatagram demoController demoServer)) \<and>
   TrimSpace (hcMGC (hsConfig demoServer)) \<noteq> [] \<and>
   (\<exists>msg. Parse demoDatagram = Inr msg \<and>
      (expectedMGCAddress demoServer = addrString demoController \<and> expectedMGCAddress demoServer \<noteq> [] \<or>
       \<not> isResponse msg \<and> auditOnly msg))"
proof -
  have a: "admitted (snd (handle True 9 demoDatagram demoController demoServer))"
    using demo_server(2,4) by (simp add: handle_def demo_parse admitted_def handleRequest_def Let_def)
  have m: "TrimSpace (hcMGC (hsConfig demoServer)) \<noteq> []" by code_simp
  from only_active_mgc_admitted[OF a m] a m show ?thesis by blast
qed

text \<open>C23: One registration sends its ServiceChange at most \<^verbatim>\<open>ServiceChangeMaxAttempts\<close> times; the delays
  between the attempts never decrease, start at the configured retry time and do not exceed the larger of
  it and 30 seconds; it succeeds only when a result for its own transaction says so.\<close>

theorem registration_attempts_bounded:
  assumes "registerTermination now remote termination evs s = (s', out, request, sent)"
  shows "int (length sent) \<le> maxAttempts (hsConfig s) \<and> sorted sent \<and>
    (\<forall>d\<in>set sent. retryDelay (hsConfig s) \<le> d \<and> d \<le> max (retryDelay (hsConfig s)) maxRetryDelay) \<and>
    (out = Accepted \<longrightarrow> (\<exists>r. ResultArrives r \<in> set evs \<and> rrTID r = serviceChangeTID s' \<and> rrAccepted r))"
proof -
  let ?n = "nat (maxAttempts (hsConfig s))" and ?d = "retryDelay (hsConfig s)"
  have pos: "0 < ?d" "0 < maxAttempts (hsConfig s)" by (auto simp: retryDelay_def maxAttempts_def Let_def)
  obtain tid where loop: "attemptLoop tid ?n ?d evs = (out, sent)" and tid: "serviceChangeTID s' = tid"
    using assms by (auto simp: registerTermination_def Let_def split: prod.splits)
  from attemptLoop_sent[OF pos(1), of tid ?n evs] loop pos(2)
  have "int (length sent) \<le> maxAttempts (hsConfig s)" "sorted sent"
    "\<forall>d\<in>set sent. ?d \<le> d \<and> d \<le> max ?d maxRetryDelay" by auto
  moreover have "\<exists>r. ResultArrives r \<in> set evs \<and> rrTID r = tid \<and> rrAccepted r" if "out = Accepted"
    using attemptLoop_accepted[of tid ?n ?d evs] loop that by simp
  ultimately show ?thesis using tid by simp
qed

theorem registration_attempts_bounded_witness:
  "case registerTermination 77 demoController ''ROOT''
       [TimerFires, ResultArrives \<lparr> rrTID = ''77'', rrAccepted = True \<rparr>] demoServer of
     (s', out, request, sent) \<Rightarrow> out = Accepted \<and> sent = [5 * Second, 10 * Second] \<and>
       int (length sent) \<le> maxAttempts (hsConfig demoServer) \<and> sorted sent"
proof -
  let ?r = "registerTermination 77 demoController ''ROOT''
       [TimerFires, ResultArrives \<lparr> rrTID = ''77'', rrAccepted = True \<rparr>] demoServer"
  obtain s' out request sent where eq: "?r = (s', out, request, sent)" by (metis prod_cases4)
  have "fst (snd ?r) = Accepted \<and> snd (snd (snd ?r)) = [5 * Second, 10 * Second]" by code_simp
  with registration_attempts_bounded[OF eq] show ?thesis unfolding eq by simp
qed

text \<open>C24: The registration loop tries the controllers round robin: whether a candidate fails to register
  or registers and is given up later, the next one tried is its successor, so every candidate is tried
  within any \<open>n\<close> consecutive attempts.\<close>

theorem registration_round_robin:
  assumes "0 < n" "LoopCancelled \<notin> set evs"
  shows "rlTried (registrationRun n evs) = map (\<lambda>j. j mod n) [0..<length evs]"
  using registrationRun_next[OF assms] by blast

theorem registration_round_robin_witness:
  "rlTried (registrationRun 2 [CandFails, CandGivenUp, CandFails, CandFails]) = [0, 1, 0, 1]"
proof -
  have "rlTried (registrationRun 2 [CandFails, CandGivenUp, CandFails, CandFails]) =
      map (\<lambda>j. j mod 2) [0..<length [CandFails, CandGivenUp, CandFails, CandFails]]"
    by (rule registration_round_robin) simp_all
  then show ?thesis by (simp add: upt_rec)
qed



end
