(* ===== verification/Sip_Server.thy ===== *)
theory Sip_Server
  imports Sip_Message Txn_Cache Transitions
begin

text \<open>
  The SIP UDP server (\<^verbatim>\<open>internal/sip/server.go\<close>): the response cache of server transactions with
  its time to live, the table of transactions in flight, and the dispatch of a datagram.  As in the
  H.248 server one operation is one atomic step and the socket is part of the environment.
\<close>

subsection \<open>State\<close>

record cached_response =
  crMessage :: string
  crExpiresAt :: int

record sip_server =
  srListening :: bool
  responseCache :: "string \<rightharpoonup> cached_response"
  srCacheOrder :: "string list"
  inFlight :: "string \<rightharpoonup> int"

definition sipResponseCacheTTL :: int where
  "sipResponseCacheTTL = 5 * 60 * Second"

definition sipInFlightTTL :: int where
  "sipInFlightTTL = 32 * Second"

definition newSipServer :: sip_server where
  "newSipServer = \<lparr> srListening = False, responseCache = Map.empty, srCacheOrder = [],
     inFlight = Map.empty \<rparr>"

record sip_responder =
  srRemote :: udp_addr
  srCacheKey :: string

subsection \<open>Transactions\<close>

definition headerParameterValue :: "string \<Rightarrow> string \<Rightarrow> string" where
  "headerParameterValue value name =
     (case find (\<lambda>part. case Cut (TrimSpace part) ''='' of (key, param, ok) \<Rightarrow> ok \<and> EqualFold key name)
             (SplitByte (CHR '';'') value) of
        None \<Rightarrow> []
      | Some part \<Rightarrow> Trim (fst (snd (Cut (TrimSpace part) ''=''))) [DQ])"

definition sipTransactionKey :: "sip_message \<Rightarrow> udp_addr \<Rightarrow> string" where
  "sipTransactionKey message remote =
     (if smMethod message = [] then []
      else Join [addrString remote, ToUpper (smMethod message), CallID message,
                 Header message ''CSeq'', headerParameterValue (Header message ''Via'') ''branch''] ''|'')"

definition beginTransaction :: "int \<Rightarrow> string \<Rightarrow> sip_server \<Rightarrow> bool \<times> sip_server" where
  "beginTransaction now key s =
     (if key = [] then (True, s)
      else (case inFlight s key of
              Some expiresAt \<Rightarrow>
                if now < expiresAt then (False, s)
                else (True, s\<lparr>inFlight := (inFlight s)(key \<mapsto> now + sipInFlightTTL)\<rparr>)
            | None \<Rightarrow> (True, s\<lparr>inFlight := (inFlight s)(key \<mapsto> now + sipInFlightTTL)\<rparr>)))"

subsection \<open>Response cache\<close>

definition maxCachedResponses :: nat where
  "maxCachedResponses = 8192"

definition removeCachedKeyLocked :: "string \<Rightarrow> sip_server \<Rightarrow> sip_server" where
  "removeCachedKeyLocked key s = s\<lparr>srCacheOrder := filter (\<lambda>k. k \<noteq> key) (srCacheOrder s)\<rparr>"

definition cachedResponse :: "int \<Rightarrow> string \<Rightarrow> sip_server \<Rightarrow> string \<times> sip_server" where
  "cachedResponse now key s =
     (if key = [] then ([], s)
      else (case responseCache s key of
              None \<Rightarrow> ([], s)
            | Some entry \<Rightarrow>
                if now > crExpiresAt entry
                then ([], removeCachedKeyLocked key (s\<lparr>responseCache := (responseCache s)(key := None)\<rparr>))
                else (crMessage entry, s)))"

text \<open>The eviction loop: keys leave from the front until at most \<open>n\<close> are left.\<close>

fun evictTo :: "nat \<Rightarrow> string list \<Rightarrow> (string \<rightharpoonup> cached_response) \<Rightarrow> string list \<times> (string \<rightharpoonup> cached_response)" where
  "evictTo n [] cache = ([], cache)"
| "evictTo n (k # ks) cache =
     (if length (k # ks) > n then evictTo n ks (cache(k := None)) else (k # ks, cache))"

definition cacheResponse :: "int \<Rightarrow> string \<Rightarrow> string \<Rightarrow> sip_server \<Rightarrow> sip_server" where
  "cacheResponse now key message s =
     (if key = [] then s
      else
        (let order = (if responseCache s key = None then srCacheOrder s @ [key] else srCacheOrder s);
             cache = (responseCache s)(key \<mapsto> \<lparr> crMessage = message, crExpiresAt = now + sipResponseCacheTTL \<rparr>);
             (order', cache') = evictTo maxCachedResponses order cache
         in s\<lparr>srCacheOrder := order', responseCache := cache', inFlight := (inFlight s)(key := None)\<rparr>))"

definition sipRespond :: "int \<Rightarrow> sip_responder \<Rightarrow> string \<Rightarrow> sip_server \<Rightarrow> sip_server \<times> (string \<times> udp_addr)" where
  "sipRespond now r message s = (cacheResponse now (srCacheKey r) message s, (message, srRemote r))"

subsection \<open>Dispatch\<close>

datatype sip_outcome =
    SipDropInvalid sip_error
  | SipNotListening
  | SipDuplicate string udp_addr
  | SipInFlight
  | SipDispatch sip_message sip_responder

text \<open>\<open>now1\<close> and \<open>now2\<close> are the times of the two accesses to the cache.\<close>

definition sipHandle :: "int \<Rightarrow> int \<Rightarrow> string \<Rightarrow> udp_addr \<Rightarrow> sip_server \<Rightarrow> sip_server \<times> sip_outcome" where
  "sipHandle now1 now2 data remote s =
     (case sipParse data of
        Inl e \<Rightarrow> (s, SipDropInvalid e)
      | Inr msg0 \<Rightarrow>
          (let msg = msg0\<lparr>smSource := Some remote\<rparr> in
           if \<not> srListening s then (s, SipNotListening)
           else if smStatus msg = 0 \<and> \<not> EqualFold (smMethod msg) ''ACK'' then
             (let key = sipTransactionKey msg remote in
              case cachedResponse now1 key s of (cached, s1) \<Rightarrow>
                if cached \<noteq> [] then (s1, SipDuplicate cached remote)
                else (case beginTransaction now2 key s1 of (fresh, s2) \<Rightarrow>
                        if \<not> fresh then (s2, SipInFlight)
                        else (s2, SipDispatch msg \<lparr> srRemote = remote, srCacheKey = key \<rparr>)))
           else (s, SipDispatch msg \<lparr> srRemote = remote, srCacheKey = [] \<rparr>)))"

subsection \<open>The response cache implements the contract\<close>

definition sipCacheInv :: "sip_server \<Rightarrow> bool" where
  "sipCacheInv s \<longleftrightarrow> distinct (srCacheOrder s) \<and> set (srCacheOrder s) = dom (responseCache s) \<and>
     length (srCacheOrder s) \<le> maxCachedResponses \<and> [] \<notin> set (srCacheOrder s)"

text \<open>An entry as the contract sees it: the time of storing and the message.\<close>

definition sipLookup :: "sip_server \<Rightarrow> string \<Rightarrow> (int \<times> string) option" where
  "sipLookup s k = map_option (\<lambda>c. (crExpiresAt c - sipResponseCacheTTL, crMessage c)) (responseCache s k)"

definition sipStore :: "string \<Rightarrow> int \<times> string \<Rightarrow> sip_server \<Rightarrow> sip_server" where
  "sipStore k v s = cacheResponse (fst v) k (snd v) s"

lemma maxCachedResponses_pos [simp]: "0 < maxCachedResponses"
  by (simp add: maxCachedResponses_def)

lemma evictTo_drop: "fst (evictTo n ks cache) = drop (length ks - n) ks"
  by (induction ks arbitrary: cache) (auto simp: Suc_diff_le)

lemma evictTo_cache:
  "distinct ks \<Longrightarrow> snd (evictTo n ks cache) k = (if k \<in> set (take (length ks - n) ks) then None else cache k)"
  by (induction ks arbitrary: cache) (auto simp: Suc_diff_le)

lemma cacheResponse_order:
  assumes "sipCacheInv s" "k \<noteq> []"
  shows "srCacheOrder (cacheResponse t k m s) = fifoKeys maxCachedResponses k (srCacheOrder s)"
proof -
  have "k \<in> set (srCacheOrder s) \<longleftrightarrow> responseCache s k \<noteq> None" using assms by (auto simp: sipCacheInv_def)
  moreover have "srCacheOrder (cacheResponse t k m s) = fst (evictTo maxCachedResponses
      (if responseCache s k = None then srCacheOrder s @ [k] else srCacheOrder s)
      ((responseCache s)(k \<mapsto> \<lparr> crMessage = m, crExpiresAt = t + sipResponseCacheTTL \<rparr>)))"
    using assms(2) by (simp add: cacheResponse_def Let_def split: prod.split)
  ultimately show ?thesis by (simp add: evictTo_drop fifoKeys_def Let_def)
qed

lemma cacheResponse_cache:
  assumes "sipCacheInv s" "k \<noteq> []"
  shows "responseCache (cacheResponse t k m s) =
    ((responseCache s)(k \<mapsto> \<lparr> crMessage = m, crExpiresAt = t + sipResponseCacheTTL \<rparr>))
      |` set (fifoKeys maxCachedResponses k (srCacheOrder s))"
proof -
  define order where "order = (if responseCache s k = None then srCacheOrder s @ [k] else srCacheOrder s)"
  define cache where "cache = (responseCache s)(k \<mapsto> \<lparr> crMessage = m, crExpiresAt = t + sipResponseCacheTTL \<rparr>)"
  let ?n = "length order - maxCachedResponses"
  have mem: "k \<in> set (srCacheOrder s) \<longleftrightarrow> responseCache s k \<noteq> None"
    using assms by (auto simp: sipCacheInv_def)
  have d: "distinct order" and dom: "set order = dom cache"
    using assms mem by (auto simp: order_def cache_def sipCacheInv_def)
  have fifo: "fifoKeys maxCachedResponses k (srCacheOrder s) = drop ?n order"
    using mem by (simp add: fifoKeys_def order_def Let_def)
  have "set (take ?n order) \<inter> set (drop ?n order) = {}" "set (take ?n order) \<union> set (drop ?n order) = set order"
    using d set_take_disj_set_drop_if_distinct[of order ?n ?n] set_append[of "take ?n order" "drop ?n order"]
    by simp_all
  then have "snd (evictTo maxCachedResponses order cache) x = (cache |` set (drop ?n order)) x" for x
    using dom by (auto simp: evictTo_cache[OF d] restrict_map_def)
  moreover have "responseCache (cacheResponse t k m s) = snd (evictTo maxCachedResponses order cache)"
    using assms(2) by (simp add: cacheResponse_def order_def cache_def Let_def split: prod.split)
  ultimately show ?thesis by (simp add: fifo cache_def fun_eq_iff)
qed

lemma cacheResponse_inv:
  assumes "sipCacheInv s"
  shows "sipCacheInv (cacheResponse t k m s)"
proof (cases "k = []")
  case True
  with assms show ?thesis by (simp add: cacheResponse_def)
next
  case False
  let ?ks = "fifoKeys maxCachedResponses k (srCacheOrder s)"
  have sub: "set ?ks \<subseteq> insert k (set (srCacheOrder s))"
    by (auto simp: fifoKeys_def Let_def dest: in_set_dropD)
  then have dom: "set ?ks \<subseteq> dom ((responseCache s)(k \<mapsto> x))" for x using assms by (auto simp: sipCacheInv_def)
  have "[] \<notin> set ?ks" using assms False sub by (auto simp: sipCacheInv_def)
  moreover have "distinct ?ks" "length ?ks \<le> maxCachedResponses"
    using assms fifoKeys_length fifoKeys_distinct by (auto simp: sipCacheInv_def)
  ultimately show ?thesis
    unfolding sipCacheInv_def cacheResponse_order[OF assms False] cacheResponse_cache[OF assms False] dom_restrict
    using dom by auto
qed

interpretation sip_cache: txn_cache sipCacheInv srCacheOrder sipLookup sipStore maxCachedResponses
proof unfold_locales
  fix s k k' and v :: "int \<times> string"
  assume "sipCacheInv s" "k \<noteq> []" "k' \<in> set (srCacheOrder (sipStore k v s))"
  then show "sipLookup (sipStore k v s) k' = (if k' = k then Some v else sipLookup s k')"
    by (simp add: sipLookup_def sipStore_def cacheResponse_cache cacheResponse_order restrict_map_def)
qed (simp_all add: cacheResponse_inv cacheResponse_order sipStore_def sipLookup_def, auto simp: sipCacheInv_def)

subsection \<open>Lookups and transactions in flight\<close>

lemma cachedResponse_inv: "sipCacheInv s \<Longrightarrow> sipCacheInv (snd (cachedResponse now k s))"
  by (auto simp: cachedResponse_def removeCachedKeyLocked_def sipCacheInv_def split: option.split
      intro: order_trans[OF length_filter_le])

lemma cachedResponse_fresh:
  assumes "sipLookup s k = Some (t, m)" "k \<noteq> []" "now \<le> t + sipResponseCacheTTL"
  shows "cachedResponse now k s = (m, s)"
  using assms by (auto simp: cachedResponse_def sipLookup_def)

lemma beginTransaction_twice:
  assumes "beginTransaction t1 k s = (True, s1)" "k \<noteq> []" "t2 < t1 + sipInFlightTTL"
  shows "beginTransaction t2 k s1 = (False, s1)"
  using assms by (auto simp: beginTransaction_def split: option.splits if_splits)

lemma sipHandle_inv: "sipCacheInv s \<Longrightarrow> sipCacheInv (fst (sipHandle t1 t2 data remote s))"
proof -
  assume inv: "sipCacheInv s"
  have "sipCacheInv (snd (beginTransaction t k s')) = sipCacheInv s'" for t k s'
    by (auto simp: beginTransaction_def sipCacheInv_def split: option.split)
  with cachedResponse_inv[OF inv] inv show ?thesis
    by (auto simp: sipHandle_def Let_def split: sum.split prod.split) (metis snd_conv)+
qed

definition isServerRequest :: "sip_message \<Rightarrow> bool" where
  "isServerRequest msg \<longleftrightarrow> smStatus msg = 0 \<and> \<not> EqualFold (smMethod msg) ''ACK''"

lemma sipHandle_duplicate:
  assumes "sipParse data = Inr msg0" "isServerRequest msg0" "srListening s"
    "sipLookup s (sipTransactionKey (msg0\<lparr>smSource := Some remote\<rparr>) remote) = Some (t, m)"
    "sipTransactionKey (msg0\<lparr>smSource := Some remote\<rparr>) remote \<noteq> []" "m \<noteq> []" "t1 \<le> t + sipResponseCacheTTL"
  shows "sipHandle t1 t2 data remote s = (s, SipDuplicate m remote)"
  using assms cachedResponse_fresh[OF assms(4,5,7)] by (simp add: sipHandle_def isServerRequest_def Let_def)

lemma cachedResponse_miss:
  "fst (cachedResponse t k s) = [] \<Longrightarrow> fst (cachedResponse t' k (snd (cachedResponse t k s))) = []"
  by (auto simp: cachedResponse_def removeCachedKeyLocked_def split: option.splits if_splits)

lemma cachedResponse_inFlight [simp]: "inFlight (snd (cachedResponse t k s)) = inFlight s"
  by (auto simp: cachedResponse_def removeCachedKeyLocked_def split: option.split)

lemma beginTransaction_cache [simp]:
  "responseCache (snd (beginTransaction t k s)) = responseCache s" "srListening (snd (beginTransaction t k s)) = srListening s"
  by (auto simp: beginTransaction_def split: option.split)

lemma cachedResponse_cong: "responseCache s' = responseCache s \<Longrightarrow> fst (cachedResponse t k s') = fst (cachedResponse t k s)"
  by (auto simp: cachedResponse_def split: option.split)

subsection \<open>Reachable states of the server\<close>

inductive sipStep :: "sip_server \<Rightarrow> sip_server \<Rightarrow> bool" where
  listen: "sipStep s (s\<lparr>srListening := True\<rparr>)"
| datagram: "sipStep s (fst (sipHandle t1 t2 data remote s))"
| reply: "sipStep s (fst (sipRespond t rp m s))"

interpretation sip_server: transition_invariant sipStep sipCacheInv
proof unfold_locales
  fix s s'
  assume "sipStep s s'" "sipCacheInv s"
  then show "sipCacheInv s'"
    by (induction rule: sipStep.induct) (auto simp: sipRespond_def intro: cacheResponse_inv sipHandle_inv,
        auto simp: sipCacheInv_def)
qed

lemma newSipServer_inv: "sipCacheInv newSipServer"
  by (simp add: newSipServer_def sipCacheInv_def)

subsection \<open>A server in service\<close>

definition demoOptions :: string where
  "demoOptions = ''OPTIONS sip:gw@192.0.2.1 SIP/2.0'' @ CRLF @ ''Via: SIP/2.0/UDP 192.0.2.9;branch=z9hG4bK1'' @ CRLF @
     ''Call-ID: c1'' @ CRLF @ ''CSeq: 1 OPTIONS'' @ CRLF @ CRLF"

definition demoRequest :: sip_message where
  "demoRequest = projr (sipParse demoOptions)"

definition demoPeer :: udp_addr where
  "demoPeer = \<lparr> ip = ''192.0.2.9'', port = 5060, zone = [] \<rparr>"

definition demoSipServer :: sip_server where
  "demoSipServer = newSipServer\<lparr>srListening := True\<rparr>"

lemma demo_options:
  "\<not> isl (sipParse demoOptions) \<and> smMethod demoRequest \<noteq> [] \<and> isServerRequest demoRequest \<and>
   sipTransactionKey (demoRequest\<lparr>smSource := Some demoPeer\<rparr>) demoPeer =
     ''192.0.2.9:5060|OPTIONS|c1|1 OPTIONS|z9hG4bK1''"
  by code_simp

lemma demo_sip: "sipParse demoOptions = Inr demoRequest" "sipCacheInv demoSipServer" "srListening demoSipServer"
  using demo_options by (simp_all add: demoRequest_def demoSipServer_def newSipServer_def sipCacheInv_def)

subsection \<open>Properties\<close>

lemma sip_cache_bounds:
  assumes "sipStep\<^sup>*\<^sup>* newSipServer s"
  shows "distinct (srCacheOrder s) \<and> set (srCacheOrder s) = dom (responseCache s) \<and>
    card (dom (responseCache s)) \<le> 8192 \<and> responseCache s [] = None"
proof -
  have inv: "sipCacheInv s" using sip_server.steps_inv[OF assms newSipServer_inv] .
  then have "card (set (srCacheOrder s)) = length (srCacheOrder s)"
    unfolding sipCacheInv_def by (blast intro: distinct_card)
  with inv show ?thesis by (auto simp: sipCacheInv_def maxCachedResponses_def)
qed

text \<open>C20: A SIP request that was answered is recognised when it is retransmitted within five minutes: the
  recorded response is sent again and the request is not dispatched, as long as fewer than 8192 other
  responses have been recorded since.\<close>

theorem sip_retransmission_answered:
  assumes "sipCacheInv s" "sipParse data = Inr msg0" "isServerRequest msg0"
    "key = sipTransactionKey (msg0\<lparr>smSource := Some remote\<rparr>) remote" "key \<noteq> []" "responseCache s key = None" "m \<noteq> []"
    "[] \<notin> fst ` set kvs" "key \<notin> fst ` set kvs" "length kvs < maxCachedResponses"
    "s' = fold (\<lambda>kv. sipStore (fst kv) (snd kv)) kvs (fst (sipRespond t \<lparr> srRemote = remote, srCacheKey = key \<rparr> m s))"
    "srListening s'" "t1 \<le> t + 300 * Second"
  shows "sipHandle t1 t2 data remote s' = (s', SipDuplicate m remote)"
proof -
  have "sipLookup s' key = Some (t, m)"
    using sip_cache.answer_survives[OF assms(1,5) _ assms(8-10), of "(t, m)"] assms(6,11)
    by (simp add: sipRespond_def sipStore_def sipLookup_def)
  with assms show ?thesis by (intro sipHandle_duplicate) (auto simp: sipResponseCacheTTL_def)
qed

theorem sip_retransmission_answered_witness:
  "snd (sipHandle 7 8 demoOptions demoPeer
     (fst (sipRespond 5 \<lparr> srRemote = demoPeer, srCacheKey = ''192.0.2.9:5060|OPTIONS|c1|1 OPTIONS|z9hG4bK1'' \<rparr>
        ''SIP/2.0 200 OK'' demoSipServer))) = SipDuplicate ''SIP/2.0 200 OK'' demoPeer"
proof -
  let ?s = "fst (sipRespond 5 \<lparr> srRemote = demoPeer, srCacheKey = ''192.0.2.9:5060|OPTIONS|c1|1 OPTIONS|z9hG4bK1'' \<rparr>
        ''SIP/2.0 200 OK'' demoSipServer)"
  have "srListening ?s" using demo_sip(3) by (simp add: sipRespond_def cacheResponse_def Let_def split: prod.split)
  moreover have "responseCache demoSipServer k = None" for k by (simp add: demoSipServer_def newSipServer_def)
  ultimately show ?thesis
    using sip_retransmission_answered[OF demo_sip(2,1), of _ demoPeer "''SIP/2.0 200 OK''" "[]" ?s 5 7 8] demo_options
    by (simp add: maxCachedResponses_def)
qed

text \<open>C21: While a request is being processed, a retransmission of it that arrives within 32 seconds is
  neither answered nor dispatched a second time.\<close>

theorem sip_in_flight_suppressed:
  assumes "sipHandle t1 t2 data remote s = (s1, SipDispatch msg rp)" "isServerRequest msg" "smMethod msg \<noteq> []"
    "t4 < t2 + 32 * Second"
  shows "snd (sipHandle t3 t4 data remote s1) = SipInFlight"
proof -
  obtain msg0 where parse: "sipParse data = Inr msg0" and msg: "msg = msg0\<lparr>smSource := Some remote\<rparr>"
    and req: "isServerRequest msg0" "srListening s"
    using assms(1,2) by (auto simp: sipHandle_def isServerRequest_def Let_def split: sum.splits if_splits prod.splits)
  let ?key = "sipTransactionKey msg remote"
  have key: "?key \<noteq> []" using assms(3) by (simp add: sipTransactionKey_def)
  let ?s0 = "snd (cachedResponse t1 ?key s)"
  have first: "fst (cachedResponse t1 ?key s) = []" "beginTransaction t2 ?key ?s0 = (True, s1)"
    using assms(1) parse msg req
    by (auto simp: sipHandle_def isServerRequest_def Let_def split: if_splits prod.splits)
  have cache: "responseCache s1 = responseCache ?s0" using beginTransaction_cache(1)[of t2 ?key ?s0] first(2) by simp
  have miss: "fst (cachedResponse t3 ?key s1) = []"
    using cachedResponse_cong[OF cache] cachedResponse_miss[OF first(1)] by simp
  have listening: "srListening s1"
    using req(2) first(2) beginTransaction_cache(2)[of t2 ?key ?s0]
    by (auto simp: cachedResponse_def removeCachedKeyLocked_def split: option.splits if_splits)
  obtain s2 where s2: "cachedResponse t3 ?key s1 = ([], s2)" using miss by (metis prod.collapse)
  then have fl: "inFlight s2 = inFlight s1" using cachedResponse_inFlight[of t3 ?key s1] by simp
  have "\<not> fst (beginTransaction t4 ?key s2)"
    using first(2) key assms(4) fl
    by (auto simp: beginTransaction_def sipInFlightTTL_def split: option.splits if_splits)
  with parse msg req(1) listening s2 show ?thesis
    by (auto simp: sipHandle_def isServerRequest_def Let_def split: prod.split)
qed

theorem sip_in_flight_suppressed_witness:
  "snd (sipHandle 9 10 demoOptions demoPeer (fst (sipHandle 7 8 demoOptions demoPeer demoSipServer))) = SipInFlight"
proof -
  let ?key = "''192.0.2.9:5060|OPTIONS|c1|1 OPTIONS|z9hG4bK1''"
  let ?msg = "demoRequest\<lparr>smSource := Some demoPeer\<rparr>"
  have "sipHandle 7 8 demoOptions demoPeer demoSipServer =
     (fst (sipHandle 7 8 demoOptions demoPeer demoSipServer), SipDispatch ?msg \<lparr> srRemote = demoPeer, srCacheKey = ?key \<rparr>)"
    using demo_options
    by (simp add: sipHandle_def demo_sip(1) isServerRequest_def cachedResponse_def beginTransaction_def
        demoSipServer_def newSipServer_def Let_def)
  from sip_in_flight_suppressed[OF this, of 10 9] demo_options show ?thesis
    by (simp add: isServerRequest_def)
qed

end
