(* ===== verification/Sip_Sdp.thy ===== *)
theory Sip_Sdp
  imports Sip_Message
begin

text \<open>
  Session descriptions (\<^verbatim>\<open>internal/sip/sdp.go\<close>): the offer and answer the gateway sends and the
  parser of the first audio stream of what it receives.
\<close>

record sdp =
  sdpIP :: string
  sdpPort :: int
  sdpCodecs :: "string list"
  sdpPayloadTypes :: "int list"
  sdpTelephoneEvent :: int
  sdpPTime :: int
  sdpDirection :: string

datatype sdp_error = InvalidAudioPort string | NoActiveAudio

definition emptySDP :: sdp where
  "emptySDP = \<lparr> sdpIP = [], sdpPort = 0, sdpCodecs = [], sdpPayloadTypes = [],
     sdpTelephoneEvent = 0, sdpPTime = 0, sdpDirection = [] \<rparr>"

subsection \<open>Building\<close>

text \<open>The payload number and the mapping line of a codec; unknown codecs are left out.\<close>

definition codecPayload :: "string \<Rightarrow> (string \<times> string) list" where
  "codecPayload codec =
     (let u = ToUpper codec in
      if u = ''PCMA/8000'' then [(''8'', ''a=rtpmap:8 PCMA/8000'')]
      else if u = ''PCMU/8000'' then [(''0'', ''a=rtpmap:0 PCMU/8000'')]
      else if u = ''G729/8000'' \<or> u = ''G.729/8000'' then [(''18'', ''a=rtpmap:18 G729/8000'')]
      else [])"

definition offeredPayloads :: "string list \<Rightarrow> int \<Rightarrow> string list \<times> string list" where
  "offeredPayloads codecs dtmf =
     (let known = concat (map codecPayload codecs);
          base = (if known = [] then ([''8'', ''0''], [''a=rtpmap:8 PCMA/8000'', ''a=rtpmap:0 PCMU/8000''])
                  else (map fst known, map snd known))
      in if dtmf > 0 \<and> dtmf < 128
         then (fst base @ [Itoa dtmf],
               snd base @ [''a=rtpmap:'' @ Itoa dtmf @ '' telephone-event/8000'',
                           ''a=fmtp:'' @ Itoa dtmf @ '' 0-16''])
         else base)"

definition sdpLines :: "string \<Rightarrow> string \<Rightarrow> int \<Rightarrow> string list \<Rightarrow> int \<Rightarrow> int \<Rightarrow> string list" where
  "sdpLines origin addr prt codecs dtmf ptime =
     (case offeredPayloads codecs dtmf of (payloads, rtpmap) \<Rightarrow>
        [''v=0'',
         ''o='' @ origin @ '' 1 1 IN IP4 '' @ addr,
         ''s=H248-SIP Gateway'',
         ''c=IN IP4 '' @ addr,
         ''t=0 0'',
         ''m=audio '' @ Itoa prt @ '' RTP/AVP '' @ Join payloads '' ''] @
        rtpmap @
        (if ptime > 0 then [''a=ptime:'' @ Itoa ptime] else []) @
        [''a=sendrecv''])"

definition BuildSDPWithPTime :: "string \<Rightarrow> string \<Rightarrow> int \<Rightarrow> string list \<Rightarrow> int \<Rightarrow> int \<Rightarrow> string" where
  "BuildSDPWithPTime origin addr prt codecs dtmf ptime =
     Join (sdpLines origin addr prt codecs dtmf ptime) CRLF @ CRLF"

definition BuildSDP :: "string \<Rightarrow> string \<Rightarrow> int \<Rightarrow> string list \<Rightarrow> int \<Rightarrow> string" where
  "BuildSDP origin addr prt codecs dtmf = BuildSDPWithPTime origin addr prt codecs dtmf 20"

subsection \<open>Parsing\<close>

record sdp_state =
  ssResult :: sdp
  ssSessionIP :: string
  ssInAudio :: bool
  ssRtpmap :: "int \<rightharpoonup> string"

definition sdpPayloads :: "string list \<Rightarrow> int list" where
  "sdpPayloads fs = map atoiVal (filter (\<lambda>f. atoiOk f \<and> atoiVal f \<ge> 0 \<and> atoiVal f < 128) fs)"

text \<open>A media line; \<open>st\<close> already has \<^verbatim>\<open>inAudio\<close> cleared.\<close>

definition sdpMediaLine :: "string \<Rightarrow> sdp_state \<Rightarrow> sdp_error + sdp_state" where
  "sdpMediaLine line st =
     (let fields = Fields (TrimPrefix line ''m='') in
      if length fields < 4 \<or> \<not> EqualFold (fields ! 0) ''audio'' then Inr st
      else
        (let portText = takeWhile (\<lambda>c. c \<noteq> CHR ''/'') (fields ! 1) in
         if \<not> atoiOk portText \<or> atoiVal portText < 0 \<or> atoiVal portText > 65535
         then Inl (InvalidAudioPort (fields ! 1))
         else Inr (st\<lparr>ssResult := (ssResult st)\<lparr>sdpPort := atoiVal portText,
                        sdpPayloadTypes := sdpPayloadTypes (ssResult st) @ sdpPayloads (drop 3 fields)\<rparr>,
                      ssInAudio := True\<rparr>)))"

definition sdpConnectionLine :: "string \<Rightarrow> sdp_state \<Rightarrow> sdp_state" where
  "sdpConnectionLine line st =
     (let fields = Fields (TrimSpace (drop 2 line)) in
      if length fields \<ge> 3 \<and> EqualFold (fields ! 0) ''IN'' then
        (if ssInAudio st then st\<lparr>ssResult := (ssResult st)\<lparr>sdpIP := fields ! 2\<rparr>\<rparr>
         else st\<lparr>ssSessionIP := fields ! 2\<rparr>)
      else st)"

definition sdpRtpmapAttribute :: "string \<Rightarrow> sdp_state \<Rightarrow> sdp_state" where
  "sdpRtpmapAttribute attribute st =
     (let mapping = Fields (TrimSpace (drop 7 attribute)) in
      if length mapping \<noteq> 2 \<or> \<not> atoiOk (mapping ! 0) then st
      else
        (let payload = atoiVal (mapping ! 0);
             st' = st\<lparr>ssRtpmap := (ssRtpmap st)(payload \<mapsto> mapping ! 1)\<rparr>
         in if HasPrefix (ToLower (mapping ! 1)) ''telephone-event/8000''
            then st'\<lparr>ssResult := (ssResult st')\<lparr>sdpTelephoneEvent := payload\<rparr>\<rparr>
            else st'))"

definition sdpAttributeLine :: "string \<Rightarrow> sdp_state \<Rightarrow> sdp_state" where
  "sdpAttributeLine line st =
     (let attribute = TrimSpace (drop 2 line); lower = ToLower attribute in
      if lower \<in> {''sendrecv'', ''sendonly'', ''recvonly'', ''inactive''} then
        st\<lparr>ssResult := (ssResult st)\<lparr>sdpDirection := lower\<rparr>\<rparr>
      else if HasPrefix lower ''ptime:'' then
        st\<lparr>ssResult := (ssResult st)\<lparr>sdpPTime := atoiVal (TrimSpace (drop 6 attribute))\<rparr>\<rparr>
      else if HasPrefix lower ''rtpmap:'' then sdpRtpmapAttribute attribute st
      else st)"

definition sdpLine :: "string \<Rightarrow> sdp_state \<Rightarrow> sdp_error + sdp_state" where
  "sdpLine raw st =
     (let line = TrimSpace raw in
      if line = [] then Inr st
      else if HasPrefix line ''m='' then sdpMediaLine line (st\<lparr>ssInAudio := False\<rparr>)
      else if HasPrefix (ToLower line) ''c='' then Inr (sdpConnectionLine line st)
      else if \<not> ssInAudio st \<or> \<not> HasPrefix (ToLower line) ''a='' then Inr st
      else Inr (sdpAttributeLine line st))"

fun sdpFold :: "string list \<Rightarrow> sdp_state \<Rightarrow> sdp_error + sdp_state" where
  "sdpFold [] st = Inr st"
| "sdpFold (l # ls) st = (case sdpLine l st of Inl e \<Rightarrow> Inl e | Inr st' \<Rightarrow> sdpFold ls st')"

definition appendUnique :: "string list \<Rightarrow> string \<Rightarrow> string list" where
  "appendUnique values v = (if v \<in> set values then values else values @ [v])"

definition addCodec :: "(int \<rightharpoonup> string) \<Rightarrow> string list \<Rightarrow> int \<Rightarrow> string list" where
  "addCodec rtpmap codecs payload =
     (let codec = ToUpper (case rtpmap payload of None \<Rightarrow> [] | Some v \<Rightarrow> v) in
      if payload = 8 \<or> HasPrefix codec ''PCMA/8000'' then appendUnique codecs ''PCMA/8000''
      else if payload = 0 \<or> HasPrefix codec ''PCMU/8000'' then appendUnique codecs ''PCMU/8000''
      else if payload = 18 \<or> HasPrefix codec ''G729/8000'' then appendUnique codecs ''G729/8000''
      else codecs)"

definition sdpFinish :: "sdp_state \<Rightarrow> sdp_error + sdp" where
  "sdpFinish st =
     (let r = ssResult st;
          r1 = (if sdpIP r = [] then r\<lparr>sdpIP := ssSessionIP st\<rparr> else r)
      in if sdpIP r1 = [] \<or> sdpPort r1 = 0 then Inl NoActiveAudio
         else Inr (r1\<lparr>sdpCodecs := foldl (addCodec (ssRtpmap st)) (sdpCodecs r1) (sdpPayloadTypes r1)\<rparr>))"

definition ParseSDP :: "string \<Rightarrow> sdp_error + sdp" where
  "ParseSDP body =
     (case sdpFold (SplitByte NL (ReplaceAll body CRLF [NL]))
             \<lparr> ssResult = emptySDP\<lparr>sdpDirection := ''sendrecv''\<rparr>, ssSessionIP = [], ssInAudio = False,
               ssRtpmap = Map.empty \<rparr> of
        Inl e \<Rightarrow> Inl e
      | Inr st \<Rightarrow> sdpFinish st)"

end
