(* ===== verification/Bridge_State.thy ===== *)
theory Bridge_State
  imports Bridge_Uri Media_Relay H248_Server Sip_Server Sip_Sdp "HOL-Library.AList"
begin

text \<open>
  The state of the bridge (\<^verbatim>\<open>internal/bridge/bridge.go\<close>): calls, the line, the tables of calls and
  transactions, the allocation of identifiers and ports, and the release of a call.

  Calls are objects that several tables of the source point to, so they live in a store: a
  reference is a natural number, \<open>heap\<close> maps it to the call, and references below \<open>nextRef\<close> have
  been allocated.  Retained transactions are objects too; only their identity matters, the number
  \<open>riRef\<close> that \<open>nextRetained\<close> supplies.  A Go map that is iterated over is an association list whose order is the order
  of iteration.  What a handler writes to a socket is appended to \<open>outputs\<close>; what it schedules with
  \<^verbatim>\<open>time.AfterFunc\<close> is added to \<open>timers\<close>.

  The environment gives the time of a handler's execution, the calendar for time stamps, the
  name resolver, which sockets can be opened, and which writes succeed (by their position among
  the outputs).  Handlers run one at a time: the interleavings considered are those of whole
  handlers and timers.
\<close>

subsection \<open>Data\<close>

record env =
  now :: int
  civil :: "int \<Rightarrow> civil_time"
  resolve :: "string \<Rightarrow> udp_addr option"
  listens :: "string \<Rightarrow> string \<Rightarrow> bool"
  writes :: "nat \<Rightarrow> bool"

record line_state =
  lineReady :: bool
  lineReadyAt :: int
  lineRequestID :: string
  lineOnhookSent :: bool
  lineResponder :: "h248_responder option"

record pending_txn =
  pendCallID :: string
  pendPhase :: string

record retained_invite =
  riRef :: nat
  riCallID :: string
  riRequestURI :: string
  riFrom :: string
  riInviteVia :: string
  riInviteBranch :: string
  riInviteCSeq :: int
  riPeer :: "udp_addr option"
  riExpiresAt :: int
  riLateBYESent :: bool

record call =
  callID :: string
  Direction :: string
  State :: string
  CreatedAt :: int
  Released :: bool
  H248ContextID :: string
  H248ContextAllocated :: bool
  H248PhysicalTerm :: string
  H248EphemeralTerm :: string
  H248EventRequestID :: string
  H248Responder :: "h248_responder option"
  H248RemoteMedia :: "udp_addr option"
  H248RTPPort :: int
  H248TelephoneEventPT :: int
  H248Answered :: bool
  H248OnhookSent :: bool
  H248OffhookSent :: bool
  H248DigitsSent :: bool
  H248DigitsScheduled :: bool
  SIPCallID :: string
  SIPRequestURI :: string
  SIPPeer :: "udp_addr option"
  SIPRemoteMedia :: "udp_addr option"
  SIPRTPPort :: int
  SIPTelephoneEventPT :: int
  SIPFrom :: string
  SIPTo :: string
  SIPLocalTag :: string
  SIPRemoteTag :: string
  SIPRemoteContact :: string
  SIPInvite :: string
  SIPInviteVia :: string
  SIPInviteBranch :: string
  SIPInviteCSeq :: int
  SIPInviteProvisional :: bool
  SIPInviteFinal :: bool
  SIPAnswered :: bool
  SIPRemoteReleased :: bool
  SIPInitialRequest :: "sip_message option"
  SIPResponder :: "sip_responder option"
  SIPLastResponse :: string
  CallerID :: string
  DestinationNumber :: string
  Media :: "media_relay option"

text \<open>A call with Go's zero values.\<close>

definition zeroCall :: call where
  "zeroCall = \<lparr> callID = [], Direction = [], State = [], CreatedAt = 0, Released = False,
     H248ContextID = [], H248ContextAllocated = False, H248PhysicalTerm = [], H248EphemeralTerm = [],
     H248EventRequestID = [], H248Responder = None, H248RemoteMedia = None, H248RTPPort = 0,
     H248TelephoneEventPT = 0, H248Answered = False, H248OnhookSent = False, H248OffhookSent = False,
     H248DigitsSent = False, H248DigitsScheduled = False, SIPCallID = [], SIPRequestURI = [],
     SIPPeer = None, SIPRemoteMedia = None, SIPRTPPort = 0, SIPTelephoneEventPT = 0, SIPFrom = [],
     SIPTo = [], SIPLocalTag = [], SIPRemoteTag = [], SIPRemoteContact = [], SIPInvite = [],
     SIPInviteVia = [], SIPInviteBranch = [], SIPInviteCSeq = 0, SIPInviteProvisional = False,
     SIPInviteFinal = False, SIPAnswered = False, SIPRemoteReleased = False, SIPInitialRequest = None,
     SIPResponder = None, SIPLastResponse = [], CallerID = [], DestinationNumber = [], Media = None \<rparr>"

text \<open>
  What a handler writes: replies through the H.248 and SIP responders (cached by the servers),
  H.248 requests of its own with the call and phase they belong to, SIP requests with their method,
  and the sockets of media relays.
\<close>

datatype bridge_output =
    H248Reply h248_responder string
  | H248Request h248_responder "nat option" string string
  | SipReply sip_responder int string
  | SipRequest string string string udp_addr
  | Sock sock_event
  | WriteFailed bridge_output

datatype timer =
    TReleaseCall nat
  | TOffhook nat
  | TDigits nat
  | TRetransmit string
  | TInviteDeadline string
  | TRetainedExpiry nat string

record bridge =
  bCfg :: config
  bSender :: bool
  heap :: "nat \<Rightarrow> call"
  nextRef :: nat
  callsBySIP :: "(string \<times> nat) list"
  callsByH248 :: "(string \<times> nat) list"
  retainedInvites :: "string \<rightharpoonup> retained_invite"
  nextRetained :: nat
  inviteTTL :: int
  nextRTPPort :: int
  nextContextID :: "64 word"
  nextTermID :: "64 word"
  nextH248TID :: "64 word"
  line :: line_state
  outboundCall :: "nat option"
  pendingH248 :: "string \<rightharpoonup> pending_txn"
  inviteLoops :: "(string \<times> int) list"
  timers :: "(int \<times> timer) list"
  outputs :: "bridge_output list"

subsection \<open>Access\<close>

abbreviation cfgMedia' :: "bridge \<Rightarrow> media_config" where
  "cfgMedia' b \<equiv> cfgMedia (bCfg b)"

abbreviation cfgH248' :: "bridge \<Rightarrow> h248_config" where
  "cfgH248' b \<equiv> cfgH248 (bCfg b)"

abbreviation cfgSIP' :: "bridge \<Rightarrow> sip_config" where
  "cfgSIP' b \<equiv> cfgSIP (bCfg b)"

definition updCall :: "nat \<Rightarrow> (call \<Rightarrow> call) \<Rightarrow> bridge \<Rightarrow> bridge" where
  "updCall r f b = b\<lparr>heap := (heap b)(r := f (heap b r))\<rparr>"

definition emit :: "bridge_output \<Rightarrow> bridge \<Rightarrow> bridge" where
  "emit out b = b\<lparr>outputs := outputs b @ [out]\<rparr>"

definition emitAll :: "bridge_output list \<Rightarrow> bridge \<Rightarrow> bridge" where
  "emitAll outs b = b\<lparr>outputs := outputs b @ outs\<rparr>"

text \<open>A write to a socket: whether it succeeds is up to the environment; a write that fails is
  recorded as such, because the servers cache a reply before they write it.\<close>

definition sendOut :: "env \<Rightarrow> bridge_output \<Rightarrow> bridge \<Rightarrow> bool \<times> bridge" where
  "sendOut e out b =
     (let ok = writes e (length (outputs b)) in (ok, emit (if ok then out else WriteFailed out) b))"

definition setPending :: "string \<Rightarrow> string \<Rightarrow> string \<Rightarrow> bridge \<Rightarrow> bridge" where
  "setPending tid cid phase b =
     b\<lparr>pendingH248 := (pendingH248 b)(tid \<mapsto> \<lparr> pendCallID = cid, pendPhase = phase \<rparr>)\<rparr>"

definition delPending :: "string \<Rightarrow> bridge \<Rightarrow> bridge" where
  "delPending tid b = b\<lparr>pendingH248 := (pendingH248 b)(tid := None)\<rparr>"

definition updLine :: "(line_state \<Rightarrow> line_state) \<Rightarrow> bridge \<Rightarrow> bridge" where
  "updLine f b = b\<lparr>line := f (line b)\<rparr>"

definition updMedia :: "nat \<Rightarrow> (media_relay \<Rightarrow> media_relay) \<Rightarrow> bridge \<Rightarrow> bridge" where
  "updMedia r f b = updCall r (\<lambda>c. c\<lparr>Media := map_option f (Media c)\<rparr>) b"

definition after :: "env \<Rightarrow> int \<Rightarrow> timer \<Rightarrow> bridge \<Rightarrow> bridge" where
  "after e delay t b = b\<lparr>timers := timers b @ [(now e + delay, t)]\<rparr>"

subsection \<open>Construction and allocation\<close>

definition normalizeEvenPort :: "int \<Rightarrow> int" where
  "normalizeEvenPort p = (if p \<le> 0 then 20000 else if p mod 2 \<noteq> 0 then p + 1 else p)"

definition defaultSIPInviteTransactionTTL :: int where
  "defaultSIPInviteTransactionTTL = 32 * Second"

definition initLine :: line_state where
  "initLine = \<lparr> lineReady = False, lineReadyAt = 0, lineRequestID = [], lineOnhookSent = False,
     lineResponder = None \<rparr>"

definition New :: "int \<Rightarrow> config \<Rightarrow> bridge" where
  "New now0 cfg =
     (let seed = word_of_int (now0 mod 2 ^ 31) in
      \<lparr> bCfg = cfg, bSender = False, heap = (\<lambda>_. zeroCall), nextRef = 0, callsBySIP = [],
        callsByH248 = [], retainedInvites = Map.empty, nextRetained = 0, inviteTTL = defaultSIPInviteTransactionTTL,
        nextRTPPort = normalizeEvenPort (mediaPortMin (cfgMedia cfg)), nextContextID = seed,
        nextTermID = 0, nextH248TID = seed, line = initLine, outboundCall = None,
        pendingH248 = Map.empty, inviteLoops = [], timers = [], outputs = [] \<rparr>)"

definition SetSIPSender :: "bridge \<Rightarrow> bridge" where
  "SetSIPSender b = b\<lparr>bSender := True\<rparr>"

definition allocateRTPPortLocked :: "bridge \<Rightarrow> int \<times> bridge" where
  "allocateRTPPortLocked b =
     (let p = nextRTPPort b; n = p + 2;
          n' = (if n > mediaPortMax (cfgMedia' b) then normalizeEvenPort (mediaPortMin (cfgMedia' b)) else n)
      in (p, b\<lparr>nextRTPPort := n'\<rparr>))"

definition allocateCallIdentifiersLocked :: "bridge \<Rightarrow> (string \<times> string \<times> int \<times> int) \<times> bridge" where
  "allocateCallIdentifiersLocked b =
     (let b1 = b\<lparr>nextContextID := nextContextID b + 1, nextTermID := nextTermID b + 1\<rparr>;
          contextID = FormatUint (uint (and (nextContextID b1) 0x7fffffff));
          pfx = h248EphemeralPrefix (cfgH248' b);
          ephemeral = (if pfx = [] then ''RTP/'' else pfx) @ FormatUint (uint (nextTermID b1))
      in case allocateRTPPortLocked b1 of (h248Port, b2) \<Rightarrow>
         case allocateRTPPortLocked b2 of (sipPort, b3) \<Rightarrow>
           ((contextID, ephemeral, h248Port, sipPort), b3))"

definition newH248TransactionID :: "bridge \<Rightarrow> string \<times> bridge" where
  "newH248TransactionID b =
     (let n = nextH248TID b + 1 in (FormatUint (uint n), b\<lparr>nextH248TID := n\<rparr>))"

definition findCallByContext :: "string \<Rightarrow> bridge \<Rightarrow> nat option" where
  "findCallByContext contextID b = map_of (callsByH248 b) contextID"

text \<open>A new object in the store.\<close>

definition allocCall :: "call \<Rightarrow> bridge \<Rightarrow> nat \<times> bridge" where
  "allocCall c b = (nextRef b, b\<lparr>heap := (heap b)(nextRef b := c), nextRef := Suc (nextRef b)\<rparr>)"

subsection \<open>Release\<close>

definition closeMedia :: "nat \<Rightarrow> bridge \<Rightarrow> bridge" where
  "closeMedia r b =
     (case Media (heap b r) of
        None \<Rightarrow> b
      | Some m \<Rightarrow>
          (case closeRelay m of (m', evs) \<Rightarrow>
             emitAll (map Sock evs) (updCall r (\<lambda>c. c\<lparr>Media := Some m'\<rparr>) b)))"

definition releaseCall :: "nat \<Rightarrow> bridge \<Rightarrow> bridge" where
  "releaseCall r b =
     (if Released (heap b r) then b
      else
        (let c = heap b r;
             b1 = updCall r (\<lambda>c. c\<lparr>Released := True, State := ''released''\<rparr>) b;
             b2 = b1\<lparr>callsByH248 := AList.delete (H248ContextID c) (callsByH248 b1)\<rparr>;
             b3 = (if SIPCallID c \<noteq> []
                   then b2\<lparr>callsBySIP := AList.delete (SIPCallID c) (callsBySIP b2)\<rparr> else b2);
             b4 = (if outboundCall b3 = Some r then b3\<lparr>outboundCall := None\<rparr> else b3)
         in closeMedia r b4))"

text \<open>\<^verbatim>\<open>Close\<close>: every call of the two tables is marked and its relay closed, each once.\<close>

definition closeCall :: "bridge \<Rightarrow> nat \<Rightarrow> bridge" where
  "closeCall b r = closeMedia r (updCall r (\<lambda>c. c\<lparr>Released := True\<rparr>) b)"

definition CloseBridge :: "bridge \<Rightarrow> bridge" where
  "CloseBridge b =
     (let refs = remdups (map snd (callsByH248 b) @ map snd (callsBySIP b))
      in (foldl closeCall b refs)\<lparr>retainedInvites := Map.empty\<rparr>)"

definition callLogID :: "call \<Rightarrow> string" where
  "callLogID c = (if SIPCallID c \<noteq> [] then SIPCallID c else ''h248-'' @ H248ContextID c)"

subsection \<open>Frames\<close>

lemma updCall_frame [simp]:
  "heap (updCall r f b) = (heap b)(r := f (heap b r))" "nextRef (updCall r f b) = nextRef b"
  "callsBySIP (updCall r f b) = callsBySIP b" "callsByH248 (updCall r f b) = callsByH248 b"
  "outboundCall (updCall r f b) = outboundCall b" "line (updCall r f b) = line b"
  "outputs (updCall r f b) = outputs b" "timers (updCall r f b) = timers b"
  "retainedInvites (updCall r f b) = retainedInvites b" "bCfg (updCall r f b) = bCfg b"
  "bSender (updCall r f b) = bSender b" "pendingH248 (updCall r f b) = pendingH248 b"
  "nextRTPPort (updCall r f b) = nextRTPPort b" "inviteLoops (updCall r f b) = inviteLoops b"
  by (simp_all add: updCall_def)

lemma emitAll_frame [simp]:
  "heap (emitAll out b) = heap b" "nextRef (emitAll out b) = nextRef b"
  "callsBySIP (emitAll out b) = callsBySIP b" "callsByH248 (emitAll out b) = callsByH248 b"
  "outboundCall (emitAll out b) = outboundCall b" "line (emitAll out b) = line b"
  "outputs (emitAll out b) = outputs b @ out" "timers (emitAll out b) = timers b"
  "retainedInvites (emitAll out b) = retainedInvites b" "bCfg (emitAll out b) = bCfg b"
  "bSender (emitAll out b) = bSender b" "pendingH248 (emitAll out b) = pendingH248 b"
  "nextRTPPort (emitAll out b) = nextRTPPort b" "inviteLoops (emitAll out b) = inviteLoops b"
  by (simp_all add: emitAll_def)

lemma emit_frame [simp]:
  "heap (emit out b) = heap b" "nextRef (emit out b) = nextRef b"
  "callsBySIP (emit out b) = callsBySIP b" "callsByH248 (emit out b) = callsByH248 b"
  "outboundCall (emit out b) = outboundCall b" "line (emit out b) = line b"
  "outputs (emit out b) = outputs b @ [out]" "timers (emit out b) = timers b"
  "retainedInvites (emit out b) = retainedInvites b" "bCfg (emit out b) = bCfg b"
  "bSender (emit out b) = bSender b" "pendingH248 (emit out b) = pendingH248 b"
  "nextRTPPort (emit out b) = nextRTPPort b" "inviteLoops (emit out b) = inviteLoops b"
  by (simp_all add: emit_def)

lemma updLine_frame [simp]:
  "heap (updLine f b) = heap b" "nextRef (updLine f b) = nextRef b"
  "callsBySIP (updLine f b) = callsBySIP b" "callsByH248 (updLine f b) = callsByH248 b"
  "outboundCall (updLine f b) = outboundCall b" "line (updLine f b) = f (line b)"
  "outputs (updLine f b) = outputs b" "timers (updLine f b) = timers b"
  "retainedInvites (updLine f b) = retainedInvites b" "bCfg (updLine f b) = bCfg b"
  "bSender (updLine f b) = bSender b" "pendingH248 (updLine f b) = pendingH248 b"
  "nextRTPPort (updLine f b) = nextRTPPort b"
  by (simp_all add: updLine_def)

lemma after_frame [simp]:
  "heap (after e d t b) = heap b" "nextRef (after e d t b) = nextRef b"
  "callsBySIP (after e d t b) = callsBySIP b" "callsByH248 (after e d t b) = callsByH248 b"
  "outboundCall (after e d t b) = outboundCall b" "line (after e d t b) = line b"
  "outputs (after e d t b) = outputs b" "timers (after e d t b) = timers b @ [(now e + d, t)]"
  "retainedInvites (after e d t b) = retainedInvites b" "bCfg (after e d t b) = bCfg b"
  "bSender (after e d t b) = bSender b" "pendingH248 (after e d t b) = pendingH248 b"
  "nextRTPPort (after e d t b) = nextRTPPort b"
  by (simp_all add: after_def)

lemma pending_frame [simp]:
  "heap (setPending tid cid p b) = heap b" "heap (delPending tid b) = heap b"
  "nextRef (setPending tid cid p b) = nextRef b" "nextRef (delPending tid b) = nextRef b"
  "callsBySIP (setPending tid cid p b) = callsBySIP b" "callsBySIP (delPending tid b) = callsBySIP b"
  "callsByH248 (setPending tid cid p b) = callsByH248 b" "callsByH248 (delPending tid b) = callsByH248 b"
  "outboundCall (setPending tid cid p b) = outboundCall b" "outboundCall (delPending tid b) = outboundCall b"
  "line (setPending tid cid p b) = line b" "line (delPending tid b) = line b"
  "outputs (setPending tid cid p b) = outputs b" "outputs (delPending tid b) = outputs b"
  "timers (setPending tid cid p b) = timers b" "timers (delPending tid b) = timers b"
  "retainedInvites (setPending tid cid p b) = retainedInvites b" "retainedInvites (delPending tid b) = retainedInvites b"
  "bCfg (setPending tid cid p b) = bCfg b" "bCfg (delPending tid b) = bCfg b"
  "bSender (setPending tid cid p b) = bSender b" "bSender (delPending tid b) = bSender b"
  "nextRTPPort (setPending tid cid p b) = nextRTPPort b" "nextRTPPort (delPending tid b) = nextRTPPort b"
  by (simp_all add: setPending_def delPending_def)

lemma sendOut_eq: "sendOut e out b =
    (writes e (length (outputs b)), emit (if writes e (length (outputs b)) then out else WriteFailed out) b)"
  by (simp add: sendOut_def Let_def)

text \<open>What the release of a call does, field by field.\<close>

definition releasedCall :: "call \<Rightarrow> call" where
  "releasedCall c =
     (if Released c then c
      else (case Media c of
              None \<Rightarrow> c\<lparr>Released := True, State := ''released''\<rparr>
            | Some m \<Rightarrow> c\<lparr>Released := True, State := ''released'', Media := Some (fst (closeRelay m))\<rparr>))"

definition releaseEvents :: "call \<Rightarrow> sock_event list" where
  "releaseEvents c = (if Released c then [] else (case Media c of None \<Rightarrow> [] | Some m \<Rightarrow> snd (closeRelay m)))"

lemma releaseCall_frame [simp]:
  "heap (releaseCall r b) = (heap b)(r := releasedCall (heap b r))"
  "nextRef (releaseCall r b) = nextRef b" "line (releaseCall r b) = line b"
  "outputs (releaseCall r b) = outputs b @ map Sock (releaseEvents (heap b r))"
  "timers (releaseCall r b) = timers b" "retainedInvites (releaseCall r b) = retainedInvites b"
  "bCfg (releaseCall r b) = bCfg b" "bSender (releaseCall r b) = bSender b"
  "nextRTPPort (releaseCall r b) = nextRTPPort b" "pendingH248 (releaseCall r b) = pendingH248 b"
  "outboundCall (releaseCall r b) =
     (if outboundCall b = Some r \<and> \<not> Released (heap b r) then None else outboundCall b)"
  "callsByH248 (releaseCall r b) =
     (if Released (heap b r) then callsByH248 b else AList.delete (H248ContextID (heap b r)) (callsByH248 b))"
  "callsBySIP (releaseCall r b) =
     (if Released (heap b r) \<or> SIPCallID (heap b r) = [] then callsBySIP b
      else AList.delete (SIPCallID (heap b r)) (callsBySIP b))"
  by (simp_all add: releaseCall_def releasedCall_def releaseEvents_def closeMedia_def Let_def
      split: option.split prod.split)

lemma releasedCall_sel [simp]:
  "Released (releasedCall c)" "Direction (releasedCall c) = Direction c" "callID (releasedCall c) = callID c"
  "H248ContextID (releasedCall c) = H248ContextID c" "SIPCallID (releasedCall c) = SIPCallID c"
  "H248OnhookSent (releasedCall c) = H248OnhookSent c" "H248OffhookSent (releasedCall c) = H248OffhookSent c"
  "H248DigitsSent (releasedCall c) = H248DigitsSent c" "H248Answered (releasedCall c) = H248Answered c"
  "SIPAnswered (releasedCall c) = SIPAnswered c" "H248RTPPort (releasedCall c) = H248RTPPort c"
  "SIPRTPPort (releasedCall c) = SIPRTPPort c"
  by (simp_all add: releasedCall_def split: option.split)

end
