(* ===== verification/Bridge_Line.thy ===== *)
theory Bridge_Line
  imports Bridge_State
begin

text \<open>
  The line events that the bridge reports to the controller (\<^verbatim>\<open>internal/bridge/h248.go\<close>): the first
  on-hook of the line, and the answer and on-hook of a call.  A Notify is written with its own
  transaction identifier, remembered in \<open>pendingH248\<close> until the reply arrives; a write that fails
  undoes the mark that the event was sent.
\<close>

definition notify :: "env \<Rightarrow> string \<Rightarrow> string \<Rightarrow> string \<Rightarrow> string \<Rightarrow> string \<Rightarrow> bridge \<Rightarrow> string" where
  "notify e tid contextID termination requestID event b =
     BuildNotify (h248Version (cfgH248' b)) (h248MGID (cfgH248' b)) tid contextID termination requestID
       (civil e (now e)) event"

definition sendInitialOnhook :: "env \<Rightarrow> bridge \<Rightarrow> bridge" where
  "sendInitialOnhook e b =
     (case lineResponder (line b) of
        None \<Rightarrow> b
      | Some rp \<Rightarrow>
          if \<not> lineReady (line b) \<or> lineOnhookSent (line b) \<or> lineRequestID (line b) = [] then b
          else
            (case newH248TransactionID b of (tid, b1) \<Rightarrow>
               (let b2 = setPending tid [] ''initial-onhook'' (updLine (\<lambda>l. l\<lparr>lineOnhookSent := True\<rparr>) b1);
                    message = notify e tid ''-'' (h248PhysicalTermination (cfgH248' b))
                                (lineRequestID (line b)) ''al/on'' b
                in case sendOut e (H248Request rp None ''initial-onhook'' message) b2 of (ok, b3) \<Rightarrow>
                     if ok then b3
                     else delPending tid (updLine (\<lambda>l. l\<lparr>lineOnhookSent := False\<rparr>) b3))))"

text \<open>The marks of a call that the phases set before the write and clear when it fails.\<close>

definition markPhase :: "string \<Rightarrow> bool \<Rightarrow> call \<Rightarrow> call" where
  "markPhase phase v c =
     (let c1 = (if phase = ''answer'' then c\<lparr>H248Answered := v\<rparr> else c)
      in if phase = ''onhook'' then c1\<lparr>H248OnhookSent := v\<rparr> else c1)"

definition sendCallLineEvent :: "env \<Rightarrow> nat \<Rightarrow> string \<Rightarrow> string \<Rightarrow> bridge \<Rightarrow> bool \<times> bridge" where
  "sendCallLineEvent e r event phase b =
     (let c = heap b r in
      case H248Responder c of
        None \<Rightarrow> (False, b)
      | Some rp \<Rightarrow>
          if Released c \<or> H248EventRequestID c = [] then (False, b)
          else if phase = ''answer'' \<and> (\<not> SIPAnswered c \<or> H248Answered c) then (False, b)
          else if phase = ''onhook'' \<and> H248OnhookSent c then (False, b)
          else
            (case newH248TransactionID (updCall r (markPhase phase True) b) of (tid, b1) \<Rightarrow>
               (let contextID = (if H248ContextAllocated c then H248ContextID c else ''-'');
                    b2 = setPending tid (callID c) phase b1;
                    message = notify e tid contextID (H248PhysicalTerm c) (H248EventRequestID c) event b
                in case sendOut e (H248Request rp (Some r) phase message) b2 of (ok, b3) \<Rightarrow>
                     if ok then (True, b3)
                     else (False, updCall r (markPhase phase False) (delPending tid b3)))))"

definition tryAnswerH248 :: "env \<Rightarrow> nat \<Rightarrow> bridge \<Rightarrow> bridge" where
  "tryAnswerH248 e r b = snd (sendCallLineEvent e r ''al/of'' ''answer'' b)"

definition sendOnhook :: "env \<Rightarrow> nat \<Rightarrow> bridge \<Rightarrow> bridge" where
  "sendOnhook e r b = snd (sendCallLineEvent e r ''al/on'' ''onhook'' b)"

end
