(* ===== verification/Bridge_Dialog.thy ===== *)
theory Bridge_Dialog
  imports Bridge_Line
begin

text \<open>
  The SIP side of a call (\<^verbatim>\<open>internal/bridge/sip.go\<close>): responses to an INVITE of the IP-PBX, the
  client transaction of an INVITE of the gateway, ACK, PRACK, the teardown of a dialog, and the
  INVITE transactions that are retained after their call is gone.

  The clock is read once per handler, so the tokens of one handler carry the same time.  The
  goroutine \<^verbatim>\<open>retransmitInvite\<close> is the pair of timers \<open>TRetransmit\<close> and \<open>TInviteDeadline\<close>, alive while
  its call identifier is in \<open>inviteLoops\<close> together with the current interval.
\<close>

subsection \<open>Responses to an INVITE of the IP-PBX\<close>

definition allowHeader :: "string \<times> string" where
  "allowHeader = (''Allow'', ''INVITE, ACK, CANCEL, BYE, OPTIONS, INFO, UPDATE'')"

definition supportedHeader :: "string \<times> string" where
  "supportedHeader = (''Supported'', ''100rel, replaces, timer'')"

text \<open>\<^verbatim>\<open>responder.Respond(sip.BuildResponse(..))\<close>.\<close>

definition respondSIP ::
  "env \<Rightarrow> sip_responder \<Rightarrow> sip_message \<Rightarrow> int \<Rightarrow> string \<Rightarrow> string \<Rightarrow> string \<Rightarrow> (string \<times> string) list \<Rightarrow>
     bridge \<Rightarrow> bridge" where
  "respondSIP e rp msg status reason body contact extra b =
     snd (sendOut e (SipReply rp status (BuildResponse msg status reason body contact extra)) b)"

definition originatedSDP :: "call \<Rightarrow> bridge \<Rightarrow> string" where
  "originatedSDP c b = BuildSDPWithPTime ''h248gw'' (mediaRTPIP (cfgMedia' b)) (SIPRTPPort c)
     [''PCMA/8000''] (SIPTelephoneEventPT c) (mediaPTime (cfgMedia' b))"

definition markResponse :: "int \<Rightarrow> string \<Rightarrow> call \<Rightarrow> call" where
  "markResponse status response c =
     (let c1 = c\<lparr>SIPLastResponse := response\<rparr>
      in if status \<ge> 200 \<and> status < 300 then c1\<lparr>SIPAnswered := True, State := ''sip-answered''\<rparr>
         else if status = 183 then c1\<lparr>State := ''sip-early-media''\<rparr> else c1)"

definition sendSIPOriginatedResponse ::
  "env \<Rightarrow> nat \<Rightarrow> int \<Rightarrow> string \<Rightarrow> bool \<Rightarrow> bridge \<Rightarrow> bool \<times> bridge" where
  "sendSIPOriginatedResponse e r status reason withSDP b =
     (let c = heap b r in
      case (SIPInitialRequest c, SIPResponder c) of
        (Some req, Some rp) \<Rightarrow>
          if Released c then (False, b)
          else if SIPAnswered c \<and> status < 200 then (False, b)
          else
            (let response = BuildResponse req status reason (if withSDP then originatedSDP c b else [])
                              (localContact (bCfg b)) [allowHeader, supportedHeader]
             in sendOut e (SipReply rp status response) (updCall r (markResponse status response) b))
      | _ \<Rightarrow> (False, b))"

definition answerSIPOriginatedCall :: "env \<Rightarrow> nat \<Rightarrow> bridge \<Rightarrow> bridge" where
  "answerSIPOriginatedCall e r b =
     (if Released (heap b r) \<or> SIPAnswered (heap b r) then b
      else (case sendSIPOriginatedResponse e r 200 ''OK'' True b of (ok, b1) \<Rightarrow>
              if ok then updCall r (\<lambda>c. c\<lparr>H248Answered := True\<rparr>) b1 else b1))"

definition failSIPOriginatedCall :: "env \<Rightarrow> nat \<Rightarrow> int \<Rightarrow> string \<Rightarrow> bridge \<Rightarrow> bridge" where
  "failSIPOriginatedCall e r status reason b =
     (if SIPAnswered (heap b r) then b
      else snd (sendSIPOriginatedResponse e r status reason False b))"

subsection \<open>Media of the remote party\<close>

definition resolveMedia :: "env \<Rightarrow> string \<Rightarrow> int \<Rightarrow> udp_addr option" where
  "resolveMedia e host p = resolve e (JoinHostPort host (Itoa p))"

text \<open>\<^verbatim>\<open>updateSIPRemoteMedia\<close>: whether it succeeds, and the new state.\<close>

definition updateSIPRemoteMedia :: "env \<Rightarrow> nat \<Rightarrow> string \<Rightarrow> bridge \<Rightarrow> bool \<times> bridge" where
  "updateSIPRemoteMedia e r body b =
     (case ParseSDP body of
        Inl err \<Rightarrow> (False, b)
      | Inr d \<Rightarrow>
          (case resolveMedia e (sdpIP d) (sdpPort d) of
             None \<Rightarrow> (False, b)
           | Some remote \<Rightarrow>
               (let b1 = updCall r (\<lambda>c. c\<lparr>SIPRemoteMedia := Some remote,
                            SIPTelephoneEventPT :=
                              (if sdpTelephoneEvent d > 0 then sdpTelephoneEvent d
                               else SIPTelephoneEventPT c)\<rparr>) b
                in (True, updMedia r (SetSIPPeer (Some remote) (SIPTelephoneEventPT (heap b1 r))) b1))))"

subsection \<open>Requests within the client transaction and the dialog\<close>

definition viaBranch :: "config \<Rightarrow> string \<Rightarrow> string" where
  "viaBranch cfg branch = ''SIP/2.0/UDP '' @ advertised cfg @ '';branch=z9hG4bK-'' @ branch @ '';rport''"

definition requestHeaders ::
  "config \<Rightarrow> string \<Rightarrow> string \<Rightarrow> string \<Rightarrow> string \<Rightarrow> int \<Rightarrow> string \<Rightarrow> (string \<times> string) list" where
  "requestHeaders cfg via from to cid cseq method =
     [(''Via'', via), (''Max-Forwards'', ''70''), (''From'', from), (''To'', to), (''Call-ID'', cid),
      (''CSeq'', Itoa cseq @ '' '' @ method), (''User-Agent'', sipUserAgent (cfgSIP cfg))]"

definition dialogHeaders ::
  "config \<Rightarrow> call \<Rightarrow> string \<Rightarrow> int \<Rightarrow> string \<Rightarrow> string \<Rightarrow> (string \<times> string) list" where
  "dialogHeaders cfg c to cseq method branch =
     requestHeaders cfg (viaBranch cfg (TrimPrefix branch ''z9hG4bK-'')) (SIPFrom c) to (SIPCallID c) cseq method"

definition orElse :: "'a option \<Rightarrow> 'a option \<Rightarrow> 'a option" where
  "orElse x y = (case x of None \<Rightarrow> y | Some v \<Rightarrow> x)"

definition writeTo :: "env \<Rightarrow> string \<Rightarrow> string \<Rightarrow> string \<Rightarrow> udp_addr option \<Rightarrow> bridge \<Rightarrow> bool \<times> bridge" where
  "writeTo e method cid message peer b =
     (case peer of None \<Rightarrow> (True, b) | Some p \<Rightarrow> sendOut e (SipRequest method cid message p) b)"

definition ackVia :: "env \<Rightarrow> config \<Rightarrow> int \<Rightarrow> string \<Rightarrow> string \<Rightarrow> string" where
  "ackVia e cfg status inviteVia inviteBranch =
     (if status \<ge> 200 \<and> status < 300 then viaBranch cfg (randomToken (now e) ''ack'')
      else if inviteVia = [] then viaBranch cfg (TrimPrefix inviteBranch ''z9hG4bK-'')
      else inviteVia)"

definition contactOr :: "sip_message \<Rightarrow> string \<Rightarrow> string" where
  "contactOr msg uri = (let contact = firstURI (Header msg ''Contact'') in if contact \<noteq> [] then contact else uri)"

definition sendInviteACKForTransaction ::
  "env \<Rightarrow> string \<Rightarrow> string \<Rightarrow> string \<Rightarrow> string \<Rightarrow> string \<Rightarrow> int \<Rightarrow> sip_message \<Rightarrow> udp_addr option \<Rightarrow>
     bridge \<Rightarrow> bridge" where
  "sendInviteACKForTransaction e cid requestURI from inviteVia inviteBranch inviteCSeq response peer b =
     (let status = smStatus response;
          uri = (if status \<ge> 200 \<and> status < 300 then contactOr response requestURI else requestURI);
          headers = requestHeaders (bCfg b) (ackVia e (bCfg b) status inviteVia inviteBranch) from
                      (Header response ''To'') cid inviteCSeq ''ACK''
      in snd (writeTo e ''ACK'' cid (BuildRequest ''ACK'' uri headers []) (orElse peer (smSource response)) b))"

definition sendInviteACK :: "env \<Rightarrow> nat \<Rightarrow> sip_message \<Rightarrow> udp_addr option \<Rightarrow> bridge \<Rightarrow> bridge" where
  "sendInviteACK e r response peer b =
     (let c = heap b r in
      sendInviteACKForTransaction e (SIPCallID c) (SIPRequestURI c) (SIPFrom c) (SIPInviteVia c)
        (SIPInviteBranch c) (SIPInviteCSeq c) response peer b)"

definition sendPRACK :: "env \<Rightarrow> nat \<Rightarrow> sip_message \<Rightarrow> string \<Rightarrow> bridge \<Rightarrow> bridge" where
  "sendPRACK e r response rseq b =
     (let c = heap b r;
          headers = dialogHeaders (bCfg b) c (Header response ''To'') 2 ''PRACK'' (randomToken (now e) ''prack'')
                    @ [(''RAck'', rseq @ '' '' @ Itoa (SIPInviteCSeq c) @ '' INVITE'')]
      in snd (writeTo e ''PRACK'' (SIPCallID c)
               (BuildRequest ''PRACK'' (contactOr response (SIPRequestURI c)) headers []) (SIPPeer c) b))"

subsection \<open>Retained INVITE transactions\<close>

definition retainTTL :: "bridge \<Rightarrow> int" where
  "retainTTL b = (if inviteTTL b \<le> 0 then defaultSIPInviteTransactionTTL else inviteTTL b)"

definition putRetained :: "retained_invite \<Rightarrow> bridge \<Rightarrow> bridge" where
  "putRetained ri b = b\<lparr>retainedInvites := (retainedInvites b)(riCallID ri \<mapsto> ri)\<rparr>"

definition scheduleRetainedSIPInviteExpiry :: "env \<Rightarrow> retained_invite \<Rightarrow> int \<Rightarrow> bridge \<Rightarrow> bridge" where
  "scheduleRetainedSIPInviteExpiry e ri ttl b = after e ttl (TRetainedExpiry (riRef ri) (riCallID ri)) b"

text \<open>The body of the timer: only the transaction it was armed for, and only once its (possibly
  refreshed) time has come.\<close>

definition expireRetained :: "env \<Rightarrow> nat \<Rightarrow> string \<Rightarrow> bridge \<Rightarrow> bridge" where
  "expireRetained e ref cid b =
     (case retainedInvites b cid of
        None \<Rightarrow> b
      | Some ri \<Rightarrow>
          if riRef ri = ref \<and> \<not> now e < riExpiresAt ri
          then b\<lparr>retainedInvites := (retainedInvites b)(cid := None)\<rparr> else b)"

definition newRetained :: "nat \<Rightarrow> string \<Rightarrow> retained_invite" where
  "newRetained ref cid = \<lparr> riRef = ref, riCallID = cid, riRequestURI = [], riFrom = [], riInviteVia = [],
     riInviteBranch = [], riInviteCSeq = 0, riPeer = None, riExpiresAt = 0, riLateBYESent = False \<rparr>"

text \<open>The object of the table, allocated when the call has none.\<close>

definition retainedFor :: "string \<Rightarrow> bridge \<Rightarrow> retained_invite \<times> bridge" where
  "retainedFor cid b =
     (case retainedInvites b cid of
        Some ri \<Rightarrow> (ri, b)
      | None \<Rightarrow> (newRetained (nextRetained b) cid, b\<lparr>nextRetained := Suc (nextRetained b)\<rparr>))"

definition retainSIPInvite :: "env \<Rightarrow> nat \<Rightarrow> bridge \<Rightarrow> bridge" where
  "retainSIPInvite e r b =
     (let c = heap b r in
      if SIPCallID c = [] \<or> SIPRequestURI c = [] \<or> SIPInviteCSeq c \<le> 0 then b
      else
        (let ttl = retainTTL b in
         case retainedFor (SIPCallID c) b of (ri, b1) \<Rightarrow>
           (let ri' = ri\<lparr>riRequestURI := SIPRequestURI c, riFrom := SIPFrom c, riInviteVia := SIPInviteVia c,
                         riInviteBranch := SIPInviteBranch c, riInviteCSeq := SIPInviteCSeq c,
                         riPeer := SIPPeer c, riExpiresAt := now e + ttl\<rparr>
            in scheduleRetainedSIPInviteExpiry e ri' ttl (putRetained ri' b1))))"

definition refreshRetainedSIPInvite :: "env \<Rightarrow> string \<Rightarrow> bridge \<Rightarrow> bridge" where
  "refreshRetainedSIPInvite e cid b =
     (case retainedInvites b cid of
        None \<Rightarrow> b
      | Some ri \<Rightarrow>
          (let ttl = retainTTL b; ri' = ri\<lparr>riExpiresAt := now e + ttl\<rparr>
           in scheduleRetainedSIPInviteExpiry e ri' ttl (putRetained ri' b)))"

definition sendLateAnswerBYE :: "env \<Rightarrow> string \<Rightarrow> sip_message \<Rightarrow> bridge \<Rightarrow> bridge" where
  "sendLateAnswerBYE e cid response b =
     (case retainedInvites b cid of
        None \<Rightarrow> b
      | Some ri \<Rightarrow>
          if riLateBYESent ri then b
          else
            (let b1 = putRetained (ri\<lparr>riLateBYESent := True\<rparr>) b;
                 uri = contactOr response (riRequestURI ri);
                 headers = requestHeaders (bCfg b) (viaBranch (bCfg b) (randomToken (now e) ''late-bye''))
                             (riFrom ri) (Header response ''To'') (riCallID ri) (riInviteCSeq ri + 1) ''BYE''
             in case orElse (riPeer ri) (smSource response) of
                  None \<Rightarrow> b1
                | Some peer \<Rightarrow>
                    if uri = [] then b1
                    else (case sendOut e (SipRequest ''BYE'' (riCallID ri) (BuildRequest ''BYE'' uri headers []) peer) b1
                          of (ok, b2) \<Rightarrow> if ok then b2 else putRetained (ri\<lparr>riLateBYESent := False\<rparr>) b2)))"

definition handleRetainedSIPInviteResponse :: "env \<Rightarrow> string \<Rightarrow> sip_message \<Rightarrow> bridge \<Rightarrow> bridge" where
  "handleRetainedSIPInviteResponse e cid msg b =
     (case retainedInvites b cid of
        None \<Rightarrow> b
      | Some ri0 \<Rightarrow>
          (let ri = (if smSource msg \<noteq> None then ri0\<lparr>riPeer := smSource msg\<rparr> else ri0);
               b1 = putRetained ri b
           in if ToUpper (CSeqMethod msg) = ''INVITE'' \<and> parseCSeqNumber (CSeqNumber msg) = riInviteCSeq ri
                 \<and> smStatus msg \<ge> 200
              then
                (let b2 = sendInviteACKForTransaction e (riCallID ri) (riRequestURI ri) (riFrom ri)
                            (riInviteVia ri) (riInviteBranch ri) (riInviteCSeq ri) msg (riPeer ri) b1;
                     b3 = refreshRetainedSIPInvite e cid b2
                 in if smStatus msg < 300 then sendLateAnswerBYE e cid msg b3 else b3)
              else b1))"

subsection \<open>Teardown\<close>

text \<open>BYE of a call that the IP-PBX placed and the gateway answered.\<close>

definition byeAsServer :: "env \<Rightarrow> nat \<Rightarrow> udp_addr \<Rightarrow> bridge \<Rightarrow> bridge" where
  "byeAsServer e r peer b =
     (let c = heap b r;
          uri = (if SIPRemoteContact c = [] then firstURI (SIPFrom c) else SIPRemoteContact c);
          headers = requestHeaders (bCfg b) (viaBranch (bCfg b) (randomToken (now e) ''bye''))
                      (SIPTo c) (SIPFrom c) (SIPCallID c) 1 ''BYE'';
          b1 = updCall r (\<lambda>c. c\<lparr>State := ''sip-bye-sent''\<rparr>) b
      in if bSender b \<and> uri \<noteq> []
         then snd (sendOut e (SipRequest ''BYE'' (SIPCallID c) (BuildRequest ''BYE'' uri headers []) peer) b1)
         else b1)"

text \<open>BYE or CANCEL of a call that the gateway placed.\<close>

definition setHeader :: "string \<Rightarrow> string \<Rightarrow> (string \<times> string) list \<Rightarrow> (string \<times> string) list" where
  "setHeader k v hs = map (\<lambda>h. if fst h = k then (k, v) else h) hs"

definition teardownRequest :: "env \<Rightarrow> call \<Rightarrow> config \<Rightarrow> string \<times> string" where
  "teardownRequest e c cfg =
     (let method = (if SIPAnswered c then ''BYE'' else ''CANCEL'');
          cseq = (if SIPAnswered c then SIPInviteCSeq c + 1 else SIPInviteCSeq c);
          branch = (if SIPAnswered c then randomToken (now e) ''bye'' else TrimPrefix (SIPInviteBranch c) ''z9hG4bK-'');
          uri = (if SIPAnswered c \<and> SIPRemoteContact c \<noteq> [] then SIPRemoteContact c else SIPRequestURI c);
          headers0 = dialogHeaders cfg c (SIPTo c) cseq method branch;
          headers = (if \<not> SIPAnswered c \<and> SIPInviteVia c \<noteq> [] then setHeader ''Via'' (SIPInviteVia c) headers0
                     else headers0)
      in (method, BuildRequest method uri headers []))"

definition teardownAsClient :: "env \<Rightarrow> nat \<Rightarrow> udp_addr \<Rightarrow> bridge \<Rightarrow> bridge" where
  "teardownAsClient e r peer b =
     (let c = heap b r in
      if \<not> SIPAnswered c \<and> SIPInviteFinal c then updCall r (\<lambda>c. c\<lparr>State := ''sip-final-complete''\<rparr>) b
      else
        (case teardownRequest e c (bCfg b) of (method, request) \<Rightarrow>
           (let b1 = updCall r (\<lambda>c. c\<lparr>State := ''sip-'' @ ToLower method @ ''-sent''\<rparr>) b;
                b2 = (if method = ''CANCEL'' then retainSIPInvite e r b1 else b1)
            in if bSender b then snd (sendOut e (SipRequest method (SIPCallID c) request peer) b2) else b2)))"

definition sendSIPTeardown :: "env \<Rightarrow> nat \<Rightarrow> bridge \<Rightarrow> bridge" where
  "sendSIPTeardown e r b =
     (let c = heap b r in
      case SIPPeer c of
        None \<Rightarrow> b
      | Some peer \<Rightarrow>
          if SIPCallID c = [] \<or> SIPRemoteReleased c then b
          else if Direction c = ''sip-to-h248'' then
            (if SIPAnswered c then byeAsServer e r peer b
             else failSIPOriginatedCall e r 503 ''Carrier Call Released'' b)
          else teardownAsClient e r peer b)"

subsection \<open>The INVITE of the gateway\<close>

definition inviteCaller :: "call \<Rightarrow> string" where
  "inviteCaller c = (let u = sanitizeSIPUser (CallerID c) in if u = [] then ''anonymous'' else u)"

definition inviteDomain :: "config \<Rightarrow> string" where
  "inviteDomain cfg =
     (let d = TrimSpace (sipDomain (cfgSIP cfg)) in if d = [] then hostOnly (advertised cfg) else d)"

definition inviteCallID :: "env \<Rightarrow> config \<Rightarrow> call \<Rightarrow> string" where
  "inviteCallID e cfg c =
     ''h248-'' @ H248ContextID c @ ''-'' @ randomToken (now e) ''call'' @ ''@'' @ hostOnly (advertised cfg)"

definition inviteFields :: "env \<Rightarrow> config \<Rightarrow> udp_addr \<Rightarrow> call \<Rightarrow> call" where
  "inviteFields e cfg peer c =
     (let requestURI = normalizeSIPURI (sipTrunkURI (cfgSIP cfg));
          adv = advertised cfg;
          localTag = randomToken (now e) ''tag'';
          branch = ''z9hG4bK-'' @ randomToken (now e) ''branch'';
          cid = inviteCallID e cfg c;
          identity = ''<sip:'' @ inviteCaller c @ ''@'' @ inviteDomain cfg @ ''>'';
          from = identity @ '';tag='' @ localTag;
          to = ''<'' @ requestURI @ ''>'';
          via = ''SIP/2.0/UDP '' @ adv @ '';branch='' @ branch @ '';rport'';
          sdp = BuildSDPWithPTime ''h248gw'' (mediaRTPIP (cfgMedia cfg)) (SIPRTPPort c)
                  (mediaCodecs (cfgMedia cfg)) (mediaDTMF (cfgMedia cfg)) (mediaPTime (cfgMedia cfg));
          headers = [(''Via'', via), (''Max-Forwards'', ''70''), (''From'', from), (''To'', to),
            (''Call-ID'', cid), (''CSeq'', ''1 INVITE''), (''Contact'', ''<sip:gateway@'' @ adv @ ''>''),
            allowHeader, supportedHeader, (''P-Asserted-Identity'', identity),
            (''User-Agent'', sipUserAgent (cfgSIP cfg))]
      in c\<lparr>SIPCallID := cid, SIPRequestURI := requestURI, SIPPeer := Some peer, SIPFrom := from, SIPTo := to,
           SIPLocalTag := localTag, SIPInvite := BuildRequest ''INVITE'' requestURI headers sdp,
           SIPInviteVia := via, SIPInviteBranch := branch, SIPInviteCSeq := 1, State := ''sip-invite-sent''\<rparr>)"

definition initialRetransmitInterval :: int where
  "initialRetransmitInterval = milliseconds 500"

definition inviteDeadline :: int where
  "inviteDeadline = seconds 32"

definition startSIPInvite :: "env \<Rightarrow> nat \<Rightarrow> bridge \<Rightarrow> bridge" where
  "startSIPInvite e r b =
     (let c = heap b r; cfg = bCfg b in
      if Released c \<or> SIPCallID c \<noteq> [] \<or> \<not> bSender b then b
      else
        (case resolveSIPPeer (resolve e) (sipOutboundProxy (cfgSIP cfg)) (sipTrunkURI (cfgSIP cfg)) of
           None \<Rightarrow> b
         | Some peer \<Rightarrow>
             (let b1 = updCall r (inviteFields e cfg peer) b;
                  c1 = heap b1 r; cid = SIPCallID c1;
                  b2 = b1\<lparr>callsBySIP := AList.update cid r (callsBySIP b1)\<rparr>
              in case sendOut e (SipRequest ''INVITE'' cid (SIPInvite c1) peer) b2 of (ok, b3) \<Rightarrow>
                   if ok then
                     after e inviteDeadline (TInviteDeadline cid)
                       (after e initialRetransmitInterval (TRetransmit cid)
                         (b3\<lparr>inviteLoops := AList.update cid initialRetransmitInterval (inviteLoops b3)\<rparr>))
                   else
                     updCall r (\<lambda>c. c\<lparr>SIPCallID := [], State := ''carrier-ringing''\<rparr>)
                       (b3\<lparr>callsBySIP := AList.delete cid (callsBySIP b3)\<rparr>))))"

definition maxRetransmitInterval :: int where
  "maxRetransmitInterval = seconds 4"

definition nextInterval :: "int \<Rightarrow> int" where
  "nextInterval i = (if 2 * i > maxRetransmitInterval then maxRetransmitInterval else 2 * i)"

text \<open>The two timers of \<^verbatim>\<open>retransmitInvite\<close>; the loop ends when its identifier leaves \<open>inviteLoops\<close>.\<close>

definition endInviteLoop :: "string \<Rightarrow> bridge \<Rightarrow> bridge" where
  "endInviteLoop cid b = b\<lparr>inviteLoops := AList.delete cid (inviteLoops b)\<rparr>"

definition retransmitTick :: "env \<Rightarrow> string \<Rightarrow> bridge \<Rightarrow> bridge" where
  "retransmitTick e cid b =
     (case map_of (inviteLoops b) cid of
        None \<Rightarrow> b
      | Some i \<Rightarrow>
          (case map_of (callsBySIP b) cid of
             None \<Rightarrow> endInviteLoop cid b
           | Some r \<Rightarrow>
               (let c = heap b r in
                if Released c \<or> SIPInviteProvisional c \<or> SIPAnswered c then endInviteLoop cid b
                else
                  (let b1 = (if bSender b then snd (writeTo e ''INVITE'' cid (SIPInvite c) (SIPPeer c) b) else b)
                   in after e (nextInterval i) (TRetransmit cid)
                        (b1\<lparr>inviteLoops := AList.update cid (nextInterval i) (inviteLoops b1)\<rparr>)))))"

definition inviteTimeout :: "env \<Rightarrow> string \<Rightarrow> bridge \<Rightarrow> bridge" where
  "inviteTimeout e cid b =
     (if map_of (inviteLoops b) cid = None then b
      else
        (let b0 = endInviteLoop cid b in
         case map_of (callsBySIP b) cid of
           None \<Rightarrow> b0
         | Some r \<Rightarrow>
             (let c = heap b0 r;
                  b1 = (if \<not> SIPInviteProvisional c \<and> \<not> SIPAnswered c \<and> \<not> Released c
                        then updCall r (\<lambda>c. c\<lparr>State := ''sip-invite-timeout''\<rparr>) b0 else b0)
              in releaseCall r (sendOnhook e r b1))))"

end
