(* ===== verification/Bridge_H248.thy ===== *)
theory Bridge_H248
  imports Bridge_Dialog
begin

text \<open>
  The H.248 handlers of the bridge (\<^verbatim>\<open>internal/bridge/h248.go\<close>): the lifecycle of the line, the Add
  requests that open a context, the processing of the other commands, the origination of a call of
  the IP-PBX (off-hook and digits), and the release by the carrier.  A handler is a function from
  the state to the state; \<open>env\<close> is described in \<^verbatim>\<open>Bridge_State\<close>.
\<close>

subsection \<open>Origination: off-hook and digits\<close>

definition scheduleOriginationOffhook :: "env \<Rightarrow> nat \<Rightarrow> bridge \<Rightarrow> bridge" where
  "scheduleOriginationOffhook e r b =
     (if Released (heap b r) \<or> H248OffhookSent (heap b r) then b
      else
        (let notBefore = lineReadyAt (line b) + seconds (h248StabilizationSeconds (cfgH248' b));
             delay = notBefore - now e
         in after e (if delay < 0 then 0 else delay) (TOffhook r) b))"

text \<open>The end of a failed origination: the INVITE is answered and the call is released.\<close>

definition failOrigination :: "env \<Rightarrow> nat \<Rightarrow> int \<Rightarrow> string \<Rightarrow> bridge \<Rightarrow> bridge" where
  "failOrigination e r status reason b = releaseCall r (failSIPOriginatedCall e r status reason b)"

definition sendOriginationOffhook :: "env \<Rightarrow> nat \<Rightarrow> bridge \<Rightarrow> bridge" where
  "sendOriginationOffhook e r b =
     (let c = heap b r; l = line b in
      case lineResponder l of
        None \<Rightarrow> failOrigination e r 503 ''H248 Line Not Ready'' b
      | Some rp \<Rightarrow>
          if Released c \<or> H248OffhookSent c \<or> \<not> lineReady l \<or> \<not> lineOnhookSent l \<or> lineRequestID l = []
          then failOrigination e r 503 ''H248 Line Not Ready'' b
          else
            (case newH248TransactionID b of (tid, b1) \<Rightarrow>
               (let b2 = setPending tid (callID c) ''origination-offhook''
                           (updCall r (\<lambda>c. c\<lparr>H248Responder := Some rp, H248EventRequestID := lineRequestID l,
                                         H248OffhookSent := True, State := ''h248-offhook-sent''\<rparr>) b1);
                    message = notify e tid ''-'' (h248PhysicalTermination (cfgH248' b)) (lineRequestID l) ''al/of'' b
                in case sendOut e (H248Request rp (Some r) ''origination-offhook'' message) b2 of (ok, b3) \<Rightarrow>
                     if ok then b3
                     else failOrigination e r 503 ''H248 Offhook Failed''
                            (delPending tid (updCall r (\<lambda>c. c\<lparr>H248OffhookSent := False\<rparr>) b3)))))"

definition scheduleOriginationDigits :: "env \<Rightarrow> nat \<Rightarrow> bridge \<Rightarrow> bridge" where
  "scheduleOriginationDigits e r b =
     (let c = heap b r in
      if Released c \<or> H248DigitsSent c \<or> H248DigitsScheduled c then b
      else after e (milliseconds (h248DigitDelayMillis (cfgH248' b))) (TDigits r)
             (updCall r (\<lambda>c. c\<lparr>H248DigitsScheduled := True\<rparr>) b))"

definition sendOriginationDigits :: "env \<Rightarrow> nat \<Rightarrow> bridge \<Rightarrow> bridge" where
  "sendOriginationDigits e r b =
     (let c = heap b r; unscheduled = updCall r (\<lambda>c. c\<lparr>H248DigitsScheduled := False\<rparr>) b in
      case H248Responder c of
        None \<Rightarrow> unscheduled
      | Some rp \<Rightarrow>
          if Released c \<or> H248DigitsSent c \<or> H248EventRequestID c = [] then unscheduled
          else
            (case newH248TransactionID b of (tid, b1) \<Rightarrow>
               (let b2 = setPending tid (callID c) ''origination-digits''
                           (updCall r (\<lambda>c. c\<lparr>H248DigitsScheduled := False, H248DigitsSent := True,
                                         State := ''h248-digits-sent''\<rparr>) b1);
                    message = BuildDigitMapCompleteNotify (h248Version (cfgH248' b)) (h248MGID (cfgH248' b)) tid
                                ''-'' (h248PhysicalTermination (cfgH248' b)) (H248EventRequestID c)
                                (civil e (now e)) (DestinationNumber c)
                in case sendOut e (H248Request rp (Some r) ''origination-digits'' message) b2 of (ok, b3) \<Rightarrow>
                     if ok then b3
                     else failOrigination e r 503 ''H248 Digit Report Failed''
                            (delPending tid (updCall r (\<lambda>c. c\<lparr>H248DigitsSent := False\<rparr>) b3)))))"

subsection \<open>Classification of commands\<close>

definition isLineTermination :: "string \<Rightarrow> string \<Rightarrow> bool" where
  "isLineTermination v physicalTermination \<longleftrightarrow> v = ''*'' \<or> EqualFold v physicalTermination"

definition isCarrierClear :: "h248_command \<Rightarrow> bool" where
  "isCarrierClear command \<longleftrightarrow>
     (let lower = ToLower (cmdBody command) in
      Contains lower ''cg/ct'' \<or>
      Contains lower ''mo=rc'' \<and> HasPrefix (ToUpper (cmdTerm command)) ''RTP/'')"

definition firstNonEmpty :: "string list \<Rightarrow> string" where
  "firstNonEmpty xs = (case find (\<lambda>x. x \<noteq> []) xs of None \<Rightarrow> [] | Some x \<Rightarrow> x)"

definition isIncomingCallAdd :: "h248_message \<Rightarrow> string \<Rightarrow> bool" where
  "isIncomingCallAdd msg physicalTermination \<longleftrightarrow>
     (let adds = filter (\<lambda>c. cmdName c = ''Add'') (msgCommands msg) in
      firstNonEmpty (map cmdContext adds) = ''$'' \<and>
      list_ex (\<lambda>c. EqualFold (cmdTerm c) physicalTermination) adds \<and>
      list_ex (\<lambda>c. cmdTerm c = ''$'') adds)"

subsection \<open>Replies\<close>

datatype action_error = NoTermination string | NoCommands

definition actionErrorText :: "action_error \<Rightarrow> string" where
  "actionErrorText err =
     (case err of NoTermination name \<Rightarrow> name @ '' command has no termination ID''
      | NoCommands \<Rightarrow> ''transaction contains no supported commands'')"

definition commandReply :: "int \<Rightarrow> h248_command \<Rightarrow> string" where
  "commandReply version command =
     (if cmdName command = ''ServiceChange''
      then ''SC='' @ cmdTerm command @ ''{SV{V='' @ Itoa version @ ''}}''
      else SimpleCommandReply command)"

text \<open>Appends a reply to the action of a context, which is added at the end when it is new.\<close>

fun addAction :: "string \<Rightarrow> string \<Rightarrow> action_reply list \<Rightarrow> action_reply list" where
  "addAction contextID reply [] = [\<lparr> arContext = contextID, arCommands = [reply] \<rparr>]"
| "addAction contextID reply (a # as) =
     (if arContext a = contextID then a\<lparr>arCommands := arCommands a @ [reply]\<rparr> # as
      else a # addAction contextID reply as)"

definition commandContext :: "h248_message \<Rightarrow> h248_command \<Rightarrow> string" where
  "commandContext msg command =
     (if cmdContext command \<noteq> [] then cmdContext command
      else if msgContext msg \<noteq> [] then msgContext msg else ''-'')"

fun collectActions :: "h248_message \<Rightarrow> int \<Rightarrow> h248_command list \<Rightarrow> action_reply list \<Rightarrow> action_error + action_reply list" where
  "collectActions msg version [] acc = (if acc = [] then Inl NoCommands else Inr acc)"
| "collectActions msg version (command # rest) acc =
     (if cmdTerm command = [] then Inl (NoTermination (cmdName command))
      else collectActions msg version rest
             (addAction (commandContext msg command) (commandReply version command) acc))"

definition simpleActionReplies :: "h248_message \<Rightarrow> int \<Rightarrow> action_error + action_reply list" where
  "simpleActionReplies msg version = collectActions msg version (msgCommands msg) []"

definition buildIncomingAddReply ::
  "h248_message \<Rightarrow> string \<Rightarrow> string \<Rightarrow> string \<Rightarrow> string \<Rightarrow> string \<Rightarrow> int \<Rightarrow> int \<Rightarrow> int \<Rightarrow> string" where
  "buildIncomingAddReply req mid contextID physicalTermination ephemeralTermination rtpIP rtpPort dtmfPayload ptime0 =
     (let ptime = (if ptime0 \<le> 0 then 20 else ptime0);
          dtmf = dtmfPayload > 0 \<and> dtmfPayload < 128;
          media = ''A='' @ ephemeralTermination @ ''{M{L{v=0'' @ CRLF @ ''c=IN IP4 '' @ rtpIP @ CRLF @
            ''m=audio '' @ Itoa rtpPort @ '' RTP/AVP 8'' @ (if dtmf then '' '' @ Itoa dtmfPayload else []) @ CRLF @
            ''a=ptime:'' @ Itoa ptime @ CRLF @
            (if dtmf then ''a=rtpmap:'' @ Itoa dtmfPayload @ '' telephone-event/8000'' @ CRLF @
                          ''a=fmtp:'' @ Itoa dtmfPayload @ '' 0-15'' @ CRLF else []) @ ''}}}''
      in BuildActionReply req mid [\<lparr> arContext = contextID, arCommands = [''A='' @ physicalTermination, media] \<rparr>])"

definition respondH248 :: "env \<Rightarrow> h248_responder \<Rightarrow> string \<Rightarrow> bridge \<Rightarrow> bool \<times> bridge" where
  "respondH248 e rp message b = sendOut e (H248Reply rp message) b"

definition respondError :: "env \<Rightarrow> h248_responder \<Rightarrow> h248_message \<Rightarrow> string \<Rightarrow> string \<Rightarrow> bridge \<Rightarrow> bridge" where
  "respondError e rp msg code description b =
     snd (respondH248 e rp (BuildErrorReply msg (h248MGID (cfgH248' b)) code description) b)"

subsection \<open>Add requests\<close>

text \<open>\<^verbatim>\<open>newMediaRelay\<close> with the arguments both callers give it; its socket events are outputs.\<close>

definition openRelay :: "env \<Rightarrow> call \<Rightarrow> bridge \<Rightarrow> media_relay option \<times> bridge" where
  "openRelay e c b =
     (case newMediaRelay (listens e) (callID c) (mediaH248RTPIP (cfgMedia' b)) (H248RTPPort c)
             (h248BindDevice (cfgH248' b)) (mediaRTPIP (cfgMedia' b)) (SIPRTPPort c) (sipBindDevice (cfgSIP' b))
             (H248TelephoneEventPT c) (SIPTelephoneEventPT c) (mediaH248DTMFMode (cfgMedia' b))
             (mediaPTime (cfgMedia' b)) of
        (Inl err, evs) \<Rightarrow> (None, emitAll (map Sock evs) b)
      | (Inr m, evs) \<Rightarrow> (Some m, emitAll (map Sock evs) b))"

definition addReply :: "h248_message \<Rightarrow> call \<Rightarrow> bridge \<Rightarrow> string" where
  "addReply msg c b =
     buildIncomingAddReply msg (h248MGID (cfgH248' b)) (H248ContextID c) (H248PhysicalTerm c)
       (H248EphemeralTerm c) (mediaH248RTPIP (cfgMedia' b)) (H248RTPPort c) (H248TelephoneEventPT c)
       (mediaPTime (cfgMedia' b))"

definition incomingCall ::
  "env \<Rightarrow> config \<Rightarrow> h248_message \<Rightarrow> h248_responder \<Rightarrow> udp_addr \<Rightarrow> media_description \<Rightarrow>
     string \<times> string \<times> int \<times> int \<Rightarrow> call" where
  "incomingCall e cfg msg rp remoteRTP media ids =
     (case ids of (contextID, ephemeral, h248Port, sipPort) \<Rightarrow>
        zeroCall\<lparr>callID := ''h248-'' @ contextID, Direction := ''h248-to-sip'', State := ''h248-add-received'',
          CreatedAt := now e, H248ContextID := contextID, H248ContextAllocated := True,
          H248PhysicalTerm := h248PhysicalTermination (cfgH248 cfg), H248EphemeralTerm := ephemeral,
          H248EventRequestID := EventRequestID (msgRaw msg), H248Responder := Some rp,
          H248RemoteMedia := Some remoteRTP, H248RTPPort := h248Port,
          H248TelephoneEventPT :=
            (if mdTelephoneEvent media = 0 then mediaH248DTMF (cfgMedia cfg) else mdTelephoneEvent media),
          SIPRTPPort := sipPort, SIPTelephoneEventPT := mediaDTMF (cfgMedia cfg)\<rparr>)"

definition insertH248 :: "nat \<Rightarrow> bridge \<Rightarrow> bridge" where
  "insertH248 r b = b\<lparr>callsByH248 := AList.update (H248ContextID (heap b r)) r (callsByH248 b)\<rparr>"

definition handleIncomingCallAdd :: "env \<Rightarrow> h248_message \<Rightarrow> h248_responder \<Rightarrow> bridge \<Rightarrow> bridge" where
  "handleIncomingCallAdd e msg rp b =
     (case ExtractRemoteMedia (msgRaw msg) of
        None \<Rightarrow> respondError e rp msg ''510'' ''missing remote RTP descriptor'' b
      | Some media \<Rightarrow>
          (case resolveMedia e (mdIP media) (mdPort media) of
             None \<Rightarrow> respondError e rp msg ''510'' ''invalid remote RTP address'' b
           | Some remoteRTP \<Rightarrow>
               (case allocateCallIdentifiersLocked b of (ids, b1) \<Rightarrow>
                  (let c0 = incomingCall e (bCfg b) msg rp remoteRTP media ids in
                   case openRelay e c0 b1 of
                     (None, b2) \<Rightarrow> respondError e rp msg ''510'' ''RTP resource unavailable'' b2
                   | (Some relay, b2) \<Rightarrow>
                       (let c = c0\<lparr>Media := Some (SetH248Peer (Some remoteRTP) (H248TelephoneEventPT c0) relay)\<rparr> in
                        case allocCall c b2 of (r, b3) \<Rightarrow>
                          (case respondH248 e rp (addReply msg c b3) (insertH248 r b3) of (ok, b4) \<Rightarrow>
                             if ok then updCall r (\<lambda>c. c\<lparr>State := ''carrier-ringing''\<rparr>) b4
                             else releaseCall r b4))))))"

text \<open>The carrier's media as learned from a remote descriptor; whether it could be resolved.\<close>

definition learnH248Media :: "env \<Rightarrow> nat \<Rightarrow> string \<Rightarrow> bridge \<Rightarrow> bool \<times> bridge" where
  "learnH248Media e r text0 b =
     (case ExtractRemoteMedia text0 of
        None \<Rightarrow> (False, b)
      | Some media \<Rightarrow>
          (case resolveMedia e (mdIP media) (mdPort media) of
             None \<Rightarrow> (False, b)
           | Some remote \<Rightarrow>
               (let b1 = updCall r (\<lambda>c. c\<lparr>H248RemoteMedia := Some remote,
                            H248TelephoneEventPT :=
                              (if mdTelephoneEvent media > 0 then mdTelephoneEvent media
                               else H248TelephoneEventPT c)\<rparr>) b
                in (True, updMedia r (SetH248Peer (Some remote) (H248TelephoneEventPT (heap b1 r))) b1))))"

definition negotiateOutboundDTMF :: "nat \<Rightarrow> h248_message \<Rightarrow> bridge \<Rightarrow> bridge" where
  "negotiateOutboundDTMF r msg b =
     (if mediaH248DTMFMode (cfgMedia' b) = ''inband''
      then updCall r (\<lambda>c. c\<lparr>H248TelephoneEventPT := 0\<rparr>) b
      else (case ExtractLocalTelephoneEventPayload (msgRaw msg) of
              None \<Rightarrow> b
            | Some pt \<Rightarrow> updMedia r (SetH248DTMFPayloadType pt) (updCall r (\<lambda>c. c\<lparr>H248TelephoneEventPT := pt\<rparr>) b)))"

definition handleOutboundCallAdd :: "env \<Rightarrow> h248_message \<Rightarrow> h248_responder \<Rightarrow> nat \<Rightarrow> bridge \<Rightarrow> bridge" where
  "handleOutboundCallAdd e msg rp r b =
     (if Released (heap b r) \<or> H248ContextAllocated (heap b r)
      then respondError e rp msg ''510'' ''origination context already allocated'' b
      else
        (let requestID = EventRequestID (msgRaw msg);
             b1 = insertH248 r (updCall r (\<lambda>c. c\<lparr>H248ContextAllocated := True, H248Responder := Some rp,
                    H248EventRequestID := (if requestID \<noteq> [] then requestID else H248EventRequestID c),
                    State := ''h248-outbound-context-allocated''\<rparr>) b);
             b2 = negotiateOutboundDTMF r msg b1;
             b3 = snd (learnH248Media e r (msgRaw msg) b2)
         in case respondH248 e rp (addReply msg (heap b3 r) b3) b3 of (ok, b4) \<Rightarrow>
              if ok then snd (sendSIPOriginatedResponse e r 183 ''Session Progress'' True b4)
              else failOrigination e r 503 ''Carrier Context Allocation Failed'' b4))"

subsection \<open>Release by the carrier\<close>

definition handleCarrierRelease :: "env \<Rightarrow> nat \<Rightarrow> bool \<Rightarrow> bridge \<Rightarrow> bridge" where
  "handleCarrierRelease e r contextReleased b =
     (let c = heap b r;
          needsOnhook = \<not> H248OnhookSent c \<and> (H248OffhookSent c \<or> H248Answered c);
          b1 = (if contextReleased then
                  (let b0 = updCall r (\<lambda>c. c\<lparr>H248ContextAllocated := False\<rparr>) b
                   in if H248EventRequestID c \<noteq> [] \<and> H248Responder c \<noteq> None
                      then updLine (\<lambda>l. l\<lparr>lineRequestID := H248EventRequestID c, lineResponder := H248Responder c\<rparr>) b0
                      else b0)
                else b);
          b2 = (if needsOnhook then sendOnhook e r b1 else b1)
      in releaseCall r (sendSIPTeardown e r b2))"

definition releaseAllCallsFromCarrier :: "env \<Rightarrow> bridge \<Rightarrow> bridge" where
  "releaseAllCallsFromCarrier e b =
     foldl (\<lambda>b r. handleCarrierRelease e r True b) b (map snd (callsByH248 b))"

subsection \<open>Other commands\<close>

definition commandRequestID :: "h248_message \<Rightarrow> h248_command \<Rightarrow> string" where
  "commandRequestID msg command =
     (let requestID = EventRequestID (cmdBody command)
      in if requestID = [] then EventRequestID (msgRaw msg) else requestID)"

definition reportsDialTone :: "h248_command \<Rightarrow> bool" where
  "reportsDialTone command \<longleftrightarrow>
     Contains (ToLower (cmdBody command)) ''dd/ce'' \<or> Contains (ToLower (cmdBody command)) ''cg/dt''"

text \<open>A command on the line outside every context.\<close>

definition processLineCommand :: "env \<Rightarrow> string \<Rightarrow> h248_command \<Rightarrow> h248_responder \<Rightarrow> bridge \<Rightarrow> bridge" where
  "processLineCommand e requestID command rp b =
     (let b1 = (if requestID \<noteq> [] then
                  (let b0 = updLine (\<lambda>l. l\<lparr>lineRequestID := requestID, lineResponder := Some rp\<rparr>) b
                   in if lineReady (line b0) then sendInitialOnhook e b0 else b0)
                else b)
      in case outboundCall b1 of
           None \<Rightarrow> b1
         | Some r \<Rightarrow>
             if \<not> (H248OffhookSent (heap b1 r) \<and> \<not> H248DigitsSent (heap b1 r)) then b1
             else
               (let b2 = (if requestID \<noteq> []
                          then updCall r (\<lambda>c. c\<lparr>H248EventRequestID := requestID, H248Responder := Some rp\<rparr>) b1
                          else b1)
                in if reportsDialTone command then scheduleOriginationDigits e r b2 else b2))"

text \<open>A command in the context of a call.\<close>

definition processCallCommand ::
  "env \<Rightarrow> string \<Rightarrow> h248_command \<Rightarrow> h248_responder \<Rightarrow> nat \<Rightarrow> bridge \<Rightarrow> bridge" where
  "processCallCommand e requestID command rp r b =
     (let onLine = isLineTermination (cmdTerm command) (H248PhysicalTerm (heap b r));
          caller = DecodeAndispCallerID (cmdBody command);
          b1 = updCall r (\<lambda>c. c\<lparr>H248Responder := Some rp,
                 H248EventRequestID := (if requestID \<noteq> [] \<and> onLine then requestID else H248EventRequestID c),
                 CallerID := (if caller \<noteq> [] then caller else CallerID c)\<rparr>) b
      in case learnH248Media e r (cmdBody command) b1 of (learned, b2) \<Rightarrow>
        (let mediaActivated = learned \<and> Contains (ToLower (cmdBody command)) ''mo=sr'';
             b3 = (if Direction (heap b2 r) = ''sip-to-h248'' \<and> mediaActivated
                   then answerSIPOriginatedCall e r b2 else b2);
             b4 = (if cmdName command = ''Modify'' \<and> onLine \<and> ContainsRingSignal (cmdBody command)
                   then startSIPInvite e r b3 else b3)
         in if cmdName command = ''Subtract'' \<or> isCarrierClear command
            then handleCarrierRelease e r (cmdName command = ''Subtract'') b4
            else if requestID \<noteq> [] then tryAnswerH248 e r b4 else b4))"

definition processH248Command ::
  "env \<Rightarrow> h248_message \<Rightarrow> h248_responder \<Rightarrow> bridge \<Rightarrow> h248_command \<Rightarrow> bridge" where
  "processH248Command e msg rp b command =
     (let requestID = commandRequestID msg command in
      if isLineTermination (cmdTerm command) (h248PhysicalTermination (cfgH248' b)) \<and>
         (cmdContext command = [] \<or> cmdContext command = ''-'')
      then processLineCommand e requestID command rp b
      else
        (let contextID = (if cmdContext command = [] then msgContext msg else cmdContext command) in
         case findCallByContext contextID b of
           Some r \<Rightarrow> processCallCommand e requestID command rp r b
         | None \<Rightarrow>
             if cmdName command = ''Subtract'' \<and> (contextID = ''*'' \<or> cmdTerm command = ''*'')
             then releaseAllCallsFromCarrier e b else b))"

subsection \<open>Handlers\<close>

definition pendingOutbound :: "bridge \<Rightarrow> nat option" where
  "pendingOutbound b =
     (case outboundCall b of
        None \<Rightarrow> None
      | Some r \<Rightarrow> if Released (heap b r) \<or> \<not> H248DigitsSent (heap b r) then None else Some r)"

definition HandleH248 :: "env \<Rightarrow> h248_message \<Rightarrow> h248_responder \<Rightarrow> bridge \<Rightarrow> bridge" where
  "HandleH248 e msg rp b =
     (if msgType msg \<noteq> ''Transaction'' then b
      else if isIncomingCallAdd msg (h248PhysicalTermination (cfgH248' b)) then
        (case pendingOutbound b of
           Some r \<Rightarrow> handleOutboundCallAdd e msg rp r b
         | None \<Rightarrow> handleIncomingCallAdd e msg rp b)
      else (case simpleActionReplies msg (h248Version (cfgH248' b)) of
              Inl err \<Rightarrow> respondError e rp msg ''400'' (actionErrorText err) b
            | Inr actions \<Rightarrow>
                (case respondH248 e rp (BuildActionReply msg (h248MGID (cfgH248' b)) actions) b of (ok, b1) \<Rightarrow>
                   if ok then foldl (processH248Command e msg rp) b1 (msgCommands msg) else b1)))"

definition HandleH248Ready :: "env \<Rightarrow> h248_responder \<Rightarrow> bridge \<Rightarrow> bridge" where
  "HandleH248Ready e rp b =
     (let b1 = updLine (\<lambda>l. l\<lparr>lineReady := True, lineReadyAt := now e, lineResponder := Some rp\<rparr>) b
      in if lineRequestID (line b) \<noteq> [] then sendInitialOnhook e b1 else b1)"

text \<open>The calls of the line: those of the table, then the originated call, each once.\<close>

definition lineCalls :: "bridge \<Rightarrow> nat list" where
  "lineCalls b =
     (let refs = remdups (map snd (callsByH248 b)) in
      case outboundCall b of None \<Rightarrow> refs | Some r \<Rightarrow> if r \<in> set refs then refs else refs @ [r])"

definition HandleH248Unavailable :: "env \<Rightarrow> bridge \<Rightarrow> bridge" where
  "HandleH248Unavailable e b =
     (let b1 = (updLine (\<lambda>_. initLine) b)\<lparr>pendingH248 := Map.empty\<rparr>
      in foldl (\<lambda>b r. releaseCall r (sendSIPTeardown e r b)) b1 (lineCalls b))"

text \<open>The call a pending transaction belongs to.\<close>

definition callOfPending :: "pending_txn \<Rightarrow> bridge \<Rightarrow> nat option" where
  "callOfPending p b =
     (if pendCallID p = [] then None
      else orElse (map_of (callsBySIP b) (pendCallID p))
             (orElse (find (\<lambda>r. callID (heap b r) = pendCallID p) (map snd (callsByH248 b)))
                (case outboundCall b of
                   None \<Rightarrow> None
                 | Some r \<Rightarrow> if callID (heap b r) = pendCallID p then Some r else None)))"

definition HandleH248Response :: "env \<Rightarrow> h248_message \<Rightarrow> bridge \<Rightarrow> bridge" where
  "HandleH248Response e msg b =
     (case pendingH248 b (msgTID msg) of
        None \<Rightarrow> b
      | Some p \<Rightarrow>
          (let b1 = (if msgType msg = ''Reply'' then delPending (msgTID msg) b else b) in
           case callOfPending p b1 of
             None \<Rightarrow> b1
           | Some r \<Rightarrow>
               if msgError msg = [] then b1
               else
                 (let b2 = (if pendPhase p = ''answer'' then updCall r (\<lambda>c. c\<lparr>H248Answered := False\<rparr>) b1 else b1)
                  in if HasPrefix (pendPhase p) ''origination-''
                     then failOrigination e r 503 ''H248 Origination Rejected'' b2 else b2)))"

end
