(* ===== verification/Bridge_Sip.thy ===== *)
theory Bridge_Sip
  imports Bridge_H248
begin

text \<open>
  The SIP handlers of the bridge (\<^verbatim>\<open>internal/bridge/sip.go\<close>): new INVITEs of the IP-PBX, CANCEL, BYE,
  re-INVITE, UPDATE, the responses to requests of the gateway, and the timers that fire later.
\<close>

subsection \<open>New INVITE\<close>

definition dialled :: "string \<Rightarrow> bool" where
  "dialled destination \<longleftrightarrow> destination \<noteq> [] \<and> Trim destination ''0123456789*#'' = []"

definition lineUsable :: "bridge \<Rightarrow> bool" where
  "lineUsable b \<longleftrightarrow> lineReady (line b) \<and> lineOnhookSent (line b) \<and> lineRequestID (line b) \<noteq> [] \<and>
     lineResponder (line b) \<noteq> None"

definition lineBusy :: "bridge \<Rightarrow> bool" where
  "lineBusy b \<longleftrightarrow> outboundCall b \<noteq> None \<or> callsByH248 b \<noteq> []"

definition originatedCall ::
  "env \<Rightarrow> bridge \<Rightarrow> sip_message \<Rightarrow> sip_responder \<Rightarrow> udp_addr \<Rightarrow> sdp \<Rightarrow> string \<times> string \<times> int \<times> int \<Rightarrow> call" where
  "originatedCall e b msg rp remoteMedia offer ids =
     (case ids of (contextID, ephemeral, h248Port, sipPort) \<Rightarrow>
        zeroCall\<lparr>callID := ''sip-'' @ CallID msg, Direction := ''sip-to-h248'', State := ''sip-invite-received'',
          CreatedAt := now e, H248ContextID := contextID,
          H248PhysicalTerm := h248PhysicalTermination (cfgH248' b), H248EphemeralTerm := ephemeral,
          H248EventRequestID := lineRequestID (line b), H248Responder := lineResponder (line b),
          H248RTPPort := h248Port, H248TelephoneEventPT := mediaH248DTMF (cfgMedia' b),
          SIPCallID := CallID msg, SIPRequestURI := smURI msg, SIPPeer := smSource msg,
          SIPRemoteMedia := Some remoteMedia, SIPRTPPort := sipPort,
          SIPTelephoneEventPT :=
            (if sdpTelephoneEvent offer \<le> 0 then mediaDTMF (cfgMedia' b) else sdpTelephoneEvent offer),
          SIPFrom := Header msg ''From'', SIPTo := addHeaderParameter (Header msg ''To'') ''tag'' ''gw'',
          SIPRemoteContact := firstURI (Header msg ''Contact''),
          SIPInviteCSeq := parseCSeqNumber (CSeqNumber msg), SIPInitialRequest := Some msg,
          SIPResponder := Some rp, DestinationNumber := sipURIUser (smURI msg)\<rparr>)"

text \<open>The new call in the tables, with its identifiers and ports allocated.\<close>

definition admitInvite :: "env \<Rightarrow> sip_message \<Rightarrow> sip_responder \<Rightarrow> udp_addr \<Rightarrow> sdp \<Rightarrow> bridge \<Rightarrow> nat \<times> bridge" where
  "admitInvite e msg rp remoteMedia offer b =
     (case allocateCallIdentifiersLocked b of (ids, b1) \<Rightarrow>
        case allocCall (originatedCall e b msg rp remoteMedia offer ids) b1 of (r, b2) \<Rightarrow>
          (r, b2\<lparr>outboundCall := Some r, callsBySIP := AList.update (CallID msg) r (callsBySIP b2)\<rparr>))"

definition startOrigination :: "env \<Rightarrow> udp_addr \<Rightarrow> nat \<Rightarrow> bridge \<Rightarrow> bridge" where
  "startOrigination e remoteMedia r b =
     (case openRelay e (heap b r) b of
        (None, b1) \<Rightarrow> failOrigination e r 500 ''RTP Resource Unavailable'' b1
      | (Some relay, b1) \<Rightarrow>
          (let b2 = updCall r (\<lambda>c. c\<lparr>Media := Some (SetSIPPeer (Some remoteMedia) (SIPTelephoneEventPT c) relay)\<rparr>) b1
           in scheduleOriginationOffhook e r (snd (sendSIPOriginatedResponse e r 100 ''Trying'' False b2))))"

definition acceptableOffer :: "env \<Rightarrow> sip_message \<Rightarrow> (sdp \<times> udp_addr) option" where
  "acceptableOffer e msg =
     (case ParseSDP (smBody msg) of
        Inl err \<Rightarrow> None
      | Inr offer \<Rightarrow>
          if containsCodec (sdpCodecs offer) ''PCMA/8000''
          then map_option (\<lambda>a. (offer, a)) (resolveMedia e (sdpIP offer) (sdpPort offer)) else None)"

definition handleNewSIPInvite :: "env \<Rightarrow> sip_message \<Rightarrow> sip_responder \<Rightarrow> bridge \<Rightarrow> bridge" where
  "handleNewSIPInvite e msg rp b =
     (let contact = localContact (bCfg b) in
      if CallID msg = [] \<or> smSource msg = None then respondSIP e rp msg 400 ''Bad Request'' [] [] [] b
      else (case map_of (callsBySIP b) (CallID msg) of
        Some r \<Rightarrow>
          (let response = SIPLastResponse (heap b r) in
           if response \<noteq> [] then snd (sendOut e (SipReply rp 0 response) b) else b)
      | None \<Rightarrow>
          if \<not> dialled (sipURIUser (smURI msg)) then respondSIP e rp msg 484 ''Address Incomplete'' [] contact [] b
          else (case acceptableOffer e msg of
            None \<Rightarrow> respondSIP e rp msg 488 ''Not Acceptable Here'' [] contact [] b
          | Some (offer, remoteMedia) \<Rightarrow>
              if lineBusy b then respondSIP e rp msg 486 ''Busy Here'' [] contact [(''Retry-After'', ''5'')] b
              else if \<not> lineUsable b
              then respondSIP e rp msg 503 ''H248 Line Not Ready'' [] contact [(''Retry-After'', ''5'')] b
              else (case admitInvite e msg rp remoteMedia offer b of (r, b1) \<Rightarrow>
                      startOrigination e remoteMedia r b1))))"

subsection \<open>Requests within a dialog\<close>

definition releaseDelay :: int where
  "releaseDelay = seconds 2"

definition noSuchCall :: "env \<Rightarrow> sip_responder \<Rightarrow> sip_message \<Rightarrow> bridge \<Rightarrow> bridge" where
  "noSuchCall e rp msg b = respondSIP e rp msg 481 ''Call/Transaction Does Not Exist'' [] [] [] b"

definition handleSIPCancel :: "env \<Rightarrow> sip_message \<Rightarrow> sip_responder \<Rightarrow> bridge \<Rightarrow> bridge" where
  "handleSIPCancel e msg rp b =
     (case map_of (callsBySIP b) (CallID msg) of
        None \<Rightarrow> noSuchCall e rp msg b
      | Some r \<Rightarrow>
          if Direction (heap b r) \<noteq> ''sip-to-h248'' then noSuchCall e rp msg b
          else
            (let b1 = updCall r (\<lambda>c. c\<lparr>SIPRemoteReleased := True\<rparr>) b;
                 b2 = respondSIP e rp msg 200 ''OK'' [] [] [] b1;
                 b3 = failSIPOriginatedCall e r 487 ''Request Terminated'' b2
             in after e releaseDelay (TReleaseCall r) (sendOnhook e r b3)))"

definition handleSIPBye :: "env \<Rightarrow> sip_message \<Rightarrow> sip_responder \<Rightarrow> bridge \<Rightarrow> bridge" where
  "handleSIPBye e msg rp b =
     (case map_of (callsBySIP b) (CallID msg) of
        None \<Rightarrow> noSuchCall e rp msg b
      | Some r \<Rightarrow>
          (let b1 = updCall r (\<lambda>c. c\<lparr>SIPRemoteReleased := True\<rparr>) b;
               b2 = respondSIP e rp msg 200 ''OK'' [] [] [] b1
           in after e releaseDelay (TReleaseCall r) (sendOnhook e r b2)))"

text \<open>The remote media of a body, when there is one.\<close>

definition updateFromBody :: "env \<Rightarrow> nat \<Rightarrow> sip_message \<Rightarrow> bridge \<Rightarrow> bool \<times> bridge" where
  "updateFromBody e r msg b = (if smBody msg \<noteq> [] then updateSIPRemoteMedia e r (smBody msg) b else (True, b))"

text \<open>\<^verbatim>\<open>handleSIPReinvite\<close>: \<open>None\<close> when the call is unknown and the INVITE is treated as a new one.\<close>

definition handleSIPReinvite :: "env \<Rightarrow> sip_message \<Rightarrow> sip_responder \<Rightarrow> bridge \<Rightarrow> bridge option" where
  "handleSIPReinvite e msg rp b =
     (case map_of (callsBySIP b) (CallID msg) of
        None \<Rightarrow> None
      | Some r \<Rightarrow>
          (case updateFromBody e r msg b of (ok, b1) \<Rightarrow>
             if \<not> ok then Some (respondSIP e rp msg 488 ''Not Acceptable Here'' [] (localContact (bCfg b1)) [] b1)
             else
               (let c = heap b1 r;
                    body = BuildSDPWithPTime ''h248gw'' (mediaRTPIP (cfgMedia' b1)) (SIPRTPPort c)
                             (mediaCodecs (cfgMedia' b1)) (SIPTelephoneEventPT c) (mediaPTime (cfgMedia' b1))
                in Some (respondSIP e rp msg 200 ''OK'' body (localContact (bCfg b1)) [(''Supported'', ''timer'')] b1))))"

definition handleSIPSessionUpdate :: "env \<Rightarrow> sip_message \<Rightarrow> sip_responder \<Rightarrow> bridge \<Rightarrow> bridge" where
  "handleSIPSessionUpdate e msg rp b =
     (case map_of (callsBySIP b) (CallID msg) of
        None \<Rightarrow> noSuchCall e rp msg b
      | Some r \<Rightarrow>
          (case updateFromBody e r msg b of (ok, b1) \<Rightarrow>
             if \<not> ok then respondSIP e rp msg 488 ''Not Acceptable Here'' [] [] [] b1
             else respondSIP e rp msg 200 ''OK'' [] (localContact (bCfg b1)) [] b1))"

subsection \<open>Responses\<close>

definition markSIPResponse :: "sip_message \<Rightarrow> call \<Rightarrow> call" where
  "markSIPResponse msg c =
     (let invite = (ToUpper (CSeqMethod msg) = ''INVITE'') in
      c\<lparr>SIPPeer := orElse (smSource msg) (SIPPeer c),
        SIPInviteProvisional := (invite \<and> smStatus msg \<ge> 100 \<or> SIPInviteProvisional c),
        SIPInviteFinal := (invite \<and> smStatus msg \<ge> 200 \<or> SIPInviteFinal c)\<rparr>)"

definition handleProvisional :: "env \<Rightarrow> sip_message \<Rightarrow> nat \<Rightarrow> bridge \<Rightarrow> bridge" where
  "handleProvisional e msg r b =
     (let b1 = (if smBody msg \<noteq> [] then snd (updateSIPRemoteMedia e r (smBody msg) b) else b);
          b2 = (if smStatus msg = 180 then updCall r (\<lambda>c. c\<lparr>State := ''sip-ringing''\<rparr>) b1 else b1);
          b3 = (if smStatus msg = 183 then updCall r (\<lambda>c. c\<lparr>State := ''sip-early-media''\<rparr>) b2 else b2);
          rseq = Header msg ''RSeq''
      in if rseq \<noteq> [] \<and> Contains (ToLower (Header msg ''Require'')) ''100rel''
         then sendPRACK e r msg rseq b3 else b3)"

definition handleAnswer :: "env \<Rightarrow> sip_message \<Rightarrow> nat \<Rightarrow> bridge \<Rightarrow> bridge" where
  "handleAnswer e msg r b =
     (case updateSIPRemoteMedia e r (smBody msg) b of (ok, b1) \<Rightarrow>
        if \<not> ok then releaseCall r (sendOnhook e r (sendSIPTeardown e r b1))
        else
          tryAnswerH248 e r
            (updCall r (\<lambda>c. c\<lparr>SIPAnswered := True, SIPTo := Header msg ''To'',
               SIPRemoteTag := headerParameter (Header msg ''To'') ''tag'',
               SIPRemoteContact := firstURI (Header msg ''Contact''), State := ''sip-answered''\<rparr>) b1))"

definition handleFinalFailure :: "env \<Rightarrow> nat \<Rightarrow> bridge \<Rightarrow> bridge" where
  "handleFinalFailure e r b =
     after e releaseDelay (TReleaseCall r)
       (sendOnhook e r (retainSIPInvite e r (updCall r (\<lambda>c. c\<lparr>State := ''sip-final-failure''\<rparr>) b)))"

definition handleInviteResponse :: "env \<Rightarrow> sip_message \<Rightarrow> nat \<Rightarrow> bridge \<Rightarrow> bridge" where
  "handleInviteResponse e msg r b =
     (if smStatus msg < 200 then handleProvisional e msg r b
      else
        (let b1 = sendInviteACK e r msg (SIPPeer (heap b r)) b
         in if smStatus msg < 300 then handleAnswer e msg r b1 else handleFinalFailure e r b1))"

definition handleSIPResponse :: "env \<Rightarrow> sip_message \<Rightarrow> bridge \<Rightarrow> bridge" where
  "handleSIPResponse e msg b =
     (case map_of (callsBySIP b) (CallID msg) of
        None \<Rightarrow> handleRetainedSIPInviteResponse e (CallID msg) msg b
      | Some r \<Rightarrow>
          if Released (heap b r) then handleRetainedSIPInviteResponse e (CallID msg) msg b
          else
            (let b1 = updCall r (markSIPResponse msg) b
             in if ToUpper (CSeqMethod msg) = ''INVITE'' then handleInviteResponse e msg r b1 else b1))"

subsection \<open>Dispatch\<close>

definition HandleSIP :: "env \<Rightarrow> sip_message \<Rightarrow> sip_responder \<Rightarrow> bridge \<Rightarrow> bridge" where
  "HandleSIP e msg rp b =
     (let method = ToUpper (smMethod msg) in
      if smStatus msg > 0 then handleSIPResponse e msg b
      else if method = ''OPTIONS''
      then respondSIP e rp msg 200 ''OK'' [] (localContact (bCfg b)) [allowHeader, supportedHeader] b
      else if method = ''ACK'' then b
      else if method = ''BYE'' then handleSIPBye e msg rp b
      else if method = ''CANCEL'' then handleSIPCancel e msg rp b
      else if method = ''INFO'' then respondSIP e rp msg 200 ''OK'' [] [] [] b
      else if method = ''UPDATE'' then handleSIPSessionUpdate e msg rp b
      else if method = ''INVITE'' then
        (case (if headerParameter (Header msg ''To'') ''tag'' \<noteq> [] then handleSIPReinvite e msg rp b else None) of
           Some b' \<Rightarrow> b'
         | None \<Rightarrow> handleNewSIPInvite e msg rp b)
      else respondSIP e rp msg 405 ''Method Not Allowed'' [] [] [allowHeader] b)"

subsection \<open>Timers\<close>

definition runTimer :: "env \<Rightarrow> timer \<Rightarrow> bridge \<Rightarrow> bridge" where
  "runTimer e t b =
     (case t of
        TReleaseCall r \<Rightarrow> releaseCall r b
      | TOffhook r \<Rightarrow> sendOriginationOffhook e r b
      | TDigits r \<Rightarrow> sendOriginationDigits e r b
      | TRetransmit cid \<Rightarrow> retransmitTick e cid b
      | TInviteDeadline cid \<Rightarrow> inviteTimeout e cid b
      | TRetainedExpiry ref cid \<Rightarrow> expireRetained e ref cid b)"

text \<open>One timer that is due leaves the list and runs.\<close>

definition dropTimer :: "int \<times> timer \<Rightarrow> bridge \<Rightarrow> bridge" where
  "dropTimer t b = b\<lparr>timers := remove1 t (timers b)\<rparr>"

definition fireTimer :: "env \<Rightarrow> int \<times> timer \<Rightarrow> bridge \<Rightarrow> bridge" where
  "fireTimer e t b = runTimer e (snd t) (dropTimer t b)"

end
