(* ===== verification/Bridge_Machine.thy ===== *)
theory Bridge_Machine
  imports Transitions Bridge_Sip "HOL-Library.Multiset"
begin

text \<open>
  An abstract machine for the bridge: a small relation \<open>bstep\<close> that says which elementary changes a
  critical section may make, the invariant that these changes keep, and the proof that every handler
  and every timer is a sequence of them.  Because the invariant is kept by each elementary change it
  also holds between the critical sections of a handler.
\<close>

subsection \<open>Observations\<close>

text \<open>The reports of a call that are sent at most once, and the mark that goes with each.\<close>

definition oncePhase :: "string \<Rightarrow> bool" where
  "oncePhase p \<longleftrightarrow> p = ''onhook'' \<or> p = ''origination-offhook'' \<or> p = ''origination-digits''"

definition flagOf :: "string \<Rightarrow> call \<Rightarrow> bool" where
  "flagOf p c = (if p = ''onhook'' then H248OnhookSent c
                 else if p = ''origination-offhook'' then H248OffhookSent c else H248DigitsSent c)"

definition isReport :: "nat \<Rightarrow> string \<Rightarrow> bridge_output \<Rightarrow> bool" where
  "isReport r p out = (case out of H248Request rp (Some r') p' m \<Rightarrow> r' = r \<and> p' = p | _ \<Rightarrow> False)"

definition reports :: "nat \<Rightarrow> string \<Rightarrow> bridge_output list \<Rightarrow> nat" where
  "reports r p outs = length (filter (isReport r p) outs)"

definition plainOut :: "bridge_output \<Rightarrow> bool" where
  "plainOut out = (case out of H248Request rp r p m \<Rightarrow> False | Sock ev \<Rightarrow> False | _ \<Rightarrow> True)"

fun openedBy :: "bridge_output \<Rightarrow> string multiset" where
  "openedBy (Sock (SockOpen a)) = {#a#}"
| "openedBy _ = {#}"

fun closedBy :: "bridge_output \<Rightarrow> string multiset" where
  "closedBy (Sock (SockClose a)) = {#a#}"
| "closedBy _ = {#}"

definition opened :: "bridge_output list \<Rightarrow> string multiset" where
  "opened outs = sum_list (map openedBy outs)"

definition closed :: "bridge_output list \<Rightarrow> string multiset" where
  "closed outs = sum_list (map closedBy outs)"

definition heldBy :: "call \<Rightarrow> string multiset" where
  "heldBy c = (case Media c of None \<Rightarrow> {#} | Some m \<Rightarrow> mset (mrSockets m))"

definition held :: "bridge \<Rightarrow> string multiset" where
  "held b = (\<Sum>r<nextRef b. heldBy (heap b r))"

definition mediaShape :: "call \<Rightarrow> (string list \<times> bool) option" where
  "mediaShape c = map_option (\<lambda>m. (mrSockets m, mrClosed m)) (Media c)"

subsection \<open>Elementary changes\<close>

text \<open>A change of a call that keeps its identity, its life, its marks and its sockets, never takes
  back an answer of the SIP side, and never marks a call answered towards the carrier that the SIP
  side has not answered.\<close>

definition tame :: "call \<Rightarrow> call \<Rightarrow> bool" where
  "tame c c' \<longleftrightarrow>
     callID c' = callID c \<and> Direction c' = Direction c \<and> Released c' = Released c \<and>
     H248ContextID c' = H248ContextID c \<and> SIPCallID c' = SIPCallID c \<and>
     H248OnhookSent c' = H248OnhookSent c \<and> H248OffhookSent c' = H248OffhookSent c \<and>
     H248DigitsSent c' = H248DigitsSent c \<and> mediaShape c' = mediaShape c \<and>
     H248RTPPort c' = H248RTPPort c \<and> SIPRTPPort c' = SIPRTPPort c \<and>
     (SIPAnswered c \<longrightarrow> SIPAnswered c') \<and>
     (H248Answered c' \<longrightarrow> SIPAnswered c' \<or> H248Answered c)"

definition okLine :: "line_state \<Rightarrow> bool" where
  "okLine l \<longleftrightarrow> (lineOnhookSent l \<longrightarrow> lineReady l \<and> lineRequestID l \<noteq> [] \<and> lineResponder l \<noteq> None)"

definition okRetained :: "(string \<rightharpoonup> retained_invite) \<Rightarrow> bool" where
  "okRetained m \<longleftrightarrow> (\<forall>k ri. m k = Some ri \<longrightarrow>
     riCallID ri = k \<and> k \<noteq> [] \<and> riRequestURI ri \<noteq> [] \<and> riInviteCSeq ri > 0)"

text \<open>Timers refer to allocated calls; one for the digits of a call is armed only when its off-hook
  was sent.\<close>

definition okTimer :: "bridge \<Rightarrow> timer \<Rightarrow> bool" where
  "okTimer b t =
     (case t of
        TReleaseCall r \<Rightarrow> r < nextRef b
      | TOffhook r \<Rightarrow> r < nextRef b
      | TDigits r \<Rightarrow> r < nextRef b \<and> H248OffhookSent (heap b r)
      | _ \<Rightarrow> True)"

text \<open>A port that may be allocated under a valid configuration: even, in the range, with its RTCP port
  below 65536; and the ports of a call.\<close>

definition portOK :: "config \<Rightarrow> int \<Rightarrow> bool" where
  "portOK cfg p \<longleftrightarrow> (Validate cfg = None \<longrightarrow>
     even p \<and> firstRTPPort (cfgMedia cfg) \<le> p \<and> p \<le> mediaPortMax (cfgMedia cfg))"

definition callPortsOK :: "config \<Rightarrow> call \<Rightarrow> bool" where
  "callPortsOK cfg c \<longleftrightarrow> portOK cfg (H248RTPPort c) \<and> portOK cfg (SIPRTPPort c) \<and>
     (Validate cfg = None \<longrightarrow> H248RTPPort c \<noteq> SIPRTPPort c)"

text \<open>Changes of the bookkeeping only.\<close>

definition quiet :: "bridge \<Rightarrow> bridge \<Rightarrow> bool" where
  "quiet b b' \<longleftrightarrow>
     heap b' = heap b \<and> nextRef b' = nextRef b \<and> callsBySIP b' = callsBySIP b \<and>
     callsByH248 b' = callsByH248 b \<and> outboundCall b' = outboundCall b \<and> line b' = line b \<and>
     outputs b' = outputs b \<and> bCfg b' = bCfg b \<and>
     (portOK (bCfg b) (nextRTPPort b) \<longrightarrow> portOK (bCfg b) (nextRTPPort b')) \<and>
     (okRetained (retainedInvites b) \<longrightarrow> okRetained (retainedInvites b')) \<and>
     (\<forall>t\<in>set (timers b'). t \<in> set (timers b) \<or> okTimer b (snd t))"

text \<open>A call as it is put into the store.\<close>

definition fresh :: "call \<Rightarrow> bool" where
  "fresh c \<longleftrightarrow> \<not> Released c \<and> \<not> H248OnhookSent c \<and> \<not> H248OffhookSent c \<and> \<not> H248DigitsSent c \<and>
     \<not> H248Answered c"

inductive bstep :: "bridge \<Rightarrow> bridge \<Rightarrow> bool" where
  plain: "plainOut out \<Longrightarrow> bstep b (emit out b)"
| tame: "\<lbrakk>r < nextRef b; tame (heap b r) (f (heap b r))\<rbrakk> \<Longrightarrow> bstep b (updCall r f b)"
| quiet: "quiet b b' \<Longrightarrow> bstep b b'"
| onLine: "(okLine (line b) \<Longrightarrow> okLine (f (line b))) \<Longrightarrow> bstep b (updLine f b)"
| initialOnhook: "\<lbrakk>lineReady (line b); lineRequestID (line b) \<noteq> []; lineResponder (line b) = Some rp\<rbrakk> \<Longrightarrow>
    bstep b (emit (H248Request rp None ''initial-onhook'' m) (updLine (\<lambda>l. l\<lparr>lineOnhookSent := True\<rparr>) b))"
| report: "\<lbrakk>r < nextRef b; oncePhase p; \<not> Released (heap b r); \<not> flagOf p (heap b r); flagOf p c; tame (heap b r)
      (c\<lparr>H248OnhookSent := H248OnhookSent (heap b r), H248OffhookSent := H248OffhookSent (heap b r),
         H248DigitsSent := H248DigitsSent (heap b r)\<rparr>);
    \<And>q. oncePhase q \<Longrightarrow> q \<noteq> p \<Longrightarrow> flagOf q c = flagOf q (heap b r);
    p = ''origination-digits'' \<Longrightarrow> H248OffhookSent (heap b r)\<rbrakk> \<Longrightarrow>
    bstep b (emit (H248Request rp (Some r) p m) (updCall r (\<lambda>_. c) b))"
| answer: "\<lbrakk>r < nextRef b; SIPAnswered (heap b r); \<not> Released (heap b r)\<rbrakk> \<Longrightarrow>
    bstep b (emit (H248Request rp (Some r) ''answer'' m) (updCall r (\<lambda>c. c\<lparr>H248Answered := True\<rparr>) b))"
| release: "r < nextRef b \<Longrightarrow> bstep b (releaseCall r b)"
| sockFail: "\<lbrakk>sum_list (map (openedBy \<circ> Sock) evs) = sum_list (map (closedBy \<circ> Sock) evs)\<rbrakk> \<Longrightarrow>
    bstep b (emitAll (map Sock evs) b)"
| incoming: "\<lbrakk>fresh c; Direction c \<noteq> ''sip-to-h248''; Media c = Some m; \<not> mrClosed m; SIPCallID c = [];
    mset (mrSockets m) = mset socks; callPortsOK (bCfg b) c\<rbrakk> \<Longrightarrow>
    bstep b (insertH248 (nextRef b) (snd (allocCall c (emitAll (map (Sock \<circ> SockOpen) socks) b))))"
| originated: "\<lbrakk>fresh c; Direction c = ''sip-to-h248''; Media c = None; outboundCall b = None;
    SIPCallID c \<noteq> []; map_of (callsBySIP b) (SIPCallID c) = None; callPortsOK (bCfg b) c\<rbrakk> \<Longrightarrow>
    bstep b (snd (allocCall c b)\<lparr>outboundCall := Some (nextRef b),
      callsBySIP := AList.update (SIPCallID c) (nextRef b) (callsBySIP b)\<rparr>)"
| attach: "\<lbrakk>r < nextRef b; Media (heap b r) = None; \<not> Released (heap b r); \<not> mrClosed m;
    mset (mrSockets m) = mset socks\<rbrakk> \<Longrightarrow>
    bstep b (updCall r (\<lambda>c. c\<lparr>Media := Some m\<rparr>) (emitAll (map (Sock \<circ> SockOpen) socks) b))"
| inContext: "\<lbrakk>r < nextRef b; \<not> Released (heap b r)\<rbrakk> \<Longrightarrow> bstep b (insertH248 r b)"
| invited: "\<lbrakk>r < nextRef b; \<not> Released (heap b r); SIPCallID (heap b r) = []; cid \<noteq> [];
    tame (heap b r) (f (heap b r)\<lparr>SIPCallID := []\<rparr>); SIPCallID (f (heap b r)) = cid\<rbrakk> \<Longrightarrow>
    bstep b (updCall r f b\<lparr>callsBySIP := AList.update cid r (callsBySIP b)\<rparr>)"
| uninvited: "\<lbrakk>r < nextRef b; \<not> Released (heap b r);
    tame (heap b r) (f (heap b r)\<lparr>SIPCallID := SIPCallID (heap b r)\<rparr>); SIPCallID (f (heap b r)) = []\<rbrakk> \<Longrightarrow>
    bstep b (updCall r f (b\<lparr>callsBySIP := AList.delete (SIPCallID (heap b r)) (callsBySIP b)\<rparr>))"

subsection \<open>The invariant\<close>

text \<open>The tables hold live calls under their own identifiers.\<close>

definition okTables :: "bridge \<Rightarrow> bool" where
  "okTables b \<longleftrightarrow>
     distinct (map fst (callsByH248 b)) \<and> distinct (map fst (callsBySIP b)) \<and>
     (\<forall>k r. map_of (callsByH248 b) k = Some r \<longrightarrow>
        r < nextRef b \<and> \<not> Released (heap b r) \<and> H248ContextID (heap b r) = k) \<and>
     (\<forall>k r. map_of (callsBySIP b) k = Some r \<longrightarrow>
        r < nextRef b \<and> \<not> Released (heap b r) \<and> SIPCallID (heap b r) = k \<and> k \<noteq> [])"

text \<open>A live call that the IP-PBX placed is the one outbound call of the line.\<close>

definition okOutbound :: "bridge \<Rightarrow> bool" where
  "okOutbound b \<longleftrightarrow>
     (\<forall>r<nextRef b. outboundCall b \<noteq> Some r \<longrightarrow>
        Direction (heap b r) \<noteq> ''sip-to-h248'' \<or> Released (heap b r)) \<and>
     (\<forall>r. outboundCall b = Some r \<longrightarrow>
        r < nextRef b \<and> \<not> Released (heap b r) \<and> Direction (heap b r) = ''sip-to-h248'')"

text \<open>The relay of a released call is closed, and the sockets that are open are those of relays.\<close>

definition okRelay :: "call \<Rightarrow> bool" where
  "okRelay c =
     (case Media c of
        None \<Rightarrow> True
      | Some m \<Rightarrow> mrClosed m = Released c \<and> (mrClosed m \<longrightarrow> mrSockets m = []))"

definition okMedia :: "bridge \<Rightarrow> bool" where
  "okMedia b \<longleftrightarrow>
     (\<forall>r<nextRef b. okRelay (heap b r)) \<and> opened (outputs b) = closed (outputs b) + held b"

text \<open>Marks and reports.\<close>

definition okMarks :: "bridge \<Rightarrow> bool" where
  "okMarks b \<longleftrightarrow>
     (\<forall>r<nextRef b. H248Answered (heap b r) \<longrightarrow> SIPAnswered (heap b r)) \<and>
     (\<forall>r<nextRef b. H248DigitsSent (heap b r) \<longrightarrow> H248OffhookSent (heap b r))"

definition okReports :: "bridge \<Rightarrow> bool" where
  "okReports b \<longleftrightarrow>
     (\<forall>r<nextRef b. \<forall>p. oncePhase p \<longrightarrow>
        reports r p (outputs b) \<le> 1 \<and> (flagOf p (heap b r) \<or> reports r p (outputs b) = 0)) \<and>
     (\<forall>r<nextRef b. 0 < reports r ''answer'' (outputs b) \<longrightarrow> SIPAnswered (heap b r)) \<and>
     (\<forall>r p. nextRef b \<le> r \<longrightarrow> reports r p (outputs b) = 0)"

definition okTimers :: "bridge \<Rightarrow> bool" where
  "okTimers b \<longleftrightarrow> (\<forall>t\<in>set (timers b). okTimer b (snd t))"

text \<open>The port to allocate next and the ports of the calls.\<close>

definition okPorts :: "bridge \<Rightarrow> bool" where
  "okPorts b \<longleftrightarrow> portOK (bCfg b) (nextRTPPort b) \<and> (\<forall>r<nextRef b. callPortsOK (bCfg b) (heap b r))"

definition bridgeInv :: "bridge \<Rightarrow> bool" where
  "bridgeInv b \<longleftrightarrow> okTables b \<and> okOutbound b \<and> okMedia b \<and> okMarks b \<and> okReports b \<and>
     okTimers b \<and> okPorts b \<and> okLine (line b) \<and> okRetained (retainedInvites b)"

subsection \<open>Elementary changes keep the invariant\<close>

lemma tameD:
  assumes "tame c c'"
  shows "callID c' = callID c" "Direction c' = Direction c" "Released c' = Released c"
    "H248ContextID c' = H248ContextID c" "SIPCallID c' = SIPCallID c"
    "H248OnhookSent c' = H248OnhookSent c" "H248OffhookSent c' = H248OffhookSent c"
    "H248DigitsSent c' = H248DigitsSent c" "mediaShape c' = mediaShape c"
    "SIPAnswered c \<Longrightarrow> SIPAnswered c'" "H248Answered c' \<Longrightarrow> SIPAnswered c' \<or> H248Answered c"
    "H248RTPPort c' = H248RTPPort c" "SIPRTPPort c' = SIPRTPPort c"
  using assms by (auto simp: tame_def)

lemma insertH248_frame [simp]:
  "heap (insertH248 r b) = heap b" "nextRef (insertH248 r b) = nextRef b"
  "callsBySIP (insertH248 r b) = callsBySIP b"
  "callsByH248 (insertH248 r b) = AList.update (H248ContextID (heap b r)) r (callsByH248 b)"
  "outboundCall (insertH248 r b) = outboundCall b" "line (insertH248 r b) = line b"
  "outputs (insertH248 r b) = outputs b" "timers (insertH248 r b) = timers b"
  "retainedInvites (insertH248 r b) = retainedInvites b" "bCfg (insertH248 r b) = bCfg b"
  "nextRTPPort (insertH248 r b) = nextRTPPort b"
  by (simp_all add: insertH248_def)

lemma allocCall_frame [simp]:
  "heap (snd (allocCall c b)) = (heap b)(nextRef b := c)" "nextRef (snd (allocCall c b)) = Suc (nextRef b)"
  "callsBySIP (snd (allocCall c b)) = callsBySIP b" "callsByH248 (snd (allocCall c b)) = callsByH248 b"
  "outboundCall (snd (allocCall c b)) = outboundCall b" "line (snd (allocCall c b)) = line b"
  "outputs (snd (allocCall c b)) = outputs b" "timers (snd (allocCall c b)) = timers b"
  "retainedInvites (snd (allocCall c b)) = retainedInvites b" "fst (allocCall c b) = nextRef b"
  "bCfg (snd (allocCall c b)) = bCfg b" "nextRTPPort (snd (allocCall c b)) = nextRTPPort b"
  by (simp_all add: allocCall_def)

declare map_of_eq_Some_iff [simp del]
lemma okTables_step: "bstep b b' \<Longrightarrow> okTables b \<Longrightarrow> okTables b'"
proof (induction rule: bstep.induct)
  case (tame r b f)
  then show ?case by (auto simp: okTables_def dest: tameD)
next
  case (report r b p c rp m)
  from tameD[OF report(6)] report show ?case by (auto simp: okTables_def)
next
  case (invited r b cid f)
  from tameD[OF invited(5)] invited show ?case
    by (auto simp: okTables_def update_conv' distinct_update split: if_splits)
next
  case (uninvited r b f)
  from tameD[OF uninvited(3)] uninvited show ?case
    by (auto simp: okTables_def delete_conv' distinct_delete split: if_splits)
next
  case (release r b)
  then show ?case by (auto simp: okTables_def delete_conv' distinct_delete split: if_splits)
next
  case (incoming c m socks b)
  then show ?case by (auto simp: okTables_def fresh_def update_conv' distinct_update less_Suc_eq split: if_splits)
next
  case (originated c b)
  then show ?case by (auto simp: okTables_def fresh_def update_conv' distinct_update less_Suc_eq split: if_splits)
next
  case (inContext r b)
  then show ?case by (auto simp: okTables_def update_conv' distinct_update split: if_splits)
qed (auto simp: okTables_def quiet_def)


lemma okOutbound_mono:
  assumes "okOutbound b" "nextRef b' = nextRef b" "outboundCall b' = outboundCall b"
    "\<And>r. Direction (heap b' r) = Direction (heap b r)" "\<And>r. Released (heap b' r) = Released (heap b r)"
  shows "okOutbound b'"
  using assms by (simp add: okOutbound_def)

lemma okOutbound_step: "bstep b b' \<Longrightarrow> okOutbound b \<Longrightarrow> okOutbound b'"
proof (induction rule: bstep.induct)
  case (tame r b f)
  from tameD(2,3)[OF tame(2)] tame(3) show ?case by - (rule okOutbound_mono, auto)
next
  case (report r b p c rp m)
  from tameD(2,3)[OF report(6)] report(9) show ?case by - (rule okOutbound_mono, auto)
next
  case (invited r b cid f)
  from tameD(2,3)[OF invited(5)] invited(7) show ?case by - (rule okOutbound_mono, auto)
next
  case (uninvited r b f)
  from tameD(2,3)[OF uninvited(3)] uninvited(5) show ?case by - (rule okOutbound_mono, auto)
next
  case (originated c b)
  then show ?case by (auto simp: okOutbound_def fresh_def less_Suc_eq)
next
  case (release r b)
  then show ?case by (auto simp: okOutbound_def)
next
  case (incoming c m socks b)
  then show ?case by (auto simp: okOutbound_def fresh_def less_Suc_eq)
next
  case (quiet b b')
  then show ?case by (auto simp: okOutbound_def quiet_def)
qed (rule okOutbound_mono, auto)+

lemma okMarks_step: "bstep b b' \<Longrightarrow> okMarks b \<Longrightarrow> okMarks b'"
proof (induction rule: bstep.induct)
  case (tame r b f)
  from tameD(7,8,10,11)[OF tame(2)] tame show ?case by (auto simp: okMarks_def)
next
  case (report r b p c rp m)
  from report(7)[of "''onhook''"] report(7)[of "''origination-offhook''"] report(7)[of "''origination-digits''"]
    tameD(10,11)[OF report(6)] report(1-5,8-) show ?case
    by (auto simp: okMarks_def oncePhase_def flagOf_def split: if_splits)
next
  case (invited r b cid f)
  from tameD(7,8,10,11)[OF invited(5)] invited show ?case by (auto simp: okMarks_def)
next
  case (uninvited r b f)
  from tameD(7,8,10,11)[OF uninvited(3)] uninvited show ?case by (auto simp: okMarks_def)
next
  case (originated c b)
  then show ?case by (auto simp: okMarks_def fresh_def less_Suc_eq)
next
  case (release r b)
  then show ?case by (auto simp: okMarks_def)
next
  case (incoming c m socks b)
  then show ?case by (auto simp: okMarks_def fresh_def less_Suc_eq)
qed (auto simp: okMarks_def quiet_def)

lemma okTimer_mono:
  assumes "okTimer b t" "nextRef b \<le> nextRef b'"
    "\<And>r. r < nextRef b \<Longrightarrow> H248OffhookSent (heap b r) \<Longrightarrow> H248OffhookSent (heap b' r)"
  shows "okTimer b' t"
  using assms by (auto simp: okTimer_def split: timer.splits)

lemma okTimers_mono:
  assumes "okTimers b" "timers b' = timers b" "nextRef b \<le> nextRef b'"
    "\<And>r. r < nextRef b \<Longrightarrow> H248OffhookSent (heap b r) \<Longrightarrow> H248OffhookSent (heap b' r)"
  shows "okTimers b'"
  using assms okTimer_mono unfolding okTimers_def by metis

lemma okTimers_step: "bstep b b' \<Longrightarrow> okTimers b \<Longrightarrow> okTimers b'"
proof (induction rule: bstep.induct)
  case (tame r b f)
  from tameD[OF tame(2)] tame(3) show ?case by - (rule okTimers_mono, auto)
next
  case (report r b p c rp m)
  from report(7)[of "''origination-offhook''"] tameD[OF report(6)] report(1-5,8-) show ?case
    by - (rule okTimers_mono, auto simp: oncePhase_def flagOf_def split: if_splits)
next
  case (invited r b cid f)
  from tameD[OF invited(5)] invited(7) show ?case by - (rule okTimers_mono, auto)
next
  case (uninvited r b f)
  from tameD[OF uninvited(3)] uninvited(5) show ?case by - (rule okTimers_mono, auto)
next
  case (quiet b b')
  then have "okTimer b' t = okTimer b t" for t
    by (simp add: okTimer_def quiet_def cong: timer.case_cong)
  with quiet show ?case by (auto simp: okTimers_def quiet_def)
qed (rule okTimers_mono, auto)+

lemma okLine_step: "bstep b b' \<Longrightarrow> okLine (line b) \<Longrightarrow> okLine (line b')"
  by (induction rule: bstep.induct) (auto simp: okLine_def quiet_def)

lemma okRetained_step: "bstep b b' \<Longrightarrow> okRetained (retainedInvites b) \<Longrightarrow> okRetained (retainedInvites b')"
  by (induction rule: bstep.induct) (auto simp: quiet_def)

lemma reports_append [simp]: "reports r p (xs @ ys) = reports r p xs + reports r p ys"
  by (simp add: reports_def)

lemma reports_Nil [simp]: "reports r p [] = 0"
  by (simp add: reports_def)

lemma reports_plain [simp]: "plainOut out \<Longrightarrow> reports r p [out] = 0"
  by (auto simp: reports_def isReport_def plainOut_def split: bridge_output.splits)

lemma reports_sock [simp]: "reports r p (map Sock evs) = 0"
  by (induction evs) (auto simp: reports_def isReport_def)

lemma reports_request [simp]:
  "reports r p [H248Request rp q p' m] = (if q = Some r \<and> p' = p then 1 else 0)"
  by (auto simp: reports_def isReport_def split: option.splits)

lemma reports_opens [simp]: "reports r p (map (Sock \<circ> SockOpen) socks) = 0"
  using reports_sock[of r p "map SockOpen socks"] by simp

lemma flagOf_tame: "tame c c' \<Longrightarrow> flagOf p c' = flagOf p c"
  by (simp add: flagOf_def tame_def)

lemma flagOf_sel [simp]:
  "flagOf p (c\<lparr>H248Answered := v\<rparr>) = flagOf p c" "flagOf p (c\<lparr>SIPCallID := k\<rparr>) = flagOf p c"
  "flagOf p (c\<lparr>Media := md\<rparr>) = flagOf p c" "flagOf p (releasedCall c) = flagOf p c"
  by (simp_all add: flagOf_def)

lemma okReports_mono:
  assumes "okReports b" "nextRef b \<le> nextRef b'"
    "\<And>r p. reports r p (outputs b') = reports r p (outputs b)"
    "\<And>r p. r < nextRef b \<Longrightarrow> flagOf p (heap b r) \<Longrightarrow> flagOf p (heap b' r)"
    "\<And>r. r < nextRef b \<Longrightarrow> SIPAnswered (heap b r) \<Longrightarrow> SIPAnswered (heap b' r)"
  shows "okReports b'"
  unfolding okReports_def
proof (intro conjI allI impI)
  fix r p assume "r < nextRef b'" "oncePhase p"
  with assms(1) have "reports r p (outputs b) \<le> 1"
      "r < nextRef b \<and> flagOf p (heap b r) \<or> reports r p (outputs b) = 0"
    by (cases "r < nextRef b"; auto simp: okReports_def)+
  with assms(4)[of r p] show "reports r p (outputs b') \<le> 1"
      "flagOf p (heap b' r) \<or> reports r p (outputs b') = 0"
    by (auto simp: assms(3))
next
  fix r assume "0 < reports r ''answer'' (outputs b')"
  with assms(1) have "r < nextRef b \<and> SIPAnswered (heap b r)"
    by (cases "r < nextRef b") (auto simp: okReports_def assms(3))
  with assms(5) show "SIPAnswered (heap b' r)" by blast
qed (use assms(1,2) in \<open>auto simp: okReports_def assms(3)\<close>)

lemma okReports_step: "bstep b b' \<Longrightarrow> okReports b \<Longrightarrow> okReports b'"
proof (induction rule: bstep.induct)
  case (tame r b f)
  from flagOf_tame[OF tame(2)] tameD[OF tame(2)] tame(3) show ?case by - (rule okReports_mono, auto)
next
  case (report r b p c rp m)
  have *: "SIPAnswered (heap b r) \<longrightarrow> SIPAnswered c" using tameD[OF report(6)] by simp
  have **: "flagOf q c = (q = p \<or> flagOf q (heap b r))" if "oncePhase q" for q
    using report(7)[OF that] report(5) by auto
  have "reports r p (outputs b) = 0"
    using report(1,2,4,9) by (auto simp: okReports_def)
  moreover have "p \<noteq> ''answer''" using report(2) by (auto simp: oncePhase_def)
  ultimately show ?case using report(1,9) * **
    by (auto simp: okReports_def)
next
  case (answer r b rp m)
  then show ?case by (auto simp: okReports_def oncePhase_def)
next
  case (invited r b cid f)
  from flagOf_tame[OF invited(5)] tameD[OF invited(5)] invited(7) show ?case by - (rule okReports_mono, auto)
next
  case (uninvited r b f)
  from flagOf_tame[OF uninvited(3)] tameD[OF uninvited(3)] uninvited(5) show ?case by - (rule okReports_mono, auto)
next
  case (quiet b b')
  then show ?case by - (rule okReports_mono, auto simp: quiet_def)
qed (rule okReports_mono, auto)+

subsubsection \<open>Ports\<close>

lemma bstep_config: "bstep b b' \<Longrightarrow> bCfg b' = bCfg b"
  by (induction rule: bstep.induct) (auto simp: quiet_def)

lemma callPortsOK_cong:
  "H248RTPPort c' = H248RTPPort c \<Longrightarrow> SIPRTPPort c' = SIPRTPPort c \<Longrightarrow> callPortsOK cfg c' = callPortsOK cfg c"
  by (simp add: callPortsOK_def)

lemma okPorts_mono:
  assumes "okPorts b" "bCfg b' = bCfg b" "nextRef b' = nextRef b" "nextRTPPort b' = nextRTPPort b"
    "\<And>r. H248RTPPort (heap b' r) = H248RTPPort (heap b r)" "\<And>r. SIPRTPPort (heap b' r) = SIPRTPPort (heap b r)"
  shows "okPorts b'"
  using assms callPortsOK_cong[OF assms(5,6)] by (simp add: okPorts_def)

lemma okPorts_step: "bstep b b' \<Longrightarrow> okPorts b \<Longrightarrow> okPorts b'"
proof (induction rule: bstep.induct)
  case (tame r b f)
  from tameD(12,13)[OF tame(2)] tame(3) show ?case by - (rule okPorts_mono, auto)
next
  case (report r b p c rp m)
  from tameD(12,13)[OF report(6)] report(9) show ?case by - (rule okPorts_mono, auto)
next
  case (invited r b cid f)
  from tameD(12,13)[OF invited(5)] invited(7) show ?case by - (rule okPorts_mono, auto)
next
  case (uninvited r b f)
  from tameD(12,13)[OF uninvited(3)] uninvited(5) show ?case by - (rule okPorts_mono, auto)
next
  case (quiet b b')
  then show ?case by (auto simp: quiet_def okPorts_def)
next
  case (incoming c m socks b)
  then show ?case by (auto simp: okPorts_def less_Suc_eq)
next
  case (originated c b)
  then show ?case by (auto simp: okPorts_def less_Suc_eq)
qed (rule okPorts_mono, auto)+

subsubsection \<open>Sockets\<close>

lemma opened_append [simp]: "opened (xs @ ys) = opened xs + opened ys"
  by (simp add: opened_def)

lemma closed_append [simp]: "closed (xs @ ys) = closed xs + closed ys"
  by (simp add: closed_def)

lemma openedBy_plain [simp]: "plainOut out \<Longrightarrow> opened [out] = {#}" "plainOut out \<Longrightarrow> closed [out] = {#}"
  by (cases out; simp add: opened_def closed_def plainOut_def)+

lemma openedBy_request [simp]:
  "opened [H248Request rp q p m] = {#}" "closed [H248Request rp q p m] = {#}"
  by (simp_all add: opened_def closed_def)

lemma opened_opens [simp]:
  "opened (map (Sock \<circ> SockOpen) socks) = mset socks" "closed (map (Sock \<circ> SockOpen) socks) = {#}"
  by (induction socks) (simp_all add: opened_def closed_def)

lemma opened_closes [simp]:
  "opened (map (Sock \<circ> SockClose) socks) = {#}" "closed (map (Sock \<circ> SockClose) socks) = mset socks"
  by (induction socks) (simp_all add: opened_def closed_def)

lemma heldBy_shape: "mediaShape c' = mediaShape c \<Longrightarrow> heldBy c' = heldBy c"
  by (auto simp: mediaShape_def heldBy_def split: option.splits)

lemma held_cong: "nextRef b' = nextRef b \<Longrightarrow> (\<And>r. heldBy (heap b' r) = heldBy (heap b r)) \<Longrightarrow> held b' = held b"
  by (simp add: held_def)

lemma sum_fun_upd:
  assumes "r < (n :: nat)"
  shows "(\<Sum>i<n. g ((h(r := c)) i)) + g (h r) = (\<Sum>i<n. g (h i)) + (g c :: 'a multiset)"
proof -
  have "(\<Sum>i\<in>{..<n} - {r}. g ((h(r := c)) i)) = (\<Sum>i\<in>{..<n} - {r}. g (h i))"
    by (rule sum.cong) auto
  then show ?thesis
    using assms sum.remove[of "{..<n}" r "\<lambda>i. g ((h(r := c)) i)"] sum.remove[of "{..<n}" r "\<lambda>i. g (h i)"]
    by simp
qed

lemma held_upd:
  assumes "r < nextRef b" "nextRef b' = nextRef b" "heap b' = (heap b)(r := c)"
  shows "held b' + heldBy (heap b r) = held b + heldBy c"
  using sum_fun_upd[of r "nextRef b" heldBy "heap b" c] assms by (simp add: held_def)

lemma held_alloc:
  assumes "nextRef b' = Suc (nextRef b)" "heap b' = (heap b)(nextRef b := c)"
  shows "held b' = held b + heldBy c"
  using assms by (simp add: held_def)

lemma okRelay_shape: "okRelay c \<Longrightarrow> mediaShape c' = mediaShape c \<Longrightarrow> Released c' = Released c \<Longrightarrow> okRelay c'"
  by (cases "Media c"; cases "Media c'") (auto simp: okRelay_def mediaShape_def)

lemma mediaShape_sel [simp]:
  "mediaShape (c\<lparr>H248Answered := v\<rparr>) = mediaShape c" "mediaShape (c\<lparr>SIPCallID := k\<rparr>) = mediaShape c"
  "mediaShape (c\<lparr>H248OnhookSent := v\<rparr>) = mediaShape c" "mediaShape (c\<lparr>H248OffhookSent := v\<rparr>) = mediaShape c"
  "mediaShape (c\<lparr>H248DigitsSent := v\<rparr>) = mediaShape c"
  by (simp_all add: mediaShape_def)

lemma balance_shift: "a = c + h \<Longrightarrow> a' + c = a + c' \<Longrightarrow> a' = c' + (h :: 'a multiset)"
proof -
  assume "a = c + h" "a' + c = a + c'"
  then have "a' + c = (c' + h) + c" by (simp only: add.assoc add.commute add.left_commute)
  then show "a' = c' + h" by (simp only: add_right_cancel)
qed

lemma okMedia_mono:
  assumes "okMedia b" "nextRef b' = nextRef b" "\<And>r. mediaShape (heap b' r) = mediaShape (heap b r)"
    "\<And>r. Released (heap b' r) = Released (heap b r)"
    "opened (outputs b') + closed (outputs b) = opened (outputs b) + closed (outputs b')"
  shows "okMedia b'"
proof -
  from assms(1) have "opened (outputs b) = closed (outputs b) + held b" by (simp add: okMedia_def)
  from this assms(5) have "opened (outputs b') = closed (outputs b') + held b" by (rule balance_shift)
  moreover have "held b' = held b" by (intro held_cong heldBy_shape assms(2,3))
  moreover have "okRelay (heap b' r)" if "r < nextRef b" for r
    using okRelay_shape[of "heap b r" "heap b' r"] that assms(1,3,4) by (simp add: okMedia_def)
  ultimately show ?thesis using assms(2) by (simp add: okMedia_def)
qed

lemma okRelay_released: "okRelay c \<Longrightarrow> okRelay (releasedCall c)"
  by (cases "Media c") (auto simp: okRelay_def releasedCall_def closeRelay_def)

lemma heldBy_released: "okRelay c \<Longrightarrow> heldBy (releasedCall c) = {#}"
  by (cases "Media c") (auto simp: okRelay_def heldBy_def releasedCall_def closeRelay_def)

lemma releaseEvents_eq:
  assumes "okRelay c"
  shows "opened (map Sock (releaseEvents c)) = {#}" "closed (map Sock (releaseEvents c)) = heldBy c"
proof -
  have "map Sock (releaseEvents c) =
      (case Media c of None \<Rightarrow> [] | Some m \<Rightarrow> map (Sock \<circ> SockClose) (mrSockets m))"
    using assms by (cases "Media c") (auto simp: okRelay_def releaseEvents_def closeRelay_def)
  then show "opened (map Sock (releaseEvents c)) = {#}" "closed (map Sock (releaseEvents c)) = heldBy c"
    by (cases "Media c"; simp add: heldBy_def; simp add: opened_def closed_def)+
qed

lemma okMedia_step: "bstep b b' \<Longrightarrow> okMedia b \<Longrightarrow> okMedia b'"
proof (induction rule: bstep.induct)
  case (tame r b f)
  from tameD[OF tame(2)] tame(3) show ?case by - (rule okMedia_mono, auto)
next
  case (report r b p c rp m)
  from tameD[OF report(6)] report(9) show ?case by - (rule okMedia_mono, auto)
next
  case (invited r b cid f)
  from tameD[OF invited(5)] invited(7) show ?case by - (rule okMedia_mono, auto)
next
  case (uninvited r b f)
  from tameD[OF uninvited(3)] uninvited(5) show ?case by - (rule okMedia_mono, auto)
next
  case (quiet b b')
  then show ?case by - (rule okMedia_mono, auto simp: quiet_def)
next
  case (sockFail evs b)
  then have "opened (map Sock evs) = closed (map Sock evs)" by (simp add: opened_def closed_def)
  with sockFail(2) show ?case by - (rule okMedia_mono, auto)
next
  case (release r b)
  then have ok: "okRelay (heap b r)" by (simp add: okMedia_def)
  have "held (releaseCall r b) + heldBy (heap b r) = held b"
    using held_upd[of r b "releaseCall r b" "releasedCall (heap b r)"] release heldBy_released[OF ok] by simp
  with release show ?case
    using releaseEvents_eq[OF ok] okRelay_released[OF ok] by (auto simp: okMedia_def ac_simps)
next
  case (incoming c m socks b)
  let ?b' = "insertH248 (nextRef b) (snd (allocCall c (emitAll (map (Sock \<circ> SockOpen) socks) b)))"
  have "held ?b' = held b + mset socks"
    using incoming by (subst held_alloc[of ?b' b c]) (auto simp: heldBy_def)
  with incoming show ?case by (auto simp: okMedia_def okRelay_def fresh_def less_Suc_eq)
next
  case (originated c b)
  let ?b' = "snd (allocCall c b)\<lparr>outboundCall := Some (nextRef b),
      callsBySIP := AList.update (SIPCallID c) (nextRef b) (callsBySIP b)\<rparr>"
  have "held ?b' = held b"
    using originated by (subst held_alloc[of ?b' b c]) (auto simp: heldBy_def)
  with originated show ?case by (auto simp: okMedia_def okRelay_def fresh_def less_Suc_eq)
next
  case (attach r b m socks)
  let ?b' = "updCall r (\<lambda>c. c\<lparr>Media := Some m\<rparr>) (emitAll (map (Sock \<circ> SockOpen) socks) b)"
  have "held ?b' = held b + mset socks"
    using held_upd[of r b ?b' "(heap b r)\<lparr>Media := Some m\<rparr>"] attach by (simp add: heldBy_def)
  with attach show ?case by (auto simp: okMedia_def okRelay_def)
qed (rule okMedia_mono, auto)+

subsubsection \<open>The invariant\<close>

interpretation br: transition_invariant bstep bridgeInv
  by unfold_locales
    (auto simp: bridgeInv_def intro: okTables_step okOutbound_step okMedia_step okMarks_step okReports_step
      okTimers_step okPorts_step okLine_step okRetained_step)

end
