(* ===== verification/Bridge_Refine.thy ===== *)
theory Bridge_Refine
  imports Bridge_Machine
begin

text \<open>
  Every operation of the bridge is a sequence of the elementary changes of \<^verbatim>\<open>Bridge_Machine\<close>.  A lemma
  \<open>f_steps\<close> says so for the operation \<open>f\<close>; the lemmas of the first section append one change to a
  sequence.
\<close>

abbreviation bsteps :: "bridge \<Rightarrow> bridge \<Rightarrow> bool" where
  "bsteps \<equiv> bstep\<^sup>*\<^sup>*"

subsection \<open>Single changes\<close>

interpretation refs: monotone_measure bstep nextRef
proof unfold_locales
  fix b b'
  assume "bstep b b'"
  then show "nextRef b \<le> nextRef b'" by (induction rule: bstep.induct) (auto simp: quiet_def)
qed

lemma bsteps_ref: "bsteps b b' \<Longrightarrow> r < nextRef b \<Longrightarrow> r < nextRef b'"
  using refs.steps_mono by (meson order_less_le_trans)

lemma bsteps_then: "bsteps b b1 \<Longrightarrow> (nextRef b \<le> nextRef b1 \<Longrightarrow> bsteps b1 b2) \<Longrightarrow> bsteps b b2"
  using refs.steps_mono by (meson rtranclp_trans)

lemma plain_steps: "bsteps b0 b \<Longrightarrow> plainOut out \<Longrightarrow> bsteps b0 (emit out b)"
  by (meson bstep.plain rtranclp.rtrancl_into_rtrancl)

lemma tame_steps:
  "bsteps b0 b \<Longrightarrow> r < nextRef b \<Longrightarrow> tame (heap b r) (f (heap b r)) \<Longrightarrow> bsteps b0 (updCall r f b)"
  by (meson bstep.tame rtranclp.rtrancl_into_rtrancl)

lemma quiet_steps: "bsteps b0 b \<Longrightarrow> quiet b b' \<Longrightarrow> bsteps b0 b'"
  by (meson bstep.quiet rtranclp.rtrancl_into_rtrancl)

lemma release_steps: "bsteps b0 b \<Longrightarrow> r < nextRef b \<Longrightarrow> bsteps b0 (releaseCall r b)"
  by (meson bstep.release rtranclp.rtrancl_into_rtrancl)

lemma line_steps: "bsteps b0 b \<Longrightarrow> (okLine (line b) \<Longrightarrow> okLine (f (line b))) \<Longrightarrow> bsteps b0 (updLine f b)"
  by (meson bstep.onLine rtranclp.rtrancl_into_rtrancl)

lemma sendOut_steps: "bsteps b0 b \<Longrightarrow> plainOut out \<Longrightarrow> bsteps b0 (snd (sendOut e out b))"
  by (auto simp: sendOut_eq intro: plain_steps simp: plainOut_def)

lemma quiet_pending [simp]:
  "quiet b (setPending tid cid p b)" "quiet b (delPending tid b)" "quiet b (b\<lparr>nextH248TID := n\<rparr>)"
  by (simp_all add: quiet_def setPending_def delPending_def)

lemma quiet_refl [simp]: "quiet b b"
  by (simp add: quiet_def)

lemma quiet_trans: "quiet b b1 \<Longrightarrow> quiet b1 b2 \<Longrightarrow> quiet b b2"
  by (auto simp: quiet_def okTimer_def cong: timer.case_cong)

lemma quiet_after: "okTimer b t \<Longrightarrow> quiet b (after e d t b)"
  by (simp add: quiet_def)

lemma plainOut_simps [simp]:
  "plainOut (H248Reply rp m)" "plainOut (SipReply sr st m)" "plainOut (SipRequest me cid m a)"
  "plainOut (WriteFailed out)"
  by (simp_all add: plainOut_def)

lemma tame_refl [simp]: "tame c c"
  by (simp add: tame_def)

subsection \<open>Line events\<close>

lemma markPhase_simps [simp]:
  "markPhase ''onhook'' v c = c\<lparr>H248OnhookSent := v\<rparr>" "markPhase ''answer'' v c = c\<lparr>H248Answered := v\<rparr>"
  by (simp_all add: markPhase_def)

text \<open>The state in which a request of the gateway is written: its identifier is taken and pending.\<close>

definition requested :: "string \<Rightarrow> string \<Rightarrow> bridge \<Rightarrow> bridge" where
  "requested cid phase b =
     setPending (FormatUint (uint (nextH248TID b + 1))) cid phase (b\<lparr>nextH248TID := nextH248TID b + 1\<rparr>)"

lemma requested_frame [simp]:
  "heap (requested cid p b) = heap b" "nextRef (requested cid p b) = nextRef b" "line (requested cid p b) = line b"
  by (simp_all add: requested_def)

lemma requested_steps: "bsteps b (requested cid p b)"
  by (rule quiet_steps[OF rtranclp.rtrancl_refl]) (simp add: requested_def setPending_def quiet_def)

lemma report_steps:
  assumes "r < nextRef b" "oncePhase p" "\<not> Released (heap b r)" "\<not> flagOf p (heap b r)" "flagOf p c"
    "tame (heap b r) (c\<lparr>H248OnhookSent := H248OnhookSent (heap b r),
       H248OffhookSent := H248OffhookSent (heap b r), H248DigitsSent := H248DigitsSent (heap b r)\<rparr>)"
    "\<And>q. oncePhase q \<Longrightarrow> q \<noteq> p \<Longrightarrow> flagOf q c = flagOf q (heap b r)"
    "p = ''origination-digits'' \<Longrightarrow> H248OffhookSent (heap b r)"
  shows "bsteps b (emit (H248Request rp (Some r) p m) (updCall r (\<lambda>_. c) (requested cid p' b)))"
  by (rule rtranclp.rtrancl_into_rtrancl[OF requested_steps], rule bstep.report) (use assms in simp_all)

lemma failed_steps: "bsteps b (delPending tid (emit (WriteFailed out) (requested cid p b)))"
  by (rule quiet_steps[OF plain_steps[OF requested_steps] quiet_pending(2)]) simp

lemma failed_tame_steps:
  assumes "r < nextRef b" "tame (heap b r) (f (heap b r))"
  shows "bsteps b (updCall r f (delPending tid (emit (WriteFailed out) (requested cid p b))))"
  using assms by (intro tame_steps[OF failed_steps]) simp_all

lemma answer_steps:
  assumes "r < nextRef b" "SIPAnswered (heap b r)" "\<not> Released (heap b r)"
  shows "bsteps b (emit (H248Request rp (Some r) ''answer'' m)
    (updCall r (\<lambda>c. c\<lparr>H248Answered := True\<rparr>) (requested cid p b)))"
  by (rule rtranclp.rtrancl_into_rtrancl[OF requested_steps], rule bstep.answer) (use assms in simp_all)

lemma initialOnhook_steps:
  assumes "lineReady (line b)" "lineRequestID (line b) \<noteq> []" "lineResponder (line b) = Some rp"
  shows "bsteps b (emit (H248Request rp None ''initial-onhook'' m)
    (updLine (\<lambda>l. l\<lparr>lineOnhookSent := True\<rparr>) (requested cid p b)))"
  by (rule rtranclp.rtrancl_into_rtrancl[OF requested_steps], rule bstep.initialOnhook) (use assms in simp_all)

lemma if_steps: "(P \<Longrightarrow> bsteps b x) \<Longrightarrow> (\<not> P \<Longrightarrow> bsteps b y) \<Longrightarrow> bsteps b (if P then x else y)"
  by simp

lemmas request_defs = newH248TransactionID_def sendOut_eq requested_def updCall_def setPending_def emit_def
  delPending_def updLine_def

lemma sendOnhook_steps:
  assumes "r < nextRef b"
  shows "bsteps b (sendOnhook e r b)"
proof (cases "H248Responder (heap b r) = None \<or> Released (heap b r) \<or> H248EventRequestID (heap b r) = [] \<or>
    H248OnhookSent (heap b r)")
  case True
  then show ?thesis by (auto simp: sendOnhook_def sendCallLineEvent_def Let_def split: option.split)
next
  case False
  then obtain rp where rp: "H248Responder (heap b r) = Some rp" by auto
  let ?tid = "FormatUint (uint (nextH248TID b + 1))"
  let ?m = "notify e ?tid (if H248ContextAllocated (heap b r) then H248ContextID (heap b r) else ''-'')
     (H248PhysicalTerm (heap b r)) (H248EventRequestID (heap b r)) ''al/on'' b"
  have eq: "sendOnhook e r b =
     (if writes e (length (outputs b))
      then emit (H248Request rp (Some r) ''onhook'' ?m)
        (updCall r (\<lambda>_. (heap b r)\<lparr>H248OnhookSent := True\<rparr>) (requested (callID (heap b r)) ''onhook'' b))
      else updCall r (\<lambda>c. c\<lparr>H248OnhookSent := False\<rparr>) (delPending ?tid (emit (WriteFailed (H248Request rp (Some r) ''onhook'' ?m))
        (requested (callID (heap b r)) ''onhook'' b))))"
    using False rp
    by (simp add: sendOnhook_def sendCallLineEvent_def Let_def request_defs)
  show ?thesis unfolding eq
    by (rule if_steps; rule report_steps failed_tame_steps; use assms False in \<open>auto simp: oncePhase_def flagOf_def tame_def mediaShape_def\<close>)
qed

lemma tryAnswerH248_steps:
  assumes "r < nextRef b"
  shows "bsteps b (tryAnswerH248 e r b)"
proof (cases "H248Responder (heap b r) = None \<or> Released (heap b r) \<or> H248EventRequestID (heap b r) = [] \<or>
    \<not> SIPAnswered (heap b r) \<or> H248Answered (heap b r)")
  case True
  then show ?thesis by (auto simp: tryAnswerH248_def sendCallLineEvent_def Let_def split: option.split)
next
  case False
  then obtain rp where rp: "H248Responder (heap b r) = Some rp" by auto
  let ?tid = "FormatUint (uint (nextH248TID b + 1))"
  let ?m = "notify e ?tid (if H248ContextAllocated (heap b r) then H248ContextID (heap b r) else ''-'')
     (H248PhysicalTerm (heap b r)) (H248EventRequestID (heap b r)) ''al/of'' b"
  have eq: "tryAnswerH248 e r b =
     (if writes e (length (outputs b))
      then emit (H248Request rp (Some r) ''answer'' ?m)
        (updCall r (\<lambda>c. c\<lparr>H248Answered := True\<rparr>) (requested (callID (heap b r)) ''answer'' b))
      else updCall r (\<lambda>c. c\<lparr>H248Answered := False\<rparr>) (delPending ?tid (emit (WriteFailed (H248Request rp (Some r) ''answer'' ?m))
        (requested (callID (heap b r)) ''answer'' b))))"
    using False rp
    by (simp add: tryAnswerH248_def sendCallLineEvent_def Let_def request_defs)
  show ?thesis unfolding eq
    by (rule if_steps; rule answer_steps failed_tame_steps; use assms False in \<open>auto simp: tame_def mediaShape_def\<close>)
qed

lemma sendInitialOnhook_steps: "bsteps b (sendInitialOnhook e b)"
proof (cases "lineResponder (line b) = None \<or> \<not> lineReady (line b) \<or> lineOnhookSent (line b) \<or>
    lineRequestID (line b) = []")
  case True
  then show ?thesis by (auto simp: sendInitialOnhook_def split: option.split)
next
  case False
  then obtain rp where rp: "lineResponder (line b) = Some rp" by auto
  have line_restore: "(line b)\<lparr>lineOnhookSent := False\<rparr> = line b" using False by (cases "line b") simp
  let ?tid = "FormatUint (uint (nextH248TID b + 1))"
  let ?m = "notify e ?tid ''-'' (h248PhysicalTermination (cfgH248' b)) (lineRequestID (line b)) ''al/on'' b"
  have eq: "sendInitialOnhook e b =
     (if writes e (length (outputs b))
      then emit (H248Request rp None ''initial-onhook'' ?m)
        (updLine (\<lambda>l. l\<lparr>lineOnhookSent := True\<rparr>) (requested [] ''initial-onhook'' b))
      else delPending ?tid (emit (WriteFailed (H248Request rp None ''initial-onhook'' ?m))
        (requested [] ''initial-onhook'' b)))"
    using False rp line_restore by (simp add: sendInitialOnhook_def Let_def request_defs)
  show ?thesis unfolding eq
    by (rule if_steps; rule initialOnhook_steps failed_steps; use False rp in simp)
qed

subsection \<open>The SIP side of a call\<close>

lemmas tame_defs = tame_def mediaShape_def

lemma respondSIP_steps: "bsteps b (respondSIP e rp msg st rs body ct ex b)"
  by (simp add: respondSIP_def sendOut_steps)

lemma tame_markResponse: "tame c (markResponse st m c)"
  by (simp add: markResponse_def Let_def tame_defs)

lemma sendSIPOriginatedResponse_steps:
  "r < nextRef b \<Longrightarrow> bsteps b (snd (sendSIPOriginatedResponse e r st rs sdp b))"
  by (auto simp: sendSIPOriginatedResponse_def Let_def split: option.split
      intro!: sendOut_steps tame_steps tame_markResponse)

lemma sendSIPOriginatedResponse_answered:
  "sendSIPOriginatedResponse e r 200 rs sdp b = (True, b') \<Longrightarrow> SIPAnswered (heap b' r)"
  by (auto simp: sendSIPOriginatedResponse_def Let_def sendOut_eq markResponse_def split: option.splits if_splits)

lemma answerSIPOriginatedCall_steps:
  assumes "r < nextRef b"
  shows "bsteps b (answerSIPOriginatedCall e r b)"
proof (cases "Released (heap b r) \<or> SIPAnswered (heap b r)")
  case True
  then show ?thesis by (simp add: answerSIPOriginatedCall_def)
next
  case False
  obtain ok b1 where eq: "sendSIPOriginatedResponse e r 200 ''OK'' True b = (ok, b1)" by fastforce
  with sendSIPOriginatedResponse_steps[OF assms, of e 200 "''OK''" True] have steps: "bsteps b b1" by simp
  moreover have "bsteps b (updCall r (\<lambda>c. c\<lparr>H248Answered := True\<rparr>) b1)" if ok
    using sendSIPOriginatedResponse_answered[of e r "''OK''" True b b1] eq that bsteps_ref[OF steps assms]
    by (intro tame_steps[OF steps]) (auto simp: tame_defs)
  ultimately show ?thesis using False eq by (simp add: answerSIPOriginatedCall_def)
qed

lemma failSIPOriginatedCall_steps: "r < nextRef b \<Longrightarrow> bsteps b (failSIPOriginatedCall e r st rs b)"
  by (simp add: failSIPOriginatedCall_def sendSIPOriginatedResponse_steps)

lemma mediaShape_peers [simp]:
  "mediaShape (c\<lparr>Media := map_option (SetSIPPeer a pt) (Media c)\<rparr>) = mediaShape c"
  "mediaShape (c\<lparr>Media := map_option (SetH248Peer a pt) (Media c)\<rparr>) = mediaShape c"
  "mediaShape (c\<lparr>Media := map_option (SetH248DTMFPayloadType pt) (Media c)\<rparr>) = mediaShape c"
  by (cases "Media c"; simp add: mediaShape_def SetSIPPeer_def SetH248Peer_def SetH248DTMFPayloadType_def Let_def)+

lemma updMedia_steps:
  assumes "bsteps b0 b" "r < nextRef b" "\<And>c. mediaShape (c\<lparr>Media := map_option f (Media c)\<rparr>) = mediaShape c"
  shows "bsteps b0 (updMedia r f b)"
  unfolding updMedia_def using assms by (intro tame_steps) (simp_all add: tame_def)

lemma tame_remoteMedia [simp]:
  "tame c (c\<lparr>SIPRemoteMedia := a, SIPTelephoneEventPT := pt\<rparr>)"
  "tame c (c\<lparr>H248RemoteMedia := a, H248TelephoneEventPT := pt\<rparr>)"
  "tame c (c\<lparr>H248TelephoneEventPT := pt\<rparr>)" "tame c (c\<lparr>State := st\<rparr>)"
  "tame c (c\<lparr>SIPRemoteMedia := a\<rparr>)" "tame c (c\<lparr>H248RemoteMedia := a\<rparr>)"
  "tame c (c\<lparr>SIPRemoteReleased := v\<rparr>)" "tame c (c\<lparr>H248ContextAllocated := v\<rparr>)"
  by (simp_all add: tame_defs)

lemma updateSIPRemoteMedia_steps:
  "r < nextRef b \<Longrightarrow> bsteps b (snd (updateSIPRemoteMedia e r body b))"
  by (auto simp: updateSIPRemoteMedia_def Let_def split: sum.split option.split
      intro!: updMedia_steps tame_steps)

lemma writeTo_steps: "bsteps b (snd (writeTo e me cid m peer b))"
  by (auto simp: writeTo_def intro!: sendOut_steps split: option.split)

lemma sendInviteACKForTransaction_steps:
  "bsteps b (sendInviteACKForTransaction e cid uri from via br cs msg peer b)"
  by (simp add: sendInviteACKForTransaction_def Let_def writeTo_steps)

lemma sendInviteACK_steps: "bsteps b (sendInviteACK e r msg peer b)"
  by (simp add: sendInviteACK_def Let_def sendInviteACKForTransaction_steps)

lemma sendPRACK_steps: "bsteps b (sendPRACK e r msg rseq b)"
  by (simp add: sendPRACK_def Let_def writeTo_steps)

subsection \<open>Retained transactions\<close>

lemma putRetained_quiet:
  "riCallID ri \<noteq> [] \<Longrightarrow> riRequestURI ri \<noteq> [] \<Longrightarrow> riInviteCSeq ri > 0 \<Longrightarrow> quiet b (putRetained ri b)"
  by (auto simp: quiet_def putRetained_def okRetained_def)

lemma schedule_quiet: "quiet b (scheduleRetainedSIPInviteExpiry e ri ttl b)"
  by (simp add: scheduleRetainedSIPInviteExpiry_def quiet_after okTimer_def)

lemma retainSIPInvite_steps: "bridgeInv b \<Longrightarrow> bsteps b (retainSIPInvite e r b)"
  by (auto simp: retainSIPInvite_def Let_def retainedFor_def newRetained_def bridgeInv_def okRetained_def
      quiet_def putRetained_def scheduleRetainedSIPInviteExpiry_def okTimer_def
      intro!: quiet_steps[of b b] split: option.split)

lemma refreshRetained_steps:
  "bridgeInv b \<Longrightarrow> bsteps b (refreshRetainedSIPInvite e cid b)"
  by (auto simp: refreshRetainedSIPInvite_def Let_def bridgeInv_def okRetained_def
      quiet_def putRetained_def scheduleRetainedSIPInviteExpiry_def okTimer_def
      intro!: quiet_steps[of b b] split: option.split)

lemma expireRetained_steps: "bsteps b (expireRetained e ref cid b)"
  by (auto simp: expireRetained_def quiet_def okRetained_def intro!: quiet_steps[of b b] split: option.split)

lemma sendLateAnswerBYE_steps:
  assumes "bridgeInv b"
  shows "bsteps b (sendLateAnswerBYE e cid msg b)"
proof (cases "retainedInvites b cid")
  case None
  then show ?thesis by (simp add: sendLateAnswerBYE_def)
next
  case (Some ri)
  with assms have ri: "riCallID ri \<noteq> []" "riRequestURI ri \<noteq> []" "riInviteCSeq ri > 0"
    by (auto simp: bridgeInv_def okRetained_def)
  have put: "bsteps b0 (putRetained (ri\<lparr>riLateBYESent := v\<rparr>) b1)" if "bsteps b0 b1" for v b0 b1
    using ri by (intro quiet_steps[OF that] putRetained_quiet) simp_all
  from Some show ?thesis
    by (auto simp: sendLateAnswerBYE_def Let_def sendOut_eq intro!: put plain_steps split: option.split)
qed

lemma handleRetained_steps:
  assumes "bridgeInv b"
  shows "bsteps b (handleRetainedSIPInviteResponse e cid msg b)"
proof (cases "retainedInvites b cid")
  case None
  then show ?thesis by (simp add: handleRetainedSIPInviteResponse_def)
next
  case (Some ri0)
  define ri where "ri = (if smSource msg \<noteq> None then ri0\<lparr>riPeer := smSource msg\<rparr> else ri0)"
  have ri: "riCallID ri \<noteq> []" "riRequestURI ri \<noteq> []" "riInviteCSeq ri > 0"
    using assms Some by (auto simp: bridgeInv_def okRetained_def ri_def)
  have put: "bsteps b (putRetained ri b)"
    using ri by (intro quiet_steps[OF rtranclp.rtrancl_refl] putRetained_quiet) simp_all
  let ?b2 = "sendInviteACKForTransaction e (riCallID ri) (riRequestURI ri) (riFrom ri) (riInviteVia ri)
    (riInviteBranch ri) (riInviteCSeq ri) msg (riPeer ri) (putRetained ri b)"
  let ?b3 = "refreshRetainedSIPInvite e cid ?b2"
  have ack: "bsteps b ?b2" using put sendInviteACKForTransaction_steps by (rule rtranclp_trans)
  have refresh: "bsteps b ?b3"
    using ack refreshRetained_steps[OF br.steps_inv[OF ack assms]] by (rule rtranclp_trans)
  have bye: "bsteps b (sendLateAnswerBYE e cid msg ?b3)"
    using refresh sendLateAnswerBYE_steps[OF br.steps_inv[OF refresh assms]] by (rule rtranclp_trans)
  show ?thesis
    by (simp only: handleRetainedSIPInviteResponse_def Some option.case ri_def[symmetric] Let_def)
      (use put refresh bye in \<open>auto intro!: if_steps\<close>)
qed

subsection \<open>Teardown and the INVITE of the gateway\<close>

lemma byeAsServer_steps: "r < nextRef b \<Longrightarrow> bsteps b (byeAsServer e r peer b)"
  by (auto simp: byeAsServer_def Let_def intro!: sendOut_steps tame_steps)

lemma teardownAsClient_steps:
  assumes "r < nextRef b" "bridgeInv b"
  shows "bsteps b (teardownAsClient e r peer b)"
proof -
  have upd: "bsteps b (updCall r (\<lambda>c. c\<lparr>State := st\<rparr>) b)" for st
    by (rule tame_steps) (use assms in simp_all)
  have "bsteps b (retainSIPInvite e r (updCall r (\<lambda>c. c\<lparr>State := st\<rparr>) b))" for st
    using upd retainSIPInvite_steps[OF br.steps_inv[OF upd assms(2)]] by (rule rtranclp_trans)
  with upd show ?thesis
    by (auto simp: teardownAsClient_def Let_def split: prod.split intro!: sendOut_steps)
qed

lemma sendSIPTeardown_steps: "r < nextRef b \<Longrightarrow> bridgeInv b \<Longrightarrow> bsteps b (sendSIPTeardown e r b)"
  by (auto simp: sendSIPTeardown_def Let_def byeAsServer_steps teardownAsClient_steps failSIPOriginatedCall_steps
      split: option.split)

lemma inviteFields_sel:
  "SIPCallID (inviteFields e cfg peer c) = inviteCallID e cfg c"
  "tame c ((inviteFields e cfg peer c)\<lparr>SIPCallID := SIPCallID c\<rparr>)"
  "Released (inviteFields e cfg peer c) = Released c"
  by (simp_all add: inviteFields_def Let_def tame_defs)

lemma startSIPInvite_steps:
  assumes "r < nextRef b"
  shows "bsteps b (startSIPInvite e r b)"
proof (cases "Released (heap b r) \<or> SIPCallID (heap b r) \<noteq> [] \<or> \<not> bSender b \<or>
    resolveSIPPeer (resolve e) (sipOutboundProxy (cfgSIP' b)) (sipTrunkURI (cfgSIP' b)) = None")
  case True
  then show ?thesis by (auto simp: startSIPInvite_def Let_def split: option.split)
next
  case False
  then obtain peer where peer:
    "resolveSIPPeer (resolve e) (sipOutboundProxy (cfgSIP' b)) (sipTrunkURI (cfgSIP' b)) = Some peer" by auto
  let ?cid = "inviteCallID e (bCfg b) (heap b r)"
  let ?b2 = "updCall r (inviteFields e (bCfg b) peer) b\<lparr>callsBySIP := AList.update ?cid r (callsBySIP b)\<rparr>"
  let ?out = "SipRequest ''INVITE'' ?cid (SIPInvite (inviteFields e (bCfg b) peer (heap b r))) peer"
  have "bstep b ?b2"
    using assms False inviteFields_sel(2)[of "heap b r" e "bCfg b" peer]
    by (intro bstep.invited) (auto simp: inviteFields_sel(1) inviteCallID_def)
  then have b2: "bsteps b ?b2" by blast
  have sent: "bsteps b (after e d1 (TInviteDeadline ?cid) (after e d2 (TRetransmit ?cid)
      (emit ?out ?b2\<lparr>inviteLoops := lps\<rparr>)))" for d1 d2 lps
    by (rule quiet_steps[OF plain_steps[OF b2]]) (auto simp: quiet_def okTimer_def)
  have "bstep (emit (WriteFailed ?out) ?b2)
      (updCall r (\<lambda>c. c\<lparr>SIPCallID := [], State := ''carrier-ringing''\<rparr>)
        (emit (WriteFailed ?out) ?b2\<lparr>callsBySIP := AList.delete (SIPCallID (heap (emit (WriteFailed ?out) ?b2) r))
           (callsBySIP (emit (WriteFailed ?out) ?b2))\<rparr>))"
    using assms False by (intro bstep.uninvited) (auto simp: inviteFields_sel tame_defs)
  then have failed: "bsteps b (updCall r (\<lambda>c. c\<lparr>SIPCallID := [], State := ''carrier-ringing''\<rparr>)
        (emit (WriteFailed ?out) ?b2\<lparr>callsBySIP := AList.delete ?cid (AList.update ?cid r (callsBySIP b))\<rparr>))"
    using plain_steps[OF b2, of "WriteFailed ?out"]
    by (simp add: inviteFields_sel rtranclp.rtrancl_into_rtrancl)
  have "startSIPInvite e r b =
     (if writes e (length (outputs b))
      then after e inviteDeadline (TInviteDeadline ?cid) (after e initialRetransmitInterval (TRetransmit ?cid)
        (emit ?out ?b2\<lparr>inviteLoops := AList.update ?cid initialRetransmitInterval (inviteLoops b)\<rparr>))
      else updCall r (\<lambda>c. c\<lparr>SIPCallID := [], State := ''carrier-ringing''\<rparr>)
        (emit (WriteFailed ?out) ?b2\<lparr>callsBySIP := AList.delete ?cid (AList.update ?cid r (callsBySIP b))\<rparr>))"
    using False peer by (simp add: startSIPInvite_def Let_def inviteFields_sel sendOut_eq emit_def updCall_def)
  with sent failed show ?thesis by simp
qed

lemma retransmitTick_steps: "bsteps b (retransmitTick e cid b)"
proof -
  have q: "bsteps b (b1\<lparr>inviteLoops := lps\<rparr>)" "bsteps b (after e d (TRetransmit cid) (b1\<lparr>inviteLoops := lps\<rparr>))"
    if "bsteps b b1" for b1 lps d
    by (rule quiet_steps[OF that]; simp add: quiet_def okTimer_def)+
  show ?thesis
    by (auto simp: retransmitTick_def Let_def endInviteLoop_def intro!: q writeTo_steps split: option.split)
qed

lemma inviteTimeout_steps:
  assumes "bridgeInv b"
  shows "bsteps b (inviteTimeout e cid b)"
proof (cases "map_of (inviteLoops b) cid = None \<or> map_of (callsBySIP b) cid = None")
  case True
  have "bsteps b (endInviteLoop cid b)"
    by (rule quiet_steps[OF rtranclp.rtrancl_refl]) (simp add: endInviteLoop_def quiet_def)
  with True show ?thesis by (auto simp: inviteTimeout_def Let_def split: option.split)
next
  case False
  then obtain r where r: "map_of (callsBySIP b) cid = Some r" by auto
  with assms have ref: "r < nextRef b" by (auto simp: bridgeInv_def okTables_def)
  define b1 where "b1 = (if \<not> SIPInviteProvisional (heap (endInviteLoop cid b) r)
       \<and> \<not> SIPAnswered (heap (endInviteLoop cid b) r) \<and> \<not> Released (heap (endInviteLoop cid b) r)
      then updCall r (\<lambda>c. c\<lparr>State := ''sip-invite-timeout''\<rparr>) (endInviteLoop cid b) else endInviteLoop cid b)"
  have "bsteps b (endInviteLoop cid b)"
    by (rule quiet_steps[OF rtranclp.rtrancl_refl]) (simp add: endInviteLoop_def quiet_def)
  then have b1: "bsteps b b1"
    using ref by (auto simp: b1_def intro!: tame_steps) (simp add: endInviteLoop_def)
  have "bsteps b (releaseCall r (sendOnhook e r b1))"
    using rtranclp_trans[OF b1 sendOnhook_steps[OF bsteps_ref[OF b1 ref]]]
    by (rule release_steps) (rule bsteps_ref[OF rtranclp_trans[OF b1 sendOnhook_steps[OF bsteps_ref[OF b1 ref]]] ref])
  with False r show ?thesis by (simp add: inviteTimeout_def Let_def b1_def)
qed

end
