(* ===== verification/Bridge_Handlers.thy ===== *)
theory Bridge_Handlers
  imports Bridge_Refine
begin

text \<open>
  The handlers and timers of the bridge as sequences of elementary changes, the reachable states of
  the bridge, and the invariant of all of them.
\<close>

subsection \<open>Origination\<close>

lemma failed_pending_steps:
  assumes "r < nextRef b" "tame (heap b r) (f (heap b r))"
  shows "bsteps b (delPending tid (updCall r f (emit (WriteFailed out) (requested cid p b))))"
  using assms by (intro quiet_steps[OF tame_steps[OF plain_steps[OF requested_steps]] quiet_pending(2)]) simp_all

lemma failOrigination_steps:
  assumes "r < nextRef b"
  shows "bsteps b (failOrigination e r st rs b)"
  unfolding failOrigination_def using failSIPOriginatedCall_steps[OF assms]
  by (rule release_steps) (rule bsteps_ref[OF failSIPOriginatedCall_steps assms], rule assms)

lemma scheduleOriginationOffhook_steps:
  "r < nextRef b \<Longrightarrow> bsteps b (scheduleOriginationOffhook e r b)"
  by (auto simp: scheduleOriginationOffhook_def Let_def okTimer_def
      intro!: quiet_steps[OF rtranclp.rtrancl_refl] quiet_after)

lemma scheduleOriginationDigits_steps:
  assumes "r < nextRef b" "H248OffhookSent (heap b r)"
  shows "bsteps b (scheduleOriginationDigits e r b)"
proof -
  have "bsteps b (updCall r (\<lambda>c. c\<lparr>H248DigitsScheduled := True\<rparr>) b)"
    using assms by (intro tame_steps) (simp_all add: tame_defs)
  then have "bsteps b (after e d (TDigits r) (updCall r (\<lambda>c. c\<lparr>H248DigitsScheduled := True\<rparr>) b))" for d
    using assms by (intro quiet_steps[OF _ quiet_after]) (auto simp: okTimer_def)
  then show ?thesis by (simp add: scheduleOriginationDigits_def Let_def)
qed

lemma sendOriginationOffhook_steps:
  assumes "r < nextRef b"
  shows "bsteps b (sendOriginationOffhook e r b)"
proof (cases "lineResponder (line b) = None \<or> Released (heap b r) \<or> H248OffhookSent (heap b r) \<or>
    \<not> lineReady (line b) \<or> \<not> lineOnhookSent (line b) \<or> lineRequestID (line b) = []")
  case True
  then show ?thesis
    using failOrigination_steps[OF assms] by (auto simp: sendOriginationOffhook_def Let_def split: option.split)
next
  case False
  then obtain rp where rp: "lineResponder (line b) = Some rp" by auto
  let ?tid = "FormatUint (uint (nextH248TID b + 1))"
  let ?m = "notify e ?tid ''-'' (h248PhysicalTermination (cfgH248' b)) (lineRequestID (line b)) ''al/of'' b"
  let ?ph = "''origination-offhook''"
  let ?c = "(heap b r)\<lparr>H248Responder := Some rp, H248EventRequestID := lineRequestID (line b),
    H248OffhookSent := True, State := ''h248-offhook-sent''\<rparr>"
  let ?f = "\<lambda>c. c\<lparr>H248Responder := Some rp, H248EventRequestID := lineRequestID (line b),
    State := ''h248-offhook-sent'', H248OffhookSent := False\<rparr>"
  let ?failed = "delPending ?tid (updCall r ?f (emit (WriteFailed (H248Request rp (Some r) ?ph ?m))
        (requested (callID (heap b r)) ?ph b)))"
  have eq: "sendOriginationOffhook e r b =
     (if writes e (length (outputs b))
      then emit (H248Request rp (Some r) ?ph ?m) (updCall r (\<lambda>_. ?c) (requested (callID (heap b r)) ?ph b))
      else failOrigination e r 503 ''H248 Offhook Failed'' ?failed)"
    using False rp by (simp add: sendOriginationOffhook_def Let_def request_defs)
  have failed: "bsteps b ?failed"
    by (rule failed_pending_steps) (use assms False in \<open>auto simp: tame_defs\<close>)
  show ?thesis unfolding eq
    by (rule if_steps, rule report_steps)
      (use assms False rtranclp_trans[OF failed failOrigination_steps[OF bsteps_ref[OF failed assms]]]
        in \<open>auto simp: oncePhase_def flagOf_def tame_defs\<close>)
qed

lemma sendOriginationDigits_steps:
  assumes "r < nextRef b" "H248OffhookSent (heap b r)"
  shows "bsteps b (sendOriginationDigits e r b)"
proof (cases "H248Responder (heap b r) = None \<or> Released (heap b r) \<or> H248DigitsSent (heap b r) \<or>
    H248EventRequestID (heap b r) = []")
  case True
  have "bsteps b (updCall r (\<lambda>c. c\<lparr>H248DigitsScheduled := False\<rparr>) b)"
    using assms by (intro tame_steps) (simp_all add: tame_defs)
  with True show ?thesis by (auto simp: sendOriginationDigits_def Let_def split: option.split)
next
  case False
  then obtain rp where rp: "H248Responder (heap b r) = Some rp" by auto
  let ?tid = "FormatUint (uint (nextH248TID b + 1))"
  let ?m = "BuildDigitMapCompleteNotify (h248Version (cfgH248' b)) (h248MGID (cfgH248' b)) ?tid ''-''
    (h248PhysicalTermination (cfgH248' b)) (H248EventRequestID (heap b r)) (civil e (now e))
    (DestinationNumber (heap b r))"
  let ?ph = "''origination-digits''"
  let ?c = "(heap b r)\<lparr>H248DigitsScheduled := False, H248DigitsSent := True, State := ''h248-digits-sent''\<rparr>"
  let ?f = "\<lambda>c. c\<lparr>H248DigitsScheduled := False, State := ''h248-digits-sent'', H248DigitsSent := False\<rparr>"
  let ?failed = "delPending ?tid (updCall r ?f (emit (WriteFailed (H248Request rp (Some r) ?ph ?m))
        (requested (callID (heap b r)) ?ph b)))"
  have eq: "sendOriginationDigits e r b =
     (if writes e (length (outputs b))
      then emit (H248Request rp (Some r) ?ph ?m) (updCall r (\<lambda>_. ?c) (requested (callID (heap b r)) ?ph b))
      else failOrigination e r 503 ''H248 Digit Report Failed'' ?failed)"
    using False rp by (simp add: sendOriginationDigits_def Let_def request_defs)
  have failed: "bsteps b ?failed"
    by (rule failed_pending_steps) (use assms False in \<open>auto simp: tame_defs\<close>)
  show ?thesis unfolding eq
    by (rule if_steps, rule report_steps)
      (use assms False rtranclp_trans[OF failed failOrigination_steps[OF bsteps_ref[OF failed assms(1)]]]
        in \<open>auto simp: oncePhase_def flagOf_def tame_defs\<close>)
qed

subsection \<open>Add requests\<close>

lemma respondH248_steps: "bsteps b (snd (respondH248 e rp m b))"
  by (simp add: respondH248_def sendOut_steps)

lemma respondError_steps: "bsteps b (respondError e rp msg code d b)"
  by (simp add: respondError_def respondH248_steps)

subsection \<open>Ports\<close>

lemma Validate_ports:
  assumes "Validate cfg = None"
  shows "0 < mediaPortMin (cfgMedia cfg)" "mediaPortMax (cfgMedia cfg) \<le> 65534"
    "firstRTPPort (cfgMedia cfg) + 2 \<le> mediaPortMax (cfgMedia cfg)"
proof -
  have "validateMedia (cfgMedia cfg) = None"
    using assms by (auto simp: Validate_def Let_def split: if_splits option.splits)
  then show "0 < mediaPortMin (cfgMedia cfg)" "mediaPortMax (cfgMedia cfg) \<le> 65534"
    "firstRTPPort (cfgMedia cfg) + 2 \<le> mediaPortMax (cfgMedia cfg)"
    by (auto simp: validateMedia_def split: if_splits)
qed

lemma normalizeEvenPort_first:
  "0 < mediaPortMin m \<Longrightarrow> normalizeEvenPort (mediaPortMin m) = firstRTPPort m \<and> even (firstRTPPort m)"
  by (auto simp: normalizeEvenPort_def firstRTPPort_def)

text \<open>Where the round robin over the ports goes next.\<close>

definition nextPort :: "media_config \<Rightarrow> int \<Rightarrow> int" where
  "nextPort m p = (if p + 2 > mediaPortMax m then normalizeEvenPort (mediaPortMin m) else p + 2)"

lemma nextPort_ok:
  assumes "portOK cfg p"
  shows "portOK cfg (nextPort (cfgMedia cfg) p) \<and> (Validate cfg = None \<longrightarrow> nextPort (cfgMedia cfg) p \<noteq> p)"
proof (cases "Validate cfg = None")
  case True
  with assms show ?thesis
    using Validate_ports[OF True] normalizeEvenPort_first[of "cfgMedia cfg"]
    by (auto simp: portOK_def nextPort_def)
qed (auto simp: portOK_def)

lemma allocateCallIdentifiers_eq:
  "\<exists>ctx eph. allocateCallIdentifiersLocked b =
     ((ctx, eph, nextRTPPort b, nextPort (cfgMedia' b) (nextRTPPort b)),
      b\<lparr>nextContextID := nextContextID b + 1, nextTermID := nextTermID b + 1,
        nextRTPPort := nextPort (cfgMedia' b) (nextPort (cfgMedia' b) (nextRTPPort b))\<rparr>)"
  by (simp add: allocateCallIdentifiersLocked_def allocateRTPPortLocked_def nextPort_def Let_def)

lemma allocateCallIdentifiers_quiet: "allocateCallIdentifiersLocked b = (ids, b1) \<Longrightarrow> quiet b b1"
  using allocateCallIdentifiers_eq[of b] nextPort_ok by (auto simp: quiet_def)

lemma allocateCallIdentifiers_ports:
  assumes "allocateCallIdentifiersLocked b = (ids, b1)" "bridgeInv b"
  shows "bCfg b1 = bCfg b" "portOK (bCfg b) (fst (snd (snd ids)))" "portOK (bCfg b) (snd (snd (snd ids)))"
    "Validate (bCfg b) = None \<Longrightarrow> fst (snd (snd ids)) \<noteq> snd (snd (snd ids))"
  using assms allocateCallIdentifiers_eq[of b] nextPort_ok[of "bCfg b" "nextRTPPort b"]
  by (auto simp: bridgeInv_def okPorts_def)

text \<open>A relay that cannot be opened leaves no socket behind; one that is opened has its four.\<close>

lemma newMediaRelay_fails:
  "newMediaRelay listen cid hip hp hdev sip sp sd hdt sdt mode pt = (Inl err, evs) \<Longrightarrow>
     sum_list (map (openedBy \<circ> Sock) evs) = sum_list (map (closedBy \<circ> Sock) evs)"
  by (auto simp: newMediaRelay_def Let_def split: if_splits)

lemma newMediaRelay_opens:
  "newMediaRelay listen cid hip hp hdev sip sp sd hdt sdt mode pt = (Inr m, evs) \<Longrightarrow>
     evs = map SockOpen (relayAddresses hip hp sip sp) \<and>
     mset (mrSockets m) = mset (relayAddresses hip hp sip sp) \<and> \<not> mrClosed m"
  by (auto simp: newMediaRelay_def relayOf_def relayAddresses_def Let_def split: if_splits)

lemma openRelay_None:
  assumes "openRelay e c b = (None, b1)"
  shows "bstep b b1"
proof -
  obtain err evs where "newMediaRelay (listens e) (callID c) (mediaH248RTPIP (cfgMedia' b)) (H248RTPPort c)
       (h248BindDevice (cfgH248' b)) (mediaRTPIP (cfgMedia' b)) (SIPRTPPort c) (sipBindDevice (cfgSIP' b))
       (H248TelephoneEventPT c) (SIPTelephoneEventPT c) (mediaH248DTMFMode (cfgMedia' b)) (mediaPTime (cfgMedia' b))
       = (Inl err, evs)" "b1 = emitAll (map Sock evs) b"
    using assms by (auto simp: openRelay_def split: prod.splits sum.splits)
  then show ?thesis by (auto intro: bstep.sockFail dest: newMediaRelay_fails)
qed

lemma openRelay_Some:
  assumes "openRelay e c b = (Some m, b1)"
  obtains socks where "b1 = emitAll (map (Sock \<circ> SockOpen) socks) b" "mset (mrSockets m) = mset socks" "\<not> mrClosed m"
proof -
  obtain evs where "newMediaRelay (listens e) (callID c) (mediaH248RTPIP (cfgMedia' b)) (H248RTPPort c)
       (h248BindDevice (cfgH248' b)) (mediaRTPIP (cfgMedia' b)) (SIPRTPPort c) (sipBindDevice (cfgSIP' b))
       (H248TelephoneEventPT c) (SIPTelephoneEventPT c) (mediaH248DTMFMode (cfgMedia' b)) (mediaPTime (cfgMedia' b))
       = (Inr m, evs)" "b1 = emitAll (map Sock evs) b"
    using assms by (auto simp: openRelay_def split: prod.splits sum.splits)
  then show thesis using that newMediaRelay_opens by fastforce
qed

lemma relayPeer_shape [simp]:
  "mrSockets (SetH248Peer a pt m) = mrSockets m" "mrClosed (SetH248Peer a pt m) = mrClosed m"
  "mrSockets (SetSIPPeer a pt m) = mrSockets m" "mrClosed (SetSIPPeer a pt m) = mrClosed m"
  by (simp_all add: SetH248Peer_def SetSIPPeer_def Let_def)

lemma incomingCall_fresh:
  "fresh (incomingCall e cfg msg rp a md ids)" "Direction (incomingCall e cfg msg rp a md ids) = ''h248-to-sip''"
  "SIPCallID (incomingCall e cfg msg rp a md ids) = []"
  by (simp_all add: incomingCall_def zeroCall_def fresh_def split: prod.split)

lemma incomingCall_ports:
  "H248RTPPort (incomingCall e cfg msg rp a md ids) = fst (snd (snd ids))"
  "SIPRTPPort (incomingCall e cfg msg rp a md ids) = snd (snd (snd ids))"
  by (simp_all add: incomingCall_def split: prod.split)

lemma handleIncomingCallAdd_steps:
  assumes inv: "bridgeInv b"
  shows "bsteps b (handleIncomingCallAdd e msg rp b)"
proof (cases "ExtractRemoteMedia (msgRaw msg)")
  case None
  then show ?thesis by (simp add: handleIncomingCallAdd_def respondError_steps)
next
  case (Some md)
  show ?thesis
  proof (cases "resolveMedia e (mdIP md) (mdPort md)")
    case None
    with Some show ?thesis by (simp add: handleIncomingCallAdd_def respondError_steps)
  next
    case (Some a)
    obtain ids b1 where ids: "allocateCallIdentifiersLocked b = (ids, b1)" by fastforce
    let ?c0 = "incomingCall e (bCfg b) msg rp a md ids"
    have b1: "bsteps b b1" by (rule quiet_steps[OF rtranclp.rtrancl_refl allocateCallIdentifiers_quiet[OF ids]])
    obtain m b2 where m: "openRelay e ?c0 b1 = (m, b2)" by fastforce
    show ?thesis
    proof (cases m)
      case None
      with b1 m have b2: "bsteps b b2" using openRelay_None rtranclp.rtrancl_into_rtrancl by metis
      have eq: "handleIncomingCallAdd e msg rp b = respondError e rp msg ''510'' ''RTP resource unavailable'' b2"
        using \<open>ExtractRemoteMedia (msgRaw msg) = Some md\<close> Some ids m None
        by (simp add: handleIncomingCallAdd_def Let_def)
      show ?thesis unfolding eq using b2 respondError_steps by (rule rtranclp_trans)
    next
      case relay: (Some relay)
      with m obtain socks where socks: "b2 = emitAll (map (Sock \<circ> SockOpen) socks) b1"
        "mset (mrSockets relay) = mset socks" "\<not> mrClosed relay" using openRelay_Some by metis
      let ?c = "?c0\<lparr>Media := Some (SetH248Peer (Some a) (H248TelephoneEventPT ?c0) relay)\<rparr>"
      let ?b3 = "snd (allocCall ?c b2)"
      let ?b4 = "insertH248 (nextRef b1) ?b3"
      have "fresh ?c" using incomingCall_fresh(1)[of e "bCfg b" msg rp a md ids] by (simp add: fresh_def)
      then have "bstep b1 ?b4"
        unfolding socks(1)
        by (rule bstep.incoming[where m = "SetH248Peer (Some a) (H248TelephoneEventPT ?c0) relay"])
          (use socks(2,3) allocateCallIdentifiers_ports[OF ids inv]
            in \<open>simp_all add: incomingCall_fresh callPortsOK_def incomingCall_ports\<close>)
      with b1 have b4: "bsteps b ?b4" by (rule rtranclp.rtrancl_into_rtrancl)
      have ref: "nextRef b1 < nextRef ?b4" using socks(1) by simp
      have sent: "bsteps b (snd (respondH248 e rp rep ?b4))" for rep
        using b4 respondH248_steps by (rule rtranclp_trans)
      have ref': "nextRef b1 < nextRef (snd (respondH248 e rp rep ?b4))" for rep
        using bsteps_ref[OF respondH248_steps ref] .
      obtain ok b5 where b5: "respondH248 e rp (addReply msg ?c ?b3) ?b4 = (ok, b5)" by fastforce
      have eq: "handleIncomingCallAdd e msg rp b =
          (if ok then updCall (nextRef b1) (\<lambda>c. c\<lparr>State := ''carrier-ringing''\<rparr>) b5 else releaseCall (nextRef b1) b5)"
        using \<open>ExtractRemoteMedia (msgRaw msg) = Some md\<close> Some ids m relay b5 socks(1)
        by (simp add: handleIncomingCallAdd_def Let_def allocCall_def)
      show ?thesis unfolding eq
        using sent[of "addReply msg ?c ?b3"] ref'[of "addReply msg ?c ?b3"] b5
        by (auto intro!: if_steps tame_steps release_steps)
    qed
  qed
qed

lemma learnH248Media_steps: "r < nextRef b \<Longrightarrow> bsteps b (snd (learnH248Media e r body b))"
  by (auto simp: learnH248Media_def Let_def split: option.split intro!: updMedia_steps tame_steps)

lemma negotiateOutboundDTMF_steps: "r < nextRef b \<Longrightarrow> bsteps b (negotiateOutboundDTMF r msg b)"
  by (auto simp: negotiateOutboundDTMF_def split: option.split intro!: updMedia_steps tame_steps)

lemma handleOutboundCallAdd_steps:
  assumes ref: "r < nextRef b"
  shows "bsteps b (handleOutboundCallAdd e msg rp r b)"
proof (cases "Released (heap b r) \<or> H248ContextAllocated (heap b r)")
  case True
  then show ?thesis by (auto simp: handleOutboundCallAdd_def respondError_steps)
next
  case False
  let ?id = "EventRequestID (msgRaw msg)"
  let ?b0 = "updCall r (\<lambda>c. c\<lparr>H248ContextAllocated := True, H248Responder := Some rp,
     H248EventRequestID := (if ?id \<noteq> [] then ?id else H248EventRequestID c),
     State := ''h248-outbound-context-allocated''\<rparr>) b"
  let ?b1 = "insertH248 r ?b0"
  let ?b2 = "negotiateOutboundDTMF r msg ?b1"
  let ?b3 = "snd (learnH248Media e r (msgRaw msg) ?b2)"
  have "bsteps b ?b0" by (rule tame_steps) (use ref in \<open>simp_all add: tame_defs\<close>)
  moreover have "bstep ?b0 ?b1" by (rule bstep.inContext) (use ref False in simp_all)
  ultimately have b1: "bsteps b ?b1" by (rule rtranclp.rtrancl_into_rtrancl)
  have b2: "bsteps b ?b2" by (rule rtranclp_trans[OF b1 negotiateOutboundDTMF_steps]) (use ref in simp)
  have b3: "bsteps b ?b3" by (rule rtranclp_trans[OF b2 learnH248Media_steps[OF bsteps_ref[OF b2 ref]]])
  obtain ok b4 where b4: "respondH248 e rp (addReply msg (heap ?b3 r) ?b3) ?b3 = (ok, b4)" by fastforce
  then have "bsteps b b4"
    using rtranclp_trans[OF b3 respondH248_steps[of ?b3 e rp "addReply msg (heap ?b3 r) ?b3"]] by simp
  then have "bsteps b (snd (sendSIPOriginatedResponse e r 183 ''Session Progress'' True b4))"
    "bsteps b (failOrigination e r 503 ''Carrier Context Allocation Failed'' b4)"
    using sendSIPOriginatedResponse_steps failOrigination_steps bsteps_ref[OF _ ref]
    by (meson rtranclp_trans)+
  with False b4 show ?thesis by (simp add: handleOutboundCallAdd_def Let_def)
qed

subsection \<open>Release by the carrier and other commands\<close>

text \<open>Sequences of operations on one call.\<close>

lemma steps_call:
  assumes "bsteps b b1" "r < nextRef b" "\<And>b. r < nextRef b \<Longrightarrow> bsteps b (f b)"
  shows "bsteps b (f b1)"
  using assms bsteps_ref rtranclp_trans by metis

lemma steps_call_inv:
  assumes "bsteps b b1" "r < nextRef b" "bridgeInv b" "\<And>b. r < nextRef b \<Longrightarrow> bridgeInv b \<Longrightarrow> bsteps b (f b)"
  shows "bsteps b (f b1)"
  using assms bsteps_ref br.steps_inv rtranclp_trans by metis

lemma handleCarrierRelease_steps:
  assumes "r < nextRef b" "bridgeInv b"
  shows "bsteps b (handleCarrierRelease e r ctx b)"
proof -
  let ?c = "heap b r"
  let ?b0 = "updCall r (\<lambda>c. c\<lparr>H248ContextAllocated := False\<rparr>) b"
  define b1 where "b1 = (if ctx then (if H248EventRequestID ?c \<noteq> [] \<and> H248Responder ?c \<noteq> None
      then updLine (\<lambda>l. l\<lparr>lineRequestID := H248EventRequestID ?c, lineResponder := H248Responder ?c\<rparr>) ?b0
      else ?b0) else b)"
  have "bsteps b ?b0" by (rule tame_steps) (use assms in simp_all)
  then have b1: "bsteps b b1"
    by (auto simp: b1_def okLine_def intro!: line_steps)
  define b2 where "b2 = (if \<not> H248OnhookSent ?c \<and> (H248OffhookSent ?c \<or> H248Answered ?c) then sendOnhook e r b1 else b1)"
  have b2: "bsteps b b2"
    using b1 steps_call[OF b1 assms(1), of "sendOnhook e r"] sendOnhook_steps by (simp add: b2_def)
  have "bsteps b (sendSIPTeardown e r b2)"
    by (rule steps_call_inv[OF b2 assms]) (rule sendSIPTeardown_steps)
  then have "bsteps b (releaseCall r (sendSIPTeardown e r b2))"
    by (rule release_steps) (rule bsteps_ref[OF \<open>bsteps b (sendSIPTeardown e r b2)\<close> assms(1)])
  then show ?thesis by (simp only: handleCarrierRelease_def Let_def b2_def b1_def)
qed

lemma table_ref: "bridgeInv b \<Longrightarrow> (k, r) \<in> set (callsByH248 b) \<Longrightarrow> r < nextRef b"
  by (auto simp: bridgeInv_def okTables_def dest: map_of_is_SomeI)

lemma find_ref: "bridgeInv b \<Longrightarrow> map_of (callsByH248 b) k = Some r \<Longrightarrow> r < nextRef b"
  by (auto simp: bridgeInv_def okTables_def)

lemma sip_ref: "bridgeInv b \<Longrightarrow> map_of (callsBySIP b) k = Some r \<Longrightarrow> r < nextRef b"
  by (auto simp: bridgeInv_def okTables_def)

lemma outbound_ref: "bridgeInv b \<Longrightarrow> outboundCall b = Some r \<Longrightarrow> r < nextRef b"
  by (auto simp: bridgeInv_def okOutbound_def)

text \<open>The same invariant together with a number of references that stay allocated.\<close>

interpretation br_from: transition_invariant bstep "\<lambda>b. bridgeInv b \<and> n \<le> nextRef b" for n
  by unfold_locales (meson br.step_inv refs.step_mono order_trans)

lemma foldl_calls_steps:
  assumes "bridgeInv b" "\<And>r. r \<in> set rs \<Longrightarrow> r < nextRef b"
    "\<And>r b. r < nextRef b \<Longrightarrow> bridgeInv b \<Longrightarrow> bsteps b (f b r)"
  shows "bsteps b (foldl f b rs)"
  by (rule br_from.foldl_steps[where n = "nextRef b"]) (use assms in \<open>auto intro: order_less_le_trans\<close>)

lemma releaseAllCallsFromCarrier_steps: "bridgeInv b \<Longrightarrow> bsteps b (releaseAllCallsFromCarrier e b)"
  unfolding releaseAllCallsFromCarrier_def
  by (rule foldl_calls_steps) (auto intro: table_ref handleCarrierRelease_steps)

lemma processLineCommand_steps:
  assumes "bridgeInv b"
  shows "bsteps b (processLineCommand e rid cmd rp b)"
proof -
  define b1 where "b1 = (if rid \<noteq> [] then
      (let b0 = updLine (\<lambda>l. l\<lparr>lineRequestID := rid, lineResponder := Some rp\<rparr>) b
       in if lineReady (line b0) then sendInitialOnhook e b0 else b0) else b)"
  have line: "bsteps b (updLine (\<lambda>l. l\<lparr>lineRequestID := rid, lineResponder := Some rp\<rparr>) b)" if "rid \<noteq> []"
    by (rule line_steps) (use that in \<open>auto simp: okLine_def\<close>)
  then have b1: "bsteps b b1"
    using rtranclp_trans[OF line sendInitialOnhook_steps] by (simp add: b1_def Let_def)
  have digits: "bsteps b b2 \<and> bsteps b (scheduleOriginationDigits e r b2)"
    if r: "outboundCall b1 = Some r" "H248OffhookSent (heap b1 r)" and
      b2: "b2 = (if rid \<noteq> [] then updCall r (\<lambda>c. c\<lparr>H248EventRequestID := rid, H248Responder := Some rp\<rparr>) b1 else b1)"
    for r b2
  proof -
    have ref: "r < nextRef b1" using outbound_ref[OF br.steps_inv[OF b1 assms] r(1)] .
    have st: "bsteps b b2" using b1 ref by (auto simp: b2 tame_defs intro!: tame_steps)
    have "bsteps b2 (scheduleOriginationDigits e r b2)"
      by (rule scheduleOriginationDigits_steps) (use ref r in \<open>auto simp: b2\<close>)
    with st show ?thesis using rtranclp_trans by metis
  qed
  have "processLineCommand e rid cmd rp b =
     (case outboundCall b1 of
        None \<Rightarrow> b1
      | Some r \<Rightarrow>
          if \<not> (H248OffhookSent (heap b1 r) \<and> \<not> H248DigitsSent (heap b1 r)) then b1
          else (let b2 = (if rid \<noteq> []
                   then updCall r (\<lambda>c. c\<lparr>H248EventRequestID := rid, H248Responder := Some rp\<rparr>) b1 else b1)
                in if reportsDialTone cmd then scheduleOriginationDigits e r b2 else b2))"
    by (simp only: processLineCommand_def b1_def Let_def)
  with b1 digits show ?thesis by (auto simp: Let_def split: option.split)
qed

lemma processCallCommand_steps:
  assumes "r < nextRef b" "bridgeInv b"
  shows "bsteps b (processCallCommand e rid cmd rp r b)"
proof -
  let ?onLine = "isLineTermination (cmdTerm cmd) (H248PhysicalTerm (heap b r))"
  let ?caller = "DecodeAndispCallerID (cmdBody cmd)"
  let ?b1 = "updCall r (\<lambda>c. c\<lparr>H248Responder := Some rp,
    H248EventRequestID := (if rid \<noteq> [] \<and> ?onLine then rid else H248EventRequestID c),
    CallerID := (if ?caller \<noteq> [] then ?caller else CallerID c)\<rparr>) b"
  obtain learned b2 where l: "learnH248Media e r (cmdBody cmd) ?b1 = (learned, b2)" by fastforce
  define b3 where "b3 = (if Direction (heap b2 r) = ''sip-to-h248'' \<and> learned \<and> Contains (ToLower (cmdBody cmd)) ''mo=sr''
    then answerSIPOriginatedCall e r b2 else b2)"
  define b4 where "b4 = (if cmdName cmd = ''Modify'' \<and> ?onLine \<and> ContainsRingSignal (cmdBody cmd)
    then startSIPInvite e r b3 else b3)"
  have "bsteps b ?b1" by (rule tame_steps) (use assms in \<open>simp_all add: tame_defs\<close>)
  then have "bsteps b b2" using steps_call[of b ?b1 r "\<lambda>b. snd (learnH248Media e r (cmdBody cmd) b)"]
      learnH248Media_steps assms(1) l by simp
  then have "bsteps b b3"
    using steps_call[of b b2 r "answerSIPOriginatedCall e r"] answerSIPOriginatedCall_steps assms(1)
    by (simp add: b3_def)
  then have b4: "bsteps b b4"
    using steps_call[of b b3 r "startSIPInvite e r"] startSIPInvite_steps assms(1) by (simp add: b4_def)
  have rel: "bsteps b (handleCarrierRelease e r ctx b4)" for ctx
    by (rule steps_call_inv[OF b4 assms]) (rule handleCarrierRelease_steps)
  have ans: "bsteps b (tryAnswerH248 e r b4)"
    by (rule steps_call[OF b4 assms(1)]) (rule tryAnswerH248_steps)
  have "processCallCommand e rid cmd rp r b =
     (if cmdName cmd = ''Subtract'' \<or> isCarrierClear cmd then handleCarrierRelease e r (cmdName cmd = ''Subtract'') b4
      else if rid \<noteq> [] then tryAnswerH248 e r b4 else b4)"
    using l by (simp add: processCallCommand_def Let_def b3_def b4_def)
  with b4 rel ans show ?thesis by auto
qed

lemma processH248Command_steps: "bridgeInv b \<Longrightarrow> bsteps b (processH248Command e msg rp b cmd)"
  by (auto simp: processH248Command_def Let_def findCallByContext_def processLineCommand_steps
      releaseAllCallsFromCarrier_steps intro!: processCallCommand_steps find_ref split: option.split)

subsection \<open>H.248 handlers\<close>

lemma HandleH248_steps:
  assumes "bridgeInv b"
  shows "bsteps b (HandleH248 e msg rp b)"
proof -
  have out: "bsteps b (handleOutboundCallAdd e msg rp r b)" if "pendingOutbound b = Some r" for r
    by (rule handleOutboundCallAdd_steps, rule outbound_ref[OF assms])
      (use that in \<open>auto simp: pendingOutbound_def split: option.splits if_splits\<close>)
  have cmds: "bsteps b (foldl (processH248Command e msg rp) b1 (msgCommands msg)) \<and> bsteps b b1"
    if "respondH248 e rp m b = (ok, b1)" for m ok b1
  proof -
    have b1: "bsteps b b1" using respondH248_steps[of b e rp m] that by simp
    have "bsteps b1 (foldl (processH248Command e msg rp) b1 (msgCommands msg))"
      by (rule br.foldl_steps) (use processH248Command_steps br.steps_inv[OF b1 assms] in auto)
    with b1 show ?thesis by (auto intro: rtranclp_trans)
  qed
  show ?thesis
    using out cmds
    by (auto simp: HandleH248_def respondError_steps handleIncomingCallAdd_steps[OF assms] split: option.split sum.split prod.split)
qed

lemma HandleH248Ready_steps: "bsteps b (HandleH248Ready e rp b)"
proof -
  have "bsteps b (updLine (\<lambda>l. l\<lparr>lineReady := True, lineReadyAt := now e, lineResponder := Some rp\<rparr>) b)"
    by (rule line_steps) (auto simp: okLine_def)
  with rtranclp_trans[OF this sendInitialOnhook_steps] show ?thesis by (simp add: HandleH248Ready_def Let_def)
qed

lemma lineCalls_ref: "bridgeInv b \<Longrightarrow> r \<in> set (lineCalls b) \<Longrightarrow> r < nextRef b"
  by (auto simp: lineCalls_def Let_def split: option.splits if_splits intro: table_ref outbound_ref)

lemma teardown_release_steps:
  assumes "r < nextRef b" "bridgeInv b"
  shows "bsteps b (releaseCall r (sendSIPTeardown e r b))"
  using sendSIPTeardown_steps[OF assms]
  by (rule release_steps) (rule bsteps_ref[OF sendSIPTeardown_steps[OF assms] assms(1)])

lemma HandleH248Unavailable_steps:
  assumes "bridgeInv b"
  shows "bsteps b (HandleH248Unavailable e b)"
proof -
  let ?b0 = "updLine (\<lambda>_. initLine) b"
  have "bsteps b ?b0" by (rule line_steps) (auto simp: okLine_def initLine_def)
  then have b1: "bsteps b (?b0\<lparr>pendingH248 := Map.empty\<rparr>)" by (rule quiet_steps) (simp add: quiet_def)
  have "bsteps (?b0\<lparr>pendingH248 := Map.empty\<rparr>)
      (foldl (\<lambda>b r. releaseCall r (sendSIPTeardown e r b)) (?b0\<lparr>pendingH248 := Map.empty\<rparr>) (lineCalls b))"
    by (rule foldl_calls_steps[OF br.steps_inv[OF b1 assms]])
      (use lineCalls_ref[OF assms] in \<open>auto intro: teardown_release_steps\<close>)
  with b1 show ?thesis by (simp add: HandleH248Unavailable_def Let_def)
qed

lemma find_in_set: "find P xs = Some x \<Longrightarrow> x \<in> set xs"
  by (induction xs) (auto split: if_splits)

lemma callOfPending_ref: "bridgeInv b \<Longrightarrow> callOfPending p b = Some r \<Longrightarrow> r < nextRef b"
  by (auto simp: callOfPending_def orElse_def split: option.splits if_splits
      intro: sip_ref outbound_ref dest!: find_in_set) (blast intro: table_ref)+

lemma HandleH248Response_steps:
  assumes "bridgeInv b"
  shows "bsteps b (HandleH248Response e msg b)"
proof (cases "pendingH248 b (msgTID msg)")
  case None
  then show ?thesis by (simp add: HandleH248Response_def)
next
  case (Some p)
  define b1 where "b1 = (if msgType msg = ''Reply'' then delPending (msgTID msg) b else b)"
  have b1: "bsteps b b1" by (simp add: b1_def quiet_steps[OF rtranclp.rtrancl_refl])
  have eq: "HandleH248Response e msg b =
     (case callOfPending p b1 of
        None \<Rightarrow> b1
      | Some r \<Rightarrow>
          if msgError msg = [] then b1
          else (let b2 = (if pendPhase p = ''answer'' then updCall r (\<lambda>c. c\<lparr>H248Answered := False\<rparr>) b1 else b1)
                in if HasPrefix (pendPhase p) ''origination-''
                   then failOrigination e r 503 ''H248 Origination Rejected'' b2 else b2))"
    by (simp only: HandleH248Response_def Some option.case b1_def Let_def)
  show ?thesis
  proof (cases "callOfPending p b1")
    case None
    with b1 eq show ?thesis by simp
  next
    case (Some r)
    define b2 where "b2 = (if pendPhase p = ''answer'' then updCall r (\<lambda>c. c\<lparr>H248Answered := False\<rparr>) b1 else b1)"
    have ref: "r < nextRef b1" using callOfPending_ref[OF br.steps_inv[OF b1 assms] Some] .
    have b2: "bsteps b b2" using b1 ref by (auto simp: b2_def tame_defs intro!: tame_steps)
    moreover have "bsteps b2 (failOrigination e r 503 ''H248 Origination Rejected'' b2)"
      by (rule failOrigination_steps) (use ref in \<open>simp add: b2_def\<close>)
    ultimately show ?thesis using b1 eq Some by (auto simp: b2_def[symmetric] intro: rtranclp_trans)
  qed
qed

subsection \<open>SIP handlers\<close>

lemma originatedCall_fresh:
  "fresh (originatedCall e b msg rp a sd ids)" "Direction (originatedCall e b msg rp a sd ids) = ''sip-to-h248''"
  "SIPCallID (originatedCall e b msg rp a sd ids) = CallID msg" "Media (originatedCall e b msg rp a sd ids) = None"
  by (simp_all add: originatedCall_def zeroCall_def fresh_def split: prod.split)

lemma originatedCall_ports:
  "H248RTPPort (originatedCall e b msg rp a sd ids) = fst (snd (snd ids))"
  "SIPRTPPort (originatedCall e b msg rp a sd ids) = snd (snd (snd ids))"
  by (simp_all add: originatedCall_def split: prod.split)

lemma admitInvite_steps:
  assumes "admitInvite e msg rp a sd b = (r, b1)" "outboundCall b = None" "CallID msg \<noteq> []"
    "map_of (callsBySIP b) (CallID msg) = None" "bridgeInv b"
  shows "bsteps b b1" "r < nextRef b1" "Media (heap b1 r) = None" "\<not> Released (heap b1 r)"
proof -
  obtain ids b0 where ids: "allocateCallIdentifiersLocked b = (ids, b0)" by fastforce
  then have q: "quiet b b0" by (rule allocateCallIdentifiers_quiet)
  let ?c = "originatedCall e b msg rp a sd ids"
  have eq: "b1 = snd (allocCall ?c b0)\<lparr>outboundCall := Some (nextRef b0),
      callsBySIP := AList.update (SIPCallID ?c) (nextRef b0) (callsBySIP b0)\<rparr>" "r = nextRef b0"
    using assms(1) ids by (auto simp: admitInvite_def allocCall_def originatedCall_fresh)
  have "bstep b0 b1" unfolding eq
    by (rule bstep.originated)
      (use assms q allocateCallIdentifiers_ports[OF ids assms(5)]
        in \<open>auto simp: originatedCall_fresh quiet_def callPortsOK_def originatedCall_ports\<close>)
  with q show "bsteps b b1" by (meson bstep.quiet converse_rtranclp_into_rtranclp r_into_rtranclp)
  show "r < nextRef b1" "Media (heap b1 r) = None" "\<not> Released (heap b1 r)"
    using originatedCall_fresh[of e b msg rp a sd ids] by (auto simp: eq fresh_def)
qed

lemma startOrigination_steps:
  assumes "r < nextRef b" "Media (heap b r) = None" "\<not> Released (heap b r)"
  shows "bsteps b (startOrigination e a r b)"
proof -
  obtain m b1 where m: "openRelay e (heap b r) b = (m, b1)" by fastforce
  show ?thesis
  proof (cases m)
    case None
    with m have b1: "bsteps b b1" using openRelay_None by blast
    have "bsteps b (failOrigination e r 500 ''RTP Resource Unavailable'' b1)"
      by (rule steps_call[OF b1 assms(1)]) (rule failOrigination_steps)
    with m None show ?thesis by (simp add: startOrigination_def)
  next
    case (Some relay)
    with m obtain socks where socks: "b1 = emitAll (map (Sock \<circ> SockOpen) socks) b"
      "mset (mrSockets relay) = mset socks" "\<not> mrClosed relay" using openRelay_Some by metis
    let ?m = "SetSIPPeer (Some a) (SIPTelephoneEventPT (heap b r)) relay"
    let ?b2 = "updCall r (\<lambda>c. c\<lparr>Media := Some (SetSIPPeer (Some a) (SIPTelephoneEventPT c) relay)\<rparr>) b1"
    have "?b2 = updCall r (\<lambda>c. c\<lparr>Media := Some ?m\<rparr>) (emitAll (map (Sock \<circ> SockOpen) socks) b)"
      using socks(1) by (simp add: updCall_def)
    moreover have "bstep b \<dots>" by (rule bstep.attach) (use assms socks in simp_all)
    ultimately have b2: "bsteps b ?b2" by auto
    have b3: "bsteps b (snd (sendSIPOriginatedResponse e r 100 ''Trying'' False ?b2))"
      by (rule steps_call[OF b2 assms(1)]) (rule sendSIPOriginatedResponse_steps)
    have "bsteps b (scheduleOriginationOffhook e r (snd (sendSIPOriginatedResponse e r 100 ''Trying'' False ?b2)))"
      by (rule steps_call[OF b3 assms(1)]) (rule scheduleOriginationOffhook_steps)
    with m Some show ?thesis by (simp add: startOrigination_def Let_def)
  qed
qed

lemma handleNewSIPInvite_steps:
  assumes inv: "bridgeInv b"
  shows "bsteps b (handleNewSIPInvite e msg rp b)"
proof -
  have "bsteps b (case admitInvite e msg rp a sd b of (r, b1) \<Rightarrow> startOrigination e a r b1)"
    if "outboundCall b = None" "CallID msg \<noteq> []" "map_of (callsBySIP b) (CallID msg) = None" for a sd
  proof -
    obtain r b1 where r: "admitInvite e msg rp a sd b = (r, b1)" by fastforce
    note b1 = admitInvite_steps[OF r that inv]
    show ?thesis using r rtranclp_trans[OF b1(1) startOrigination_steps[OF b1(2-4)]] by simp
  qed
  then show ?thesis
    by (auto simp: handleNewSIPInvite_def Let_def respondSIP_steps lineBusy_def intro!: sendOut_steps
        split: option.split prod.split)
qed

lemma noSuchCall_steps: "bsteps b (noSuchCall e rp msg b)"
  by (simp add: noSuchCall_def respondSIP_steps)

lemma onhook_then_release_steps:
  assumes "bsteps b b1" "r < nextRef b"
  shows "bsteps b (after e d (TReleaseCall r) (sendOnhook e r b1))"
proof -
  have st: "bsteps b (sendOnhook e r b1)" by (rule steps_call[OF assms]) (rule sendOnhook_steps)
  show ?thesis
    by (rule quiet_steps[OF st], rule quiet_after) (use bsteps_ref[OF st assms(2)] in \<open>simp add: okTimer_def\<close>)
qed

lemma handleSIPBye_steps:
  assumes "bridgeInv b"
  shows "bsteps b (handleSIPBye e msg rp b)"
proof (cases "map_of (callsBySIP b) (CallID msg)")
  case None
  then show ?thesis by (simp add: handleSIPBye_def noSuchCall_steps)
next
  case (Some r)
  have ref: "r < nextRef b" using sip_ref[OF assms Some] .
  then have "bsteps b (updCall r (\<lambda>c. c\<lparr>SIPRemoteReleased := True\<rparr>) b)" by (intro tame_steps) simp_all
  from rtranclp_trans[OF this respondSIP_steps] onhook_then_release_steps[OF _ ref] Some
  show ?thesis by (simp add: handleSIPBye_def Let_def)
qed

lemma handleSIPCancel_steps:
  assumes "bridgeInv b"
  shows "bsteps b (handleSIPCancel e msg rp b)"
proof (cases "map_of (callsBySIP b) (CallID msg)")
  case None
  then show ?thesis by (simp add: handleSIPCancel_def noSuchCall_steps)
next
  case (Some r)
  have ref: "r < nextRef b" using sip_ref[OF assms Some] .
  then have "bsteps b (updCall r (\<lambda>c. c\<lparr>SIPRemoteReleased := True\<rparr>) b)" by (intro tame_steps) simp_all
  note b2 = rtranclp_trans[OF this respondSIP_steps]
  have "bsteps b (failSIPOriginatedCall e r 487 ''Request Terminated''
     (respondSIP e rp msg 200 ''OK'' [] [] [] (updCall r (\<lambda>c. c\<lparr>SIPRemoteReleased := True\<rparr>) b)))"
    by (rule steps_call[OF b2 ref]) (rule failSIPOriginatedCall_steps)
  from onhook_then_release_steps[OF this ref] Some
  show ?thesis by (simp add: handleSIPCancel_def Let_def noSuchCall_steps)
qed

lemma updateFromBody_steps: "r < nextRef b \<Longrightarrow> bsteps b (snd (updateFromBody e r msg b))"
  by (simp add: updateFromBody_def updateSIPRemoteMedia_steps)

lemma handleSIPReinvite_steps:
  assumes "bridgeInv b" "handleSIPReinvite e msg rp b = Some b'"
  shows "bsteps b b'"
proof -
  from assms(2) obtain r where r: "map_of (callsBySIP b) (CallID msg) = Some r"
    by (auto simp: handleSIPReinvite_def split: option.splits)
  then have st: "bsteps b (snd (updateFromBody e r msg b))"
    using updateFromBody_steps sip_ref[OF assms(1)] by blast
  then show ?thesis
    using assms(2) r rtranclp_trans[OF st respondSIP_steps]
    by (auto simp: handleSIPReinvite_def Let_def split: prod.splits if_splits)
qed

lemma handleSIPSessionUpdate_steps:
  assumes "bridgeInv b"
  shows "bsteps b (handleSIPSessionUpdate e msg rp b)"
proof (cases "map_of (callsBySIP b) (CallID msg)")
  case None
  then show ?thesis by (simp add: handleSIPSessionUpdate_def noSuchCall_steps)
next
  case (Some r)
  then have st: "bsteps b (snd (updateFromBody e r msg b))"
    using updateFromBody_steps sip_ref[OF assms] by blast
  then show ?thesis
    using Some rtranclp_trans[OF st respondSIP_steps]
    by (auto simp: handleSIPSessionUpdate_def Let_def split: prod.splits)
qed

lemma handleProvisional_steps:
  assumes "r < nextRef b"
  shows "bsteps b (handleProvisional e msg r b)"
proof -
  define b1 where "b1 = (if smBody msg \<noteq> [] then snd (updateSIPRemoteMedia e r (smBody msg) b) else b)"
  have b1: "bsteps b b1" using updateSIPRemoteMedia_steps[OF assms] by (simp add: b1_def)
  define b3 where "b3 = (let b2 = (if smStatus msg = 180 then updCall r (\<lambda>c. c\<lparr>State := ''sip-ringing''\<rparr>) b1 else b1)
    in if smStatus msg = 183 then updCall r (\<lambda>c. c\<lparr>State := ''sip-early-media''\<rparr>) b2 else b2)"
  have b3: "bsteps b b3"
    using b1 bsteps_ref[OF b1 assms] by (auto simp: b3_def Let_def intro!: tame_steps)
  have "handleProvisional e msg r b =
     (if Header msg ''RSeq'' \<noteq> [] \<and> Contains (ToLower (Header msg ''Require'')) ''100rel''
      then sendPRACK e r msg (Header msg ''RSeq'') b3 else b3)"
    by (simp only: handleProvisional_def Let_def b1_def b3_def)
  with b3 rtranclp_trans[OF b3 sendPRACK_steps] show ?thesis by simp
qed

lemma handleAnswer_steps:
  assumes "r < nextRef b" "bridgeInv b"
  shows "bsteps b (handleAnswer e msg r b)"
proof -
  obtain ok b1 where b1: "updateSIPRemoteMedia e r (smBody msg) b = (ok, b1)" by fastforce
  then have st: "bsteps b b1" using updateSIPRemoteMedia_steps[OF assms(1), of e "smBody msg"] by simp
  have t: "bsteps b (sendSIPTeardown e r b1)"
    by (rule steps_call_inv[OF st assms]) (rule sendSIPTeardown_steps)
  have onh: "bsteps b (sendOnhook e r (sendSIPTeardown e r b1))"
    by (rule steps_call[OF t assms(1)]) (rule sendOnhook_steps)
  have rel: "bsteps b (releaseCall r (sendOnhook e r (sendSIPTeardown e r b1)))"
    by (rule release_steps[OF onh bsteps_ref[OF onh assms(1)]])
  let ?b2 = "updCall r (\<lambda>c. c\<lparr>SIPAnswered := True, SIPTo := Header msg ''To'',
    SIPRemoteTag := headerParameter (Header msg ''To'') ''tag'',
    SIPRemoteContact := firstURI (Header msg ''Contact''), State := ''sip-answered''\<rparr>) b1"
  have b2: "bsteps b ?b2"
    by (rule tame_steps[OF st bsteps_ref[OF st assms(1)]]) (simp add: tame_defs)
  have "bsteps b (tryAnswerH248 e r ?b2)" by (rule steps_call[OF b2 assms(1)]) (rule tryAnswerH248_steps)
  with rel b1 show ?thesis by (simp add: handleAnswer_def)
qed

lemma handleFinalFailure_steps:
  assumes "r < nextRef b" "bridgeInv b"
  shows "bsteps b (handleFinalFailure e r b)"
proof -
  have st: "bsteps b (updCall r (\<lambda>c. c\<lparr>State := ''sip-final-failure''\<rparr>) b)"
    by (rule tame_steps) (use assms in simp_all)
  have "bsteps b (retainSIPInvite e r (updCall r (\<lambda>c. c\<lparr>State := ''sip-final-failure''\<rparr>) b))"
    using st retainSIPInvite_steps[OF br.steps_inv[OF st assms(2)]] by (rule rtranclp_trans)
  from onhook_then_release_steps[OF this assms(1)] show ?thesis by (simp add: handleFinalFailure_def)
qed

lemma handleInviteResponse_steps:
  assumes "r < nextRef b" "bridgeInv b"
  shows "bsteps b (handleInviteResponse e msg r b)"
proof -
  have a: "bsteps b (sendInviteACK e r msg (SIPPeer (heap b r)) b)" by (rule sendInviteACK_steps)
  show ?thesis
    using handleProvisional_steps[OF assms(1)]
      steps_call_inv[OF a assms, of "handleAnswer e msg r"] handleAnswer_steps
      steps_call_inv[OF a assms, of "handleFinalFailure e r"] handleFinalFailure_steps
    by (simp add: handleInviteResponse_def Let_def)
qed

lemma tame_markSIPResponse: "tame c (markSIPResponse msg c)"
  by (simp add: markSIPResponse_def Let_def tame_defs)

lemma handleSIPResponse_steps:
  assumes "bridgeInv b"
  shows "bsteps b (handleSIPResponse e msg b)"
proof (cases "map_of (callsBySIP b) (CallID msg)")
  case None
  then show ?thesis using handleRetained_steps[OF assms] by (simp add: handleSIPResponse_def)
next
  case (Some r)
  have ref: "r < nextRef b" using sip_ref[OF assms Some] .
  have st: "bsteps b (updCall r (markSIPResponse msg) b)"
    using ref by (intro tame_steps) (simp_all add: tame_markSIPResponse)
  have "bsteps b (handleInviteResponse e msg r (updCall r (markSIPResponse msg) b))"
    by (rule steps_call_inv[OF st ref assms]) (rule handleInviteResponse_steps)
  with st Some handleRetained_steps[OF assms] show ?thesis by (simp add: handleSIPResponse_def Let_def)
qed

lemma HandleSIP_steps:
  assumes "bridgeInv b"
  shows "bsteps b (HandleSIP e msg rp b)"
  using handleSIPReinvite_steps[OF assms]
  by (auto simp: HandleSIP_def Let_def respondSIP_steps handleSIPResponse_steps[OF assms]
      handleSIPBye_steps[OF assms] handleSIPCancel_steps[OF assms] handleSIPSessionUpdate_steps[OF assms]
      handleNewSIPInvite_steps[OF assms] split: option.split if_splits)

subsection \<open>Timers\<close>

lemma dropTimer_steps: "bsteps b (dropTimer t b)"
  by (rule quiet_steps[OF rtranclp.rtrancl_refl]) (auto simp: quiet_def dropTimer_def dest: set_remove1_subset[THEN subsetD])

lemma fireTimer_steps:
  assumes "bridgeInv b" "(due, t) \<in> set (timers b)"
  shows "bsteps b (fireTimer e (due, t) b)"
proof -
  note d = dropTimer_steps[of b "(due, t)"]
  have inv: "bridgeInv (dropTimer (due, t) b)" using br.steps_inv[OF d assms(1)] .
  have ok: "okTimer (dropTimer (due, t) b) t"
    using assms by (auto simp: bridgeInv_def okTimers_def okTimer_def dropTimer_def split: timer.splits)
  have "bsteps (dropTimer (due, t) b) (runTimer e t (dropTimer (due, t) b))"
    using ok inv
    by (cases t) (auto simp: runTimer_def okTimer_def retransmitTick_steps inviteTimeout_steps expireRetained_steps
        sendOriginationOffhook_steps sendOriginationDigits_steps intro: release_steps)
  with d show ?thesis by (simp add: fireTimer_def)
qed

subsection \<open>Reachable states\<close>

text \<open>The events of the bridge: the callbacks of the H.248 server and of the SIP server, the
  attachment of the SIP sender, and a timer that is due.\<close>

inductive reach :: "config \<Rightarrow> bridge \<Rightarrow> bool" for cfg where
  initial: "reach cfg (New t0 cfg)"
| sender: "reach cfg b \<Longrightarrow> reach cfg (SetSIPSender b)"
| h248: "reach cfg b \<Longrightarrow> reach cfg (HandleH248 e msg rp b)"
| ready: "reach cfg b \<Longrightarrow> reach cfg (HandleH248Ready e rp b)"
| unavailable: "reach cfg b \<Longrightarrow> reach cfg (HandleH248Unavailable e b)"
| response: "reach cfg b \<Longrightarrow> reach cfg (HandleH248Response e hmsg b)"
| sip: "reach cfg b \<Longrightarrow> reach cfg (HandleSIP e smsg srp b)"
| timer: "reach cfg b \<Longrightarrow> (due, t) \<in> set (timers b) \<Longrightarrow> due \<le> now e \<Longrightarrow> reach cfg (fireTimer e (due, t) b)"

lemma New_ports: "okPorts (New t0 cfg)"
  using Validate_ports[of cfg] normalizeEvenPort_first[of "cfgMedia cfg"]
  by (auto simp: okPorts_def New_def Let_def portOK_def)

lemma New_inv: "bridgeInv (New t0 cfg)"
  using New_ports[of t0 cfg]
  by (auto simp: New_def Let_def bridgeInv_def okTables_def okOutbound_def okMedia_def okMarks_def okReports_def
      okTimers_def okLine_def okRetained_def initLine_def opened_def closed_def held_def)

lemma SetSIPSender_steps: "bsteps b (SetSIPSender b)"
  by (rule quiet_steps[OF rtranclp.rtrancl_refl]) (simp add: SetSIPSender_def quiet_def)

lemma reach_inv: "reach cfg b \<Longrightarrow> bridgeInv b"
proof (induction rule: reach.induct)
  case (initial t0)
  then show ?case by (rule New_inv)
qed (blast intro: br.steps_inv SetSIPSender_steps HandleH248_steps HandleH248Ready_steps HandleH248Unavailable_steps
    HandleH248Response_steps HandleSIP_steps fireTimer_steps)+

lemma bsteps_config: "bsteps b b' \<Longrightarrow> bCfg b' = bCfg b"
  by (induction rule: rtranclp_induct) (auto dest: bstep_config)

lemma reach_config: "reach cfg b \<Longrightarrow> bCfg b = cfg"
proof (induction rule: reach.induct)
  case (initial t0)
  then show ?case by (simp add: New_def Let_def)
qed (metis bsteps_config reach_inv SetSIPSender_steps HandleH248_steps HandleH248Ready_steps HandleH248Unavailable_steps
    HandleH248Response_steps HandleSIP_steps fireTimer_steps)+

end
