(* ===== verification/Bridge_Behaviour.thy ===== *)
theory Bridge_Behaviour
  imports Bridge_Handlers
begin

text \<open>
  What the handlers of the bridge do, beyond the invariant: the loss of the controller clears the
  line, an INVITE is admitted or refused without a trace, a late answer is acknowledged and cleared
  once, the release of a call removes every reference to it, and which requests the INVITE
  transaction sends.
\<close>

subsection \<open>Released calls stay released\<close>

interpretation released: transition_invariant bstep "\<lambda>b. r < nextRef b \<and> Released (heap b r)" for r
proof unfold_locales
  fix r b b'
  assume "bstep b b'" "r < nextRef b \<and> Released (heap b r)"
  then show "r < nextRef b' \<and> Released (heap b' r)"
  proof (induction rule: bstep.induct)
    case (tame r b f)
    then show ?case by (auto dest: tameD(3))
  next
    case (report q b p c rp m)
    then show ?case by (auto dest: tameD(3))
  next
    case (invited q b cid f)
    then show ?case by (auto dest: tameD(3))
  next
    case (uninvited q b f)
    then show ?case by (auto dest: tameD(3))
  qed (auto simp: quiet_def)
qed

lemma sendSIPOriginatedResponse_tables [simp]:
  "callsByH248 (snd (sendSIPOriginatedResponse e r st rs sd b)) = callsByH248 b"
  "outboundCall (snd (sendSIPOriginatedResponse e r st rs sd b)) = outboundCall b"
  "line (snd (sendSIPOriginatedResponse e r st rs sd b)) = line b"
  "pendingH248 (snd (sendSIPOriginatedResponse e r st rs sd b)) = pendingH248 b"
  by (auto simp: sendSIPOriginatedResponse_def Let_def sendOut_eq split: option.split)

lemma retainSIPInvite_tables [simp]:
  "callsByH248 (retainSIPInvite e r b) = callsByH248 b" "outboundCall (retainSIPInvite e r b) = outboundCall b"
  "line (retainSIPInvite e r b) = line b" "pendingH248 (retainSIPInvite e r b) = pendingH248 b"
  by (auto simp: retainSIPInvite_def Let_def retainedFor_def putRetained_def scheduleRetainedSIPInviteExpiry_def
      split: option.split)

lemma sendSIPTeardown_tables [simp]:
  "callsByH248 (sendSIPTeardown e r b) = callsByH248 b" "outboundCall (sendSIPTeardown e r b) = outboundCall b"
  "line (sendSIPTeardown e r b) = line b" "pendingH248 (sendSIPTeardown e r b) = pendingH248 b"
  by (auto simp: sendSIPTeardown_def Let_def byeAsServer_def teardownAsClient_def failSIPOriginatedCall_def
      sendOut_eq split: option.split prod.split)

definition clearCall :: "env \<Rightarrow> bridge \<Rightarrow> nat \<Rightarrow> bridge" where
  "clearCall e b r = releaseCall r (sendSIPTeardown e r b)"

lemma clearCall_tables:
  "set (callsByH248 (clearCall e b r)) \<subseteq> set (callsByH248 b)"
  "outboundCall (clearCall e b r) = outboundCall b \<or> outboundCall (clearCall e b r) = None"
  "line (clearCall e b r) = line b" "pendingH248 (clearCall e b r) = pendingH248 b"
  by (auto simp: clearCall_def AList.delete_eq split: if_splits)

lemma foldl_clearCall_tables:
  "set (callsByH248 (foldl (clearCall e) b rs)) \<subseteq> set (callsByH248 b) \<and>
   (outboundCall (foldl (clearCall e) b rs) = outboundCall b \<or> outboundCall (foldl (clearCall e) b rs) = None) \<and>
   line (foldl (clearCall e) b rs) = line b \<and> pendingH248 (foldl (clearCall e) b rs) = pendingH248 b"
proof (induction rs arbitrary: b)
  case (Cons r rs)
  from Cons.IH[of "clearCall e b r"] clearCall_tables[of e b r] show ?case
    by (simp only: foldl_Cons) (intro conjI; auto)
qed simp

lemma foldl_clearCall_released:
  assumes "bridgeInv b" "\<And>r. r \<in> set rs \<Longrightarrow> r < nextRef b"
  shows "\<forall>r\<in>set rs. Released (heap (foldl (clearCall e) b rs) r)"
  using assms
proof (induction rs arbitrary: b)
  case (Cons r rs)
  let ?f = "clearCall e"
  have ref: "r < nextRef b" using Cons.prems(2) by simp
  have st: "bsteps b (?f b r)" using teardown_release_steps[OF ref Cons.prems(1)] by (simp add: clearCall_def)
  have inv: "bridgeInv (?f b r)" using br.steps_inv[OF st Cons.prems(1)] .
  have refs: "q < nextRef (?f b r)" if "q \<in> set (r # rs)" for q
    using bsteps_ref[OF st] Cons.prems(2) that by blast
  have "bsteps (?f b r) (foldl ?f (?f b r) rs)"
    by (rule foldl_calls_steps[OF inv]) (use refs in \<open>auto simp: clearCall_def intro: teardown_release_steps\<close>)
  moreover have "r < nextRef (?f b r) \<and> Released (heap (?f b r) r)" using refs[of r] by (simp add: clearCall_def)
  ultimately have "Released (heap (foldl ?f (?f b r) rs) r)" using released.steps_inv by blast
  with Cons.IH[OF inv] refs show ?case by simp
qed simp

lemma unavailable_clears_line:
  assumes "bridgeInv b"
  shows "callsByH248 (HandleH248Unavailable e b) = [] \<and> outboundCall (HandleH248Unavailable e b) = None \<and>
    line (HandleH248Unavailable e b) = initLine \<and> pendingH248 (HandleH248Unavailable e b) = Map.empty \<and>
    (\<forall>r\<in>set (lineCalls b). Released (heap (HandleH248Unavailable e b) r))"
proof -
  let ?b1 = "updLine (\<lambda>_. initLine) b\<lparr>pendingH248 := Map.empty\<rparr>"
  let ?f = "clearCall e"
  have eq: "HandleH248Unavailable e b = foldl ?f ?b1 (lineCalls b)"
    by (simp add: HandleH248Unavailable_def Let_def clearCall_def[abs_def])
  have "bsteps b (updLine (\<lambda>_. initLine) b)" by (rule line_steps) (auto simp: okLine_def initLine_def)
  then have st: "bsteps b ?b1" by (rule quiet_steps) (simp add: quiet_def)
  have inv: "bridgeInv (foldl ?f ?b1 (lineCalls b))"
    unfolding eq[symmetric] by (rule br.steps_inv[OF HandleH248Unavailable_steps[OF assms] assms])
  have rel: "\<forall>r\<in>set (lineCalls b). Released (heap (foldl ?f ?b1 (lineCalls b)) r)"
    by (rule foldl_clearCall_released[OF br.steps_inv[OF st assms]]) (use lineCalls_ref[OF assms] in simp)
  note tables = foldl_clearCall_tables[of e ?b1 "lineCalls b"]
  have "callsByH248 (foldl ?f ?b1 (lineCalls b)) = []"
  proof (rule ccontr)
    assume "\<not> ?thesis"
    then obtain k r where kr: "(k, r) \<in> set (callsByH248 (foldl ?f ?b1 (lineCalls b)))"
      by (metis list.set_sel(1) surj_pair)
    with tables have "r \<in> set (lineCalls b)"
      by (force simp: lineCalls_def Let_def split: option.split)
    with rel have "Released (heap (foldl ?f ?b1 (lineCalls b)) r)" by blast
    with inv kr show False by (auto simp: bridgeInv_def okTables_def dest: map_of_is_SomeI)
  qed
  moreover have "outboundCall (foldl ?f ?b1 (lineCalls b)) = None"
  proof (rule ccontr)
    assume *: "\<not> ?thesis"
    with tables have "outboundCall (foldl ?f ?b1 (lineCalls b)) = outboundCall b" by simp
    with * obtain r where r: "outboundCall (foldl ?f ?b1 (lineCalls b)) = Some r" "r \<in> set (lineCalls b)"
      by (auto simp: lineCalls_def Let_def split: option.splits if_splits)
    with rel inv show False by (auto simp: bridgeInv_def okOutbound_def)
  qed
  ultimately show ?thesis using tables rel unfolding eq by simp
qed

subsection \<open>Admission of an INVITE\<close>

definition admissible :: "env \<Rightarrow> sip_message \<Rightarrow> bridge \<Rightarrow> bool" where
  "admissible e msg b \<longleftrightarrow>
     CallID msg \<noteq> [] \<and> smSource msg \<noteq> None \<and> map_of (callsBySIP b) (CallID msg) = None \<and>
     dialled (sipURIUser (smURI msg)) \<and> acceptableOffer e msg \<noteq> None \<and> \<not> lineBusy b \<and> lineUsable b"

text \<open>The state after a refusal: a response with a status from 400 on was written, or its write failed.\<close>

definition refusedTo :: "env \<Rightarrow> sip_responder \<Rightarrow> bridge \<Rightarrow> bridge \<Rightarrow> bool" where
  "refusedTo e rp b b' \<longleftrightarrow> (\<exists>st m. 400 \<le> st \<and>
     b' = emit (if writes e (length (outputs b)) then SipReply rp st m else WriteFailed (SipReply rp st m)) b)"

lemma respondSIP_refused: "400 \<le> st \<Longrightarrow> refusedTo e rp b (respondSIP e rp msg st rs body ct ex b)"
  by (auto simp: respondSIP_def refusedTo_def sendOut_eq)

lemma invite_refused:
  assumes "\<not> admissible e msg b" "map_of (callsBySIP b) (CallID msg) = None"
  shows "refusedTo e rp b (handleNewSIPInvite e msg rp b)"
  using assms
  by (auto simp: handleNewSIPInvite_def admissible_def Let_def respondSIP_refused split: option.split)

lemma allocateCallIdentifiers_frame:
  "allocateCallIdentifiersLocked b = (ids, b1) \<Longrightarrow> nextRef b1 = nextRef b"
  using allocateCallIdentifiers_quiet by (auto simp: quiet_def)

lemma sendSIPOriginatedResponse_frame:
  assumes "SIPInitialRequest (heap b r) = Some req" "SIPResponder (heap b r) = Some rp" "\<not> Released (heap b r)"
    "\<not> SIPAnswered (heap b r)"
  shows "\<exists>m out. out = SipReply rp st m \<and>
    snd (sendSIPOriginatedResponse e r st rs sd b) =
      emit (if writes e (length (outputs b)) then out else WriteFailed out) (updCall r (markResponse st m) b)"
  using assms by (auto simp: sendSIPOriginatedResponse_def Let_def sendOut_eq)

lemma invite_admitted:
  assumes "admissible e msg b" "\<And>a d. listens e a d"
  shows "\<exists>c m socks t. handleNewSIPInvite e msg rp b = after e t (TOffhook (nextRef b)) m \<and>
    outputs m = outputs b @ map (Sock \<circ> SockOpen) socks @
      [if writes e (length (outputs b) + length socks) then SipReply rp 100 c else WriteFailed (SipReply rp 100 c)] \<and>
    outboundCall m = Some (nextRef b) \<and> map_of (callsBySIP m) (CallID msg) = Some (nextRef b) \<and>
    nextRef m = Suc (nextRef b) \<and> SIPCallID (heap m (nextRef b)) = CallID msg \<and>
    Direction (heap m (nextRef b)) = ''sip-to-h248'' \<and>
    DestinationNumber (heap m (nextRef b)) = sipURIUser (smURI msg)"
proof -
  obtain offer a where oa: "acceptableOffer e msg = Some (offer, a)"
    using assms(1) by (auto simp: admissible_def)
  obtain ids b0 where ids: "allocateCallIdentifiersLocked b = (ids, b0)" by fastforce
  then have q: "quiet b b0" by (rule allocateCallIdentifiers_quiet)
  let ?r = "nextRef b"
  let ?c = "originatedCall e b msg rp a offer ids"
  let ?b1 = "snd (allocCall ?c b0)\<lparr>outboundCall := Some ?r, callsBySIP := AList.update (CallID msg) ?r (callsBySIP b0)\<rparr>"
  have admit: "admitInvite e msg rp a offer b = (?r, ?b1)"
    using ids q by (simp add: admitInvite_def allocCall_def quiet_def)
  obtain relay b2 where relay: "openRelay e ?c ?b1 = (Some relay, b2)"
    using assms(2) by (simp add: openRelay_def newMediaRelay_def Let_def)
  then obtain socks where socks: "b2 = emitAll (map (Sock \<circ> SockOpen) socks) ?b1" using openRelay_Some by metis
  let ?b3 = "updCall ?r (\<lambda>c. c\<lparr>Media := Some (SetSIPPeer (Some a) (SIPTelephoneEventPT c) relay)\<rparr>) b2"
  have "SIPInitialRequest (heap ?b3 ?r) = Some msg" "SIPResponder (heap ?b3 ?r) = Some rp"
    "\<not> Released (heap ?b3 ?r)" "\<not> SIPAnswered (heap ?b3 ?r)"
    using q by (simp_all add: socks originatedCall_def zeroCall_def quiet_def split: prod.split)
  from sendSIPOriginatedResponse_frame[OF this, of 100 e "''Trying''" False] obtain m where
    m: "snd (sendSIPOriginatedResponse e ?r 100 ''Trying'' False ?b3) =
      emit (if writes e (length (outputs ?b3)) then SipReply rp 100 m else WriteFailed (SipReply rp 100 m))
        (updCall ?r (markResponse 100 m) ?b3)" by auto
  have c: "Released ?c = False" "H248OffhookSent ?c = False" "SIPCallID ?c = CallID msg"
    "Direction ?c = ''sip-to-h248''" "DestinationNumber ?c = sipURIUser (smURI msg)"
    by (simp_all add: originatedCall_def zeroCall_def split: prod.split)
  have start: "handleNewSIPInvite e msg rp b = scheduleOriginationOffhook e ?r
      (snd (sendSIPOriginatedResponse e ?r 100 ''Trying'' False ?b3))"
    using assms(1) oa admit relay q
    by (auto simp: admissible_def handleNewSIPInvite_def startOrigination_def Let_def quiet_def)
  show ?thesis
    unfolding start m scheduleOriginationOffhook_def Let_def
    using q c by (auto simp: socks markResponse_def quiet_def update_conv' intro!: exI)
qed

subsection \<open>Late answers\<close>

lemma putRetained_sel [simp]:
  "retainedInvites (putRetained ri b) = (retainedInvites b)(riCallID ri \<mapsto> ri)"
  "outputs (putRetained ri b) = outputs b" "bCfg (putRetained ri b) = bCfg b" "inviteTTL (putRetained ri b) = inviteTTL b"
  by (simp_all add: putRetained_def)

definition finalFor :: "sip_message \<Rightarrow> retained_invite \<Rightarrow> bool" where
  "finalFor msg ri \<longleftrightarrow> ToUpper (CSeqMethod msg) = ''INVITE'' \<and>
     parseCSeqNumber (CSeqNumber msg) = riInviteCSeq ri \<and> smStatus msg \<ge> 200 \<and> smStatus msg < 300"

lemma contactOr_nonempty: "uri \<noteq> [] \<Longrightarrow> contactOr msg uri \<noteq> []"
  by (simp add: contactOr_def Let_def)

lemma sendInviteACKForTransaction_out:
  assumes "\<And>n. writes e n"
  shows "\<exists>ack. sendInviteACKForTransaction e cid uri from via br cs msg (Some peer) b =
    emit (SipRequest ''ACK'' cid ack peer) b"
  using assms by (auto simp: sendInviteACKForTransaction_def Let_def writeTo_def orElse_def sendOut_eq)

lemma refreshRetained_out:
  assumes "retainedInvites b cid = Some ri" "riCallID ri = cid"
  shows "\<exists>t. outputs (refreshRetainedSIPInvite e cid b) = outputs b \<and>
    retainedInvites (refreshRetainedSIPInvite e cid b) cid = Some (ri\<lparr>riExpiresAt := t\<rparr>) \<and>
    bCfg (refreshRetainedSIPInvite e cid b) = bCfg b"
  using assms by (auto simp: refreshRetainedSIPInvite_def scheduleRetainedSIPInviteExpiry_def Let_def)

lemma sendLateAnswerBYE_out:
  assumes "retainedInvites b cid = Some ri" "riCallID ri = cid" "riRequestURI ri \<noteq> []" "riPeer ri = Some peer"
    "\<And>n. writes e n"
  shows "\<exists>bye. outputs (sendLateAnswerBYE e cid msg b) =
      outputs b @ (if riLateBYESent ri then [] else [SipRequest ''BYE'' cid bye peer]) \<and>
    retainedInvites (sendLateAnswerBYE e cid msg b) cid = Some (ri\<lparr>riLateBYESent := True\<rparr>)"
  using assms contactOr_nonempty[OF assms(3), of msg]
  by (cases "riLateBYESent ri") (simp_all add: sendLateAnswerBYE_def Let_def orElse_def sendOut_eq)

lemma late_2xx_step:
  assumes "retainedInvites b cid = Some ri" "riCallID ri = cid" "riRequestURI ri \<noteq> []" "finalFor msg ri"
    "smSource msg = Some peer" "\<And>n. writes e n"
  shows "\<exists>ack bye ri'. outputs (handleRetainedSIPInviteResponse e cid msg b) =
      outputs b @ [SipRequest ''ACK'' cid ack peer] @
        (if riLateBYESent ri then [] else [SipRequest ''BYE'' cid bye peer]) \<and>
    retainedInvites (handleRetainedSIPInviteResponse e cid msg b) cid = Some ri' \<and> riLateBYESent ri' \<and>
    riCallID ri' = cid \<and> riRequestURI ri' = riRequestURI ri \<and> riInviteCSeq ri' = riInviteCSeq ri"
proof -
  let ?ri = "ri\<lparr>riPeer := Some peer\<rparr>"
  let ?b1 = "putRetained ?ri b"
  obtain ack where ack: "sendInviteACKForTransaction e (riCallID ?ri) (riRequestURI ?ri) (riFrom ?ri) (riInviteVia ?ri)
      (riInviteBranch ?ri) (riInviteCSeq ?ri) msg (Some peer) ?b1 = emit (SipRequest ''ACK'' cid ack peer) ?b1"
    using sendInviteACKForTransaction_out[OF assms(6), of "riCallID ?ri" "riRequestURI ?ri" "riFrom ?ri"
      "riInviteVia ?ri" "riInviteBranch ?ri" "riInviteCSeq ?ri" msg peer ?b1] assms(2) by auto
  let ?b2 = "emit (SipRequest ''ACK'' cid ack peer) ?b1"
  have "retainedInvites ?b2 cid = Some ?ri" using assms(2) by simp
  from refreshRetained_out[OF this, of e] assms(2) obtain t where b3: "outputs (refreshRetainedSIPInvite e cid ?b2) = outputs ?b2"
    "retainedInvites (refreshRetainedSIPInvite e cid ?b2) cid = Some (?ri\<lparr>riExpiresAt := t\<rparr>)" by auto
  from sendLateAnswerBYE_out[OF b3(2), of peer e msg] assms(2,3,6) obtain bye where
    "outputs (sendLateAnswerBYE e cid msg (refreshRetainedSIPInvite e cid ?b2)) =
      outputs ?b2 @ (if riLateBYESent ri then [] else [SipRequest ''BYE'' cid bye peer])"
    "retainedInvites (sendLateAnswerBYE e cid msg (refreshRetainedSIPInvite e cid ?b2)) cid =
      Some (?ri\<lparr>riExpiresAt := t, riLateBYESent := True\<rparr>)"
    using b3(1) by auto
  moreover have "handleRetainedSIPInviteResponse e cid msg b =
      sendLateAnswerBYE e cid msg (refreshRetainedSIPInvite e cid ?b2)"
    using assms(1,4,5) ack by (simp add: handleRetainedSIPInviteResponse_def finalFor_def Let_def)
  ultimately show ?thesis using assms(2) by auto
qed

lemma late_2xx_twice:
  assumes "retainedInvites b cid = Some ri" "riCallID ri = cid" "riRequestURI ri \<noteq> []" "finalFor msg ri"
    "smSource msg = Some peer" "\<And>n. writes e n" "\<And>n. writes e' n" "\<not> riLateBYESent ri"
  shows "\<exists>ack bye ack'.
    outputs (handleRetainedSIPInviteResponse e' cid msg (handleRetainedSIPInviteResponse e cid msg b)) =
      outputs b @ [SipRequest ''ACK'' cid ack peer, SipRequest ''BYE'' cid bye peer, SipRequest ''ACK'' cid ack' peer]"
proof -
  from late_2xx_step[OF assms(1-6)] assms(8) obtain ack bye ri' where
    1: "outputs (handleRetainedSIPInviteResponse e cid msg b) =
        outputs b @ [SipRequest ''ACK'' cid ack peer, SipRequest ''BYE'' cid bye peer]"
      "retainedInvites (handleRetainedSIPInviteResponse e cid msg b) cid = Some ri'" "riLateBYESent ri'"
      "riCallID ri' = cid" "riRequestURI ri' = riRequestURI ri" "riInviteCSeq ri' = riInviteCSeq ri" by auto
  have "finalFor msg ri'" "riRequestURI ri' \<noteq> []" using assms(3,4) 1 by (simp_all add: finalFor_def)
  from late_2xx_step[OF 1(2,4) this(2,1) assms(5,7)] 1(1,3) show ?thesis by auto
qed

subsection \<open>Release\<close>

lemma releaseCall_idem: "releaseCall r (releaseCall r b) = releaseCall r b"
proof -
  have "Released (heap (releaseCall r b) r)" by simp
  then show ?thesis by (subst releaseCall_def) simp
qed

lemma released_unreferenced:
  assumes "bridgeInv b" "Released (heap b r)"
  shows "r \<notin> snd ` set (callsByH248 b)" "r \<notin> snd ` set (callsBySIP b)" "outboundCall b \<noteq> Some r"
proof -
  have d: "distinct (map fst (callsByH248 b))" "distinct (map fst (callsBySIP b))"
    and live: "\<And>k. map_of (callsByH248 b) k \<noteq> Some r" "\<And>k. map_of (callsBySIP b) k \<noteq> Some r"
    using assms unfolding bridgeInv_def okTables_def by blast+
  show "r \<notin> snd ` set (callsByH248 b)" using map_of_is_SomeI[OF d(1)] live(1) by force
  show "r \<notin> snd ` set (callsBySIP b)" using map_of_is_SomeI[OF d(2)] live(2) by force
  show "outboundCall b \<noteq> Some r" using assms unfolding bridgeInv_def okOutbound_def by blast
qed

lemma releaseCall_forgets:
  assumes "bridgeInv b" "r < nextRef b"
  shows "r \<notin> snd ` set (callsByH248 (releaseCall r b))" "r \<notin> snd ` set (callsBySIP (releaseCall r b))"
    "outboundCall (releaseCall r b) \<noteq> Some r" "heldBy (heap (releaseCall r b) r) = {#}"
proof -
  have inv: "bridgeInv (releaseCall r b)"
    using br.step_inv[OF bstep.release[OF assms(2)] assms(1)] .
  have "Released (heap (releaseCall r b) r)" by simp
  from released_unreferenced[OF inv this] show "r \<notin> snd ` set (callsByH248 (releaseCall r b))" "r \<notin> snd ` set (callsBySIP (releaseCall r b))"
    "outboundCall (releaseCall r b) \<noteq> Some r"
    by blast+
  show "heldBy (heap (releaseCall r b) r) = {#}"
    using assms heldBy_released by (simp add: bridgeInv_def okMedia_def)
qed

subsection \<open>Requests of the INVITE transaction\<close>

lemma teardown_cancel:
  assumes "\<not> SIPAnswered c" "SIPInviteVia c \<noteq> []"
  shows "teardownRequest e c cfg =
    (''CANCEL'', BuildRequest ''CANCEL'' (SIPRequestURI c)
      (requestHeaders cfg (SIPInviteVia c) (SIPFrom c) (SIPTo c) (SIPCallID c) (SIPInviteCSeq c) ''CANCEL'') [])"
  using assms by (simp add: teardownRequest_def Let_def dialogHeaders_def requestHeaders_def setHeader_def)

lemma ackVia_failure: "inviteVia \<noteq> [] \<Longrightarrow> \<not> (200 \<le> st \<and> st < 300) \<Longrightarrow> ackVia e cfg st inviteVia br = inviteVia"
  by (auto simp: ackVia_def)

subsection \<open>Requests towards the IP-PBX\<close>

definition sipMethods :: "bridge_output list \<Rightarrow> string list" where
  "sipMethods outs = concat (map (\<lambda>out. case out of SipRequest method cid m a \<Rightarrow> [method] | _ \<Rightarrow> []) outs)"

lemma sipMethods_append [simp]: "sipMethods (xs @ ys) = sipMethods xs @ sipMethods ys"
  by (simp add: sipMethods_def)

lemma sipMethods_other [simp]:
  "sipMethods [H248Request rp q p m] = []" "sipMethods (map Sock evs) = []" "sipMethods [WriteFailed out] = []"
  "sipMethods [SipRequest me cid m a] = [me]" "sipMethods [] = []"
  by (simp_all add: sipMethods_def)

lemma sendOnhook_sip: "sipMethods (outputs (sendOnhook e r b)) = sipMethods (outputs b)"
  by (auto simp: sendOnhook_def sendCallLineEvent_def newH248TransactionID_def Let_def sendOut_eq split: option.split)

lemma inviteTimeout_answered:
  assumes "map_of (inviteLoops b) cid = Some i" "map_of (callsBySIP b) cid = Some r" "r < nextRef b"
    "SIPAnswered (heap b r)"
  shows "Released (heap (inviteTimeout e cid b) r) \<and>
    sipMethods (outputs (inviteTimeout e cid b)) = sipMethods (outputs b)"
  using assms sendOnhook_sip[of e r "endInviteLoop cid b"]
  by (simp add: inviteTimeout_def Let_def endInviteLoop_def)

lemma handleAnswer_invalid:
  assumes "fst (updateSIPRemoteMedia e r (smBody msg) b) = False" "SIPInviteFinal (heap b r)"
    "\<not> SIPAnswered (heap b r)" "Direction (heap b r) = ''h248-to-sip''"
  shows "Released (heap (handleAnswer e msg r b) r) \<and>
    sipMethods (outputs (handleAnswer e msg r b)) = sipMethods (outputs b)"
proof -
  have upd: "updateSIPRemoteMedia e r (smBody msg) b = (False, b)"
    using assms(1) by (auto simp: updateSIPRemoteMedia_def Let_def split: sum.splits option.splits)
  have "sipMethods (outputs (sendSIPTeardown e r b)) = sipMethods (outputs b)"
    using assms(2-4) by (simp add: sendSIPTeardown_def Let_def teardownAsClient_def split: option.split)
  with upd sendOnhook_sip[of e r "sendSIPTeardown e r b"] show ?thesis by (simp add: handleAnswer_def)
qed

subsection \<open>Retransmission of the INVITE\<close>

text \<open>The time after which the \<open>k\<close>-th retransmission is due.\<close>

definition tickTime :: "nat \<Rightarrow> int" where
  "tickTime k = (\<Sum>i<k. (nextInterval ^^ i) initialRetransmitInterval)"

lemma nextInterval_pos: "0 < i \<Longrightarrow> 0 < nextInterval i"
  by (simp add: nextInterval_def maxRetransmitInterval_def seconds_def wrap64_def)

lemma interval_pos: "0 < (nextInterval ^^ k) initialRetransmitInterval"
  by (induction k) (simp_all add: nextInterval_pos initialRetransmitInterval_def milliseconds_def wrap64_def)

lemma tickTime_mono: "j < k \<Longrightarrow> tickTime j < tickTime k"
proof (induction k)
  case (Suc k)
  then show ?case using interval_pos[of k] by (cases "j = k") (auto simp: tickTime_def)
qed simp

lemma retransmitTick_waiting:
  assumes "map_of (inviteLoops b) cid = Some i" "map_of (callsBySIP b) cid = Some r" "\<not> Released (heap b r)"
    "\<not> SIPInviteProvisional (heap b r)" "\<not> SIPAnswered (heap b r)" "SIPPeer (heap b r) = Some peer" "bSender b"
    "writes e (length (outputs b))"
  shows "outputs (retransmitTick e cid b) = outputs b @ [SipRequest ''INVITE'' cid (SIPInvite (heap b r)) peer] \<and>
    timers (retransmitTick e cid b) = timers b @ [(now e + nextInterval i, TRetransmit cid)] \<and>
    map_of (inviteLoops (retransmitTick e cid b)) cid = Some (nextInterval i)"
  using assms by (simp add: retransmitTick_def Let_def writeTo_def sendOut_eq update_conv' after_def)

lemma retransmitTick_settled:
  assumes "map_of (inviteLoops b) cid \<noteq> None" "distinct (map fst (inviteLoops b))"
    "case map_of (callsBySIP b) cid of None \<Rightarrow> True
     | Some r \<Rightarrow> Released (heap b r) \<or> SIPInviteProvisional (heap b r) \<or> SIPAnswered (heap b r)"
  shows "outputs (retransmitTick e cid b) = outputs b \<and> timers (retransmitTick e cid b) = timers b \<and>
    map_of (inviteLoops (retransmitTick e cid b)) cid = None"
  using assms by (auto simp: retransmitTick_def Let_def endInviteLoop_def delete_conv' split: option.splits)

subsection \<open>Calls that the IP-PBX ends\<close>

lemma handleSIPBye_arms:
  assumes "map_of (callsBySIP b) (CallID msg) = Some r"
  shows "(now e + releaseDelay, TReleaseCall r) \<in> set (timers (handleSIPBye e msg rp b)) \<and>
    SIPRemoteReleased (heap (handleSIPBye e msg rp b) r)"
  using assms
  by (auto simp: handleSIPBye_def Let_def sendOnhook_def sendCallLineEvent_def respondSIP_def newH248TransactionID_def
      markPhase_def sendOut_eq split: option.split)

subsection \<open>The INVITE and its CANCEL\<close>

lemma inviteFields_invite:
  "\<exists>hs sdp. SIPInvite (inviteFields e0 cfg peer c0) = BuildRequest ''INVITE'' (SIPRequestURI (inviteFields e0 cfg peer c0))
      ([(''Via'', SIPInviteVia (inviteFields e0 cfg peer c0)), (''Max-Forwards'', ''70''),
        (''From'', SIPFrom (inviteFields e0 cfg peer c0)), (''To'', SIPTo (inviteFields e0 cfg peer c0)),
        (''Call-ID'', SIPCallID (inviteFields e0 cfg peer c0)), (''CSeq'', ''1 INVITE'')] @ hs) sdp"
  unfolding inviteFields_def Let_def by simp blast

lemma inviteFields_via: "SIPInviteVia (inviteFields e0 cfg peer c0) \<noteq> []" "SIPInviteCSeq (inviteFields e0 cfg peer c0) = 1"
  "SIPPeer (inviteFields e0 cfg peer c0) = Some peer" "SIPCallID (inviteFields e0 cfg peer c0) \<noteq> []"
  by (simp_all add: inviteFields_def inviteCallID_def Let_def)

lemma retainSIPInvite_retains:
  assumes "SIPCallID (heap b r) \<noteq> []" "SIPRequestURI (heap b r) \<noteq> []" "0 < SIPInviteCSeq (heap b r)"
    "retainedInvites b (SIPCallID (heap b r)) = None"
  shows "outputs (retainSIPInvite e r b) = outputs b \<and>
    (\<exists>ri. retainedInvites (retainSIPInvite e r b) (SIPCallID (heap b r)) = Some ri \<and> riExpiresAt ri = now e + retainTTL b)"
  using assms by (auto simp: retainSIPInvite_def Let_def retainedFor_def putRetained_def scheduleRetainedSIPInviteExpiry_def newRetained_def after_def
      split: option.split)

end
