(* ===== verification/Gateway_Scenario.thy ===== *)
theory Gateway_Scenario
  imports Bridge_Behaviour
begin

text \<open>
  Concrete runs of the gateway: a configuration, an environment in which sockets open and writes
  succeed, and the messages of a call from the carrier and of a call from the IP-PBX.  The states are
  computed by the definitions of the bridge; the facts about them show that the hypotheses of the
  theorems are met by runs of the program.
\<close>

subsection \<open>Configuration and environment\<close>

definition demoConfig :: config where
  "demoConfig = \<lparr>
     cfgSIP = (cfgSIP Default)\<lparr>sipListen := ''127.0.0.1:5060'', sipAdvertisedAddress := ''127.0.0.1:5060'',
       sipDomain := ''test.local'', sipTrunkURI := ''sip:6000@127.0.0.1:5060'',
       sipOutboundProxy := ''127.0.0.1:5060''\<rparr>,
     cfgH248 = (cfgH248 Default)\<lparr>h248MGID := ''[198.51.100.10]:2944'', h248PhysicalTermination := ''A0''\<rparr>,
     cfgMedia = cfgMedia Default \<rparr>"

definition demoResolve :: "string \<Rightarrow> udp_addr option" where
  "demoResolve s =
     (case SplitHostPort s of
        Inl e \<Rightarrow> None
      | Inr (host, p) \<Rightarrow> if atoiOk p then Some \<lparr> ip = host, port = atoiVal p, zone = [] \<rparr> else None)"

definition demoEnv :: "int \<Rightarrow> env" where
  "demoEnv t = \<lparr> now = t, civil = (\<lambda>_. \<lparr> ctYear = 2024, ctMonth = 5, ctDay = 6, ctHour = 7, ctMinute = 8,
       ctSecond = 9, ctNanosecond = 0 \<rparr>), resolve = demoResolve, listens = (\<lambda>_ _. True), writes = (\<lambda>_. True) \<rparr>"

definition demoMGC :: h248_responder where
  "demoMGC = \<lparr> rpRemote = \<lparr> ip = ''198.51.100.1'', port = 2944, zone = [] \<rparr>, rpCacheKey = ''k'' \<rparr>"

definition demoPBX :: udp_addr where
  "demoPBX = \<lparr> ip = ''127.0.0.1'', port = 5060, zone = [] \<rparr>"

definition demoSip :: sip_responder where
  "demoSip = \<lparr> srRemote = demoPBX, srCacheKey = ''s'' \<rparr>"

definition demoRemote :: string where
  "demoRemote = ''R{v=0'' @ CRLF @ ''c=IN IP4 127.0.0.1'' @ CRLF @ ''m=audio 40000 RTP/AVP 8'' @ CRLF @ ''}''"

subsection \<open>A call from the carrier\<close>

definition demoAdd :: h248_message where
  "demoAdd = (emptyMessage demoRemote)\<lparr>msgType := ''Transaction'', msgTID := ''7'', msgContext := ''$'',
     msgCommands := [
       \<lparr> cmdName = ''Add'', cmdTerm = ''A0'', cmdBody = [], cmdContext = ''$'', cmdOptional = False \<rparr>,
       \<lparr> cmdName = ''Add'', cmdTerm = ''$'', cmdBody = [], cmdContext = ''$'', cmdOptional = False \<rparr>]\<rparr>"

definition demoRing :: h248_message where
  "demoRing = (emptyMessage ''MF=A0{E=9{al/of},SG{al/ri}}'')\<lparr>msgType := ''Transaction'', msgTID := ''8'',
     msgContext := ''1001'', msgCommands := [
       \<lparr> cmdName = ''Modify'', cmdTerm = ''A0'', cmdBody = ''E=9{al/of},SG{al/ri}'', cmdContext = ''1001'',
         cmdOptional = False \<rparr>]\<rparr>"

definition carrier0 :: bridge where
  "carrier0 = SetSIPSender (New 1000 demoConfig)"

definition carrier1 :: bridge where
  "carrier1 = HandleH248 (demoEnv 1) demoAdd demoMGC carrier0"

definition carrier2 :: bridge where
  "carrier2 = HandleH248 (demoEnv 2) demoRing demoMGC carrier1"


subsection \<open>A call from the IP-PBX\<close>

definition demoEvents :: h248_message where
  "demoEvents = (emptyMessage ''MF=A0{E=5{al/of}}'')\<lparr>msgType := ''Transaction'', msgTID := ''5'',
     msgContext := ''-'', msgCommands := [
       \<lparr> cmdName = ''Modify'', cmdTerm = ''A0'', cmdBody = ''E=5{al/of}'', cmdContext = ''-'',
         cmdOptional = False \<rparr>]\<rparr>"

definition demoOffer :: string where
  "demoOffer = ''v=0'' @ CRLF @ ''c=IN IP4 127.0.0.1'' @ CRLF @ ''m=audio 30000 RTP/AVP 8'' @ CRLF @
     ''a=rtpmap:8 PCMA/8000'' @ CRLF"

definition demoInvite :: sip_message where
  "demoInvite = \<lparr> smStartLine = ''INVITE sip:10086@gw SIP/2.0'', smMethod = ''INVITE'', smURI = ''sip:10086@gw'',
     smStatus = 0, smReason = [], smHeaders = [''Call-ID'' \<mapsto> [''pbx-1''], ''Cseq'' \<mapsto> [''1 INVITE''],
       ''From'' \<mapsto> [''<sip:6000@pbx>;tag=a''], ''To'' \<mapsto> [''<sip:10086@gw>''], ''Via'' \<mapsto> [''SIP/2.0/UDP 127.0.0.1:5060;branch=z9hG4bK-1'']],
     smBody = demoOffer, smSource = Some demoPBX \<rparr>"

definition pbx1 :: bridge where
  "pbx1 = HandleH248Ready (demoEnv 2) demoMGC (HandleH248 (demoEnv 1) demoEvents demoMGC carrier0)"

definition pbx2 :: bridge where
  "pbx2 = HandleSIP (demoEnv 3) demoInvite demoSip pbx1"

definition pbx3 :: bridge where
  "pbx3 = fireTimer (demoEnv (3 + seconds 5)) (2 + seconds 5, TOffhook 0) pbx2"


subsection \<open>States of an INVITE of the gateway\<close>

text \<open>A retained transaction and its late answer, an INVITE that was sent, one that was answered while its
  loop was alive, one with a final response, and one that waits for a response.\<close>

definition demoBye :: sip_message where
  "demoBye = demoInvite\<lparr>smStartLine := ''BYE sip:10086@gw SIP/2.0'', smMethod := ''BYE'', smBody := []\<rparr>"

definition retainedDemo :: bridge where
  "retainedDemo = (New 1000 demoConfig)\<lparr>retainedInvites := [''c1'' \<mapsto> (newRetained 0 ''c1'')\<lparr>riRequestURI := ''sip:6000@pbx'', riInviteCSeq := 1\<rparr>]\<rparr>"

definition lateAnswer :: sip_message where
  "lateAnswer = \<lparr> smStartLine = ''SIP/2.0 200 OK'', smMethod = [], smURI = [], smStatus = 200, smReason = ''OK'',
     smHeaders = [''Call-ID'' \<mapsto> [''c1''], ''Cseq'' \<mapsto> [''1 INVITE''], ''To'' \<mapsto> [''<sip:6000@pbx>;tag=b'']], smBody = [],
     smSource = Some demoPBX \<rparr>"

definition invitedDemo :: bridge where
  "invitedDemo = (SetSIPSender (New 1000 demoConfig))\<lparr>nextRef := 1, heap := (\<lambda>_. inviteFields (demoEnv 3) demoConfig demoPBX (zeroCall\<lparr>Direction := ''h248-to-sip''\<rparr>))\<rparr>"

definition answeredDemo :: bridge where
  "answeredDemo = (New 1000 demoConfig)\<lparr>nextRef := 1, heap := (\<lambda>_. zeroCall\<lparr>Direction := ''h248-to-sip'', SIPCallID := ''c1'', SIPAnswered := True, SIPInviteFinal := True\<rparr>),
     callsBySIP := [(''c1'', 0)], inviteLoops := [(''c1'', seconds 4)]\<rparr>"

definition finalDemo :: bridge where
  "finalDemo = (New 1000 demoConfig)\<lparr>nextRef := 1, heap := (\<lambda>_. zeroCall\<lparr>Direction := ''h248-to-sip'', SIPCallID := ''c1'', SIPInviteFinal := True\<rparr>), callsBySIP := [(''c1'', 0)]\<rparr>"

definition waitingDemo :: bridge where
  "waitingDemo = (SetSIPSender (New 1000 demoConfig))\<lparr>nextRef := 1, heap := (\<lambda>_. zeroCall\<lparr>SIPCallID := ''c1'', SIPPeer := Some demoPBX, SIPInvite := ''I''\<rparr>), callsBySIP := [(''c1'', 0)],
     inviteLoops := [(''c1'', seconds 1)]\<rparr>"

subsection \<open>Facts\<close>

text \<open>What is observed of a state; evaluating it computes the state once.\<close>

record view =
  vCalls :: nat
  vOutbound :: "nat option"
  vContexts :: "(string \<times> nat) list"
  vDialogs :: "(string \<times> nat) list"
  vTimers :: "(int \<times> timer) list"
  vSockets :: nat
  vOffhooks :: nat
  vUsable :: bool
  vDirection :: string
  vReleased :: bool
  vPort :: int

definition viewOf :: "bridge \<Rightarrow> view" where
  "viewOf b = \<lparr> vCalls = nextRef b, vOutbound = outboundCall b, vContexts = callsByH248 b, vDialogs = callsBySIP b,
     vTimers = timers b, vSockets = size (opened (outputs b)),
     vOffhooks = reports 0 ''origination-offhook'' (outputs b), vUsable = lineUsable b,
     vDirection = Direction (heap b 0), vReleased = Released (heap b 0), vPort = H248RTPPort (heap b 0) \<rparr>"

lemma demoEnv_total: "listens (demoEnv t) a d" "writes (demoEnv t) n"
  by (simp_all add: demoEnv_def)

lemma demoConfig_valid: "Validate demoConfig = None"
  by code_simp

lemma carrier1_view:
  "viewOf carrier1 = \<lparr> vCalls = 1, vOutbound = None, vContexts = [(''1001'', 0)], vDialogs = [], vTimers = [],
     vSockets = 4, vOffhooks = 0, vUsable = False, vDirection = ''h248-to-sip'', vReleased = False, vPort = 20000 \<rparr>"
  by code_simp

lemma pbx1_view:
  "viewOf pbx1 = \<lparr> vCalls = 0, vOutbound = None, vContexts = [], vDialogs = [], vTimers = [],
     vSockets = 0, vOffhooks = 0, vUsable = True, vDirection = [], vReleased = False, vPort = 0 \<rparr>"
  by code_simp

lemma pbx2_view:
  "viewOf pbx2 = \<lparr> vCalls = 1, vOutbound = Some 0, vContexts = [], vDialogs = [(''pbx-1'', 0)],
     vTimers = [(2 + seconds 5, TOffhook 0)], vSockets = 4, vOffhooks = 0, vUsable = True,
     vDirection = ''sip-to-h248'', vReleased = False, vPort = 20000 \<rparr>"
  by code_simp

lemma pbx3_view:
  "viewOf pbx3 = \<lparr> vCalls = 1, vOutbound = Some 0, vContexts = [], vDialogs = [(''pbx-1'', 0)],
     vTimers = [], vSockets = 4, vOffhooks = 1, vUsable = True,
     vDirection = ''sip-to-h248'', vReleased = False, vPort = 20000 \<rparr>"
  by code_simp

lemma demoInvite_facts:
  "dialled (sipURIUser (smURI demoInvite)) \<and> \<not> Option.is_none (acceptableOffer (demoEnv 3) demoInvite) \<and>
   CallID demoInvite = ''pbx-1''"
  by code_simp

lemma carrier_reach: "reach demoConfig carrier0" "reach demoConfig carrier1"
  unfolding carrier1_def carrier0_def by (blast intro: reach.intros)+

lemma pbx_reach: "reach demoConfig pbx1" "reach demoConfig pbx2" "reach demoConfig pbx3"
proof -
  show 1: "reach demoConfig pbx1" unfolding pbx1_def carrier0_def by (blast intro: reach.intros)
  then show 2: "reach demoConfig pbx2" unfolding pbx2_def by (blast intro: reach.intros)
  then show "reach demoConfig pbx3" unfolding pbx3_def
    by (rule reach.timer) (use pbx2_view in \<open>simp_all add: demoEnv_def viewOf_def\<close>)
qed

end
