(* ===== verification/Bridge_Properties.thy ===== *)
theory Bridge_Properties
  imports Gateway_Scenario
begin

text \<open>
  What single operations of the bridge do: the admission of an INVITE of the IP-PBX, and the INVITE
  transaction of the gateway with its retransmissions, its deadline, its CANCEL and its late answers.
\<close>

text \<open>C14: An INVITE for a new call that is not admissible is answered with one response whose status is at least 400
  and changes nothing else of the state.\<close>

theorem invite_refused_without_trace:
  assumes "\<not> admissible e msg b" "map_of (callsBySIP b) (CallID msg) = None"
  shows "\<exists>st m. 400 \<le> st \<and> handleNewSIPInvite e msg rp b =
    emit (if writes e (length (outputs b)) then SipReply rp st m else WriteFailed (SipReply rp st m)) b"
  using invite_refused[OF assms] by (simp add: refusedTo_def)

theorem invite_refused_without_trace_witness:
  "\<not> admissible (demoEnv 3) demoInvite carrier0 \<and>
   (\<exists>st m. 400 \<le> st \<and> handleNewSIPInvite (demoEnv 3) demoInvite demoSip carrier0 = emit (SipReply demoSip st m) carrier0)"
proof -
  have new: "\<not> lineUsable carrier0" "callsBySIP carrier0 = []"
    by (simp_all add: carrier0_def SetSIPSender_def New_def Let_def lineUsable_def initLine_def)
  then have "\<not> admissible (demoEnv 3) demoInvite carrier0" by (simp add: admissible_def)
  with invite_refused_without_trace[OF this, of demoSip] new show ?thesis by (simp add: demoEnv_total)
qed

text \<open>C13: An admissible INVITE, when its media sockets can be opened, becomes the outbound call of the line under its
  Call-ID and with the dialled number, is answered with 100, and its off-hook is scheduled.\<close>

theorem invite_starts_origination:
  assumes "admissible e msg b" "\<forall>a d. listens e a d"
  shows "\<exists>c m socks t. handleNewSIPInvite e msg rp b = after e t (TOffhook (nextRef b)) m \<and>
    outputs m = outputs b @ map (Sock \<circ> SockOpen) socks @
      [if writes e (length (outputs b) + length socks) then SipReply rp 100 c else WriteFailed (SipReply rp 100 c)] \<and>
    outboundCall m = Some (nextRef b) \<and> map_of (callsBySIP m) (CallID msg) = Some (nextRef b) \<and>
    nextRef m = Suc (nextRef b) \<and> SIPCallID (heap m (nextRef b)) = CallID msg \<and>
    Direction (heap m (nextRef b)) = ''sip-to-h248'' \<and>
    DestinationNumber (heap m (nextRef b)) = sipURIUser (smURI msg)"
  using invite_admitted[of e msg b rp] assms by blast

theorem invite_starts_origination_witness:
  "admissible (demoEnv 3) demoInvite pbx1 \<and>
   (\<exists>m t. handleNewSIPInvite (demoEnv 3) demoInvite demoSip pbx1 = after (demoEnv 3) t (TOffhook 0) m \<and>
      outboundCall m = Some 0)"
proof -
  have "nextRef pbx1 = 0" "smSource demoInvite \<noteq> None"
    using pbx1_view by (simp_all add: viewOf_def demoInvite_def)
  moreover have ok: "admissible (demoEnv 3) demoInvite pbx1"
    using demoInvite_facts pbx1_view calculation(2)
    by (auto simp: admissible_def viewOf_def lineBusy_def Option.is_none_def)
  ultimately show ?thesis using invite_starts_origination[OF ok, of demoSip] demoEnv_total by fastforce
qed

text \<open>C15: A 2xx for an INVITE whose call is gone is acknowledged and the dialog cleared with a BYE; when the 2xx is
  retransmitted it is acknowledged again without a second BYE.\<close>

theorem late_answer_cleared_once:
  assumes "bridgeInv b" "retainedInvites b cid = Some ri" "finalFor msg ri" "smSource msg = Some peer"
    "\<forall>n. writes e n" "\<forall>n. writes e' n" "\<not> riLateBYESent ri"
  shows "\<exists>ack bye ack'.
    outputs (handleRetainedSIPInviteResponse e' cid msg (handleRetainedSIPInviteResponse e cid msg b)) =
      outputs b @ [SipRequest ''ACK'' cid ack peer, SipRequest ''BYE'' cid bye peer, SipRequest ''ACK'' cid ack' peer]"
proof -
  have "riCallID ri = cid" "riRequestURI ri \<noteq> []"
    using assms(1,2) by (auto simp: bridgeInv_def okRetained_def)
  from late_2xx_twice[OF assms(2) this assms(3,4)] assms(5-7) show ?thesis by blast
qed

theorem late_answer_cleared_once_witness:
  "\<exists>ack bye ack'.
    outputs (handleRetainedSIPInviteResponse (demoEnv 9) ''c1'' lateAnswer (handleRetainedSIPInviteResponse (demoEnv 8) ''c1'' lateAnswer retainedDemo)) =
      [SipRequest ''ACK'' ''c1'' ack demoPBX, SipRequest ''BYE'' ''c1'' bye demoPBX, SipRequest ''ACK'' ''c1'' ack' demoPBX]"
proof -
  let ?ri = "(newRetained 0 ''c1'')\<lparr>riRequestURI := ''sip:6000@pbx'', riInviteCSeq := 1\<rparr>"
  have "bstep (New 1000 demoConfig) retainedDemo"
    by (rule bstep.quiet) (simp add: quiet_def retainedDemo_def okRetained_def newRetained_def)
  then have inv: "bridgeInv retainedDemo" using br.step_inv New_inv by blast
  have ri: "retainedInvites retainedDemo ''c1'' = Some ?ri" by (simp add: retainedDemo_def)
  have final: "finalFor lateAnswer ?ri" by code_simp
  have out: "outputs retainedDemo = []" by (simp add: retainedDemo_def New_def Let_def)
  show ?thesis
    using late_answer_cleared_once[OF inv ri final, of demoPBX "demoEnv 8" "demoEnv 9"]
    by (simp add: demoEnv_total out lateAnswer_def newRetained_def)
qed



text \<open>C18: A tick of the retransmission loop sends the INVITE again unchanged and arms the next tick with twice the
  interval, at most four seconds; once a provisional response or the answer has arrived it sends nothing and the loop ends.\<close>

theorem invite_retransmitted_until_response:
  assumes "map_of (inviteLoops b) cid = Some i" "map_of (callsBySIP b) cid = Some r" "\<not> Released (heap b r)"
    "SIPPeer (heap b r) = Some peer" "bSender b" "writes e (length (outputs b))" "distinct (map fst (inviteLoops b))"
  shows "if SIPInviteProvisional (heap b r) \<or> SIPAnswered (heap b r)
    then outputs (retransmitTick e cid b) = outputs b \<and> timers (retransmitTick e cid b) = timers b \<and>
      map_of (inviteLoops (retransmitTick e cid b)) cid = None
    else outputs (retransmitTick e cid b) = outputs b @ [SipRequest ''INVITE'' cid (SIPInvite (heap b r)) peer] \<and>
      timers (retransmitTick e cid b) = timers b @ [(now e + nextInterval i, TRetransmit cid)] \<and>
      map_of (inviteLoops (retransmitTick e cid b)) cid = Some (nextInterval i)"
  using retransmitTick_waiting[OF assms(1-3) _ _ assms(4-6)] retransmitTick_settled[of b cid e] assms(1,2,7) by auto

theorem invite_retransmitted_until_response_witness:
  "outputs (retransmitTick (demoEnv 9) ''c1'' waitingDemo) = [SipRequest ''INVITE'' ''c1'' ''I'' demoPBX] \<and>
   timers (retransmitTick (demoEnv 9) ''c1'' waitingDemo) = [(9 + seconds 2, TRetransmit ''c1'')]"
proof -
  have "nextInterval (seconds 1) = seconds 2" by code_simp
  with invite_retransmitted_until_response[of waitingDemo "''c1''" "seconds 1" 0 demoPBX "demoEnv 9"] show ?thesis
    by (simp add: waitingDemo_def SetSIPSender_def New_def Let_def zeroCall_def demoEnv_def)
qed


text \<open>When the deadline of the INVITE passes while its loop is alive, a call that has been answered meanwhile is
  released although no BYE (nor any other SIP request) is sent for it.\<close>

theorem deadline_drops_answered_call:
  assumes "map_of (inviteLoops b) cid = Some i" "map_of (callsBySIP b) cid = Some r" "r < nextRef b"
    "SIPAnswered (heap b r)"
  shows "Released (heap (inviteTimeout e cid b) r) \<and>
    sipMethods (outputs (inviteTimeout e cid b)) = sipMethods (outputs b)"
  by (rule inviteTimeout_answered[OF assms])

theorem deadline_drops_answered_call_witness:
  "SIPAnswered (heap answeredDemo 0) \<and> Released (heap (inviteTimeout (demoEnv 9) ''c1'' answeredDemo) 0) \<and>
   sipMethods (outputs (inviteTimeout (demoEnv 9) ''c1'' answeredDemo)) = []"
  using deadline_drops_answered_call[of answeredDemo "''c1''" "seconds 4" 0 "demoEnv 9"]
  by (simp add: answeredDemo_def New_def Let_def)

text \<open>C30: A 2xx whose session description cannot be used makes the gateway release the call, but neither a BYE nor a
  CANCEL follows the ACK: the dialog stays up at the other end.\<close>

theorem invalid_answer_not_cleared:
  assumes "updateSIPRemoteMedia e r (smBody msg) b = (False, b)" "SIPInviteFinal (heap b r)"
    "\<not> SIPAnswered (heap b r)" "Direction (heap b r) = ''h248-to-sip''"
  shows "Released (heap (handleAnswer e msg r b) r) \<and>
    sipMethods (outputs (handleAnswer e msg r b)) = sipMethods (outputs b)"
  using handleAnswer_invalid[of e r msg b] assms by simp

theorem invalid_answer_not_cleared_witness:
  "smStatus lateAnswer = 200 \<and> Released (heap (handleAnswer (demoEnv 9) lateAnswer 0 finalDemo) 0) \<and>
   sipMethods (outputs (handleAnswer (demoEnv 9) lateAnswer 0 finalDemo)) = []"
proof -
  have "isl (ParseSDP [])" by code_simp
  then obtain err where "ParseSDP [] = Inl err" by (cases "ParseSDP []") auto
  then have "updateSIPRemoteMedia (demoEnv 9) 0 (smBody lateAnswer) finalDemo = (False, finalDemo)"
    by (simp add: updateSIPRemoteMedia_def lateAnswer_def)
  from invalid_answer_not_cleared[OF this] show ?thesis
    by (simp add: finalDemo_def New_def Let_def zeroCall_def lateAnswer_def)
qed

end
