(* ===== verification/Bridge_Replies.thy ===== *)
theory Bridge_Replies
  imports Bridge_Behaviour
begin

text \<open>
  The replies of the bridge to H.248 requests.  Every transaction is given exactly one reply through
  the responder it came with, on every branch of the handler; no other callback and no timer gives a
  reply.
\<close>

subsection \<open>Replies of a handler\<close>

text \<open>The replies a list of outputs hands to an H.248 responder; one whose write fails counts, because the
  server caches a reply before it writes it.\<close>

fun h248ReplyOf :: "bridge_output \<Rightarrow> (h248_responder \<times> string) list" where
  "h248ReplyOf (H248Reply rp m) = [(rp, m)]"
| "h248ReplyOf (WriteFailed (H248Reply rp m)) = [(rp, m)]"
| "h248ReplyOf out = []"

definition h248Replies :: "bridge_output list \<Rightarrow> (h248_responder \<times> string) list" where
  "h248Replies outs = concat (map h248ReplyOf outs)"

abbreviation replies :: "bridge \<Rightarrow> (h248_responder \<times> string) list" where
  "replies b \<equiv> h248Replies (outputs b)"

lemma h248Replies_append [simp]: "h248Replies (a @ b) = h248Replies a @ h248Replies b"
  by (simp add: h248Replies_def)

lemma h248Replies_simps [simp]: "h248Replies [] = []" "h248Replies [out] = h248ReplyOf out"
  by (simp_all add: h248Replies_def)

lemma h248Replies_socks [simp]: "h248Replies (map Sock evs) = []"
  by (induction evs) (simp_all add: h248Replies_def)

lemma outputs_frames [simp]:
  "outputs (putRetained ri b) = outputs b" "outputs (insertH248 r b) = outputs b"
  "outputs (updMedia r f b) = outputs b" "outputs (snd (allocCall c b)) = outputs b"
  "outputs (snd (newH248TransactionID b)) = outputs b"
  "outputs (snd (allocateCallIdentifiersLocked b)) = outputs b"
  by (simp_all add: putRetained_def insertH248_def updMedia_def allocCall_def newH248TransactionID_def
      allocateCallIdentifiersLocked_def allocateRTPPortLocked_def Let_def)

lemma replies_sendOut:
  "replies (snd (sendOut e out b)) = replies b @ h248ReplyOf (if writes e (length (outputs b)) then out else WriteFailed out)"
  by (simp add: sendOut_eq)

lemma replies_line [simp]:
  "replies (sendInitialOnhook e b) = replies b" "replies (snd (sendCallLineEvent e r ev ph b)) = replies b"
  "replies (tryAnswerH248 e r b) = replies b" "replies (sendOnhook e r b) = replies b"
  by (simp_all add: sendInitialOnhook_def sendCallLineEvent_def tryAnswerH248_def sendOnhook_def
      newH248TransactionID_def sendOut_eq Let_def split: option.split)

lemma replies_dialog [simp]:
  "replies (snd (sendSIPOriginatedResponse e r st rs sdp b)) = replies b"
  "replies (snd (writeTo e m cid msg p b)) = replies b"
  "replies (retainSIPInvite e r b) = replies b"
  "replies (byeAsServer e r peer b) = replies b"
  by (simp_all add: sendSIPOriginatedResponse_def writeTo_def retainSIPInvite_def byeAsServer_def sendOut_eq Let_def
      retainedFor_def scheduleRetainedSIPInviteExpiry_def split: option.split prod.split)

lemma replies_answer [simp]:
  "replies (answerSIPOriginatedCall e r b) = replies b"
  "replies (failSIPOriginatedCall e r st rs b) = replies b"
  "replies (failOrigination e r st rs b) = replies b"
  using replies_dialog(1) [of e r 200 "''OK''" True b]
  by (simp_all add: answerSIPOriginatedCall_def failSIPOriginatedCall_def failOrigination_def case_prod_unfold)

lemma replies_teardown [simp]:
  "replies (teardownAsClient e r peer b) = replies b" "replies (sendSIPTeardown e r b) = replies b"
proof -
  show c: "replies (teardownAsClient e r peer b) = replies b" for peer
    using replies_dialog(3) [of e r]
    by (simp add: teardownAsClient_def Let_def sendOut_eq split: prod.split)
  show "replies (sendSIPTeardown e r b) = replies b"
    by (simp add: sendSIPTeardown_def Let_def c split: option.split)
qed

lemma replies_calls [simp]:
  "replies (startSIPInvite e r b) = replies b" "replies (scheduleOriginationDigits e r b) = replies b"
  "replies (snd (learnH248Media e r t b)) = replies b" "replies (negotiateOutboundDTMF r msg b) = replies b"
  "replies (snd (openRelay e c b)) = replies b"
  "replies (handleCarrierRelease e r rel b) = replies b"
  by (simp_all add: startSIPInvite_def scheduleOriginationDigits_def learnH248Media_def negotiateOutboundDTMF_def
      openRelay_def handleCarrierRelease_def sendOut_eq Let_def split: option.split prod.split sum.split)

lemma replies_line_command [simp]: "replies (processLineCommand e rid cmd rp b) = replies b"
  by (simp add: processLineCommand_def Let_def split: option.split)

lemma replies_call_command [simp]: "replies (processCallCommand e rid cmd rp r b) = replies b"
  by (simp add: processCallCommand_def Let_def case_prod_unfold)

lemma replies_release_all [simp]: "replies (releaseAllCallsFromCarrier e b) = replies b"
proof -
  have "replies (foldl (\<lambda>b r. handleCarrierRelease e r True b) b rs) = replies b" for rs
    by (induction rs arbitrary: b) simp_all
  then show ?thesis by (simp add: releaseAllCallsFromCarrier_def)
qed

lemma replies_process [simp]: "replies (processH248Command e msg rp b cmd) = replies b"
  by (simp add: processH248Command_def Let_def split: option.split)

lemma replies_process_all [simp]: "replies (foldl (processH248Command e msg rp) b cmds) = replies b"
  by (induction cmds arbitrary: b) simp_all

text \<open>What a responder is given: one reply to the request.\<close>

definition isReplyTo :: "h248_message \<Rightarrow> string \<Rightarrow> bool" where
  "isReplyTo msg m \<longleftrightarrow> (\<exists>mid parts. m = BuildReply msg mid parts)"

definition answered :: "h248_responder \<Rightarrow> h248_message \<Rightarrow> bridge \<Rightarrow> bridge \<Rightarrow> bool" where
  "answered rp msg b b' \<longleftrightarrow> (\<exists>m. isReplyTo msg m \<and> replies b' = replies b @ [(rp, m)])"

lemma isReplyTo_built [simp]: "isReplyTo msg (BuildReply msg mid parts)" "isReplyTo msg (BuildActionReply msg mid acts)"
    "isReplyTo msg (BuildErrorReply msg mid code d)" "isReplyTo msg (addReply msg c b)"
  by (auto simp: isReplyTo_def BuildActionReply_def BuildErrorReply_def addReply_def buildIncomingAddReply_def Let_def)

lemma isReplyTo_nonempty: "isReplyTo msg m \<Longrightarrow> m \<noteq> []"
  by (auto simp: isReplyTo_def BuildReply_def Let_def)

lemma respond_answered:
  "isReplyTo msg m \<Longrightarrow> replies b0 = replies b \<Longrightarrow> answered rp msg b (snd (respondH248 e rp m b0))"
  by (auto simp: answered_def respondH248_def replies_sendOut)

lemma answered_trans: "answered rp msg b b1 \<Longrightarrow> replies b' = replies b1 \<Longrightarrow> answered rp msg b b'"
  by (simp add: answered_def)

lemma error_answered: "replies b0 = replies b \<Longrightarrow> answered rp msg b (respondError e rp msg code d b0)"
  unfolding respondError_def by (rule respond_answered) simp_all

text \<open>After the reply, whichever way the handler goes on, no other reply follows.\<close>

lemma respond_then:
  assumes "isReplyTo msg m" "replies b0 = replies b" "\<And>b'. replies (f b') = replies b'" "\<And>b'. replies (g b') = replies b'"
  shows "answered rp msg b (case respondH248 e rp m b0 of (ok, b1) \<Rightarrow> if ok then f b1 else g b1)"
  using respond_answered [OF assms(1,2), of rp e] assms(3,4)
  by (auto simp: case_prod_unfold intro: answered_trans)

lemma incoming_answered: "answered rp msg b (handleIncomingCallAdd e msg rp b)"
proof (cases "ExtractRemoteMedia (msgRaw msg)")
  case None
  then show ?thesis by (simp add: handleIncomingCallAdd_def error_answered)
next
  case (Some media)
  show ?thesis
  proof (cases "resolveMedia e (mdIP media) (mdPort media)")
    case None
    then show ?thesis using Some by (simp add: handleIncomingCallAdd_def error_answered)
  next
    case r: (Some remote)
    obtain ids b1 where i: "allocateCallIdentifiersLocked b = (ids, b1)" by (rule prod.exhaust)
    have o1: "outputs b1 = outputs b" using outputs_frames(6) [of b] i by simp
    let ?c0 = "incomingCall e (bCfg b) msg rp remote media ids"
    obtain relay b2 where o: "openRelay e ?c0 b1 = (relay, b2)" by (rule prod.exhaust)
    have o2: "replies b2 = replies b" using replies_calls(5) [of e ?c0 b1] o o1 by simp
    show ?thesis
    proof (cases relay)
      case None
      then show ?thesis using Some r i o o2 by (simp add: handleIncomingCallAdd_def error_answered)
    next
      case m: (Some mr)
      let ?c = "?c0\<lparr>Media := Some (SetH248Peer (Some remote) (H248TelephoneEventPT ?c0) mr)\<rparr>"
      obtain rr b3 where a: "allocCall ?c b2 = (rr, b3)" by (rule prod.exhaust)
      have "replies (insertH248 rr b3) = replies b" using outputs_frames(4) [of ?c b2] a o2 by simp
      then show ?thesis
        using Some r i o m a by (simp add: handleIncomingCallAdd_def Let_def respond_then)
    qed
  qed
qed

lemma outbound_answered: "answered rp msg b (handleOutboundCallAdd e msg rp r b)"
  unfolding handleOutboundCallAdd_def Let_def
  by (simp only: split: if_split) (intro conjI impI error_answered respond_then; simp)

lemma HandleH248_answered: "msgType msg = ''Transaction'' \<Longrightarrow> answered rp msg b (HandleH248 e msg rp b)"
  by (auto simp: HandleH248_def incoming_answered outbound_answered error_answered split: option.split sum.split
      intro!: respond_then)

subsection \<open>The other handlers give no replies\<close>

lemma replies_respondSIP [simp]: "replies (respondSIP e rp msg st rs body ct ex b) = replies b"
  by (simp add: respondSIP_def replies_sendOut)

lemma replies_media [simp]: "replies (snd (updateSIPRemoteMedia e r body b)) = replies b"
    "replies (snd (updateFromBody e r msg b)) = replies b"
  by (simp_all add: updateSIPRemoteMedia_def updateFromBody_def Let_def split: sum.split option.split)

lemma replies_retained [simp]:
  "replies (sendInviteACKForTransaction e cid uri from via br cs resp peer b) = replies b"
  "replies (refreshRetainedSIPInvite e cid b) = replies b"
  "replies (sendLateAnswerBYE e cid msg b) = replies b"
  "replies (sendInviteACK e r msg peer b) = replies b" "replies (sendPRACK e r msg rs b) = replies b"
  by (simp_all add: sendInviteACKForTransaction_def refreshRetainedSIPInvite_def sendLateAnswerBYE_def sendInviteACK_def
      sendPRACK_def scheduleRetainedSIPInviteExpiry_def sendOut_eq Let_def split: option.split)

lemma replies_retained_response [simp]: "replies (handleRetainedSIPInviteResponse e cid msg b) = replies b"
  by (simp add: handleRetainedSIPInviteResponse_def Let_def split: option.split)

lemma replies_offhook [simp]:
  "replies (scheduleOriginationOffhook e r b) = replies b" "replies (sendOriginationOffhook e r b) = replies b"
  "replies (sendOriginationDigits e r b) = replies b"
  by (simp_all add: scheduleOriginationOffhook_def sendOriginationOffhook_def sendOriginationDigits_def
      newH248TransactionID_def sendOut_eq Let_def split: option.split)

lemma replies_admit [simp]: "replies (snd (admitInvite e msg rp rm off b)) = replies b"
  using outputs_frames(4,6) by (simp add: admitInvite_def case_prod_unfold)

lemma replies_start [simp]: "replies (startOrigination e rm r b) = replies b"
proof -
  obtain m b1 where o: "openRelay e (heap b r) b = (m, b1)" by (rule prod.exhaust)
  then have "replies b1 = replies b" using replies_calls(5) [of e "heap b r" b] by simp
  then show ?thesis by (cases m) (simp_all add: startOrigination_def o Let_def)
qed

lemma replies_new_invite [simp]: "replies (handleNewSIPInvite e msg rp b) = replies b"
  by (simp add: handleNewSIPInvite_def Let_def replies_sendOut case_prod_unfold split: option.split)

lemma replies_in_dialog [simp]:
  "replies (handleSIPBye e msg rp b) = replies b" "replies (handleSIPCancel e msg rp b) = replies b"
  "replies (handleSIPSessionUpdate e msg rp b) = replies b"
  "handleSIPReinvite e msg rp b = Some b' \<Longrightarrow> replies b' = replies b"
  using replies_media(2) [of e _ msg b]
  by (auto simp: handleSIPBye_def handleSIPCancel_def handleSIPSessionUpdate_def handleSIPReinvite_def noSuchCall_def
      Let_def case_prod_unfold split: option.splits if_splits)

lemma replies_responses [simp]:
  "replies (handleProvisional e msg r b) = replies b" "replies (handleAnswer e msg r b) = replies b"
  "replies (handleFinalFailure e r b) = replies b"
  by (simp_all add: handleProvisional_def handleAnswer_def handleFinalFailure_def Let_def case_prod_unfold)

lemma replies_response [simp]: "replies (handleSIPResponse e msg b) = replies b"
  by (simp add: handleSIPResponse_def handleInviteResponse_def Let_def split: option.split)

lemma replies_HandleSIP [simp]: "replies (HandleSIP e msg rp b) = replies b"
  by (auto simp: HandleSIP_def Let_def split: option.split)

lemma replies_timers [simp]: "replies (fireTimer e t b) = replies b"
proof -
  have "replies (retransmitTick e cid b) = replies b" "replies (inviteTimeout e cid b) = replies b"
    "replies (expireRetained e ref cid b) = replies b" for cid ref b
    by (simp_all add: retransmitTick_def inviteTimeout_def expireRetained_def endInviteLoop_def Let_def split: option.split)
  then show ?thesis
    by (cases "snd t") (simp_all add: fireTimer_def runTimer_def dropTimer_def)
qed

lemma replies_lifecycle [simp]:
  "replies (HandleH248Ready e rp b) = replies b" "replies (HandleH248Unavailable e b) = replies b"
  "replies (HandleH248Response e msg b) = replies b"
proof -
  have "replies (foldl (\<lambda>b r. releaseCall r (sendSIPTeardown e r b)) b0 rs) = replies b0" for b0 rs
    by (induction rs arbitrary: b0) simp_all
  then show "replies (HandleH248Unavailable e b) = replies b"
    by (simp add: HandleH248Unavailable_def Let_def)
  show "replies (HandleH248Ready e rp b) = replies b" by (simp add: HandleH248Ready_def Let_def)
  show "replies (HandleH248Response e msg b) = replies b"
    by (simp add: HandleH248Response_def Let_def split: option.split)
qed

end
