(* ===== verification/Gateway_System.thy ===== *)
theory Gateway_System
  imports Bridge_Replies Gateway_Config Gateway_Scenario
begin

text \<open>
  The gateway as a whole (\<^verbatim>\<open>cmd/gateway/main.go\<close>): the start from a configuration file, and the two
  servers composed with the bridge.  A datagram goes through its server to the handler of the bridge;
  the replies the handler gives are cached by the server that made the responder.  Registration and
  the watchdog drive the two callbacks of the line.  One event is one step.
\<close>

subsection \<open>State\<close>

record gateway =
  gwBridge :: bridge
  gwH248 :: h248_server
  gwSip :: sip_server
  gwResent :: "(string \<times> udp_addr) list"

text \<open>The datagrams the servers answer from their caches are appended to \<open>gwResent\<close>; all others are
  outputs of the bridge.\<close>

datatype start_error = LoadFailed config_error | ValidateFailed config_error | UnsupportedTransport

text \<open>How \<^verbatim>\<open>main\<close> ends or goes on: the version is printed, the report of \<^verbatim>\<open>-check-config\<close> is printed,
  the process exits with an error, or the servers run.\<close>

datatype main_outcome =
    VersionPrinted
  | ConfigurationValid string string string string int int
  | Exited start_error
  | Started gateway

definition h248ServerConfig :: "config \<Rightarrow> h248_server_config" where
  "h248ServerConfig cfg =
     (let h = cfgH248 cfg in
      \<lparr> hcAddress = h248Listen h, hcDevice = h248BindDevice h, hcMGC = h248MGC h, hcBackupMGC = h248BackupMGC h,
        hcMID = h248MGID h, hcVersion = h248Version h, hcMethod = h248SCMethod h, hcReason = h248SCReason h,
        hcProfile = h248SCProfile h, hcSCAddress = h248SCAddress h, hcRetrySeconds = h248SCRetrySeconds h,
        hcMaxAttempts = h248SCMaxAttempts h, hcFailureTimeoutSeconds = h248FailureTimeoutSeconds h,
        hcPhysicalTermination = h248PhysicalTermination h \<rparr>)"

text \<open>\<^verbatim>\<open>main\<close> up to the start of the servers; \<open>file\<close> is the content of the configuration file and the
  first two arguments are the flags \<^verbatim>\<open>-version\<close> and \<^verbatim>\<open>-check-config\<close>.\<close>

definition gatewayMain :: "bool \<Rightarrow> bool \<Rightarrow> int \<Rightarrow> string option \<Rightarrow> main_outcome" where
  "gatewayMain showVersion checkConfig now0 file =
     (if showVersion then VersionPrinted
      else
        (case Load file of
           Inl e \<Rightarrow> Exited (LoadFailed e)
         | Inr cfg \<Rightarrow>
             (case Validate cfg of
                Some e \<Rightarrow> Exited (ValidateFailed e)
              | None \<Rightarrow>
                  if checkConfig
                  then ConfigurationValid (sipListen (cfgSIP cfg)) (h248Listen (cfgH248 cfg)) (h248MGC (cfgH248 cfg))
                         (h248BackupMGC (cfgH248 cfg)) (mediaPortMin (cfgMedia cfg)) (mediaPortMax (cfgMedia cfg))
                  else
                    (let callBridge = New now0 cfg;
                         sipServer = newSipServer;
                         callBridge = SetSIPSender callBridge
                     in if h248Transport (cfgH248 cfg) \<noteq> ''udp'' \<or> h248Encoding (cfgH248 cfg) \<noteq> ''text''
                        then Exited UnsupportedTransport
                        else Started \<lparr> gwBridge = callBridge, gwH248 = NewUDPServer (h248ServerConfig cfg),
                                      gwSip = sipServer\<lparr>srListening := True\<rparr>, gwResent = [] \<rparr>))))"

subsection \<open>Steps\<close>

fun sipReplyOf :: "bridge_output \<Rightarrow> (sip_responder \<times> string) list" where
  "sipReplyOf (SipReply rp st m) = [(rp, m)]"
| "sipReplyOf (WriteFailed (SipReply rp st m)) = [(rp, m)]"
| "sipReplyOf out = []"

definition sipReplies :: "bridge_output list \<Rightarrow> (sip_responder \<times> string) list" where
  "sipReplies outs = concat (map sipReplyOf outs)"

text \<open>The state after a handler has run: its replies went through \<^verbatim>\<open>Respond\<close> of the servers.\<close>

definition deliver :: "env \<Rightarrow> bridge \<Rightarrow> gateway \<Rightarrow> gateway" where
  "deliver e b' g =
     (let b = gwBridge g;
          hs = drop (length (h248Replies (outputs b))) (h248Replies (outputs b'));
          ss = drop (length (sipReplies (outputs b))) (sipReplies (outputs b'))
      in g\<lparr>gwBridge := b',
           gwH248 := fold (\<lambda>r s. fst (Respond (fst r) (snd r) s)) hs (gwH248 g),
           gwSip := fold (\<lambda>r s. fst (sipRespond (now e) (fst r) (snd r) s)) ss (gwSip g)\<rparr>)"

definition receiveH248 :: "env \<Rightarrow> string \<Rightarrow> udp_addr \<Rightarrow> gateway \<Rightarrow> gateway" where
  "receiveH248 e data remote g =
     (case handle True (now e) data remote (gwH248 g) of (s, out) \<Rightarrow>
        (let g1 = g\<lparr>gwH248 := s\<rparr> in
         case out of
           Dispatch msg rp \<Rightarrow> deliver e (HandleH248 e msg rp (gwBridge g1)) g1
         | LifecycleResponse msg rp \<Rightarrow> deliver e (HandleH248Response e msg (gwBridge g1)) g1
         | Duplicate m to \<Rightarrow> g1\<lparr>gwResent := gwResent g1 @ [(m, to)]\<rparr>
         | _ \<Rightarrow> g1))"

definition receiveSIP :: "env \<Rightarrow> string \<Rightarrow> udp_addr \<Rightarrow> gateway \<Rightarrow> gateway" where
  "receiveSIP e data remote g =
     (case sipHandle (now e) (now e) data remote (gwSip g) of (s, out) \<Rightarrow>
        (let g1 = g\<lparr>gwSip := s\<rparr> in
         case out of
           SipDispatch msg rp \<Rightarrow> deliver e (HandleSIP e msg rp (gwBridge g1)) g1
         | SipDuplicate m to \<Rightarrow> g1\<lparr>gwResent := gwResent g1 @ [(m, to)]\<rparr>
         | _ \<Rightarrow> g1))"

datatype gateway_event =
    H248Datagram string udp_addr
  | SipDatagram string udp_addr
  | TimerDue "int \<times> timer"
  | Registration udp_addr int int "reg_event list" "reg_event list"
  | ControllerCheck udp_addr

definition gatewayStep :: "env \<Rightarrow> gateway_event \<Rightarrow> gateway \<Rightarrow> gateway" where
  "gatewayStep e ev g =
     (case ev of
        H248Datagram data remote \<Rightarrow> receiveH248 e data remote g
      | SipDatagram data remote \<Rightarrow> receiveSIP e data remote g
      | TimerDue t \<Rightarrow>
          if t \<in> set (timers (gwBridge g)) \<and> fst t \<le> now e then deliver e (fireTimer e t (gwBridge g)) g else g
      | Registration remote t1 t2 evs1 evs2 \<Rightarrow>
          (case serviceChangeLoop t1 t2 (now e) remote evs1 evs2 (gwH248 g) of (s, ready, sent) \<Rightarrow>
             (let g1 = g\<lparr>gwH248 := s\<rparr>
              in if ready
                 then deliver e (HandleH248Ready e \<lparr> rpRemote = remote, rpCacheKey = [] \<rparr> (gwBridge g1)) g1
                 else g1))
      | ControllerCheck remote \<Rightarrow>
          if watchTick (now e) remote (gwH248 g)
          then (let g1 = g\<lparr>gwH248 := giveUpMGC remote (gwH248 g)\<rparr>
                in deliver e (HandleH248Unavailable e (gwBridge g1)) g1)
          else g)"

definition gatewayRun :: "(env \<times> gateway_event) list \<Rightarrow> gateway \<Rightarrow> gateway" where
  "gatewayRun evs g = fold (\<lambda>(e, ev). gatewayStep e ev) evs g"

text \<open>The end of \<^verbatim>\<open>main\<close>, with the exit status: on a signal, or when a server ends because its socket was
  closed, the deferred \<^verbatim>\<open>Close\<close> of the bridge runs; on any other error of a server the process exits at once.\<close>

datatype stop_cause = Signalled | SocketClosed | ServerFailed

definition gatewayStop :: "stop_cause \<Rightarrow> gateway \<Rightarrow> nat \<times> gateway" where
  "gatewayStop cause g =
     (if cause = ServerFailed then (1, g)
      else (0, g\<lparr>gwBridge := CloseBridge (gwBridge g), gwSip := (gwSip g)\<lparr>srListening := False\<rparr>\<rparr>))"

subsection \<open>Frames\<close>

lemma deliver_bridge [simp]: "gwBridge (deliver e b' g) = b'"
  by (simp add: deliver_def Let_def)

lemma deliver_resent [simp]: "gwResent (deliver e b' g) = gwResent g"
  by (simp add: deliver_def Let_def)

lemma deliver_quiet: "replies b' = replies (gwBridge g) \<Longrightarrow> gwH248 (deliver e b' g) = gwH248 g"
  by (simp add: deliver_def Let_def)

lemma deliver_reply:
  "replies b' = replies (gwBridge g) @ [(rp, m)] \<Longrightarrow> gwH248 (deliver e b' g) = cacheReply (rpCacheKey rp) m (gwH248 g)"
  by (simp add: deliver_def Let_def Respond_def)

subsection \<open>Runs of the components\<close>

lemma deliver_serverStep: "serverStep\<^sup>*\<^sup>* (gwH248 g) (gwH248 (deliver e b' g))"
proof -
  have "serverStep\<^sup>*\<^sup>* s (fold (\<lambda>r s. fst (Respond (fst r) (snd r) s)) rs s)" for rs s
    by (induction rs arbitrary: s) (auto intro: converse_rtranclp_into_rtranclp serverStep.reply)
  then show ?thesis by (simp add: deliver_def Let_def)
qed

lemma deliver_sipStep: "sipStep\<^sup>*\<^sup>* (gwSip g) (gwSip (deliver e b' g))"
proof -
  have "sipStep\<^sup>*\<^sup>* s (fold (\<lambda>r s. fst (sipRespond t (fst r) (snd r) s)) rs s)" for rs s t
    by (induction rs arbitrary: s) (auto intro: converse_rtranclp_into_rtranclp sipStep.reply)
  then show ?thesis by (simp add: deliver_def Let_def)
qed

lemma deliver_sip_frame [simp]: "gwSip (g\<lparr>gwH248 := s\<rparr>) = gwSip g" "gwH248 (g\<lparr>gwSip := t\<rparr>) = gwH248 g"
  by simp_all

lemma receiveH248_cases:
  obtains (quiet) "gwBridge (receiveH248 e data remote g) = gwBridge g"
      "gwH248 (receiveH248 e data remote g) = fst (handle True (now e) data remote (gwH248 g))"
      "gwSip (receiveH248 e data remote g) = gwSip g"
  | (dispatch) msg rp where "snd (handle True (now e) data remote (gwH248 g)) = Dispatch msg rp"
      "receiveH248 e data remote g =
        deliver e (HandleH248 e msg rp (gwBridge g)) (g\<lparr>gwH248 := fst (handle True (now e) data remote (gwH248 g))\<rparr>)"
  | (response) msg rp where "snd (handle True (now e) data remote (gwH248 g)) = LifecycleResponse msg rp"
      "receiveH248 e data remote g =
        deliver e (HandleH248Response e msg (gwBridge g)) (g\<lparr>gwH248 := fst (handle True (now e) data remote (gwH248 g))\<rparr>)"
  by (cases "snd (handle True (now e) data remote (gwH248 g))")
    (simp_all add: receiveH248_def case_prod_unfold Let_def)

lemma receiveSIP_cases:
  obtains (quiet) "gwBridge (receiveSIP e data remote g) = gwBridge g"
      "gwSip (receiveSIP e data remote g) = fst (sipHandle (now e) (now e) data remote (gwSip g))"
      "gwH248 (receiveSIP e data remote g) = gwH248 g"
  | (dispatch) msg rp where
      "receiveSIP e data remote g =
        deliver e (HandleSIP e msg rp (gwBridge g)) (g\<lparr>gwSip := fst (sipHandle (now e) (now e) data remote (gwSip g))\<rparr>)"
  by (cases "snd (sipHandle (now e) (now e) data remote (gwSip g))")
    (simp_all add: receiveSIP_def case_prod_unfold Let_def)

lemma gatewayStep_reach: "reach cfg (gwBridge g) \<Longrightarrow> reach cfg (gwBridge (gatewayStep e ev g))"
proof (cases ev)
  case (H248Datagram data remote)
  assume "reach cfg (gwBridge g)"
  then show ?thesis unfolding H248Datagram
    by (cases rule: receiveH248_cases [of e data remote g])
      (auto simp: gatewayStep_def intro: reach.intros)
next
  case (SipDatagram data remote)
  assume "reach cfg (gwBridge g)"
  then show ?thesis unfolding SipDatagram
    by (cases rule: receiveSIP_cases [of e data remote g])
      (auto simp: gatewayStep_def intro: reach.intros)
next
  case (TimerDue t)
  assume "reach cfg (gwBridge g)"
  then show ?thesis unfolding TimerDue
    by (cases t) (auto simp: gatewayStep_def intro: reach.timer)
qed (auto simp: gatewayStep_def Let_def intro: reach.intros split: prod.split)

text \<open>A step of a server followed by the replies of the handler.\<close>

lemma server_then_deliver:
  "serverStep s0 s \<Longrightarrow> serverStep\<^sup>*\<^sup>* s0 (gwH248 (deliver e b' (g\<lparr>gwH248 := s\<rparr>)))"
  using deliver_serverStep [of "g\<lparr>gwH248 := s\<rparr>" e b'] by (simp add: converse_rtranclp_into_rtranclp)

lemma sip_then_deliver:
  "sipStep s0 s \<Longrightarrow> sipStep\<^sup>*\<^sup>* s0 (gwSip (deliver e b' (g\<lparr>gwSip := s\<rparr>)))"
  using deliver_sipStep [of "g\<lparr>gwSip := s\<rparr>" e b'] by (simp add: converse_rtranclp_into_rtranclp)

lemma deliver_other:
  "serverStep\<^sup>*\<^sup>* (gwH248 g) (gwH248 (deliver e b' (g\<lparr>gwSip := t\<rparr>)))"
  "sipStep\<^sup>*\<^sup>* (gwSip g) (gwSip (deliver e b' (g\<lparr>gwH248 := s\<rparr>)))"
  using deliver_serverStep [of "g\<lparr>gwSip := t\<rparr>" e b'] deliver_sipStep [of "g\<lparr>gwH248 := s\<rparr>" e b'] by simp_all

lemma gatewayStep_serverStep: "serverStep\<^sup>*\<^sup>* (gwH248 g) (gwH248 (gatewayStep e ev g))"
proof (cases ev)
  case (H248Datagram data remote)
  show ?thesis unfolding H248Datagram
    by (cases rule: receiveH248_cases [of e data remote g])
      (auto simp: gatewayStep_def intro: server_then_deliver serverStep.datagram)
next
  case (SipDatagram data remote)
  show ?thesis unfolding SipDatagram
    by (cases rule: receiveSIP_cases [of e data remote g]) (auto simp: gatewayStep_def deliver_other)
next
  case (Registration remote t1 t2 evs1 evs2)
  then show ?thesis
    by (auto simp: gatewayStep_def Let_def case_prod_unfold intro: server_then_deliver serverStep.register)
qed (auto simp: gatewayStep_def Let_def intro: server_then_deliver serverStep.giveUp deliver_serverStep)

lemma gatewayStep_sipStep: "sipStep\<^sup>*\<^sup>* (gwSip g) (gwSip (gatewayStep e ev g))"
proof (cases ev)
  case (SipDatagram data remote)
  show ?thesis unfolding SipDatagram
    by (cases rule: receiveSIP_cases [of e data remote g])
      (auto simp: gatewayStep_def intro: sip_then_deliver sipStep.datagram)
next
  case (H248Datagram data remote)
  show ?thesis unfolding H248Datagram
    by (cases rule: receiveH248_cases [of e data remote g]) (auto simp: gatewayStep_def deliver_other)
qed (auto simp: gatewayStep_def Let_def case_prod_unfold deliver_other deliver_sipStep)

lemma gatewayRun_simps [simp]:
  "gatewayRun [] g = g" "gatewayRun ((e, ev) # evs) g = gatewayRun evs (gatewayStep e ev g)"
  by (simp_all add: gatewayRun_def)

lemma gatewayRun_reach: "reach cfg (gwBridge g) \<Longrightarrow> reach cfg (gwBridge (gatewayRun evs g))"
proof (induction evs arbitrary: g)
  case (Cons x evs)
  show ?case using Cons.IH [OF gatewayStep_reach [OF Cons.prems]] by (cases x) simp
qed simp

lemma gatewayRun_serverStep: "serverStep\<^sup>*\<^sup>* (gwH248 g) (gwH248 (gatewayRun evs g))"
proof (induction evs arbitrary: g)
  case (Cons x evs)
  show ?case using rtranclp_trans [OF gatewayStep_serverStep Cons] by (cases x) auto
qed simp

lemma gatewayRun_sipStep: "sipStep\<^sup>*\<^sup>* (gwSip g) (gwSip (gatewayRun evs g))"
proof (induction evs arbitrary: g)
  case (Cons x evs)
  show ?case using rtranclp_trans [OF gatewayStep_sipStep Cons] by (cases x) auto
qed simp

lemma gatewayMain_started:
  assumes "gatewayMain False False now0 file = Started g"
  shows "\<exists>cfg. Load file = Inr cfg \<and> Validate cfg = None \<and> reach cfg (gwBridge g) \<and>
    gwH248 g = NewUDPServer (h248ServerConfig cfg) \<and> sipStep newSipServer (gwSip g)"
  using assms by (auto simp: gatewayMain_def split: sum.splits option.splits if_splits
      intro: reach.sender [OF reach.initial] sipStep.listen)

subsection \<open>Replies stay available\<close>

text \<open>The reply under a key, with fewer than \<open>n\<close> others recorded after it.\<close>

definition alive :: "string \<Rightarrow> string \<Rightarrow> nat \<Rightarrow> h248_server \<Rightarrow> bool" where
  "alive k m n s \<longleftrightarrow> h248CacheInv s \<and> k \<in> set (cacheOrder s) \<and> replyCache s k = Some m \<and>
     younger k (cacheOrder s) \<le> n"

lemma alive_cong:
  "alive k m n s \<Longrightarrow> replyCache s' = replyCache s \<Longrightarrow> cacheOrder s' = cacheOrder s \<Longrightarrow> alive k m n s'"
  by (auto simp: alive_def h248CacheInv_def)

lemma alive_mono: "alive k m n s \<Longrightarrow> n \<le> n' \<Longrightarrow> alive k m n' s"
  by (auto simp: alive_def)

lemma alive_store:
  assumes "alive k m n s" "Suc n < maxCachedTransactions" "key \<noteq> k"
  shows "alive k m (Suc n) (cacheReply key v s)"
proof (cases "key = []")
  case True
  then show ?thesis using assms(1) by (auto simp: cacheReply_def alive_def)
next
  case False
  have inv: "h248CacheInv s" "k \<in> set (cacheOrder s)" using assms(1) by (simp_all add: alive_def)
  have keep: "k \<in> set (cacheOrder (cacheReply key v s))"
      "younger k (cacheOrder (cacheReply key v s)) \<le> Suc (younger k (cacheOrder s))"
    using fifoKeys_survives [OF inv(2)] h248_cache.keys_bound [OF inv(1)] assms(1,2)
    by (auto simp: h248_cache.store_keys [OF inv(1) False] alive_def)
  then show ?thesis
    using h248_cache.store_inv [OF inv(1) False] h248_cache.store_lookup [OF inv(1) False keep(1)] assms(1,3)
    by (auto simp: alive_def)
qed

lemma alive_new:
  assumes "h248CacheInv s" "k \<noteq> []" "replyCache s k = None"
  shows "alive k m 0 (cacheReply k m s)"
proof -
  have "k \<notin> set (cacheOrder s)" using h248_cache.keys_lookup [OF assms(1)] assms(3) by simp
  then have self: "k \<in> set (cacheOrder (cacheReply k m s))" "younger k (cacheOrder (cacheReply k m s)) = 0"
    using fifoKeys_self [OF maxCachedTransactions_pos] h248_cache.keys_bound [OF assms(1)]
      h248_cache.store_keys [OF assms(1,2)] by auto
  then show ?thesis
    using h248_cache.store_lookup [OF assms(1,2) self(1)] h248_cache.store_inv [OF assms(1,2)]
    by (simp add: alive_def)
qed

lemma handle_remote [simp]: "serviceChangeRemote (fst (handle l t data remote s)) = serviceChangeRemote s"
  by (auto simp: handle_def handleRequest_def handleResponse_def noteMGCActivity_def offerResult_def Let_def
      split: sum.split option.split)

lemma cachedReply_activity [simp]: "cachedReply k (noteMGCActivity t remote s) = cachedReply k s"
  by (simp add: cachedReply_def noteMGCActivity_def)

lemma handle_dispatch:
  "snd (handle l t data remote s) = Dispatch msg rp \<longleftrightarrow>
     Parse data = Inr msg \<and> \<not> outsideRegistration remote msg s \<and> \<not> isResponse msg \<and>
     cachedReply (requestKey remote msg) s = [] \<and> rp = \<lparr> rpRemote = remote, rpCacheKey = requestKey remote msg \<rparr>"
  by (auto simp: handle_def handleRequest_def handleResponse_def Let_def split: sum.splits if_splits)

lemma alive_dispatch:
  assumes "alive k m n s" "m \<noteq> []" "k \<noteq> ''/''" "snd (handle l t data remote s) = Dispatch msg rp"
  shows "rpCacheKey rp \<noteq> k"
  using assms by (auto simp: alive_def cachedReply_def handle_dispatch)

lemma alive_step:
  assumes a: "alive k m n (gwH248 g)" and n: "Suc n < maxCachedTransactions" and m: "m \<noteq> []" and k: "k \<noteq> ''/''"
  shows "alive k m (Suc n) (gwH248 (gatewayStep e ev g))"
proof -
  have quiet: "alive k m (Suc n) s" if "replyCache s = replyCache (gwH248 g)" "cacheOrder s = cacheOrder (gwH248 g)" for s
    using alive_mono [OF alive_cong [OF a that]] by simp
  have no_reply: "alive k m (Suc n) (gwH248 (deliver e b' g'))"
    if "replies b' = replies (gwBridge g')" "replyCache (gwH248 g') = replyCache (gwH248 g)"
      "cacheOrder (gwH248 g') = cacheOrder (gwH248 g)" for b' g'
    using quiet that deliver_quiet by simp
  show ?thesis
  proof (cases ev)
    case (H248Datagram data remote)
    let ?h = "handle True (now e) data remote (gwH248 g)" and ?g = "g\<lparr>gwH248 := fst (handle True (now e) data remote (gwH248 g))\<rparr>"
    show ?thesis unfolding H248Datagram
    proof (cases rule: receiveH248_cases [of e data remote g])
      case (dispatch msg rp)
      show "alive k m (Suc n) (gwH248 (gatewayStep e (H248Datagram data remote) g))"
      proof (cases "msgType msg = ''Transaction''")
        case True
        then obtain r where "replies (HandleH248 e msg rp (gwBridge g)) = replies (gwBridge ?g) @ [(rp, r)]"
          using HandleH248_answered [OF True, of rp "gwBridge g" e] by (auto simp: answered_def)
        then have "gwH248 (deliver e (HandleH248 e msg rp (gwBridge g)) ?g) = cacheReply (rpCacheKey rp) r (fst ?h)"
          using deliver_reply [of _ ?g] by simp
        moreover have "alive k m n (fst ?h)" by (rule alive_cong [OF a]) simp_all
        ultimately show ?thesis
          using alive_store [OF _ n alive_dispatch [OF a m k dispatch(1)]] dispatch(2) by (simp add: gatewayStep_def)
      next
        case False
        then show ?thesis using no_reply [of "HandleH248 e msg rp (gwBridge g)" ?g] dispatch(2)
          by (simp add: gatewayStep_def HandleH248_def)
      qed
    qed (use quiet no_reply [of _ ?g] in \<open>simp_all add: gatewayStep_def\<close>)
  next
    case (SipDatagram data remote)
    show ?thesis unfolding SipDatagram
      by (cases rule: receiveSIP_cases [of e data remote g]) (simp_all add: gatewayStep_def quiet no_reply)
  qed (simp_all add: gatewayStep_def quiet no_reply Let_def case_prod_unfold)
qed

lemma alive_run:
  "alive k m n (gwH248 g) \<Longrightarrow> n + length evs < maxCachedTransactions \<Longrightarrow> m \<noteq> [] \<Longrightarrow> k \<noteq> ''/'' \<Longrightarrow>
     alive k m (n + length evs) (gwH248 (gatewayRun evs g))"
proof (induction evs arbitrary: n g)
  case (Cons x evs)
  obtain e ev where x: "x = (e, ev)" by force
  have "alive k m (Suc n) (gwH248 (gatewayStep e ev g))" using Cons.prems by (intro alive_step) auto
  then show ?case using Cons.IH [of "Suc n" "gatewayStep e ev g"] Cons.prems x by simp
qed simp

subsection \<open>Stopping\<close>

lemma closeCall_frame [simp]:
  "nextRef (closeCall b r) = nextRef b" "Released (heap (closeCall b r) r)"
  "r' \<noteq> r \<Longrightarrow> heap (closeCall b r) r' = heap b r'"
  by (simp_all add: closeCall_def closeMedia_def split: option.split prod.split)

lemma closeCall_media:
  assumes "\<not> Released (heap b r)" "okRelay (heap b r)"
  shows "outputs (closeCall b r) = outputs b @ map Sock (releaseEvents (heap b r))"
    "heldBy (heap (closeCall b r) r) = {#}" "okRelay (heap (closeCall b r) r)"
  using assms
  by (auto simp: closeCall_def closeMedia_def releaseEvents_def heldBy_def okRelay_def closeRelay_def
      split: option.splits)

lemma closeCall_okMedia:
  assumes "okMedia b" "r < nextRef b" "\<not> Released (heap b r)"
  shows "okMedia (closeCall b r)"
proof -
  have ok: "okRelay (heap b r)" using assms by (simp add: okMedia_def)
  have "heap (closeCall b r) = (heap b)(r := heap (closeCall b r) r)" by (simp add: fun_eq_iff)
  then have "held (closeCall b r) + heldBy (heap b r) = held b"
    using held_upd [of r b "closeCall b r" "heap (closeCall b r) r"] assms(2) closeCall_media(2) [OF assms(3) ok] by simp
  moreover have "okRelay (heap (closeCall b r) r')" if "r' < nextRef b" for r'
    using closeCall_media(3) [OF assms(3) ok] assms(1) that by (cases "r' = r") (auto simp: okMedia_def)
  ultimately show ?thesis
    using closeCall_media(1) [OF assms(3) ok] releaseEvents_eq [OF ok] assms(1) by (auto simp: okMedia_def ac_simps)
qed

lemma closeCalls:
  assumes "okMedia b" "distinct rs" "\<forall>r \<in> set rs. r < nextRef b \<and> \<not> Released (heap b r)"
  shows "okMedia (foldl closeCall b rs) \<and> nextRef (foldl closeCall b rs) = nextRef b \<and>
    (\<forall>r. if r \<in> set rs then Released (heap (foldl closeCall b rs) r) else heap (foldl closeCall b rs) r = heap b r)"
  using assms
proof (induction rs arbitrary: b)
  case (Cons r rs)
  have "okMedia (closeCall b r)" using Cons.prems by (intro closeCall_okMedia) auto
  moreover have "\<forall>r' \<in> set rs. r' < nextRef (closeCall b r) \<and> \<not> Released (heap (closeCall b r) r')"
    using Cons.prems by (metis closeCall_frame(1,3) distinct.simps(2) list.set_intros(2))
  ultimately have "okMedia (foldl closeCall (closeCall b r) rs) \<and>
      nextRef (foldl closeCall (closeCall b r) rs) = nextRef (closeCall b r) \<and>
      (\<forall>r'. if r' \<in> set rs then Released (heap (foldl closeCall (closeCall b r) rs) r')
        else heap (foldl closeCall (closeCall b r) rs) r' = heap (closeCall b r) r')"
    using Cons.IH [of "closeCall b r"] Cons.prems(2) by simp
  then show ?case using Cons.prems(2) by (auto split: if_splits)
qed simp

lemma held_live:
  assumes "okMedia b"
  shows "held b = (\<Sum>r \<in> {r. r < nextRef b \<and> \<not> Released (heap b r)}. heldBy (heap b r))"
  unfolding held_def using assms
  by (intro sum.mono_neutral_right) (auto simp: okMedia_def heldBy_def okRelay_def split: option.splits)

definition listed :: "bridge \<Rightarrow> nat set" where
  "listed b = snd ` set (callsByH248 b) \<union> snd ` set (callsBySIP b)"

lemma listed_live:
  assumes "okTables b" "r \<in> listed b"
  shows "r < nextRef b \<and> \<not> Released (heap b r)"
proof -
  have "distinct (map fst (callsByH248 b))" "distinct (map fst (callsBySIP b))" using assms(1) by (simp_all add: okTables_def)
  then have "\<exists>k. map_of (callsByH248 b) k = Some r \<or> map_of (callsBySIP b) k = Some r"
    using assms(2) by (auto simp: listed_def) (blast intro: map_of_is_SomeI)+
  with assms(1) show ?thesis unfolding okTables_def by blast
qed

lemma CloseBridge_media:
  assumes "bridgeInv b"
  shows "opened (outputs (CloseBridge b)) = closed (outputs (CloseBridge b)) +
      (\<Sum>r \<in> {r. r < nextRef b \<and> \<not> Released (heap b r) \<and> r \<notin> listed b}. heldBy (heap b r))"
    "r \<in> listed b \<Longrightarrow> Released (heap (CloseBridge b) r)" "retainedInvites (CloseBridge b) = Map.empty"
proof -
  let ?rs = "remdups (map snd (callsByH248 b) @ map snd (callsBySIP b))"
  let ?b = "foldl closeCall b ?rs"
  have rs: "set ?rs = listed b" by (auto simp: listed_def)
  have media: "okMedia b" and tables: "okTables b" using assms by (simp_all add: bridgeInv_def)
  have "\<forall>r \<in> set ?rs. r < nextRef b \<and> \<not> Released (heap b r)"
    unfolding rs using listed_live [OF tables] by blast
  from closeCalls [OF media distinct_remdups this] have closed: "okMedia ?b" "nextRef ?b = nextRef b"
      "\<And>r. r \<in> listed b \<Longrightarrow> Released (heap ?b r)" "\<And>r. r \<notin> listed b \<Longrightarrow> heap ?b r = heap b r"
    unfolding rs by presburger+
  have "{r. r < nextRef ?b \<and> \<not> Released (heap ?b r)} =
      {r. r < nextRef b \<and> \<not> Released (heap b r) \<and> r \<notin> listed b}"
    using closed(2-4) by auto (metis)+
  then have "held ?b = (\<Sum>r \<in> {r. r < nextRef b \<and> \<not> Released (heap b r) \<and> r \<notin> listed b}. heldBy (heap b r))"
    unfolding held_live [OF closed(1)] by (auto intro: sum.cong simp: closed(4))
  then show "opened (outputs (CloseBridge b)) = closed (outputs (CloseBridge b)) +
      (\<Sum>r \<in> {r. r < nextRef b \<and> \<not> Released (heap b r) \<and> r \<notin> listed b}. heldBy (heap b r))"
    using closed(1) by (simp add: CloseBridge_def Let_def okMedia_def)
  show "r \<in> listed b \<Longrightarrow> Released (heap (CloseBridge b) r)" "retainedInvites (CloseBridge b) = Map.empty"
    using closed(3) by (simp_all add: CloseBridge_def Let_def)
qed

subsection \<open>Properties\<close>


definition defaultGateway :: gateway where
  "defaultGateway = \<lparr> gwBridge = SetSIPSender (New 0 Default), gwH248 = NewUDPServer (h248ServerConfig Default),
     gwSip = newSipServer\<lparr>srListening := True\<rparr>, gwResent = [] \<rparr>"

lemma defaultGateway_start: "gatewayMain False False 0 None = Started defaultGateway"
proof -
  have "Validate Default = None" "h248Transport (cfgH248 Default) = ''udp''" "h248Encoding (cfgH248 Default) = ''text''"
    by code_simp+
  then show ?thesis by (simp add: gatewayMain_def Load_def defaultGateway_def)
qed


text \<open>C6: Every H.248 transaction that reaches the bridge is answered exactly once, on every branch: the
  handler gives one reply to the responder of the request, built for that request, before or after
  whatever else it sends; anything that is not a transaction request leaves the bridge unchanged.
  Neither the other callbacks nor the timers give replies.
\<close>

theorem h248_transaction_answered_once:
  "(if msgType msg = ''Transaction''
    then \<exists>m. isReplyTo msg m \<and> h248Replies (outputs (HandleH248 e msg rp b)) = h248Replies (outputs b) @ [(rp, m)]
    else HandleH248 e msg rp b = b) \<and>
   h248Replies (outputs (HandleH248Ready e rp b)) = h248Replies (outputs b) \<and>
   h248Replies (outputs (HandleH248Response e msg b)) = h248Replies (outputs b) \<and>
   h248Replies (outputs (HandleH248Unavailable e b)) = h248Replies (outputs b) \<and>
   h248Replies (outputs (HandleSIP e smsg srp b)) = h248Replies (outputs b) \<and>
   h248Replies (outputs (fireTimer e t b)) = h248Replies (outputs b)"
  using HandleH248_answered [of msg rp b e] by (auto simp: answered_def HandleH248_def)

text \<open>C5: A transaction of the controller is processed once.  When it arrives, the bridge processes it and
  its reply is recorded; when the same datagram arrives again after fewer than 4095 further events of any
  kind, and the controller is still the one in service, the bridge does not change and the recorded
  reply is sent again.
\<close>

theorem h248_transaction_processed_once:
  assumes "gatewayMain False False now0 file = Started g0" "g = gatewayRun evs0 g0"
    and "Parse data = Inr msg" "msgType msg = ''Transaction''" "msgTID msg \<noteq> []"
    and "\<not> outsideRegistration remote msg (gwH248 g)" "replyCache (gwH248 g) (requestKey remote msg) = None"
    and "g1 = gatewayStep e (H248Datagram data remote) g" "g2 = gatewayRun evs g1" "length evs < 4095"
    and "\<not> outsideRegistration remote msg (gwH248 g2)" "g3 = gatewayStep e' (H248Datagram data remote) g2"
  shows "\<exists>m. isReplyTo msg m \<and>
    h248Replies (outputs (gwBridge g1)) =
      h248Replies (outputs (gwBridge g)) @ [(\<lparr> rpRemote = remote, rpCacheKey = requestKey remote msg \<rparr>, m)] \<and>
    gwBridge g3 = gwBridge g2 \<and> gwResent g3 = gwResent g2 @ [(m, remote)]"
proof -
  let ?k = "requestKey remote msg" and ?rp = "\<lparr> rpRemote = remote, rpCacheKey = requestKey remote msg \<rparr>"
  let ?h = "handle True (now e) data remote (gwH248 g)"
  have k: "?k \<noteq> []" "?k \<noteq> ''/''" using requestKey_proper [OF assms(5)] by simp_all
  have inv: "h248CacheInv (gwH248 g)"
    using gatewayMain_started [OF assms(1)] gatewayRun_serverStep [of g0 evs0] assms(2)
    by (metis server.steps_inv NewUDPServer_inv)
  have r: "\<not> isResponse msg" using assms(4) by (simp add: isResponse_def)
  have h: "snd ?h = Dispatch msg ?rp"
    using assms(3,6,7) r by (simp add: handle_dispatch cachedReply_def)
  obtain m where m: "isReplyTo msg m" "replies (HandleH248 e msg ?rp (gwBridge g)) = replies (gwBridge g) @ [(?rp, m)]"
    using HandleH248_answered [OF assms(4), of ?rp "gwBridge g" e] by (auto simp: answered_def)
  have g1: "g1 = deliver e (HandleH248 e msg ?rp (gwBridge g)) (g\<lparr>gwH248 := fst ?h\<rparr>)"
    using assms(8) h by (simp add: gatewayStep_def receiveH248_def case_prod_unfold Let_def)
  have s1: "gwH248 g1 = cacheReply ?k m (fst ?h)"
    using deliver_reply [of _ "g\<lparr>gwH248 := fst ?h\<rparr>"] m(2) by (simp add: g1)
  have "h248CacheInv (fst ?h)" "replyCache (fst ?h) ?k = None"
    using inv assms(7) by (auto simp: h248CacheInv_def)
  then have "alive ?k m 0 (gwH248 g1)" using alive_new [OF _ k(1)] by (simp add: s1)
  then have "alive ?k m (length evs) (gwH248 g2)"
    using alive_run [of ?k m 0 g1 evs] assms(9,10) k(2) isReplyTo_nonempty [OF m(1)]
    by (simp add: maxCachedTransactions_def)
  then have "snd (handle True (now e') data remote (gwH248 g2)) = Duplicate m remote"
    using handle_duplicate [OF assms(3) r assms(5,11)] isReplyTo_nonempty [OF m(1)] by (simp add: alive_def)
  then show ?thesis
    using m g1 assms(12) by (auto simp: gatewayStep_def receiveH248_def case_prod_unfold Let_def)
qed

theorem h248_transaction_processed_once_witness:
  "\<exists>m. isReplyTo demoMessage m \<and>
    gwResent (gatewayRun [(demoEnv 5, H248Datagram demoDatagram demoController),
      (demoEnv 6, H248Datagram demoDatagram demoController)] defaultGateway) = [(m, demoController)]"
proof -
  let ?g1 = "gatewayStep (demoEnv 5) (H248Datagram demoDatagram demoController) defaultGateway"
  have type: "msgType demoMessage = ''Transaction''" "msgTID demoMessage \<noteq> []" using demo_parses by auto
  have inside: "\<not> outsideRegistration demoController demoMessage s" for s
    using demo_parses type(1) by (auto simp: outsideRegistration_def Let_def isResponse_def)
  have fresh: "replyCache (gwH248 defaultGateway) (requestKey demoController demoMessage) = None"
    by (simp add: defaultGateway_def NewUDPServer_def)
  have quiet: "gwResent ?g1 = []"
  proof -
    have "\<not> isResponse demoMessage" using type by (simp add: isResponse_def)
    then have "snd (handle True 5 demoDatagram demoController (gwH248 defaultGateway)) =
        Dispatch demoMessage \<lparr> rpRemote = demoController, rpCacheKey = requestKey demoController demoMessage \<rparr>"
      using inside fresh demo_parse by (simp add: handle_dispatch cachedReply_def)
    then show ?thesis
      by (simp add: gatewayStep_def receiveH248_def case_prod_unfold Let_def demoEnv_def) (simp add: defaultGateway_def)
  qed
  show ?thesis
    using h248_transaction_processed_once [OF defaultGateway_start _ demo_parse type inside,
        of defaultGateway "[]" ?g1 "demoEnv 5" ?g1 "[]" _ "demoEnv 6"] fresh inside quiet by auto
qed

text \<open>A duplicate of a request that arrives while the first is still being processed is not
  suppressed.  The cache holds replies only, so until the first reply is recorded the server dispatches the
  same transaction again, and the bridge processes it a second time and gives a second reply.  (The SIP
  server suppresses such duplicates.)\<close>

theorem h248_in_flight_duplicate_dispatched:
  assumes "snd (handle l t data remote s) = Dispatch msg rp"
  shows "snd (handle l t' data remote (fst (handle l t data remote s))) = Dispatch msg rp \<and>
    (if msgType msg = ''Transaction''
     then \<exists>m1 m2. isReplyTo msg m1 \<and> isReplyTo msg m2 \<and>
       h248Replies (outputs (HandleH248 e2 msg rp (HandleH248 e1 msg rp b))) =
         h248Replies (outputs b) @ [(rp, m1), (rp, m2)]
     else True)"
proof
  have "outsideRegistration remote msg (fst (handle l t data remote s)) = outsideRegistration remote msg s"
    "cachedReply k (fst (handle l t data remote s)) = cachedReply k s" for k
    by (simp_all add: outsideRegistration_def expectedMGCAddress_def cachedReply_def)
  then show "snd (handle l t' data remote (fst (handle l t data remote s))) = Dispatch msg rp"
    using assms by (simp add: handle_dispatch)
  show "if msgType msg = ''Transaction''
     then \<exists>m1 m2. isReplyTo msg m1 \<and> isReplyTo msg m2 \<and>
       h248Replies (outputs (HandleH248 e2 msg rp (HandleH248 e1 msg rp b))) =
         h248Replies (outputs b) @ [(rp, m1), (rp, m2)]
     else True"
    using HandleH248_answered [of msg rp b e1] HandleH248_answered [of msg rp "HandleH248 e1 msg rp b" e2]
    by (auto simp: answered_def)
qed

theorem h248_in_flight_duplicate_dispatched_witness:
  "snd (handle True 7 demoDatagram demoController (fst (handle True 6 demoDatagram demoController demoServer))) =
     Dispatch demoMessage \<lparr> rpRemote = demoController, rpCacheKey = requestKey demoController demoMessage \<rparr>"
proof -
  have "snd (handle True 6 demoDatagram demoController demoServer) =
      Dispatch demoMessage \<lparr> rpRemote = demoController, rpCacheKey = requestKey demoController demoMessage \<rparr>"
    using demo_server demo_parse by (simp add: handle_dispatch cachedReply_def)
  from h248_in_flight_duplicate_dispatched [OF this, of 7 "demoEnv 7" "demoEnv 6" "SetSIPSender (New 0 Default)"]
  show ?thesis by simp
qed


text \<open>C37: When the gateway ends regularly, the bridge closes the relay of every call that one of its two tables lists,
  each once even when both list it: these calls are released, the transactions kept for late answers are gone,
  and the sockets that were opened and not closed are those of live calls that neither table lists, so that no
  socket stays open when every live call is listed.\<close>

theorem stop_closes_media:
  assumes "reach cfg (gwBridge g)" "b = gwBridge g" "gatewayStop cause g = (0, g')" "b' = gwBridge g'"
  shows "opened (outputs b') = closed (outputs b') +
      (\<Sum>r \<in> {r. r < nextRef b \<and> \<not> Released (heap b r) \<and> r \<notin> listed b}. heldBy (heap b r)) \<and>
    ({r. r < nextRef b \<and> \<not> Released (heap b r)} \<subseteq> listed b \<longrightarrow> opened (outputs b') = closed (outputs b')) \<and>
    (\<forall>r \<in> listed b. Released (heap b' r)) \<and> retainedInvites b' = Map.empty"
proof -
  let ?S = "{r. r < nextRef b \<and> \<not> Released (heap b r) \<and> r \<notin> listed b}"
  have "(\<Sum>r \<in> ?S. heldBy (heap b r)) = {#}" if "{r. r < nextRef b \<and> \<not> Released (heap b r)} \<subseteq> listed b"
    using that by (intro sum.neutral) blast
  moreover have "b' = CloseBridge b" using assms(2-4) by (auto simp: gatewayStop_def split: if_splits)
  moreover have "bridgeInv b" using reach_inv [OF assms(1)] assms(2) by simp
  ultimately show ?thesis using CloseBridge_media [of b] by simp
qed

theorem stop_closes_media_witness:
  "reach demoConfig carrier1 \<and> size (opened (outputs carrier1)) = 4 \<and>
   opened (outputs (CloseBridge carrier1)) = closed (outputs (CloseBridge carrier1))"
proof -
  let ?g = "defaultGateway\<lparr>gwBridge := carrier1\<rparr>" and ?g' = "snd (gatewayStop Signalled (defaultGateway\<lparr>gwBridge := carrier1\<rparr>))"
  have view: "nextRef carrier1 = 1" "callsByH248 carrier1 = [(''1001'', 0)]" "size (opened (outputs carrier1)) = 4"
    using carrier1_view by (simp_all add: viewOf_def)
  then have all: "{r. r < nextRef carrier1 \<and> \<not> Released (heap carrier1 r)} \<subseteq> listed carrier1"
    by (auto simp: listed_def)
  have g: "reach demoConfig (gwBridge ?g)" "carrier1 = gwBridge ?g" "gatewayStop Signalled ?g = (0, ?g')"
      "CloseBridge carrier1 = gwBridge ?g'"
    using carrier_reach(2) by (simp_all add: gatewayStop_def)
  show ?thesis using stop_closes_media [OF g] all carrier_reach(2) view(3) by blast
qed

text \<open>C36: While the gateway runs the memory of both servers is bounded, whatever arrives: the H.248 reply cache holds
  at most 4096 replies and the SIP response cache at most 8192 responses; the order of insertion of each
  lists every cached key exactly once, and nothing is cached under the empty key.\<close>

theorem gateway_caches_bounded:
  assumes "gatewayMain False False now0 file = Started g0" "g = gatewayRun evs g0"
  shows "distinct (cacheOrder (gwH248 g)) \<and> set (cacheOrder (gwH248 g)) = dom (replyCache (gwH248 g)) \<and>
      card (dom (replyCache (gwH248 g))) \<le> 4096 \<and> replyCache (gwH248 g) [] = None \<and>
    distinct (srCacheOrder (gwSip g)) \<and> set (srCacheOrder (gwSip g)) = dom (responseCache (gwSip g)) \<and>
      card (dom (responseCache (gwSip g))) \<le> 8192 \<and> responseCache (gwSip g) [] = None"
proof -
  obtain cfg where "gwH248 g0 = NewUDPServer (h248ServerConfig cfg)" "sipStep newSipServer (gwSip g0)"
    using gatewayMain_started [OF assms(1)] by blast
  then have "serverStep\<^sup>*\<^sup>* (NewUDPServer (h248ServerConfig cfg)) (gwH248 g)" "sipStep\<^sup>*\<^sup>* newSipServer (gwSip g)"
    using gatewayRun_serverStep [of g0 evs] gatewayRun_sipStep [of g0 evs] assms(2)
    by (simp_all add: converse_rtranclp_into_rtranclp)
  then show ?thesis using h248_cache_bounds sip_cache_bounds by blast
qed

theorem gateway_caches_bounded_witness:
  "card (dom (replyCache (gwH248 (gatewayRun [(demoEnv 5, H248Datagram demoDatagram demoController)] defaultGateway)))) \<le> 4096"
  using gateway_caches_bounded [OF defaultGateway_start refl] by blast

end
