(* ===== verification/Go_Laws.thy ===== *)
theory Go_Laws
  imports Go_Strings
begin

text \<open>
  Prelude of the development, third part: the laws of the modelled Go library functions that the
  codecs rest on.  Printing and reading of decimal numbers, trimming, splitting into words and into
  lines, and the normalisation of line ends are each the inverse of the way the gateway composes
  messages.  The locale \<open>wire_format\<close> is the interface of a printer and its parser.
\<close>

subsection \<open>Printer and parser\<close>

locale wire_format =
  fixes print :: "'a \<Rightarrow> string"
    and parse :: "string \<Rightarrow> 'a option"
    and ok :: "'a \<Rightarrow> bool"
  assumes parse_print: "ok x \<Longrightarrow> parse (print x) = Some x"
begin

lemma print_inj: "inj_on print (Collect ok)"
  by (rule inj_onI) (metis parse_print mem_Collect_eq option.inject)

lemma print_eq_iff: "ok x \<Longrightarrow> ok y \<Longrightarrow> print x = print y \<longleftrightarrow> x = y"
  using print_inj by (simp add: inj_on_eq_iff)

end

subsection \<open>Decimal numbers\<close>

lemma char_of_range [simp]: "0 \<le> n \<Longrightarrow> n < 256 \<Longrightarrow> byte (char_of (n :: int)) = n"
  by (simp add: of_char_of)

lemma digitChar_props [simp]:
  assumes "0 \<le> d" "d < 10"
  shows "isDigit (digitChar d)" and "digitVal (digitChar d) = d"
  using assms by (simp_all add: isDigit_def digitChar_def digitVal_def)

lemma decDigits_nonempty [simp]: "decDigits n \<noteq> []"
  by (simp add: decDigits.simps [of n])

lemma decDigits_isDigit: "0 \<le> n \<Longrightarrow> c \<in> set (decDigits n) \<Longrightarrow> isDigit c"
proof (induction n rule: decDigits.induct)
  case (1 n)
  then show ?case
    by (cases "n < 10") (auto simp: decDigits.simps [of n])
qed

lemma parseUintLoop_decDigits:
  "0 \<le> n \<Longrightarrow> n < 2 ^ 64 \<Longrightarrow> parseUintLoop 0 (decDigits n @ rest) = parseUintLoop n rest"
proof (induction n arbitrary: rest rule: decDigits.induct)
  case (1 n)
  show ?case
  proof (cases "n < 10")
    case True
    then show ?thesis using 1 by (simp add: decDigits.simps [of n] Let_def)
  next
    case False
    then have "parseUintLoop 0 (decDigits (n div 10) @ digitChar (n mod 10) # rest) =
        parseUintLoop (n div 10) (digitChar (n mod 10) # rest)"
      using 1 by simp
    then show ?thesis
      using False 1 by (simp add: decDigits.simps [of n] Let_def)
  qed
qed

lemma ParseUint_FormatUint: "0 \<le> n \<Longrightarrow> n < 2 ^ 64 \<Longrightarrow> ParseUint (decDigits n) = Inr n"
  using parseUintLoop_decDigits [of n "[]"] by (simp add: ParseUint_def)

lemma hd_decDigits: "0 \<le> n \<Longrightarrow> isDigit (hd (decDigits n))"
  using decDigits_isDigit [of n] by simp

lemma isDigit_not_sign [simp]:
  "isDigit c \<Longrightarrow> c \<noteq> CHR ''-''" "isDigit c \<Longrightarrow> c \<noteq> CHR ''+''"
  by (auto simp: isDigit_def)

lemma Atoi_Itoa:
  assumes "- (2 ^ 63) \<le> n" "n < 2 ^ 63"
  shows "Atoi (Itoa n) = (n, None)"
proof (cases "n < 0")
  case True
  then show ?thesis using assms by (simp add: Atoi_def Itoa_def ParseUint_FormatUint)
next
  case False
  then show ?thesis
    using assms hd_decDigits [of n] by (auto simp: Atoi_def Itoa_def ParseUint_FormatUint)
qed

interpretation decimal: wire_format Itoa "\<lambda>s. if atoiOk s then Some (atoiVal s) else None"
    "\<lambda>n. - (2 ^ 63) \<le> n \<and> n < 2 ^ 63"
  by unfold_locales (simp add: Atoi_Itoa)

subsection \<open>White space\<close>

definition spaceFree :: "string \<Rightarrow> bool" where
  "spaceFree s \<longleftrightarrow> (\<forall>c \<in> set s. \<not> isSpaceU c)"

text \<open>A word: what \<^verbatim>\<open>strings.Fields\<close> yields.\<close>

definition isWord :: "string \<Rightarrow> bool" where
  "isWord s \<longleftrightarrow> s \<noteq> [] \<and> spaceFree s"

lemma isDigit_not_space: "isDigit c \<Longrightarrow> \<not> isSpaceU c"
  by (auto simp: isDigit_def isSpaceU_def)

lemma spaceFree_simps [simp]:
  "spaceFree []" "spaceFree (c # s) \<longleftrightarrow> \<not> isSpaceU c \<and> spaceFree s"
  "spaceFree (s @ t) \<longleftrightarrow> spaceFree s \<and> spaceFree t"
  by (auto simp: spaceFree_def)

lemma isSpaceU_SP [simp]: "isSpaceU (CHR '' '')" "isSpaceU NL" "isSpaceU CR" "isSpaceU TAB"
  by (simp_all add: isSpaceU_def)

lemma isWord_Itoa [simp]: "isWord (Itoa n)"
  using decDigits_isDigit [of n] decDigits_isDigit [of "- n"] isDigit_not_space
  by (auto simp: isWord_def Itoa_def spaceFree_def isSpaceU_def)

lemma dropWhile_spaceFree: "spaceFree s \<Longrightarrow> dropWhile isSpaceU (s @ t) = (if s = [] then dropWhile isSpaceU t else s @ t)"
  by (cases s) auto

lemma takeWhile_spaceFree:
  "spaceFree s \<Longrightarrow> takeWhile (\<lambda>c. \<not> isSpaceU c) (s @ t) = s @ takeWhile (\<lambda>c. \<not> isSpaceU c) t"
  by (auto simp: spaceFree_def takeWhile_append)

lemma dropWhile_not_spaceFree:
  "spaceFree s \<Longrightarrow> dropWhile (\<lambda>c. \<not> isSpaceU c) (s @ t) = dropWhile (\<lambda>c. \<not> isSpaceU c) t"
  by (auto simp: spaceFree_def dropWhile_append)

lemma Fields_Nil [simp]: "Fields [] = []"
  by (simp add: Fields.simps)

lemma Fields_space [simp]: "isSpaceU c \<Longrightarrow> Fields (c # s) = Fields s"
  by (simp add: Fields.simps [of "c # s"] Fields.simps [of s])

lemma Fields_word_space:
  assumes "isWord w" "t = [] \<or> isSpaceU (hd t)"
  shows "Fields (w @ t) = w # Fields t"
proof -
  obtain x xs where w: "w = x # xs" "\<not> isSpaceU x" "spaceFree xs"
    using assms(1) by (cases w) (auto simp: isWord_def)
  have "takeWhile (\<lambda>c. \<not> isSpaceU c) t = []" "dropWhile (\<lambda>c. \<not> isSpaceU c) t = t"
    using assms(2) by (cases t; simp)+
  then show ?thesis
    using w by (simp add: Fields.simps [of "x # xs @ t"] takeWhile_spaceFree dropWhile_not_spaceFree)
qed

lemma Fields_word [simp]: "isWord w \<Longrightarrow> Fields w = [w]"
  using Fields_word_space [of w "[]"] by simp

lemma Fields_Cons_word: "isWord w \<Longrightarrow> Fields (w @ '' '' @ t) = w # Fields t"
  using Fields_word_space [of w "'' '' @ t"] by simp

lemma Fields_Join: "\<forall>w \<in> set ws. isWord w \<Longrightarrow> Fields (Join ws '' '') = ws"
proof (induction ws "'' ''" rule: Join.induct)
  case (3 x y ys)
  then show ?case using Fields_Cons_word [of x "Join (y # ys) '' ''"] by simp
qed simp_all

lemma Fields_append_spaces: "\<forall>c \<in> set t. isSpaceU c \<Longrightarrow> Fields (s @ t) = Fields s"
proof (induction s rule: Fields.induct)
  case (1 s)
  show ?case
  proof (cases "dropWhile isSpaceU s")
    case Nil
    then have "dropWhile isSpaceU (s @ t) = []"
      using 1(2) by (auto simp: dropWhile_eq_Nil_conv)
    then show ?thesis
      by (simp only: Fields.simps [of "s @ t"] Fields.simps [of s] Nil list.case)
  next
    case (Cons x xs)
    then have d: "dropWhile isSpaceU (s @ t) = x # xs @ t"
      by (metis append_Cons dropWhile_append dropWhile_eq_Nil_conv dropWhile_append1 list.distinct(1) set_dropWhileD)
    have tw: "takeWhile (\<lambda>c. \<not> isSpaceU c) (xs @ t) = takeWhile (\<lambda>c. \<not> isSpaceU c) xs"
      using 1(2) by (cases t) (auto simp: takeWhile_append takeWhile_eq_all_conv [THEN iffD2])
    have dw: "Fields (dropWhile (\<lambda>c. \<not> isSpaceU c) (xs @ t)) = Fields (dropWhile (\<lambda>c. \<not> isSpaceU c) xs @ t)"
    proof (cases "dropWhile (\<lambda>c. \<not> isSpaceU c) xs = []")
      case True
      then have "dropWhile (\<lambda>c. \<not> isSpaceU c) (xs @ t) = dropWhile (\<lambda>c. \<not> isSpaceU c) t"
        by (metis dropWhile_append2 dropWhile_eq_Nil_conv)
      also have "\<dots> = t" using 1(2) by (cases t) auto
      finally show ?thesis by (simp only: True append_Nil)
    next
      case False
      then have "dropWhile (\<lambda>c. \<not> isSpaceU c) (xs @ t) = dropWhile (\<lambda>c. \<not> isSpaceU c) xs @ t"
        by (auto simp: dropWhile_append1 dropWhile_eq_Nil_conv)
      then show ?thesis by simp
    qed
    show ?thesis
      using 1(1) [OF Cons 1(2)] by (simp add: Fields.simps [of "s @ t"] Fields.simps [of s] Cons d tw dw)
  qed
qed

definition rtrim :: "string \<Rightarrow> string" where
  "rtrim s = rev (dropWhile isSpaceU (rev s))"

lemma TrimSpace_rtrim: "TrimSpace s = rtrim (dropWhile isSpaceU s)"
  by (simp add: TrimSpace_def trimFunc_def rtrim_def)

lemma rtrim_split: "\<exists>t. s = rtrim s @ t \<and> (\<forall>c \<in> set t. isSpaceU c)"
  by (intro exI [of _ "rev (takeWhile isSpaceU (rev s))"])
    (metis rev_append rev_rev_ident rtrim_def set_rev set_takeWhileD takeWhile_dropWhile_id)

lemma rtrim_append: "w \<noteq> [] \<Longrightarrow> \<not> isSpaceU (last w) \<Longrightarrow> rtrim (w @ t) = w @ rtrim t"
  by (cases w rule: rev_cases) (auto simp: rtrim_def dropWhile_append)

lemma TrimSpace_space [simp]: "isSpaceU c \<Longrightarrow> TrimSpace (c # s) = TrimSpace s"
  by (simp add: TrimSpace_rtrim)

lemma TrimSpace_append:
  "w \<noteq> [] \<Longrightarrow> \<not> isSpaceU (hd w) \<Longrightarrow> \<not> isSpaceU (last w) \<Longrightarrow> TrimSpace (w @ t) = w @ rtrim t"
  by (cases w) (simp_all add: TrimSpace_rtrim rtrim_append [of "_ # _", simplified])

lemma rtrim_simps [simp]: "rtrim [] = []" "\<not> isSpaceU c \<Longrightarrow> rtrim (s @ [c]) = s @ [c]"
  by (simp_all add: rtrim_def)

lemma TrimSpace_id: "s = [] \<or> \<not> isSpaceU (hd s) \<and> \<not> isSpaceU (last s) \<Longrightarrow> TrimSpace s = s"
  using TrimSpace_append [of s "[]"] by (cases "s = []") (simp_all add: TrimSpace_rtrim)

lemma TrimSpace_word [simp]: "isWord w \<Longrightarrow> TrimSpace w = w"
  by (rule TrimSpace_id) (auto simp: isWord_def spaceFree_def)

lemma dropWhile_Fields: "Fields (dropWhile isSpaceU s) = Fields s"
  by (induction s) simp_all

lemma Fields_TrimSpace [simp]: "Fields (TrimSpace s) = Fields s"
  by (metis Fields_append_spaces TrimSpace_rtrim dropWhile_Fields rtrim_split)

lemma set_TrimSpace: "set (TrimSpace s) \<subseteq> set s"
  by (auto simp: TrimSpace_rtrim rtrim_def dest!: set_dropWhileD)

lemma TrimSpace_TrimSpace [simp]: "TrimSpace (TrimSpace s) = TrimSpace s"
proof (cases "TrimSpace s = []")
  case False
  let ?d = "dropWhile isSpaceU s"
  have r: "rtrim ?d \<noteq> []" using False by (simp add: TrimSpace_rtrim)
  then have l: "\<not> isSpaceU (last (rtrim ?d))"
    by (simp add: rtrim_def last_rev hd_dropWhile)
  obtain t where "?d = rtrim ?d @ t" using rtrim_split by blast
  then have "hd ?d = hd (rtrim ?d)" "?d \<noteq> []"
    using r by (metis hd_append2, metis append_is_Nil_conv)
  then have "\<not> isSpaceU (hd (rtrim ?d))" using hd_dropWhile [of isSpaceU s] by metis
  then show ?thesis using l r by (intro TrimSpace_id) (simp add: TrimSpace_rtrim)
qed (simp add: TrimSpace_rtrim)

subsection \<open>Lines\<close>

definition lineFree :: "string \<Rightarrow> bool" where
  "lineFree s \<longleftrightarrow> NL \<notin> set s"

lemma lineFree_simps [simp]:
  "lineFree []" "lineFree (c # s) \<longleftrightarrow> c \<noteq> NL \<and> lineFree s"
  "lineFree (s @ t) \<longleftrightarrow> lineFree s \<and> lineFree t"
  by (auto simp: lineFree_def)

lemma isWord_lineFree [simp]: "isWord s \<Longrightarrow> lineFree s"
  by (auto simp: isWord_def spaceFree_def lineFree_def)

lemma lineFree_Itoa [simp]: "lineFree (Itoa n)"
  by simp

lemma lineFree_TrimSpace: "lineFree s \<Longrightarrow> lineFree (TrimSpace s)"
  using set_TrimSpace [of s] by (auto simp: lineFree_def)

lemma ReplaceAll_line:
  "lineFree l \<Longrightarrow> ReplaceAll (l @ CR # NL # t) CRLF [NL] = l @ NL # ReplaceAll t CRLF [NL]"
proof (induction l)
  case (Cons c l)
  then show ?case by (cases l) auto
qed simp

lemma ReplaceAll_lines:
  "\<forall>l \<in> set ls. lineFree l \<Longrightarrow>
     ReplaceAll (concat (map (\<lambda>l. l @ CRLF) ls) @ t) CRLF [NL] =
     concat (map (\<lambda>l. l @ [NL]) ls) @ ReplaceAll t CRLF [NL]"
  by (induction ls) (simp_all add: ReplaceAll_line)

lemma SplitByte_append:
  "c \<notin> set l \<Longrightarrow> SplitByte c (l @ c # t) = l # SplitByte c t"
  by (induction l) auto

lemma SplitByte_none: "c \<notin> set l \<Longrightarrow> SplitByte c l = [l]"
  by (induction l) auto

lemma SplitByte_Join:
  "ls \<noteq> [] \<Longrightarrow> \<forall>l \<in> set ls. c \<notin> set l \<Longrightarrow> SplitByte c (Join ls [c]) = ls"
  by (induction ls "[c]" rule: Join.induct) (simp_all add: SplitByte_none SplitByte_append)

lemma SplitByte_lines:
  "\<forall>l \<in> set ls. c \<notin> set l \<Longrightarrow> SplitByte c (concat (map (\<lambda>l. l @ [c]) ls)) = ls @ [[]]"
  by (induction ls) (simp_all add: SplitByte_append)

lemma SplitByte_parts: "l \<in> set (SplitByte c s) \<Longrightarrow> c \<notin> set l"
  by (induction s arbitrary: l) (auto split: if_splits list.splits)

lemma SplitByte_nonempty [simp]: "SplitByte c s \<noteq> []"
  by (cases s) (auto split: list.splits)

lemma Index_skip:
  "x \<notin> set l \<Longrightarrow> Index (l @ t) (x # xs) = map_option ((+) (length l)) (Index t (x # xs))"
  by (induction l) (cases "Index t (x # xs)"; auto)+

lemma Cut_byte: "x \<notin> set l \<Longrightarrow> Cut (l @ x # t) [x] = (l, t, True)"
  by (simp add: Cut_def Index_skip)

lemma Cut_none: "x \<notin> set l \<Longrightarrow> Cut l [x] = (l, [], False)"
  using Index_skip [of x l "[]" "[]"] by (simp add: Cut_def)

text \<open>The blank line that ends a block of lines is found, whatever follows it.\<close>

lemma Index_blank_line:
  "ls \<noteq> [] \<Longrightarrow> \<forall>l \<in> set ls. l \<noteq> [] \<and> lineFree l \<Longrightarrow>
     Index (Join ls [NL] @ NL # NL # t) [NL, NL] = Some (length (Join ls [NL]))"
proof (induction ls "[NL]" rule: Join.induct)
  case (2 x)
  then show ?case by (simp add: Index_skip lineFree_def)
next
  case (3 x y ys)
  obtain a y' where y: "y = a # y'" "a \<noteq> NL" using 3(3) by (cases y) auto
  have j: "\<exists>r. Join (y # ys) [NL] @ NL # NL # t = a # r"
    using y by (cases ys) auto
  have "Index (NL # Join (y # ys) [NL] @ NL # NL # t) [NL, NL] =
      Some (Suc (length (Join (y # ys) [NL])))"
    using 3 j y(2) by auto
  then show ?case using 3(3) Index_skip [of NL x] by (simp add: lineFree_def)
qed simp

lemma lines_Join:
  "ls \<noteq> [] \<Longrightarrow> concat (map (\<lambda>l. l @ [c]) ls) = Join ls [c] @ [c]"
  by (induction ls "[c]" rule: Join.induct) simp_all

lemma Cut_blank_line:
  assumes "ls \<noteq> []" "\<forall>l \<in> set ls. l \<noteq> [] \<and> lineFree l"
  shows "Cut (concat (map (\<lambda>l. l @ [NL]) ls) @ NL # t) [NL, NL] = (Join ls [NL], t, True)"
  using Index_blank_line [OF assms, of t] assms(1) by (simp add: Cut_def lines_Join)

end
