(* ===== verification/Sip_Codec.thy ===== *)
theory Sip_Codec
  imports Go_Laws Sip_Message
begin

text \<open>
  The SIP message codec against its printers: what \<^verbatim>\<open>BuildRequest\<close> and \<^verbatim>\<open>BuildResponse\<close>
  write is read back by \<^verbatim>\<open>Parse\<close>, for every order in which Go may iterate over the header map.  Header values come back without surrounding white
  space, bodies with their line ends normalised.
\<close>

subsection \<open>Header fields\<close>

text \<open>A field that can be written on a line of its own.\<close>

definition fieldName :: "string \<Rightarrow> bool" where
  "fieldName k \<longleftrightarrow> k \<noteq> [] \<and> hd k \<notin> {CHR '' '', TAB} \<and> CHR '':'' \<notin> set k \<and> lineFree k"

definition fieldOk :: "string \<times> string \<Rightarrow> bool" where
  "fieldOk kv \<longleftrightarrow> fieldName (fst kv) \<and> lineFree (snd kv)"

text \<open>The header map of a list of fields, and the values of one field.\<close>

definition collectFields :: "(string \<times> string) list \<Rightarrow> sip_headers \<Rightarrow> sip_headers" where
  "collectFields kvs h = fold (\<lambda>kv. appendValue (canonicalHeader (fst kv)) (TrimSpace (snd kv))) kvs h"

definition valuesOf :: "(string \<times> string) list \<Rightarrow> string \<Rightarrow> string list" where
  "valuesOf kvs name =
     map (TrimSpace \<circ> snd) (filter (\<lambda>kv. canonicalHeader (fst kv) = canonicalHeader name) kvs)"

definition lookupValues :: "sip_headers \<Rightarrow> string \<Rightarrow> string list" where
  "lookupValues h key = (case h key of None \<Rightarrow> [] | Some vs \<Rightarrow> vs)"

lemma lookup_appendValue:
  "lookupValues (appendValue key v h) k = lookupValues h k @ (if k = key then [v] else [])"
  by (simp add: lookupValues_def appendValue_def)

lemma lookup_collectFields:
  "lookupValues (collectFields kvs h) (canonicalHeader name) =
     lookupValues h (canonicalHeader name) @ valuesOf kvs name"
  by (induction kvs arbitrary: h)
    (simp_all add: collectFields_def valuesOf_def lookup_appendValue)

lemma Cut_field: "fieldName k \<Longrightarrow> Cut (headerLine (k, v)) '':'' = (k, CHR '' '' # v, True)"
  using Cut_byte [of "CHR '':''" k] by (simp add: headerLine_def fieldName_def)

lemma headerLine_shape:
  assumes "fieldName k"
  shows "headerLine (k, v) \<noteq> []"
    and "\<not> HasPrefix (headerLine (k, v)) '' ''" and "\<not> HasPrefix (headerLine (k, v)) [TAB]"
  using assms by (cases k; auto simp: headerLine_def HasPrefix_def fieldName_def)+

lemma parseHeaderLines_fields:
  "\<forall>kv \<in> set kvs. fieldOk kv \<Longrightarrow>
     parseHeaderLines cur h (map headerLine kvs) = Inr (collectFields kvs h)"
proof (induction kvs arbitrary: cur h)
  case (Cons kv kvs)
  obtain k v where kv: "kv = (k, v)" by force
  then have k: "fieldName k" using Cons.prems by (simp add: fieldOk_def)
  show ?case
    using Cons kv headerLine_shape [OF k, of v] Cut_field [OF k, of v]
    by (simp add: collectFields_def)
qed (simp add: collectFields_def)

lemma headerLine_ok: "fieldOk kv \<Longrightarrow> headerLine kv \<noteq> [] \<and> lineFree (headerLine kv)"
  by (cases kv) (auto simp: fieldOk_def fieldName_def headerLine_def)

subsection \<open>Messages\<close>

text \<open>Any message that is written line by line is read back.\<close>

lemma sipParse_wire:
  assumes start: "TrimSpace start \<noteq> []" "lineFree start"
    and line: "parseStartLine (TrimSpace start) = Inr (m, u, st, rs)"
    and fields: "\<forall>kv \<in> set kvs. fieldOk kv"
  shows "sipParse (wireMessage (start # map headerLine kvs) body) =
    Inr \<lparr> smStartLine = TrimSpace start, smMethod = m, smURI = u, smStatus = st, smReason = rs,
          smHeaders = collectFields kvs Map.empty, smBody = ReplaceAll body CRLF [NL], smSource = None \<rparr>"
proof -
  let ?ls = "start # map headerLine kvs"
  have "start \<noteq> []" using start(1) by (auto simp: TrimSpace_rtrim)
  then have ls: "\<forall>l \<in> set ?ls. l \<noteq> [] \<and> lineFree l"
    using start(2) fields headerLine_ok by auto
  have r: "ReplaceAll (wireMessage ?ls body) CRLF [NL] =
      concat (map (\<lambda>l. l @ [NL]) ?ls) @ NL # ReplaceAll body CRLF [NL]"
    using ReplaceAll_lines [of ?ls "CRLF @ body"] ls ReplaceAll_line [of "[]"]
    by (simp add: wireMessage_def del: ReplaceAll.simps)
  have c: "Cut (ReplaceAll (wireMessage ?ls body) CRLF [NL]) [NL, NL] =
      (Join ?ls [NL], ReplaceAll body CRLF [NL], True)"
    unfolding r by (rule Cut_blank_line) (use ls in auto)
  have s: "SplitByte NL (Join ?ls [NL]) = ?ls"
    using ls by (intro SplitByte_Join) (auto simp: lineFree_def)
  show ?thesis
    using start(1) line parseHeaderLines_fields [OF fields]
    by (simp add: sipParse_def c s del: ReplaceAll.simps SplitByte.simps Join.simps)
qed

lemma HeaderValues_collect:
  "smHeaders m = collectFields kvs Map.empty \<Longrightarrow> HeaderValues m name = valuesOf kvs name"
  using lookup_collectFields [of kvs Map.empty name]
  by (simp add: HeaderValues_def lookupValues_def)

lemma bodyHeaders_ok: "kv \<in> set (bodyHeaders body) \<Longrightarrow> fieldOk kv"
  by (auto simp: bodyHeaders_def fieldOk_def fieldName_def split: if_splits)

lemma requestLine:
  assumes "isWord meth" "isWord uri" "meth \<noteq> ''SIP/2.0''"
  defines "l \<equiv> meth @ '' '' @ uri @ '' SIP/2.0''"
  shows "TrimSpace l = l" "l \<noteq> []" "lineFree l"
    and "parseStartLine l = Inr (meth, uri, 0, [])"
proof -
  have v: "isWord ''SIP/2.0''" by (simp add: isWord_def isSpaceU_def)
  have f: "Fields l = [meth, uri, ''SIP/2.0'']"
    using assms(1,2) v Fields_Cons_word [of meth] Fields_Cons_word [of uri "''SIP/2.0''"]
    by (simp add: l_def)
  have h: "hd l = hd meth" "last l = CHR ''0''" "l \<noteq> []"
    using assms(1) by (auto simp: l_def isWord_def)
  show "TrimSpace l = l"
    using h assms(1) by (intro TrimSpace_id) (auto simp: isWord_def spaceFree_def isSpaceU_def)
  show "l \<noteq> []" by (rule h)
  show "lineFree l" using assms(1,2) by (simp add: l_def)
  have "\<not> HasPrefix l ''SIP/2.0 ''"
  proof
    assume "HasPrefix l ''SIP/2.0 ''"
    then obtain t where "l = ''SIP/2.0'' @ '' '' @ t" by (auto simp: HasPrefix_def prefix_def)
    then have "Fields l = ''SIP/2.0'' # Fields t" using Fields_Cons_word [OF v, of t] by simp
    then show False using f assms(3) by simp
  qed
  then show "parseStartLine l = Inr (meth, uri, 0, [])"
    by (simp add: parseStartLine_def f)
qed

text \<open>C31: A request that the gateway writes is read back by a peer using the same parser: the method,
  the URI and every header field with its values in order, whatever the order of the map.  Header
  values lose surrounding white space and the line ends of the body are normalised.
\<close>

theorem sip_request_round_trip:
  assumes "isWord meth" "isWord uri" "meth \<noteq> ''SIP/2.0''"
    and "\<forall>kv \<in> set headers. fieldOk kv"
  shows "\<exists>m. sipParse (BuildRequest meth uri headers body) = Inr m \<and>
      smMethod m = meth \<and> smURI m = uri \<and> smStatus m = 0 \<and>
      smBody m = ReplaceAll body CRLF [NL] \<and>
      (\<forall>name. HeaderValues m name = valuesOf (headers @ bodyHeaders body) name)"
proof -
  let ?kvs = "headers @ bodyHeaders body"
  have f: "\<forall>kv \<in> set ?kvs. fieldOk kv"
    using assms(4) bodyHeaders_ok by auto
  show ?thesis
    unfolding BuildRequest_def
    using requestLine [OF assms(1-3)] sipParse_wire [OF _ _ _ f] HeaderValues_collect [of _ ?kvs]
    by (auto simp del: ReplaceAll.simps)
qed


theorem sip_request_round_trip_witness:
  "\<exists>m. sipParse (BuildRequest ''BYE'' ''sip:42@192.0.2.9'' [(''Call-ID'', ''a1''), (''Max-Forwards'', ''70'')] []) = Inr m \<and>
      smMethod m = ''BYE'' \<and> smURI m = ''sip:42@192.0.2.9'' \<and> HeaderValues m ''call-id'' = [''a1'']"
proof -
  let ?h = "[(''Call-ID'', ''a1''), (''Max-Forwards'', ''70'')]"
  have "isWord ''BYE''" "isWord ''sip:42@192.0.2.9''" "\<forall>kv \<in> set ?h. fieldOk kv"
    "valuesOf (?h @ bodyHeaders []) ''call-id'' = [''a1'']"
    by code_simp+
  then show ?thesis
    using sip_request_round_trip [of "''BYE''" "''sip:42@192.0.2.9''" ?h "[]"] by fastforce
qed

subsection \<open>Responses\<close>

lemma responseLine:
  assumes "- (2 ^ 63) \<le> st" "st < 2 ^ 63" "lineFree reason"
  defines "l \<equiv> ''SIP/2.0 '' @ Itoa st @ '' '' @ reason"
  shows "TrimSpace l \<noteq> []" "lineFree l"
    and "parseStartLine (TrimSpace l) = Inr ([], [], st, Join (Fields reason) '' '')"
proof -
  let ?w = "''SIP/2.0 '' @ Itoa st"
  have v: "isWord ''SIP/2.0''" by (simp add: isWord_def isSpaceU_def)
  have i: "Itoa st \<noteq> []" "\<not> isSpaceU (last (Itoa st))"
    using isWord_Itoa [of st] by (auto simp: isWord_def spaceFree_def simp del: isWord_Itoa)
  have t: "TrimSpace l = ?w @ rtrim ('' '' @ reason)"
    using TrimSpace_append [of ?w "'' '' @ reason"] i by (simp add: l_def isSpaceU_def)
  have f: "Fields l = ''SIP/2.0'' # Itoa st # Fields reason"
    using Fields_Cons_word [OF v, of "Itoa st @ '' '' @ reason"] Fields_Cons_word [of "Itoa st" reason]
    by (simp add: l_def)
  show "TrimSpace l \<noteq> []" by (simp add: t)
  show "lineFree l" using assms(3) by (simp add: l_def)
  have p: "HasPrefix (TrimSpace l) ''SIP/2.0 ''" by (simp add: t HasPrefix_def)
  show "parseStartLine (TrimSpace l) = Inr ([], [], st, Join (Fields reason) '' '')"
    by (cases "Fields reason") (simp_all add: parseStartLine_def f p Let_def Atoi_Itoa [OF assms(1,2)])
qed

text \<open>No value of a parsed message holds a line end, so that each can be written again.\<close>

definition linesOk :: "string \<Rightarrow> sip_headers \<Rightarrow> bool" where
  "linesOk cur h \<longleftrightarrow> (\<forall>k. \<forall>v \<in> set (lookupValues h k). lineFree v) \<and>
     (cur \<noteq> [] \<longrightarrow> lookupValues h cur \<noteq> [])"

lemma linesOk_append: "linesOk cur h \<Longrightarrow> lineFree v \<Longrightarrow> linesOk key (appendValue key v h)"
  by (auto simp: linesOk_def lookup_appendValue)

lemma linesOk_fold:
  assumes "linesOk cur h" "lineFree v" "cur \<noteq> []"
  shows "linesOk cur (foldValue cur v h)"
proof -
  have ne: "lookupValues h cur \<noteq> []" using assms by (simp add: linesOk_def)
  then obtain vs where vs: "h cur = Some vs" "vs \<noteq> []"
    by (auto simp: lookupValues_def split: option.splits)
  have old: "\<forall>k. \<forall>v \<in> set (lookupValues h k). lineFree v"
    using assms(1) by (simp add: linesOk_def)
  then have "\<forall>x \<in> set vs. lineFree x"
    using vs by (metis lookupValues_def option.simps(5))
  then have new: "\<forall>x \<in> set (butlast vs @ [last vs @ '' '' @ v]). lineFree x"
    using vs(2) assms(2) by (auto dest: in_set_butlastD)
  have "lookupValues (foldValue cur v h) k =
      (if k = cur then butlast vs @ [last vs @ '' '' @ v] else lookupValues h k)" for k
    by (simp add: foldValue_def lookupValues_def vs)
  then show ?thesis using new old by (auto simp: linesOk_def)
qed

lemma Cut_lineFree: "Cut s sep = (a, b, found) \<Longrightarrow> lineFree s \<Longrightarrow> lineFree a \<and> lineFree b"
  by (auto simp: Cut_def lineFree_def split: option.splits dest: in_set_takeD in_set_dropD)

lemma parseHeaderLines_linesOk:
  "parseHeaderLines cur h ls = Inr h' \<Longrightarrow> linesOk cur h \<Longrightarrow> \<forall>l \<in> set ls. lineFree l \<Longrightarrow>
     \<exists>cur'. linesOk cur' h'"
proof (induction cur h ls rule: parseHeaderLines.induct)
  case (2 cur h raw rest)
  consider (blank) "raw = []" | (folded) "raw \<noteq> []" "HasPrefix raw '' '' \<or> HasPrefix raw [TAB]"
    | (field) "raw \<noteq> []" "\<not> (HasPrefix raw '' '' \<or> HasPrefix raw [TAB])" by blast
  then show ?case
  proof cases
    case blank
    then show ?thesis using 2 by simp
  next
    case folded
    then have "cur \<noteq> []" using 2(4) by (auto split: if_splits)
    then show ?thesis
      using folded 2 linesOk_fold [OF 2(5)] lineFree_TrimSpace [of raw] by simp
  next
    case field
    obtain name v ok where c: "Cut raw '':'' = (name, v, ok)" by (cases "Cut raw '':''") auto
    then have "lineFree (TrimSpace v)" and ok: ok
      using 2(4,6) field Cut_lineFree [OF c] by (auto simp: lineFree_TrimSpace split: if_splits)
    then have "linesOk (canonicalHeader name) (appendValue (canonicalHeader name) (TrimSpace v) h)"
      using 2(5) linesOk_append by blast
    then show ?thesis using 2(3) [OF field c [symmetric] refl _ refl] 2(4,6) field c ok by (simp add: Let_def)
  qed
qed auto

lemma sipParse_lineFree:
  assumes "sipParse data = Inr req" "v \<in> set (HeaderValues req name)"
  shows "lineFree v"
proof -
  obtain txt1 ls h where "parseHeaderLines [] Map.empty (tl ls) = Inr h" "smHeaders req = h"
      "ls = SplitByte NL txt1"
    using assms(1)
    by (auto simp: sipParse_def Let_def split: prod.splits if_splits sum.splits simp del: SplitByte.simps)
  moreover have "\<forall>l \<in> set (tl (SplitByte NL txt1)). lineFree l"
    using SplitByte_parts [of _ NL txt1] by (metis lineFree_def list.set_sel(2) SplitByte_nonempty)
  moreover have "linesOk [] Map.empty" by (simp add: linesOk_def lookupValues_def)
  ultimately obtain cur where "linesOk cur (smHeaders req)"
    using parseHeaderLines_linesOk by blast
  then show ?thesis using assms(2) by (simp add: linesOk_def HeaderValues_def lookupValues_def)
qed


lemma sipParse_Header_lineFree: "sipParse data = Inr req \<Longrightarrow> lineFree (Header req name)"
  using sipParse_lineFree [of data req "hd (HeaderValues req name)" name]
  by (auto simp: Header_def split: list.splits)

lemma canonical_names [simp]:
  "canonicalHeader ''Via'' = ''Via''" "canonicalHeader ''From'' = ''From''"
  "canonicalHeader ''To'' = ''To''" "canonicalHeader ''Call-ID'' = ''Call-Id''"
  "canonicalHeader ''i'' = ''Call-ID''" "canonicalHeader ''CSeq'' = ''Cseq''"
  "canonicalHeader ''Contact'' = ''Contact''" "canonicalHeader ''Content-Type'' = ''Content-Type''"
  "canonicalHeader ''Content-Length'' = ''Content-Length''"
  by code_simp+

lemma responseHeaders_ok:
  assumes "sipParse data = Inr req" "lineFree localContact" "\<forall>kv \<in> set extra. fieldOk kv"
  shows "\<forall>kv \<in> set (responseHeaders req status body localContact extra). fieldOk kv"
proof -
  have "lineFree (CallID req)" using sipParse_Header_lineFree [OF assms(1)] by (simp add: CallID_def)
  then show ?thesis
    using assms(2,3) sipParse_lineFree [OF assms(1)] sipParse_Header_lineFree [OF assms(1)] bodyHeaders_ok
    by (auto simp: responseHeaders_def fieldOk_def fieldName_def split: if_splits)
qed

definition responseField :: "string \<Rightarrow> bool" where
  "responseField name \<longleftrightarrow>
     canonicalHeader name \<in> set [''Via'', ''From'', ''To'', ''Call-Id'', ''Call-ID'', ''Cseq'']"

lemma valuesOf_skip:
  "responseField name \<Longrightarrow> \<forall>kv \<in> set kvs. \<not> responseField (fst kv) \<Longrightarrow> valuesOf kvs name = []"
  by (auto simp: valuesOf_def responseField_def filter_empty_conv)

lemma valuesOf_append: "valuesOf (a @ b) name = valuesOf a name @ valuesOf b name"
  by (simp add: valuesOf_def)

definition echoedFields :: "sip_message \<Rightarrow> int \<Rightarrow> (string \<times> string) list" where
  "echoedFields req status =
     map (\<lambda>via. (''Via'', via)) (HeaderValues req ''Via'') @
      [(''From'', Header req ''From''),
       (''To'', Header req ''To'' @
         (if status \<noteq> 100 \<and> \<not> Contains (ToLower (Header req ''To'')) ''tag='' then '';tag=gw'' else [])),
       (''Call-ID'', CallID req), (''CSeq'', Header req ''CSeq'')]"

lemma valuesOf_response:
  assumes "\<forall>kv \<in> set extra. \<not> responseField (fst kv)" "responseField name"
  shows "valuesOf (responseHeaders req status body localContact extra) name =
    valuesOf (echoedFields req status) name"
proof -
  have "valuesOf (bodyHeaders body) name = []"
    using assms(2) by (intro valuesOf_skip) (auto simp: bodyHeaders_def responseField_def)
  moreover have "valuesOf (if localContact \<noteq> [] then [(''Contact'', ''<'' @ localContact @ ''>'')] else []) name = []"
    using assms(2) by (intro valuesOf_skip) (auto simp: responseField_def)
  ultimately show ?thesis
    using valuesOf_skip [OF assms(2,1)]
    by (simp only: responseHeaders_def echoedFields_def valuesOf_append append_Nil2 append_assoc)
qed

lemma valuesOf_echoed:
  "valuesOf (echoedFields req status) ''Via'' = map TrimSpace (HeaderValues req ''Via'')"
  "valuesOf (echoedFields req status) ''From'' = [TrimSpace (Header req ''From'')]"
  "valuesOf (echoedFields req status) ''To'' = [TrimSpace (Header req ''To'' @
     (if status \<noteq> 100 \<and> \<not> Contains (ToLower (Header req ''To'')) ''tag='' then '';tag=gw'' else []))]"
  "valuesOf (echoedFields req status) ''Call-ID'' = [TrimSpace (CallID req)]"
  "valuesOf (echoedFields req status) ''i'' = []"
  "valuesOf (echoedFields req status) ''CSeq'' = [TrimSpace (Header req ''CSeq'')]"
  by (simp_all add: echoedFields_def valuesOf_def filter_map o_def)

text \<open>C32: A response to a request that was parsed is itself a well-formed message, and the client can
  match it: it carries the status and the reason, all Via values in order, and the From, Call-ID
  and CSeq of the request; To is that of the request, with the tag of the gateway added when it had
  none and the response is not provisional 100.
\<close>

theorem sip_response_echoes_request:
  assumes "sipParse data = Inr req"
    and "100 \<le> status" "status < 700" "lineFree reason" "lineFree localContact"
    and "\<forall>kv \<in> set extra. fieldOk kv \<and> \<not> responseField (fst kv)"
  shows "\<exists>resp. sipParse (BuildResponse req status reason body localContact extra) = Inr resp \<and>
      smStatus resp = status \<and> smReason resp = Join (Fields reason) '' '' \<and> smMethod resp = [] \<and>
      HeaderValues resp ''Via'' = map TrimSpace (HeaderValues req ''Via'') \<and>
      Header resp ''From'' = TrimSpace (Header req ''From'') \<and>
      CallID resp = TrimSpace (CallID req) \<and>
      Header resp ''CSeq'' = TrimSpace (Header req ''CSeq'') \<and>
      Header resp ''To'' = TrimSpace (Header req ''To'' @
        (if status \<noteq> 100 \<and> \<not> Contains (ToLower (Header req ''To'')) ''tag='' then '';tag=gw'' else [])) \<and>
      smBody resp = ReplaceAll body CRLF [NL]"
proof -
  let ?kvs = "responseHeaders req status body localContact extra"
  have f: "\<forall>kv \<in> set ?kvs. fieldOk kv"
    using assms by (intro responseHeaders_ok) auto
  have e: "\<forall>kv \<in> set extra. \<not> responseField (fst kv)" using assms(6) by blast
  have r: "- (2 ^ 63) \<le> status" "status < 2 ^ 63" using assms(2,3) by simp_all
  obtain resp where p: "sipParse (BuildResponse req status reason body localContact extra) = Inr resp"
    and m: "smStatus resp = status" "smReason resp = Join (Fields reason) '' ''" "smMethod resp = []"
      "smBody resp = ReplaceAll body CRLF [NL]" "smHeaders resp = collectFields ?kvs Map.empty"
    unfolding BuildResponse_def
    using responseLine [OF r assms(4)] sipParse_wire [OF _ _ _ f]
    by (auto simp del: ReplaceAll.simps)
  have v: "responseField name \<Longrightarrow> HeaderValues resp name = valuesOf (echoedFields req status) name" for name
    using HeaderValues_collect [OF m(5)] valuesOf_response [OF e] by simp
  have "responseField ''Via''" "responseField ''From''" "responseField ''To''" "responseField ''Call-ID''"
    "responseField ''i''" "responseField ''CSeq''"
    by (simp_all add: responseField_def)
  note h = this [THEN v, unfolded valuesOf_echoed]
  show ?thesis
    by (intro exI [of _ resp] conjI p m(1-4) h) (simp_all add: CallID_def [of resp] Header_def [of resp] h)
qed

theorem sip_response_echoes_request_witness:
  "case sipParse (''BYE sip:42@192.0.2.1 SIP/2.0'' @ CRLF @ ''Via: SIP/2.0/UDP a'' @ CRLF @ ''v: SIP/2.0/UDP b'' @ CRLF @
       ''i: 77'' @ CRLF @ CRLF) of
     Inl _ \<Rightarrow> False
   | Inr req \<Rightarrow> (\<exists>resp. sipParse (BuildResponse req 200 ''OK'' [] [] []) = Inr resp \<and> smStatus resp = 200 \<and>
       HeaderValues resp ''Via'' = map TrimSpace (HeaderValues req ''Via'') \<and> CallID resp = TrimSpace (CallID req))"
proof -
  let ?d = "''BYE sip:42@192.0.2.1 SIP/2.0'' @ CRLF @ ''Via: SIP/2.0/UDP a'' @ CRLF @ ''v: SIP/2.0/UDP b'' @ CRLF @
       ''i: 77'' @ CRLF @ CRLF"
  have "\<not> isl (sipParse ?d)" by code_simp
  then obtain req where "sipParse ?d = Inr req" by (cases "sipParse ?d") simp_all
  then show ?thesis
    using sip_response_echoes_request [of ?d req 200 "''OK''" "[]" "[]" "[]"] by fastforce
qed

end
