(* ===== verification/Sdp_Codec.thy ===== *)
theory Sdp_Codec
  imports Sip_Codec Sip_Sdp
begin

text \<open>
  Session descriptions against their printer (\<^verbatim>\<open>internal/sip/sdp.go\<close>): a description that
  \<^verbatim>\<open>BuildSDPWithPTime\<close> writes is read back by \<^verbatim>\<open>ParseSDP\<close> line by line, and every description
  that \<^verbatim>\<open>ParseSDP\<close> accepts is well formed.
\<close>

subsection \<open>Session descriptions\<close>

text \<open>The codecs an offer names, with their static payload types.\<close>

definition codecEntry :: "string \<Rightarrow> (string \<times> int) list" where
  "codecEntry codec =
     (let u = ToUpper codec in
      if u = ''PCMA/8000'' then [(''PCMA/8000'', 8)]
      else if u = ''PCMU/8000'' then [(''PCMU/8000'', 0)]
      else if u = ''G729/8000'' \<or> u = ''G.729/8000'' then [(''G729/8000'', 18)]
      else [])"

definition offeredCodecs :: "string list \<Rightarrow> (string \<times> int) list" where
  "offeredCodecs codecs =
     (let known = concat (map codecEntry codecs)
      in if known = [] then [(''PCMA/8000'', 8), (''PCMU/8000'', 0)] else known)"

definition eventTypes :: "int \<Rightarrow> int list" where
  "eventTypes dtmf = (if 0 < dtmf \<and> dtmf < 128 then [dtmf] else [])"

definition rtpmapLine :: "string \<times> int \<Rightarrow> string" where
  "rtpmapLine e = ''a=rtpmap:'' @ Itoa (snd e) @ '' '' @ fst e"

lemma Itoa_static [simp]: "Itoa 8 = ''8''" "Itoa 0 = ''0''" "Itoa 18 = ''18''"
  by code_simp+

lemma codecPayload_entry:
  "codecPayload codec = map (\<lambda>e. (Itoa (snd e), rtpmapLine e)) (codecEntry codec)"
  by (simp add: codecPayload_def codecEntry_def Let_def rtpmapLine_def)

lemma concat_codecPayload:
  "concat (map codecPayload codecs) =
     map (\<lambda>e. (Itoa (snd e), rtpmapLine e)) (concat (map codecEntry codecs))"
  by (induction codecs) (simp_all add: codecPayload_entry)

lemma offeredPayloads_entries:
  "offeredPayloads codecs dtmf =
     (map Itoa (map snd (offeredCodecs codecs) @ eventTypes dtmf),
      map rtpmapLine (offeredCodecs codecs) @
      concat (map (\<lambda>p. [rtpmapLine (''telephone-event/8000'', p), ''a=fmtp:'' @ Itoa p @ '' 0-16'']) (eventTypes dtmf)))"
  by (simp add: offeredPayloads_def concat_codecPayload offeredCodecs_def eventTypes_def Let_def o_def
      rtpmapLine_def)

lemma offeredCodecs_range:
  "e \<in> set (offeredCodecs codecs) \<Longrightarrow>
     e \<in> {(''PCMA/8000'', 8), (''PCMU/8000'', 0), (''G729/8000'', 18)}"
  by (auto simp: offeredCodecs_def codecEntry_def Let_def split: if_splits)

subsection \<open>One line at a time\<close>

lemma sdpFold_append:
  "sdpFold (a @ b) st = (case sdpFold a st of Inl e \<Rightarrow> Inl e | Inr st' \<Rightarrow> sdpFold b st')"
  by (induction a arbitrary: st) (auto split: sum.splits)

lemma lower_literals [simp]:
  "lowerByte (CHR ''a'') = CHR ''a''" "lowerByte (CHR ''o'') = CHR ''o''" "lowerByte (CHR ''s'') = CHR ''s''"
  "lowerByte (CHR ''v'') = CHR ''v''" "lowerByte (CHR ''t'') = CHR ''t''" "lowerByte (CHR ''c'') = CHR ''c''"
  "lowerByte (CHR ''='') = CHR ''=''" "lowerByte (CHR '':'') = CHR '':''" "lowerByte (CHR ''r'') = CHR ''r''"
  "lowerByte (CHR ''p'') = CHR ''p''" "lowerByte (CHR ''m'') = CHR ''m''" "lowerByte (CHR ''i'') = CHR ''i''"
  "lowerByte (CHR ''e'') = CHR ''e''" "lowerByte (CHR ''f'') = CHR ''f''"
  "lowerByte (CHR ''n'') = CHR ''n''" "lowerByte (CHR ''d'') = CHR ''d''"
  by code_simp+

lemma sdpLine_session:
  assumes "\<not> ssInAudio st" "c \<in> {CHR ''v'', CHR ''o'', CHR ''s'', CHR ''t''}"
  shows "sdpLine ([c, CHR ''=''] @ x) st = Inr st"
proof -
  have "TrimSpace ([c, CHR ''=''] @ x) = [c, CHR ''=''] @ rtrim x"
    using assms(2) by (intro TrimSpace_append) (auto simp: isSpaceU_def)
  then show ?thesis using assms by (auto simp: sdpLine_def HasPrefix_def ToLower_def)
qed

lemma sdpLine_connection:
  assumes "\<not> ssInAudio st" "isWord addr"
  shows "sdpLine (''c=IN IP4 '' @ addr) st = Inr (st\<lparr>ssSessionIP := addr\<rparr>)"
proof -
  have t: "TrimSpace (''c=IN IP4 '' @ addr) = ''c=IN IP4 '' @ addr"
    using assms(2) by (intro TrimSpace_id) (auto simp: isWord_def spaceFree_def isSpaceU_def)
  have w: "isWord ''IN''" "isWord ''IP4''" by (simp_all add: isWord_def isSpaceU_def)
  have "Fields (''IN IP4 '' @ addr) = [''IN'', ''IP4'', addr]"
    using Fields_Cons_word [OF w(1), of "''IP4 '' @ addr"] Fields_Cons_word [OF w(2), of addr] assms(2)
    by simp
  then show ?thesis
    using assms(1) t
    by (simp add: sdpLine_def HasPrefix_def ToLower_def sdpConnectionLine_def EqualFold_def)
qed

lemma takeWhile_Itoa: "0 \<le> n \<Longrightarrow> takeWhile (\<lambda>c. c \<noteq> CHR ''/'') (Itoa n) = Itoa n"
  using decDigits_isDigit [of n "CHR ''/''"] by (auto simp: Itoa_def takeWhile_eq_all_conv isDigit_def)

lemma sdpPayloads_Itoa: "\<forall>p \<in> set ps. 0 \<le> p \<and> p < 128 \<Longrightarrow> sdpPayloads (map Itoa ps) = ps"
  by (induction ps) (auto simp: sdpPayloads_def Atoi_Itoa)

lemma isWord_Join: "ws \<noteq> [] \<Longrightarrow> \<forall>w \<in> set ws. isWord w \<Longrightarrow>
    Join ws '' '' \<noteq> [] \<and> \<not> isSpaceU (last (Join ws '' ''))"
  by (induction ws "'' ''" rule: Join.induct) (auto simp: isWord_def spaceFree_def)

lemma sdpLine_media:
  assumes "0 < prt" "prt \<le> 65535" "ps \<noteq> []" "\<forall>p \<in> set ps. 0 \<le> p \<and> p < 128"
  shows "sdpLine (''m=audio '' @ Itoa prt @ '' RTP/AVP '' @ Join (map Itoa ps) '' '') st =
    Inr (st\<lparr>ssResult := (ssResult st)\<lparr>sdpPort := prt, sdpPayloadTypes := sdpPayloadTypes (ssResult st) @ ps\<rparr>,
            ssInAudio := True\<rparr>)"
proof -
  let ?p = "Join (map Itoa ps) '' ''" and ?b = "''audio '' @ Itoa prt @ '' RTP/AVP '' @ Join (map Itoa ps) '' ''"
  have l: "?p \<noteq> []" "\<not> isSpaceU (last ?p)"
    using isWord_Join [of "map Itoa ps"] assms(3) by auto
  have t: "TrimSpace (''m='' @ ?b) = ''m='' @ ?b"
    using l by (intro TrimSpace_id) (auto simp: isSpaceU_def)
  have w: "isWord ''audio''" "isWord ''RTP/AVP''" by (simp_all add: isWord_def isSpaceU_def)
  have f: "Fields ?b = ''audio'' # Itoa prt # ''RTP/AVP'' # map Itoa ps"
    using Fields_Cons_word [OF w(1), of "Itoa prt @ '' RTP/AVP '' @ ?p"]
      Fields_Cons_word [of "Itoa prt" "''RTP/AVP '' @ ?p"] Fields_Cons_word [OF w(2), of ?p]
      Fields_Join [of "map Itoa ps"] by simp
  have e: "EqualFold ''audio'' ''audio''" by (simp add: EqualFold_def)
  have "sdpLine (''m='' @ ?b) st = sdpMediaLine (''m='' @ ?b) (st\<lparr>ssInAudio := False\<rparr>)"
    using t by (simp add: sdpLine_def HasPrefix_def)
  also have "\<dots> = Inr (st\<lparr>ssResult := (ssResult st)\<lparr>sdpPort := prt, sdpPayloadTypes := sdpPayloadTypes (ssResult st) @ ps\<rparr>,
            ssInAudio := True\<rparr>)"
    using f e assms sdpPayloads_Itoa [OF assms(4)]
    by (cases "length ps") (simp_all add: sdpMediaLine_def TrimPrefix_def HasPrefix_def takeWhile_Itoa Atoi_Itoa Let_def)
  finally show ?thesis by simp
qed

lemma sdpLine_attribute:
  assumes "ssInAudio st" "x \<noteq> []" "\<not> isSpaceU (hd x)" "\<not> isSpaceU (last x)"
  shows "sdpLine (''a='' @ x) st = Inr (sdpAttributeLine (''a='' @ x) st)"
    and "TrimSpace (drop 2 (''a='' @ x)) = x"
proof -
  have "TrimSpace (''a='' @ x) = ''a='' @ x"
    using assms by (intro TrimSpace_id) (auto simp: isSpaceU_def)
  then show "sdpLine (''a='' @ x) st = Inr (sdpAttributeLine (''a='' @ x) st)"
    using assms(1) by (simp add: sdpLine_def HasPrefix_def ToLower_def)
  show "TrimSpace (drop 2 (''a='' @ x)) = x" using assms by (simp add: TrimSpace_id)
qed


lemma sdpLine_rtpmap:
  assumes "ssInAudio st" "isWord name" "0 \<le> p" "p < 128"
  shows "sdpLine (rtpmapLine (name, p)) st =
    Inr (let st' = st\<lparr>ssRtpmap := (ssRtpmap st)(p \<mapsto> name)\<rparr>
         in if HasPrefix (ToLower name) ''telephone-event/8000''
            then st'\<lparr>ssResult := (ssResult st')\<lparr>sdpTelephoneEvent := p\<rparr>\<rparr> else st')"
proof -
  let ?x = "''rtpmap:'' @ Itoa p @ '' '' @ name"
  have x: "?x \<noteq> []" "\<not> isSpaceU (hd ?x)" "\<not> isSpaceU (last ?x)"
    using assms(2) by (auto simp: isWord_def spaceFree_def isSpaceU_def)
  have f: "Fields (Itoa p @ '' '' @ name) = [Itoa p, name]"
    using Fields_Cons_word [of "Itoa p" name] assms(2) by simp
  have "sdpAttributeLine (''a='' @ ?x) st = sdpRtpmapAttribute ?x st"
    using sdpLine_attribute(2) [OF assms(1) x]
    by (simp add: sdpAttributeLine_def HasPrefix_def ToLower_def Let_def)
  also have "\<dots> = (let st' = st\<lparr>ssRtpmap := (ssRtpmap st)(p \<mapsto> name)\<rparr>
         in if HasPrefix (ToLower name) ''telephone-event/8000''
            then st'\<lparr>ssResult := (ssResult st')\<lparr>sdpTelephoneEvent := p\<rparr>\<rparr> else st')"
    using f assms(3,4) by (simp add: sdpRtpmapAttribute_def Atoi_Itoa Let_def)
  finally show ?thesis
    using sdpLine_attribute(1) [OF assms(1) x] by (simp add: rtpmapLine_def)
qed

lemma sdpLine_fmtp:
  assumes "ssInAudio st"
  shows "sdpLine (''a=fmtp:'' @ Itoa p @ '' 0-16'') st = Inr st"
proof -
  let ?x = "''fmtp:'' @ Itoa p @ '' 0-16''"
  have x: "?x \<noteq> []" "\<not> isSpaceU (hd ?x)" "\<not> isSpaceU (last ?x)"
    by (auto simp: isSpaceU_def)
  have "sdpAttributeLine (''a='' @ ?x) st = st"
    using sdpLine_attribute(2) [OF assms(1) x]
    by (simp add: sdpAttributeLine_def HasPrefix_def ToLower_def Let_def)
  then show ?thesis using sdpLine_attribute(1) [OF assms(1) x] by simp
qed

lemma sdpLine_ptime:
  assumes "ssInAudio st" "- (2 ^ 63) \<le> n" "n < 2 ^ 63"
  shows "sdpLine (''a=ptime:'' @ Itoa n) st = Inr (st\<lparr>ssResult := (ssResult st)\<lparr>sdpPTime := n\<rparr>\<rparr>)"
proof -
  let ?x = "''ptime:'' @ Itoa n"
  have x: "?x \<noteq> []" "\<not> isSpaceU (hd ?x)" "\<not> isSpaceU (last ?x)"
    using isWord_Itoa [of n] by (auto simp: isSpaceU_def isWord_def spaceFree_def simp del: isWord_Itoa)
  have "sdpAttributeLine (''a='' @ ?x) st = st\<lparr>ssResult := (ssResult st)\<lparr>sdpPTime := n\<rparr>\<rparr>"
    using sdpLine_attribute(2) [OF assms(1) x] Atoi_Itoa [OF assms(2,3)]
    by (simp add: sdpAttributeLine_def HasPrefix_def ToLower_def Let_def)
  then show ?thesis using sdpLine_attribute(1) [OF assms(1) x] by simp
qed

lemma sdpLine_sendrecv:
  "ssInAudio st \<Longrightarrow> sdpLine ''a=sendrecv'' st = Inr (st\<lparr>ssResult := (ssResult st)\<lparr>sdpDirection := ''sendrecv''\<rparr>\<rparr>)"
  using sdpLine_attribute [of st "''sendrecv''"]
  by (simp add: isSpaceU_def sdpAttributeLine_def Let_def ToLower_def HasPrefix_def)


subsection \<open>The description as a whole\<close>

abbreviation staticCodecs :: "(string \<times> int) set" where
  "staticCodecs \<equiv> {(''PCMA/8000'', 8), (''PCMU/8000'', 0), (''G729/8000'', 18)}"

text \<open>The mapping read from an offer gives no static payload type another codec.\<close>

definition mapOk :: "(int \<rightharpoonup> string) \<Rightarrow> bool" where
  "mapOk m \<longleftrightarrow> (\<forall>e \<in> staticCodecs. m (snd e) = None \<or> m (snd e) = Some (fst e))"

lemma static_words:
  "isWord ''PCMA/8000''" "isWord ''PCMU/8000''" "isWord ''G729/8000''" "isWord ''telephone-event/8000''"
  by (simp_all add: isWord_def isSpaceU_def)

lemma not_telephone:
  "\<not> HasPrefix (ToLower ''PCMA/8000'') ''telephone-event/8000''"
  "\<not> HasPrefix (ToLower ''PCMU/8000'') ''telephone-event/8000''"
  "\<not> HasPrefix (ToLower ''G729/8000'') ''telephone-event/8000''"
  "HasPrefix (ToLower ''telephone-event/8000'') ''telephone-event/8000''"
  by code_simp+

lemma sdpFold_rtpmaps:
  assumes "\<forall>e \<in> set es. e \<in> staticCodecs" "ssInAudio st" "mapOk (ssRtpmap st)"
  shows "\<exists>m. mapOk m \<and> sdpFold (map rtpmapLine es) st = Inr (st\<lparr>ssRtpmap := m\<rparr>)"
  using assms
proof (induction es arbitrary: st)
  case Nil
  then show ?case by (intro exI [of _ "ssRtpmap st"]) simp
next
  case (Cons e es)
  let ?st = "st\<lparr>ssRtpmap := (ssRtpmap st)(snd e \<mapsto> fst e)\<rparr>"
  have e: "e \<in> staticCodecs" using Cons.prems by simp
  then have l: "sdpLine (rtpmapLine e) st = Inr ?st"
    using sdpLine_rtpmap [OF Cons.prems(2), of "fst e" "snd e"] static_words not_telephone by auto
  have "mapOk (ssRtpmap ?st)"
    using e Cons.prems(3) by (auto simp: mapOk_def)
  moreover have "\<forall>e \<in> set es. e \<in> staticCodecs" "ssInAudio ?st"
    using Cons.prems by simp_all
  ultimately obtain m where "mapOk m" "sdpFold (map rtpmapLine es) ?st = Inr (?st\<lparr>ssRtpmap := m\<rparr>)"
    using Cons.IH [of ?st] by blast
  then show ?case using l by auto
qed

lemma addCodec_static:
  assumes "mapOk m" "e \<in> staticCodecs"
  shows "addCodec m cs (snd e) = appendUnique cs (fst e)"
proof -
  have u: "ToUpper ''PCMU/8000'' = ''PCMU/8000''" "ToUpper ''G729/8000'' = ''G729/8000''" "ToUpper [] = []"
    by code_simp+
  consider "e = (''PCMA/8000'', 8)" | "e = (''PCMU/8000'', 0)" "m 0 = None \<or> m 0 = Some ''PCMU/8000''"
    | "e = (''G729/8000'', 18)" "m 18 = None \<or> m 18 = Some ''G729/8000''"
    using assms unfolding mapOk_def by force
  then show ?thesis
    by cases (auto simp only: addCodec_def Let_def u HasPrefix_def snd_conv fst_conv option.case, simp_all)
qed

lemma addCodec_event:
  "p \<notin> {0, 8, 18} \<Longrightarrow> m p = Some ''telephone-event/8000'' \<Longrightarrow> addCodec m cs p = cs"
proof -
  have u: "ToUpper ''telephone-event/8000'' = ''TELEPHONE-EVENT/8000''" by code_simp
  show "p \<notin> {0, 8, 18} \<Longrightarrow> m p = Some ''telephone-event/8000'' \<Longrightarrow> addCodec m cs p = cs"
    by (simp add: addCodec_def u HasPrefix_def)
qed

lemma foldl_addCodec:
  "mapOk m \<Longrightarrow> \<forall>e \<in> set es. e \<in> staticCodecs \<Longrightarrow>
     foldl (addCodec m) cs (map snd es) = foldl appendUnique cs (map fst es)"
proof (induction es arbitrary: cs)
  case (Cons e es)
  then show ?case using addCodec_static [of m e] by (simp del: insert_iff)
qed simp

lemma foldl_appendUnique: "foldl appendUnique [] xs = rev (remdups (rev xs))"
  by (induction xs rule: rev_induct) (simp_all add: appendUnique_def)

text \<open>The state of the parser after the media line.\<close>

lemma sdpFold_head:
  assumes "isWord addr" "0 < prt" "prt \<le> 65535" "ps \<noteq> []" "\<forall>p \<in> set ps. 0 \<le> p \<and> p < 128"
    and "\<not> ssInAudio st"
  shows "sdpFold [''v=0'', ''o='' @ origin, ''s=H248-SIP Gateway'', ''c=IN IP4 '' @ addr, ''t=0 0'',
      ''m=audio '' @ Itoa prt @ '' RTP/AVP '' @ Join (map Itoa ps) '' ''] st =
    Inr (st\<lparr>ssResult := (ssResult st)\<lparr>sdpPort := prt, sdpPayloadTypes := sdpPayloadTypes (ssResult st) @ ps\<rparr>,
            ssSessionIP := addr, ssInAudio := True\<rparr>)"
proof -
  have a: "\<not> ssInAudio (st\<lparr>ssSessionIP := addr\<rparr>)" using assms(6) by simp
  have "sdpLine ''v=0'' st = Inr st" "sdpLine (''o='' @ origin) st = Inr st"
    "sdpLine ''s=H248-SIP Gateway'' st = Inr st"
    "sdpLine ''t=0 0'' (st\<lparr>ssSessionIP := addr\<rparr>) = Inr (st\<lparr>ssSessionIP := addr\<rparr>)"
    using sdpLine_session [OF assms(6), of "CHR ''v''" "''0''"]
      sdpLine_session [OF assms(6), of "CHR ''o''" origin]
      sdpLine_session [OF assms(6), of "CHR ''s''" "''H248-SIP Gateway''"]
      sdpLine_session [OF a, of "CHR ''t''" "''0 0''"] by simp_all
  then show ?thesis
    using sdpLine_connection [OF assms(6,1)] sdpLine_media [OF assms(2-5)] by simp
qed

text \<open>What follows the media line: mappings, the telephone events, packet time and direction.\<close>

definition tailLines :: "(string \<times> int) list \<Rightarrow> int \<Rightarrow> int \<Rightarrow> string list" where
  "tailLines es dtmf ptime =
     map rtpmapLine es @
     concat (map (\<lambda>p. [rtpmapLine (''telephone-event/8000'', p), ''a=fmtp:'' @ Itoa p @ '' 0-16'']) (eventTypes dtmf)) @
     (if ptime > 0 then [''a=ptime:'' @ Itoa ptime] else []) @ [''a=sendrecv'']"

lemma sdpFold_tail:
  assumes "\<forall>e \<in> set es. e \<in> staticCodecs" "ssInAudio st" "ssRtpmap st = Map.empty"
    and "dtmf \<notin> {8, 18}" "ptime < 2 ^ 63" "sdpTelephoneEvent (ssResult st) = 0" "sdpPTime (ssResult st) = 0"
  shows "\<exists>m. mapOk m \<and> (\<forall>p \<in> set (eventTypes dtmf). m p = Some ''telephone-event/8000'') \<and>
    sdpFold (tailLines es dtmf ptime) st =
      Inr (st\<lparr>ssRtpmap := m, ssResult := (ssResult st)\<lparr>sdpTelephoneEvent := sum_list (eventTypes dtmf),
        sdpPTime := max 0 ptime, sdpDirection := ''sendrecv''\<rparr>\<rparr>)"
proof -
  have "mapOk (ssRtpmap st)" using assms(3) by (simp add: mapOk_def)
  then obtain m where m: "mapOk m" "sdpFold (map rtpmapLine es) st = Inr (st\<lparr>ssRtpmap := m\<rparr>)"
    using sdpFold_rtpmaps [OF assms(1,2)] by blast
  let ?m = "if eventTypes dtmf = [] then m else m(dtmf \<mapsto> ''telephone-event/8000'')"
  let ?st = "st\<lparr>ssRtpmap := ?m, ssResult := (ssResult st)\<lparr>sdpTelephoneEvent := sum_list (eventTypes dtmf)\<rparr>\<rparr>"
  have ok: "mapOk ?m" using m(1) assms(4) by (auto simp: mapOk_def eventTypes_def)
  have a: "ssInAudio (st\<lparr>ssRtpmap := m\<rparr>)" using assms(2) by simp
  have ev: "sdpFold (concat (map (\<lambda>p. [rtpmapLine (''telephone-event/8000'', p), ''a=fmtp:'' @ Itoa p @ '' 0-16'']) (eventTypes dtmf)))
      (st\<lparr>ssRtpmap := m\<rparr>) = Inr ?st"
  proof (cases "0 < dtmf \<and> dtmf < 128")
    case True
    then show ?thesis
      using sdpLine_rtpmap [OF a static_words(4), of dtmf] not_telephone(4) sdpLine_fmtp assms(2)
      by (simp add: eventTypes_def Let_def)
  next
    case False
    then have "eventTypes dtmf = []" by (auto simp: eventTypes_def)
    then show ?thesis using assms(6) by simp
  qed
  have "ssInAudio ?st" using assms(2) by simp
  then have "sdpFold ((if ptime > 0 then [''a=ptime:'' @ Itoa ptime] else []) @ [''a=sendrecv'']) ?st =
      Inr (?st\<lparr>ssResult := (ssResult ?st)\<lparr>sdpPTime := max 0 ptime, sdpDirection := ''sendrecv''\<rparr>\<rparr>)"
    using sdpLine_ptime [of ?st ptime] sdpLine_sendrecv assms(5,7) by (auto simp: max_def)
  then show ?thesis
    using ok m(2) ev by (intro exI [of _ ?m]) (auto simp: tailLines_def sdpFold_append eventTypes_def)
qed

lemma sdpLines_shape:
  "sdpLines origin addr prt codecs dtmf ptime =
     [''v=0'', ''o='' @ origin @ '' 1 1 IN IP4 '' @ addr, ''s=H248-SIP Gateway'', ''c=IN IP4 '' @ addr, ''t=0 0'',
      ''m=audio '' @ Itoa prt @ '' RTP/AVP '' @ Join (map Itoa (map snd (offeredCodecs codecs) @ eventTypes dtmf)) '' ''] @
     tailLines (offeredCodecs codecs) dtmf ptime"
  by (simp add: sdpLines_def offeredPayloads_entries tailLines_def)

lemma tailLines_lineFree:
  assumes "\<forall>e \<in> set es. e \<in> staticCodecs" "l \<in> set (tailLines es dtmf ptime)"
  shows "lineFree l"
proof -
  have r: "isWord name \<Longrightarrow> lineFree (rtpmapLine (name, p))" for name p
    by (simp add: rtpmapLine_def)
  have "lineFree (rtpmapLine e)" if "e \<in> set es" for e
    using assms(1) that r static_words by (cases e) auto
  then show ?thesis
    using assms(2) r [OF static_words(4)] by (auto simp: tailLines_def split: if_splits)
qed

lemma Join_lines: "ls \<noteq> [] \<Longrightarrow> Join ls sep @ sep = concat (map (\<lambda>l. l @ sep) ls)"
  by (induction ls sep rule: Join.induct) simp_all

lemma split_wire_lines:
  assumes "ls \<noteq> []" "\<forall>l \<in> set ls. lineFree l"
  shows "SplitByte NL (ReplaceAll (Join ls CRLF @ CRLF) CRLF [NL]) = ls @ [[]]"
proof -
  have "ReplaceAll (Join ls CRLF @ CRLF) CRLF [NL] = concat (map (\<lambda>l. l @ [NL]) ls)"
    using ReplaceAll_lines [OF assms(2), of "[]"] Join_lines [OF assms(1), of CRLF] by simp
  then show ?thesis using SplitByte_lines [of ls NL] assms(2) by (simp add: lineFree_def)
qed

lemma sdpFinish_codecs:
  assumes "sdpIP (ssResult st) = []" "ssSessionIP st \<noteq> []" "sdpPort (ssResult st) \<noteq> 0"
    and "sdpCodecs (ssResult st) = []" "sdpPayloadTypes (ssResult st) = map snd es @ evs"
    and "\<forall>e \<in> set es. e \<in> staticCodecs" "mapOk (ssRtpmap st)"
    and "\<forall>p \<in> set evs. p \<notin> {0, 8, 18} \<and> ssRtpmap st p = Some ''telephone-event/8000''"
  shows "sdpFinish st =
    Inr ((ssResult st)\<lparr>sdpIP := ssSessionIP st, sdpCodecs := rev (remdups (rev (map fst es)))\<rparr>)"
proof -
  have "foldl (addCodec (ssRtpmap st)) cs evs = cs" for cs
    using assms(8) by (induction evs) (simp_all add: addCodec_event)
  then show ?thesis
    using assms(1-5) foldl_addCodec [OF assms(7,6), of "[]"] foldl_appendUnique
    by (simp add: sdpFinish_def Let_def)
qed

lemma lineFree_Join: "\<forall>w \<in> set ws. lineFree w \<Longrightarrow> lineFree sep \<Longrightarrow> lineFree (Join ws sep)"
  by (induction ws sep rule: Join.induct) auto

lemma offered_facts:
  "\<forall>e \<in> set (offeredCodecs codecs). e \<in> staticCodecs"
  "map snd (offeredCodecs codecs) @ eventTypes dtmf \<noteq> []"
  "\<forall>p \<in> set (map snd (offeredCodecs codecs) @ eventTypes dtmf). 0 \<le> p \<and> p < 128"
proof -
  show "\<forall>e \<in> set (offeredCodecs codecs). e \<in> staticCodecs"
    using offeredCodecs_range by blast
  show "map snd (offeredCodecs codecs) @ eventTypes dtmf \<noteq> []"
    by (auto simp: offeredCodecs_def Let_def)
  show "\<forall>p \<in> set (map snd (offeredCodecs codecs) @ eventTypes dtmf). 0 \<le> p \<and> p < 128"
    using offeredCodecs_range [of _ codecs] by (fastforce simp: eventTypes_def)
qed

lemma sdpLines_lineFree:
  assumes "lineFree origin" "isWord addr" "l \<in> set (sdpLines origin addr prt codecs dtmf ptime)"
  shows "lineFree l"
proof -
  have j: "lineFree (Join (map Itoa ps) '' '')" for ps
    by (rule lineFree_Join) auto
  show ?thesis
    using assms tailLines_lineFree [OF offered_facts(1)] j
    by (auto simp: sdpLines_shape simp del: map_append map_map)
qed

text \<open>C33: A session description that the gateway writes is read back as it was meant: address, port,
  the codecs it was configured with (each once, in the order of preference, or both companding laws
  when none is known), the payload types, the telephone-event type when it is a valid one, packet
  time and direction.  The telephone-event type must not be the static type of a codec.
\<close>

theorem sdp_round_trip:
  assumes "lineFree origin" "isWord addr" "0 < prt" "prt \<le> 65535" "dtmf \<notin> {8, 18}" "ptime < 2 ^ 63"
  shows "ParseSDP (BuildSDPWithPTime origin addr prt codecs dtmf ptime) =
    Inr \<lparr> sdpIP = addr, sdpPort = prt,
          sdpCodecs = rev (remdups (rev (map fst (offeredCodecs codecs)))),
          sdpPayloadTypes = map snd (offeredCodecs codecs) @ eventTypes dtmf,
          sdpTelephoneEvent = (if 0 < dtmf \<and> dtmf < 128 then dtmf else 0),
          sdpPTime = max 0 ptime, sdpDirection = ''sendrecv'' \<rparr>"
proof -
  let ?es = "offeredCodecs codecs" and ?ls = "sdpLines origin addr prt codecs dtmf ptime"
  let ?st0 = "\<lparr> ssResult = emptySDP\<lparr>sdpDirection := ''sendrecv''\<rparr>, ssSessionIP = [], ssInAudio = False,
    ssRtpmap = Map.empty \<rparr>"
  let ?st1 = "?st0\<lparr>ssResult := (ssResult ?st0)\<lparr>sdpPort := prt, sdpPayloadTypes := map snd ?es @ eventTypes dtmf\<rparr>,
    ssSessionIP := addr, ssInAudio := True\<rparr>"
  have split: "SplitByte NL (ReplaceAll (Join ?ls CRLF @ CRLF) CRLF [NL]) = ?ls @ [[]]"
    using sdpLines_lineFree [OF assms(1,2)] by (intro split_wire_lines) (auto simp: sdpLines_shape)
  have nil: "sdpFold [[]] st = Inr st" for st by (simp add: sdpLine_def TrimSpace_rtrim)
  obtain m where m: "mapOk m" "\<forall>p \<in> set (eventTypes dtmf). m p = Some ''telephone-event/8000''"
      "sdpFold (tailLines ?es dtmf ptime) ?st1 =
        Inr (?st1\<lparr>ssRtpmap := m, ssResult := (ssResult ?st1)\<lparr>sdpTelephoneEvent := sum_list (eventTypes dtmf),
          sdpPTime := max 0 ptime, sdpDirection := ''sendrecv''\<rparr>\<rparr>)"
    using sdpFold_tail [OF offered_facts(1), of ?st1 dtmf ptime codecs] assms(5,6) by (auto simp: emptySDP_def)
  have h: "sdpFold (?ls @ [[]]) ?st0 = sdpFold (tailLines ?es dtmf ptime @ [[]]) ?st1"
    using sdpFold_head [OF assms(2-4) offered_facts(2,3), of ?st0 "origin @ '' 1 1 IN IP4 '' @ addr"]
    by (simp only: sdpLines_shape append_assoc sdpFold_append [of "[_, _, _, _, _, _]"]) (simp add: emptySDP_def)
  let ?st2 = "?st1\<lparr>ssRtpmap := m, ssResult := (ssResult ?st1)\<lparr>sdpTelephoneEvent := sum_list (eventTypes dtmf),
    sdpPTime := max 0 ptime, sdpDirection := ''sendrecv''\<rparr>\<rparr>"
  have e: "\<forall>p \<in> set (eventTypes dtmf). p \<notin> {0, 8, 18} \<and> ssRtpmap ?st2 p = Some ''telephone-event/8000''"
    using m(2) assms(5) by (auto simp: eventTypes_def)
  have t: "sdpFold (tailLines ?es dtmf ptime @ [[]]) ?st1 = Inr ?st2"
    by (simp only: sdpFold_append [of "tailLines ?es dtmf ptime"] m(3) nil sum.case)
  have "ParseSDP (BuildSDPWithPTime origin addr prt codecs dtmf ptime) = sdpFinish ?st2"
    by (simp only: ParseSDP_def BuildSDPWithPTime_def split h t sum.case)
  also have "\<dots> = Inr ((ssResult ?st2)\<lparr>sdpIP := ssSessionIP ?st2, sdpCodecs := rev (remdups (rev (map fst ?es)))\<rparr>)"
    using assms(2,3) by (intro sdpFinish_codecs [OF _ _ _ _ _ offered_facts(1) _ e])
      (simp_all add: emptySDP_def isWord_def m(1))
  finally show ?thesis by (simp add: emptySDP_def eventTypes_def)
qed

theorem sdp_round_trip_witness:
  "ParseSDP (BuildSDPWithPTime ''h248gw'' ''192.0.2.1'' 20000 [''pcma/8000'', ''PCMU/8000'', ''opus''] 101 20) =
    Inr \<lparr> sdpIP = ''192.0.2.1'', sdpPort = 20000, sdpCodecs = [''PCMA/8000'', ''PCMU/8000''],
          sdpPayloadTypes = [8, 0, 101], sdpTelephoneEvent = 101, sdpPTime = 20, sdpDirection = ''sendrecv'' \<rparr>"
proof -
  have "offeredCodecs [''pcma/8000'', ''PCMU/8000'', ''opus''] = [(''PCMA/8000'', 8), (''PCMU/8000'', 0)]"
    by code_simp
  moreover have "lineFree ''h248gw''" "isWord ''192.0.2.1''" by code_simp+
  ultimately show ?thesis
    using sdp_round_trip [of "''h248gw''" "''192.0.2.1''" 20000 101 20 "[''pcma/8000'', ''PCMU/8000'', ''opus'']"]
    by (simp add: eventTypes_def del: lineFree_simps)
qed

subsection \<open>What the parser accepts\<close>

definition resultOk :: "sdp \<Rightarrow> bool" where
  "resultOk r \<longleftrightarrow> 0 \<le> sdpPort r \<and> sdpPort r \<le> 65535 \<and>
     (\<forall>p \<in> set (sdpPayloadTypes r). 0 \<le> p \<and> p < 128) \<and> sdpCodecs r = [] \<and>
     sdpDirection r \<in> {''sendrecv'', ''sendonly'', ''recvonly'', ''inactive''}"

lemma sdpPayloads_range: "p \<in> set (sdpPayloads fs) \<Longrightarrow> 0 \<le> p \<and> p < 128"
  by (auto simp: sdpPayloads_def)

lemma resultOk_attribute: "resultOk (ssResult st) \<Longrightarrow> resultOk (ssResult (sdpAttributeLine l st))"
  by (auto simp: sdpAttributeLine_def sdpRtpmapAttribute_def resultOk_def Let_def)

lemma resultOk_connection: "resultOk (ssResult st) \<Longrightarrow> resultOk (ssResult (sdpConnectionLine l st))"
  by (auto simp: sdpConnectionLine_def resultOk_def Let_def)

lemma resultOk_media: "sdpMediaLine l st = Inr st' \<Longrightarrow> resultOk (ssResult st) \<Longrightarrow> resultOk (ssResult st')"
  by (auto simp: sdpMediaLine_def resultOk_def Let_def split: if_splits dest: sdpPayloads_range)

lemma resultOk_line: "sdpLine l st = Inr st' \<Longrightarrow> resultOk (ssResult st) \<Longrightarrow> resultOk (ssResult st')"
  using resultOk_media resultOk_connection resultOk_attribute
  by (fastforce simp: sdpLine_def Let_def split: if_splits)

lemma resultOk_fold: "sdpFold ls st = Inr st' \<Longrightarrow> resultOk (ssResult st) \<Longrightarrow> resultOk (ssResult st')"
  by (induction ls arbitrary: st) (auto split: sum.splits dest: resultOk_line)

lemma addCodec_known:
  "distinct cs \<Longrightarrow> set cs \<subseteq> fst ` staticCodecs \<Longrightarrow>
     distinct (addCodec m cs p) \<and> set (addCodec m cs p) \<subseteq> fst ` staticCodecs"
  by (auto simp: addCodec_def appendUnique_def Let_def)

lemma foldl_addCodec_known:
  "distinct cs \<Longrightarrow> set cs \<subseteq> fst ` staticCodecs \<Longrightarrow>
     distinct (foldl (addCodec m) cs ps) \<and> set (foldl (addCodec m) cs ps) \<subseteq> fst ` staticCodecs"
proof (induction ps arbitrary: cs)
  case (Cons p ps)
  then show ?case using addCodec_known [of cs m p] by (simp del: image_insert)
qed simp

lemma sdpFinish_shape:
  "sdpFinish st = Inr r \<Longrightarrow> sdpIP r \<noteq> [] \<and> sdpPort r \<noteq> 0 \<and> sdpPort r = sdpPort (ssResult st) \<and>
     sdpPayloadTypes r = sdpPayloadTypes (ssResult st) \<and> sdpDirection r = sdpDirection (ssResult st) \<and>
     sdpCodecs r = foldl (addCodec (ssRtpmap st)) (sdpCodecs (ssResult st)) (sdpPayloadTypes (ssResult st))"
  by (auto simp: sdpFinish_def Let_def split: if_splits)

text \<open>C34: Whatever the body, a description the parser accepts names an address and a port from 1 to
  65535, payload types that fit in seven bits, each supported codec at most once and nothing else,
  and one of the four directions.
\<close>

theorem sdp_result_well_formed:
  assumes "ParseSDP body = Inr r"
  shows "sdpIP r \<noteq> [] \<and> 0 < sdpPort r \<and> sdpPort r \<le> 65535 \<and>
    (\<forall>p \<in> set (sdpPayloadTypes r). 0 \<le> p \<and> p < 128) \<and>
    distinct (sdpCodecs r) \<and> set (sdpCodecs r) \<subseteq> {''PCMA/8000'', ''PCMU/8000'', ''G729/8000''} \<and>
    sdpDirection r \<in> {''sendrecv'', ''sendonly'', ''recvonly'', ''inactive''}"
proof -
  let ?st0 = "\<lparr> ssResult = emptySDP\<lparr>sdpDirection := ''sendrecv''\<rparr>, ssSessionIP = [], ssInAudio = False,
    ssRtpmap = Map.empty \<rparr>"
  obtain ls st where f: "sdpFold ls ?st0 = Inr st" "sdpFinish st = Inr r"
    using assms by (auto simp: ParseSDP_def split: sum.splits)
  have ok: "resultOk (ssResult st)"
    using resultOk_fold [OF f(1)] by (simp add: resultOk_def emptySDP_def)
  have c: "distinct (foldl (addCodec m) [] ps) \<and>
      set (foldl (addCodec m) [] ps) \<subseteq> {''PCMA/8000'', ''PCMU/8000'', ''G729/8000''}" for m ps
    using foldl_addCodec_known [of "[]" m ps] by simp
  show ?thesis
    using sdpFinish_shape [OF f(2)] ok c [of "ssRtpmap st" "sdpPayloadTypes (ssResult st)"]
    by (simp add: resultOk_def)
qed

theorem sdp_result_well_formed_witness:
  "case ParseSDP (''c=IN IP4 192.0.2.7'' @ CRLF @ ''m=audio 4000 RTP/AVP 0 200 8 0'' @ CRLF @ ''a=sendonly'') of
     Inl _ \<Rightarrow> False
   | Inr r \<Rightarrow> sdpIP r \<noteq> [] \<and> 0 < sdpPort r \<and> sdpPort r \<le> 65535 \<and> distinct (sdpCodecs r)"
proof -
  let ?b = "''c=IN IP4 192.0.2.7'' @ CRLF @ ''m=audio 4000 RTP/AVP 0 200 8 0'' @ CRLF @ ''a=sendonly''"
  have "\<not> isl (ParseSDP ?b)" by code_simp
  then obtain r where "ParseSDP ?b = Inr r" by (cases "ParseSDP ?b") simp_all
  then show ?thesis using sdp_result_well_formed [of ?b r] by simp
qed

end
