(* ===== verification/Socket_Bind.thy ===== *)
theory Socket_Bind
  imports Go_Strings
begin

text \<open>
  The opening of a UDP socket (\<^verbatim>\<open>internal/socketbind\<close>), for Linux (\<open>linux\<close>) and for other systems.  What the operating
  system does is a parameter: whether the option \<^verbatim>\<open>SO_BINDTODEVICE\<close> can be set for a device, and what listening on an
  address gives.
\<close>

datatype bind_error = DeviceUnsupported string | DeviceRefused string | ListenRefused string | NotUDP string

datatype packet_conn = UDPConn | OtherConn

record socket_system =
  sysBindToDevice :: "string \<Rightarrow> bool"
  sysListenPacket :: "string \<Rightarrow> packet_conn option"

text \<open>What was done to the system, in order.\<close>

datatype system_call = SetDevice string | Listened string | ClosedAgain string

definition validateDeviceBinding :: "bool \<Rightarrow> string \<Rightarrow> bind_error option" where
  "validateDeviceBinding linux device =
     (if linux \<or> device = [] then None else Some (DeviceUnsupported device))"

text \<open>The control function runs on the new socket before the address is assigned; there is none on other systems.\<close>

definition controlForDevice :: "bool \<Rightarrow> socket_system \<Rightarrow> string \<Rightarrow> bind_error option \<times> system_call list" where
  "controlForDevice linux sys device =
     (if \<not> linux then (None, [])
      else if sysBindToDevice sys device then (None, [SetDevice device]) else (Some (DeviceRefused device), []))"

definition ListenUDP :: "bool \<Rightarrow> socket_system \<Rightarrow> string \<Rightarrow> string \<Rightarrow> (bind_error + unit) \<times> system_call list" where
  "ListenUDP linux sys addr device =
     (case validateDeviceBinding linux device of
        Some e \<Rightarrow> (Inl e, [])
      | None \<Rightarrow>
          (case (if device \<noteq> [] then controlForDevice linux sys device else (None, [])) of
             (Some e, calls) \<Rightarrow> (Inl e, calls)
           | (None, calls) \<Rightarrow>
               (case sysListenPacket sys addr of
                  None \<Rightarrow> (Inl (ListenRefused addr), calls)
                | Some UDPConn \<Rightarrow> (Inr (), calls @ [Listened addr])
                | Some OtherConn \<Rightarrow> (Inl (NotUDP addr), calls @ [Listened addr, ClosedAgain addr]))))"

text \<open>A socket is returned only bound to the device that was asked for, before it got its address; on a system without
  the option a device is refused and no socket is opened; what is opened on a failing path is closed.\<close>

lemma ListenUDP_device:
  assumes "ListenUDP linux sys addr device = (r, calls)"
  shows "r = Inr () \<Longrightarrow> calls = (if device = [] then [] else [SetDevice device]) @ [Listened addr] \<and> (device = [] \<or> linux)"
    "r \<noteq> Inr () \<Longrightarrow> Listened addr \<in> set calls \<longleftrightarrow> ClosedAgain addr \<in> set calls"
    "\<not> linux \<Longrightarrow> device \<noteq> [] \<Longrightarrow> calls = []"
  using assms
  by (auto simp: ListenUDP_def validateDeviceBinding_def controlForDevice_def
      split: if_splits option.splits packet_conn.splits)

end
