(* ===== verification/Call_Probe.thy ===== *)
theory Call_Probe
  imports H248_Interop "HOL-Library.Word"
begin

text \<open>
  The call probe (\<^verbatim>\<open>cmd/h248-call-probe/main.go\<close>): a command line tool that registers a line with a
  controller and plays one call on it.  The process is a function of its inputs: the time and the
  outcome of every read and write.  Time stands still while one datagram or one round of timers is
  processed; printing is left out.  What the probe sends is appended to \<open>pbOut\<close> with a label that says what
  it is and with the outcome of the write.
\<close>

subsection \<open>Options and state\<close>

record call_probe_options =
  poMGC :: string
  poSource :: string
  poBindDevice :: string
  poMID :: string
  poTermination :: string
  poMode :: string
  poEventStyle :: string
  poLineRestart :: bool
  poNumber :: string
  poRTPIP :: string
  poRTPPort :: int
  poHold :: int
  poOffhookDelay :: int
  poDigitDelay :: int
  poCallHold :: int
  poTimeout :: int

datatype probe_label = LServiceChange | LReply string | LReport string

datatype probe_error =
    UnsupportedMode | BadNumber | UnsupportedStyle | ResolveFailed | ListenFailed
  | WriteError | ReadError | ProbeCancelled | NoRequestID string | UnknownPhase string
  | ProbeParseError h248_error | ProbeRejected string | NoReply | UnsupportedType string
  | NoSupportedCommand | UnsupportedCommand string | CommandWithoutTermination string | TestTimedOut

text \<open>The zero \<^verbatim>\<open>time.Time\<close> is \<open>None\<close>.\<close>

record call_probe =
  pbOptions :: call_probe_options
  pbRemote :: udp_addr
  pbNextTID :: "64 word"
  pbReplyCache :: "string \<rightharpoonup> string"
  pbLatestRequestID :: string
  pbServiceChangeTID :: string
  pbInitialOnhookTID :: string
  pbInitialOnhook :: bool
  pbOffhookTID :: string
  pbOnhookTID :: string
  pbOffhookSent :: bool
  pbDigitsTID :: string
  pbDigitsSent :: bool
  pbOnhookSent :: bool
  pbOnhookAt :: "int option"
  pbOffhookAt :: "int option"
  pbDigitsAt :: "int option"
  pbFinishAt :: "int option"
  pbDeferLineEvents :: bool
  pbMediaConn :: bool
  pbContextID :: string
  pbEphemeralTerm :: string
  pbIncomingSetup :: bool
  pbOut :: "(probe_label \<times> string \<times> bool) list"

text \<open>The environment of a step: the time in nanoseconds and as calendar fields, which writes succeed and
  whether the media socket opens.\<close>

record probe_env =
  pNow :: int
  pCivil :: civil_time
  pWrites :: "nat \<Rightarrow> bool"
  pListens :: bool

datatype probe_read = PRTimeout | PRAborted bool | PRFailed | PRDatagram string udp_addr

text \<open>\<open>PRAborted\<close>: the socket was closed or the context has ended; the flag says whether the context has.\<close>

type_synonym probe_result = "probe_error option \<times> call_probe"

definition andThen :: "probe_result \<Rightarrow> (call_probe \<Rightarrow> probe_result) \<Rightarrow> probe_result" where
  "andThen r k = (case r of (None, p) \<Rightarrow> k p | (Some e, p) \<Rightarrow> (Some e, p))"

subsection \<open>Messages\<close>

definition formatH248Time :: "civil_time \<Rightarrow> string" where
  "formatH248Time t =
     padZero 4 (Itoa (ctYear t)) @ padZero 2 (Itoa (ctMonth t)) @ padZero 2 (Itoa (ctDay t)) @ ''T'' @
     padZero 2 (Itoa (ctHour t)) @ padZero 2 (Itoa (ctMinute t)) @ padZero 2 (Itoa (ctSecond t)) @
     padZero 2 (Itoa (ctNanosecond t div 10000000))"

definition formatObservedEvent :: "string \<Rightarrow> string \<Rightarrow> string option" where
  "formatObservedEvent event style =
     (if style = ''plain'' then Some event
      else if style = ''paren-init'' then Some (event @ ''(init=false)'')
      else if style = ''brace-init'' then Some (event @ ''{init=false}'')
      else None)"

definition probeNotify :: "string \<Rightarrow> string \<Rightarrow> string \<Rightarrow> string \<Rightarrow> string \<Rightarrow> string \<Rightarrow> string \<Rightarrow> string" where
  "probeNotify mid transactionID contextID termination requestID observedAt event =
     ''!/1 '' @ FormatMID mid @ [NL] @ ''T='' @ transactionID @
     ''{C='' @ (if contextID = [] then ''-'' else contextID) @ ''{N='' @ termination @ ''{OE='' @ requestID @
     ''{'' @ observedAt @ '':'' @ event @ ''}}}}'' @ [NL]"

definition probeDigitMapCompleteNotify :: "string \<Rightarrow> string \<Rightarrow> string \<Rightarrow> string \<Rightarrow> string \<Rightarrow> string \<Rightarrow> string" where
  "probeDigitMapCompleteNotify mid transactionID termination requestID observedAt number =
     ''!/1 '' @ FormatMID mid @ [NL] @ ''T='' @ transactionID @ ''{C=-{N='' @ termination @ ''{OE='' @ requestID @
     ''{'' @ observedAt @ '':dd/ce{ds='' @ [DQ] @ number @ [DQ] @ '',Meth=UM}}}}}'' @ [NL]"

definition probeIncomingAddReply ::
  "string \<Rightarrow> string \<Rightarrow> string \<Rightarrow> string \<Rightarrow> string \<Rightarrow> string \<Rightarrow> int \<Rightarrow> string" where
  "probeIncomingAddReply mid transactionID contextID physicalTermination ephemeralTermination rtpIP rtpPort =
     ''!/1 '' @ FormatMID mid @ [NL] @ ''P='' @ transactionID @ ''{C='' @ contextID @ ''{A='' @ physicalTermination @
     '',A='' @ ephemeralTermination @ ''{M{L{v=0'' @ CRLF @ ''c=IN IP4 '' @ rtpIP @ CRLF @
     ''m=audio '' @ Itoa rtpPort @ '' RTP/AVP 8 102'' @ CRLF @ ''a=ptime:20'' @ CRLF @
     ''a=rtpmap:102 telephone-event/8000'' @ CRLF @ ''a=fmtp:102 0-15'' @ CRLF @ ''}}}}}'' @ [NL]"

definition extractEventRequestID :: "string \<Rightarrow> string" where
  "extractEventRequestID raw = (case reFind eventRequestRe raw of None \<Rightarrow> [] | Some h \<Rightarrow> grp h 1)"

definition containsRingSignal :: "string \<Rightarrow> bool" where
  "containsRingSignal raw \<longleftrightarrow>
     (let lower = ToLower raw in
      Contains lower ''al/ri'' \<or> Contains lower ''cg/rt'' \<or> Contains lower ''andisp/dwa'')"

definition isCallSetupAdd :: "h248_message \<Rightarrow> string \<Rightarrow> bool" where
  "isCallSetupAdd msg physicalTermination \<longleftrightarrow>
     msgContext msg = ''$'' \<and>
     list_ex (\<lambda>c. cmdName c = ''Add'' \<and> EqualFold (cmdTerm c) physicalTermination) (msgCommands msg) \<and>
     list_ex (\<lambda>c. cmdName c = ''Add'' \<and> cmdTerm c = ''$'') (msgCommands msg)"

text \<open>The loop of \<^verbatim>\<open>buildCommandReply\<close>: replies are grouped by context in order of first occurrence.\<close>

fun appendCommand :: "string \<Rightarrow> string \<Rightarrow> action_reply list \<Rightarrow> action_reply list" where
  "appendCommand contextID reply [] = [\<lparr> arContext = contextID, arCommands = [reply] \<rparr>]"
| "appendCommand contextID reply (a # actions) =
     (if arContext a = contextID then a\<lparr>arCommands := arCommands a @ [reply]\<rparr> # actions
      else a # appendCommand contextID reply actions)"

fun commandActions :: "h248_message \<Rightarrow> h248_command list \<Rightarrow> action_reply list \<Rightarrow> probe_error + action_reply list" where
  "commandActions msg [] actions = Inr actions"
| "commandActions msg (command # commands) actions =
     (if CompactCommand (cmdName command) = [] then Inl (UnsupportedCommand (cmdName command))
      else if cmdTerm command = [] then Inl (CommandWithoutTermination (cmdName command))
      else
        (let contextID = (if cmdContext command \<noteq> [] then cmdContext command
                          else if msgContext msg \<noteq> [] then msgContext msg else ''-'')
         in commandActions msg commands (appendCommand contextID (SimpleCommandReply command) actions)))"

definition buildCommandReply :: "h248_message \<Rightarrow> string \<Rightarrow> probe_error + string" where
  "buildCommandReply msg mid =
     (if msgCommands msg = [] then Inl NoSupportedCommand
      else (case commandActions msg (msgCommands msg) [] of
              Inl e \<Rightarrow> Inl e
            | Inr actions \<Rightarrow> Inr (BuildActionReply msg mid actions)))"

definition sameUDPAddr :: "udp_addr \<Rightarrow> udp_addr \<Rightarrow> bool" where
  "sameUDPAddr l r \<longleftrightarrow> port l = port r \<and> ParseIP (ip l) = ParseIP (ip r)"

subsection \<open>Start\<close>

definition checkProbeArguments :: "call_probe_options \<Rightarrow> probe_error option" where
  "checkProbeArguments cfg =
     (if poMode cfg \<notin> {''offhook-only'', ''outbound'', ''inbound-observe'', ''inbound-answer''} then Some UnsupportedMode
      else if poMode cfg = ''outbound'' \<and> (poNumber cfg = [] \<or> Trim (poNumber cfg) ''0123456789*#'' \<noteq> [])
      then Some BadNumber
      else if formatObservedEvent ''al/of'' (poEventStyle cfg) = None then Some UnsupportedStyle
      else None)"

definition newCallProbe ::
  "(string \<Rightarrow> udp_addr option) \<Rightarrow> (string \<Rightarrow> string \<Rightarrow> bool) \<Rightarrow> int \<Rightarrow> call_probe_options \<Rightarrow> probe_error + call_probe" where
  "newCallProbe resolve listens now cfg =
     (case resolve (poMGC cfg) of
        None \<Rightarrow> Inl ResolveFailed
      | Some remote \<Rightarrow>
          if \<not> listens (poSource cfg) (poBindDevice cfg) then Inl ListenFailed
          else Inr \<lparr> pbOptions = cfg, pbRemote = remote, pbNextTID = word_of_int (and now 0x7fffffff),
                 pbReplyCache = Map.empty, pbLatestRequestID = [], pbServiceChangeTID = [],
                 pbInitialOnhookTID = [], pbInitialOnhook = False, pbOffhookTID = [], pbOnhookTID = [],
                 pbOffhookSent = False, pbDigitsTID = [], pbDigitsSent = False, pbOnhookSent = False,
                 pbOnhookAt = None, pbOffhookAt = None, pbDigitsAt = None, pbFinishAt = None,
                 pbDeferLineEvents = False, pbMediaConn = False, pbContextID = [], pbEphemeralTerm = [],
                 pbIncomingSetup = False, pbOut = [] \<rparr>)"

definition probeTID :: "call_probe \<Rightarrow> string \<times> call_probe" where
  "probeTID p = (let n = pbNextTID p + 1 in (FormatUint (uint n), p\<lparr>pbNextTID := n\<rparr>))"

definition probeSend :: "probe_env \<Rightarrow> probe_label \<Rightarrow> string \<Rightarrow> call_probe \<Rightarrow> probe_result" where
  "probeSend e lab message p =
     (let ok = pWrites e (length (pbOut p))
      in (if ok then None else Some WriteError, p\<lparr>pbOut := pbOut p @ [(lab, message, ok)]\<rparr>))"

subsection \<open>Reports\<close>

definition sendDigitMapComplete :: "probe_env \<Rightarrow> string \<Rightarrow> call_probe \<Rightarrow> probe_result" where
  "sendDigitMapComplete e requestID p =
     (if requestID = [] then (Some (NoRequestID ''digits''), p)
      else
        (case probeTID p of (tid, p1) \<Rightarrow>
           andThen
             (probeSend e (LReport ''digits'')
                (probeDigitMapCompleteNotify (poMID (pbOptions p)) tid (poTermination (pbOptions p)) requestID
                   (formatH248Time (pCivil e)) (poNumber (pbOptions p))) p1)
             (\<lambda>p2. (None, p2\<lparr>pbDigitsSent := True, pbDigitsTID := tid\<rparr>))))"

definition markReport :: "probe_env \<Rightarrow> string \<Rightarrow> string \<Rightarrow> call_probe \<Rightarrow> probe_result" where
  "markReport e phase tid p =
     (if phase = ''initial-onhook'' then (None, p\<lparr>pbInitialOnhook := True, pbInitialOnhookTID := tid\<rparr>)
      else if phase = ''offhook'' then
        (None, p\<lparr>pbOffhookSent := True, pbOffhookTID := tid,
                 pbOnhookAt := (if poMode (pbOptions p) = ''inbound-answer''
                                then Some (pNow e + poCallHold (pbOptions p)) else pbOnhookAt p)\<rparr>)
      else if phase = ''final-onhook'' then (None, p\<lparr>pbOnhookSent := True, pbOnhookTID := tid\<rparr>)
      else (Some (UnknownPhase phase), p))"

definition sendNotify :: "probe_env \<Rightarrow> string \<Rightarrow> string \<Rightarrow> string \<Rightarrow> call_probe \<Rightarrow> probe_result" where
  "sendNotify e event requestID phase p =
     (if requestID = [] then (Some (NoRequestID event), p)
      else
        (case probeTID p of (tid, p1) \<Rightarrow>
           (case formatObservedEvent event (poEventStyle (pbOptions p)) of
              None \<Rightarrow> (Some UnsupportedStyle, p1)
            | Some observedEvent \<Rightarrow>
                (let contextID = (if pbIncomingSetup p \<and> pbContextID p \<noteq> [] then pbContextID p else ''-'')
                 in andThen
                      (probeSend e (LReport phase)
                         (probeNotify (poMID (pbOptions p)) tid contextID (poTermination (pbOptions p)) requestID
                            (formatH248Time (pCivil e)) observedEvent) p1)
                      (markReport e phase tid)))))"

subsection \<open>Transactions of the controller\<close>

definition handleIncomingAdd :: "probe_env \<Rightarrow> h248_message \<Rightarrow> call_probe \<Rightarrow> probe_result" where
  "handleIncomingAdd e msg p =
     (if \<not> pbMediaConn p \<and> \<not> pListens e then (Some ListenFailed, p)
      else
        (let contextID = (if pbContextID p = [] then FormatUint (and (pNow e) 0x7fffffff) else pbContextID p);
             ephemeral = (if pbEphemeralTerm p = [] then ''RTP/1'' else pbEphemeralTerm p);
             reply = probeIncomingAddReply (poMID (pbOptions p)) (msgTID msg) contextID (poTermination (pbOptions p))
                       ephemeral (poRTPIP (pbOptions p)) (poRTPPort (pbOptions p));
             requestID = extractEventRequestID (msgRaw msg);
             p1 = p\<lparr>pbMediaConn := True, pbContextID := contextID, pbEphemeralTerm := ephemeral,
                    pbReplyCache := (pbReplyCache p)(msgTID msg \<mapsto> reply)\<rparr>
         in andThen (probeSend e (LReply (msgTID msg)) reply p1)
              (\<lambda>p2. (None, p2\<lparr>pbIncomingSetup := True,
                              pbLatestRequestID := (if requestID \<noteq> [] then requestID else pbLatestRequestID p2)\<rparr>))))"

text \<open>What follows a reply to a transaction that subscribes to events under \<open>requestID\<close>.\<close>

definition lineSubscribed :: "probe_env \<Rightarrow> h248_message \<Rightarrow> string \<Rightarrow> call_probe \<Rightarrow> probe_result" where
  "lineSubscribed e msg requestID p =
     (let opts = pbOptions p in
      if pbDeferLineEvents p then (None, p)
      else if \<not> pbInitialOnhook p then sendNotify e ''al/on'' requestID ''initial-onhook'' p
      else if \<not> pbOffhookSent p \<and> EqualFold (cmdTerm (hd (msgCommands msg))) (poTermination opts) then
        (if poMode opts = ''inbound-observe'' \<or> poMode opts = ''inbound-answer'' then
           (if containsRingSignal (msgRaw msg) \<and> poMode opts = ''inbound-answer''
            then sendNotify e ''al/of'' requestID ''offhook'' p else (None, p))
         else if poOffhookDelay opts > 0 then
           (None, if pbOffhookAt p = None then p\<lparr>pbOffhookAt := Some (pNow e + poOffhookDelay opts)\<rparr> else p)
         else sendNotify e ''al/of'' requestID ''offhook'' p)
      else if poMode opts = ''outbound'' \<and> \<not> pbDigitsSent p \<and> pbDigitsAt p = None
      then (None, p\<lparr>pbDigitsAt := Some (pNow e + poDigitDelay opts)\<rparr>)
      else if poMode opts = ''offhook-only'' \<and> pbOnhookAt p = None
      then (None, p\<lparr>pbOnhookAt := Some (pNow e + poHold opts)\<rparr>)
      else (None, p))"

definition handleMGCTransaction :: "probe_env \<Rightarrow> h248_message \<Rightarrow> call_probe \<Rightarrow> probe_result" where
  "handleMGCTransaction e msg p =
     (let cached = (case pbReplyCache p (msgTID msg) of None \<Rightarrow> [] | Some m \<Rightarrow> m) in
      if cached \<noteq> [] then probeSend e (LReply (msgTID msg)) cached p
      else if (poMode (pbOptions p) = ''inbound-answer'' \<or> poMode (pbOptions p) = ''outbound'') \<and>
              isCallSetupAdd msg (poTermination (pbOptions p))
      then handleIncomingAdd e msg p
      else
        (case buildCommandReply msg (poMID (pbOptions p)) of
           Inl err \<Rightarrow> (Some err, p)
         | Inr reply \<Rightarrow>
             andThen
               (probeSend e (LReply (msgTID msg)) reply (p\<lparr>pbReplyCache := (pbReplyCache p)(msgTID msg \<mapsto> reply)\<rparr>))
               (\<lambda>p2. let requestID = extractEventRequestID (msgRaw msg) in
                  if requestID = [] then (None, p2)
                  else lineSubscribed e msg requestID (p2\<lparr>pbLatestRequestID := requestID\<rparr>))))"

definition handleReply :: "probe_env \<Rightarrow> h248_message \<Rightarrow> call_probe \<Rightarrow> probe_result" where
  "handleReply e msg p =
     (if msgError msg \<noteq> [] then (Some (ProbeRejected (msgError msg)), p)
      else if msgTID msg \<in> {pbInitialOnhookTID p, pbOffhookTID p, pbDigitsTID p} then (None, p)
      else if msgTID msg = pbOnhookTID p
      then (None, p\<lparr>pbOnhookTID := [], pbFinishAt := Some (pNow e + 3 * Second)\<rparr>)
      else (None, p))"

definition handleDatagram :: "probe_env \<Rightarrow> string \<Rightarrow> call_probe \<Rightarrow> probe_result" where
  "handleDatagram e data p =
     (case Parse data of
        Inl err \<Rightarrow> (Some (ProbeParseError err), p)
      | Inr msg \<Rightarrow>
          if msgType msg = ''Reply'' then handleReply e msg p
          else if msgType msg = ''Pending'' then (None, p)
          else if msgType msg = ''Transaction'' then handleMGCTransaction e msg p
          else (Some (UnsupportedType (msgType msg)), p))"

subsection \<open>Registration\<close>

text \<open>The reads of one attempt, until the deadline; \<open>Some\<close> is the answer that ends the registration, \<open>None\<close> the
  end of the attempt without one.\<close>

fun registerReads :: "probe_read list \<Rightarrow> call_probe \<Rightarrow> probe_error option option" where
  "registerReads [] p = None"
| "registerReads (r # rs) p =
     (case r of
        PRTimeout \<Rightarrow> None
      | PRAborted cancelled \<Rightarrow> Some (Some (if cancelled then ProbeCancelled else ReadError))
      | PRFailed \<Rightarrow> Some (Some ReadError)
      | PRDatagram data remote \<Rightarrow>
          if \<not> sameUDPAddr remote (pbRemote p) then registerReads rs p
          else (case Parse (TrimSpace data) of
                  Inl err \<Rightarrow> Some (Some (ProbeParseError err))
                | Inr msg \<Rightarrow>
                    if msgType msg = ''Reply'' \<and> msgTID msg = pbServiceChangeTID p
                    then Some (if msgError msg \<noteq> [] then Some (ProbeRejected (msgError msg)) else None)
                    else registerReads rs p))"

definition probeServiceChange :: "string \<Rightarrow> string \<Rightarrow> string \<Rightarrow> string" where
  "probeServiceChange mid tid termination =
     BuildServiceChange \<lparr> scVersion = 1, scMID = mid, scRawMID = False, scTID = tid, scTermination = termination,
       scMethod = ''Restart'', scReason = ''901 Cold Boot'', scProfile = [], scAddress = [] \<rparr>"

fun registerAttempts :: "(probe_env \<times> probe_read list) list \<Rightarrow> string \<Rightarrow> call_probe \<Rightarrow> probe_result" where
  "registerAttempts [] request p = (Some NoReply, p)"
| "registerAttempts ((e, rs) # attempts) request p =
     andThen (probeSend e LServiceChange request p)
       (\<lambda>p1. case registerReads rs p1 of
               None \<Rightarrow> registerAttempts attempts request p1
             | Some result \<Rightarrow> (result, p1))"

text \<open>\<open>attempts\<close> gives the reads of the three attempts.\<close>

definition probeRegister :: "(nat \<Rightarrow> probe_env \<times> probe_read list) \<Rightarrow> call_probe \<Rightarrow> probe_result" where
  "probeRegister attempts p =
     (case probeTID p of (tid, p1) \<Rightarrow>
        registerAttempts (map attempts [0..<3]) (probeServiceChange (poMID (pbOptions p)) tid [])
          (p1\<lparr>pbServiceChangeTID := tid\<rparr>))"

fun terminationReads :: "(probe_env \<times> probe_read) list \<Rightarrow> string \<Rightarrow> call_probe \<Rightarrow> probe_result" where
  "terminationReads [] tid p = (Some NoReply, p)"
| "terminationReads ((e, r) # rs) tid p =
     (case r of
        PRTimeout \<Rightarrow> (Some NoReply, p)
      | PRAborted cancelled \<Rightarrow> (Some (if cancelled then ProbeCancelled else ReadError), p)
      | PRFailed \<Rightarrow> (Some ReadError, p)
      | PRDatagram data remote \<Rightarrow>
          if \<not> sameUDPAddr remote (pbRemote p) then terminationReads rs tid p
          else (case Parse (TrimSpace data) of
                  Inl err \<Rightarrow> (Some (ProbeParseError err), p)
                | Inr msg \<Rightarrow>
                    if msgType msg = ''Reply'' \<and> msgTID msg = tid
                    then (if msgError msg \<noteq> [] then Some (ProbeRejected (msgError msg)) else None, p)
                    else if msgType msg = ''Transaction''
                    then andThen (handleMGCTransaction e msg p) (terminationReads rs tid)
                    else terminationReads rs tid p))"

definition probeRegisterTermination :: "probe_env \<Rightarrow> (probe_env \<times> probe_read) list \<Rightarrow> call_probe \<Rightarrow> probe_result" where
  "probeRegisterTermination e rs p =
     (case probeTID p of (tid, p1) \<Rightarrow>
        andThen
          (probeSend e LServiceChange (probeServiceChange (poMID (pbOptions p)) tid (poTermination (pbOptions p))) p1)
          (terminationReads rs tid))"

subsection \<open>The run\<close>

text \<open>The timers at the head of the loop.\<close>

definition due :: "int \<Rightarrow> int option \<Rightarrow> bool" where
  "due now t = (case t of None \<Rightarrow> False | Some at \<Rightarrow> at \<le> now)"

definition offhookTimer :: "probe_env \<Rightarrow> call_probe \<Rightarrow> probe_result" where
  "offhookTimer e p =
     (if due (pNow e) (pbOffhookAt p) \<and> \<not> pbOffhookSent p
      then andThen (sendNotify e ''al/of'' (pbLatestRequestID p) ''offhook'' p) (\<lambda>p1. (None, p1\<lparr>pbOffhookAt := None\<rparr>))
      else (None, p))"

definition digitsTimer :: "probe_env \<Rightarrow> call_probe \<Rightarrow> probe_result" where
  "digitsTimer e p =
     (if due (pNow e) (pbDigitsAt p) \<and> \<not> pbDigitsSent p
      then andThen (sendDigitMapComplete e (pbLatestRequestID p) p)
             (\<lambda>p1. (None, p1\<lparr>pbOnhookAt := Some (pNow e + poCallHold (pbOptions p1))\<rparr>))
      else (None, p))"

definition onhookTimer :: "probe_env \<Rightarrow> call_probe \<Rightarrow> probe_result" where
  "onhookTimer e p =
     (if due (pNow e) (pbOnhookAt p) \<and> \<not> pbOnhookSent p
      then sendNotify e ''al/on'' (pbLatestRequestID p) ''final-onhook'' p else (None, p))"

definition probeTimers :: "probe_env \<Rightarrow> call_probe \<Rightarrow> probe_result" where
  "probeTimers e p = andThen (andThen (offhookTimer e p) (digitsTimer e)) (onhookTimer e)"

text \<open>The loop: one element of the list is one round, with the environments of its timers and of its
  datagram.  \<open>None\<close>: the rounds given do not end it; \<open>Some\<close>: it returned, with or without an error.\<close>

fun probeLoop ::
  "int \<Rightarrow> (probe_env \<times> probe_read \<times> probe_env) list \<Rightarrow> call_probe \<Rightarrow> probe_error option option \<times> call_probe" where
  "probeLoop deadline [] p = (None, p)"
| "probeLoop deadline ((e, r, e') # rounds) p =
     (if \<not> pNow e < deadline then (Some (Some TestTimedOut), p)
      else
        (case probeTimers e p of
           (Some err, p1) \<Rightarrow> (Some (Some err), p1)
         | (None, p1) \<Rightarrow>
             if due (pNow e) (pbFinishAt p1) then (Some None, p1)
             else
               (case r of
                  PRTimeout \<Rightarrow> probeLoop deadline rounds p1
                | PRAborted cancelled \<Rightarrow> (Some (if cancelled then Some ProbeCancelled else None), p1)
                | PRFailed \<Rightarrow> (Some (Some ReadError), p1)
                | PRDatagram data remote \<Rightarrow>
                    if \<not> sameUDPAddr remote (pbRemote p1) then probeLoop deadline rounds p1
                    else (case handleDatagram e' (TrimSpace data) p1 of
                            (Some err, p2) \<Rightarrow> (Some (Some err), p2)
                          | (None, p2) \<Rightarrow> probeLoop deadline rounds p2))))"

text \<open>The deferred on-hook.\<close>

definition finalOnhook :: "probe_env \<Rightarrow> call_probe \<Rightarrow> call_probe" where
  "finalOnhook e p =
     (if pbOffhookSent p \<and> \<not> pbOnhookSent p \<and> pbLatestRequestID p \<noteq> []
      then snd (sendNotify e ''al/on'' (pbLatestRequestID p) ''final-onhook'' p) else p)"

record probe_inputs =
  inRegister :: "nat \<Rightarrow> probe_env \<times> probe_read list"
  inLine :: "probe_env \<times> (probe_env \<times> probe_read) list"
  inRestart :: probe_env
  inStart :: int
  inRounds :: "(probe_env \<times> probe_read \<times> probe_env) list"
  inEnd :: probe_env

definition lineRestart :: "probe_inputs \<Rightarrow> call_probe \<Rightarrow> probe_result" where
  "lineRestart i p =
     (if \<not> poLineRestart (pbOptions p) then (None, p)
      else
        andThen (probeRegisterTermination (fst (inLine i)) (snd (inLine i)) (p\<lparr>pbDeferLineEvents := True\<rparr>))
          (\<lambda>p1. let p2 = p1\<lparr>pbDeferLineEvents := False\<rparr> in
             if pbLatestRequestID p2 \<noteq> [] \<and> \<not> pbInitialOnhook p2
             then sendNotify (inRestart i) ''al/on'' (pbLatestRequestID p2) ''initial-onhook'' p2
             else (None, p2)))"

definition probeRun :: "probe_inputs \<Rightarrow> call_probe \<Rightarrow> probe_error option option \<times> call_probe" where
  "probeRun i p =
     (case andThen (probeRegister (inRegister i) p) (lineRestart i) of
        (Some err, p1) \<Rightarrow> (Some (Some err), p1)
      | (None, p1) \<Rightarrow>
          (case probeLoop (inStart i + poTimeout (pbOptions p1)) (inRounds i) p1 of
             (None, p2) \<Rightarrow> (None, p2)
           | (Some result, p2) \<Rightarrow> (Some result, finalOnhook (inEnd i) p2)))"

subsection \<open>The builders of the probe and of the gateway\<close>

lemma formatH248Time_eq: "formatH248Time = FormatTimestamp"
  by (simp add: fun_eq_iff formatH248Time_def FormatTimestamp_def)

lemma probeNotify_eq:
  "probeNotify mid tid contextID termination requestID (formatH248Time t) event =
     BuildNotify 1 mid tid contextID termination requestID t event"
  proof -
  have "Itoa 1 = ''1''" by code_simp
  then show ?thesis by (simp add: probeNotify_def BuildNotify_def formatH248Time_eq)
qed

lemma extractEventRequestID_eq: "extractEventRequestID = EventRequestID"
  by (simp add: fun_eq_iff extractEventRequestID_def EventRequestID_def)

lemma containsRingSignal_eq: "containsRingSignal = ContainsRingSignal"
  by (simp add: fun_eq_iff containsRingSignal_def ContainsRingSignal_def)

subsection \<open>The invariant of the line reports\<close>

fun reportOf :: "probe_label \<times> string \<times> bool \<Rightarrow> string list" where
  "reportOf (LReport phase, m, ok) = (if ok then [phase] else [])"
| "reportOf out = []"

definition lineReports :: "call_probe \<Rightarrow> string list" where
  "lineReports p = concat (map reportOf (pbOut p))"

definition reportFlag :: "string \<Rightarrow> call_probe \<Rightarrow> bool" where
  "reportFlag phase p \<longleftrightarrow>
     phase = ''initial-onhook'' \<and> pbInitialOnhook p \<or> phase = ''offhook'' \<and> pbOffhookSent p \<or>
     phase = ''digits'' \<and> pbDigitsSent p \<or> phase = ''final-onhook'' \<and> pbOnhookSent p"

text \<open>Each report that was made is recorded by its flag and was made once, the first is the initial on-hook, and
  the timers of the others are armed only in the modes that have them.\<close>

definition probeInv :: "call_probe \<Rightarrow> bool" where
  "probeInv p \<longleftrightarrow>
     distinct (lineReports p) \<and> (\<forall>phase. phase \<in> set (lineReports p) \<longleftrightarrow> reportFlag phase p) \<and>
     (lineReports p \<noteq> [] \<longrightarrow> hd (lineReports p) = ''initial-onhook'') \<and>
     (pbOffhookAt p \<noteq> None \<or> pbDigitsAt p \<noteq> None \<or> pbOnhookAt p \<noteq> None \<longrightarrow>
        pbInitialOnhook p \<and> poMode (pbOptions p) \<noteq> ''inbound-observe'') \<and>
     (poMode (pbOptions p) = ''inbound-observe'' \<longrightarrow> \<not> pbOffhookSent p \<and> \<not> pbOnhookSent p) \<and>
     (pbDigitsAt p \<noteq> None \<or> pbDigitsSent p \<longrightarrow> poMode (pbOptions p) = ''outbound'') \<and>
     (pbInitialOnhook p \<longrightarrow> pbLatestRequestID p \<noteq> [])"

text \<open>What the invariant reads of a state.\<close>

definition probeView ::
  "call_probe \<Rightarrow> string list \<times> string \<times> bool \<times> bool \<times> bool \<times> bool \<times> int option \<times> int option \<times> int option \<times> string" where
  "probeView p = (lineReports p, pbLatestRequestID p, pbInitialOnhook p, pbOffhookSent p, pbDigitsSent p, pbOnhookSent p,
     pbOffhookAt p, pbDigitsAt p, pbOnhookAt p, poMode (pbOptions p))"

lemma probeInv_view: "probeView p' = probeView p \<Longrightarrow> probeInv p \<Longrightarrow> probeInv p'"
  by (simp add: probeView_def probeInv_def reportFlag_def)

text \<open>When a report may be made.\<close>

definition mayReport :: "string \<Rightarrow> call_probe \<Rightarrow> bool" where
  "mayReport phase p \<longleftrightarrow>
     phase = ''initial-onhook'' \<and> \<not> pbInitialOnhook p \<and> pbLatestRequestID p \<noteq> [] \<or>
     pbInitialOnhook p \<and> poMode (pbOptions p) \<noteq> ''inbound-observe'' \<and>
       (phase = ''offhook'' \<and> \<not> pbOffhookSent p \<or> phase = ''final-onhook'' \<and> \<not> pbOnhookSent p)"

lemma lineReports_send:
  "lineReports (snd (probeSend e lab m p)) = lineReports p @ reportOf (lab, m, fst (probeSend e lab m p) = None)"
  by (simp add: probeSend_def Let_def lineReports_def)

lemma probeSend_frame [simp]:
  "pbOptions (snd (probeSend e lab m p)) = pbOptions p" "pbInitialOnhook (snd (probeSend e lab m p)) = pbInitialOnhook p"
  "pbOffhookSent (snd (probeSend e lab m p)) = pbOffhookSent p" "pbDigitsSent (snd (probeSend e lab m p)) = pbDigitsSent p"
  "pbOnhookSent (snd (probeSend e lab m p)) = pbOnhookSent p" "pbOffhookAt (snd (probeSend e lab m p)) = pbOffhookAt p"
  "pbDigitsAt (snd (probeSend e lab m p)) = pbDigitsAt p" "pbOnhookAt (snd (probeSend e lab m p)) = pbOnhookAt p"
  "pbLatestRequestID (snd (probeSend e lab m p)) = pbLatestRequestID p" "pbRemote (snd (probeSend e lab m p)) = pbRemote p"
  by (simp_all add: probeSend_def Let_def)

lemma andThen_cases:
  obtains (stop) err where "fst r = Some err" "andThen r k = r"
  | (go) "fst r = None" "andThen r k = k (snd r)"
  by (cases r; cases "fst r") (auto simp: andThen_def)

lemma andThen_inv: "probeInv (snd r) \<Longrightarrow> (\<And>p. fst r = None \<Longrightarrow> p = snd r \<Longrightarrow> probeInv (snd (k p))) \<Longrightarrow> probeInv (snd (andThen r k))"
  by (cases rule: andThen_cases [of r k]) auto

lemma reply_inv:
  assumes "probeInv p" "\<And>phase. lab \<noteq> LReport phase"
  shows "probeInv (snd (probeSend e lab m p))"
proof -
  have "reportOf (lab, m, ok) = []" for ok using assms(2) by (cases lab) auto
  then show ?thesis by (intro probeInv_view [OF _ assms(1)]) (simp add: probeView_def lineReports_send)
qed

lemma probeTID_view [simp]: "probeView (snd (probeTID p)) = probeView p"
  by (simp add: probeTID_def probeView_def lineReports_def Let_def)

lemma probeInvD:
  assumes "probeInv p"
  shows "distinct (lineReports p)" "phase \<in> set (lineReports p) \<longleftrightarrow> reportFlag phase p"
    "lineReports p \<noteq> [] \<Longrightarrow> hd (lineReports p) = ''initial-onhook''"
  using assms by (simp_all add: probeInv_def)

lemma probeInv_empty:
  assumes "probeInv p" "\<not> pbInitialOnhook p"
  shows "lineReports p = []"
proof (rule ccontr)
  assume "lineReports p \<noteq> []"
  then have "''initial-onhook'' \<in> set (lineReports p)" using probeInvD(3) [OF assms(1)] hd_in_set by metis
  then show False using probeInvD(2) [OF assms(1)] assms(2) by (simp add: reportFlag_def)
qed

lemma mayReport_new:
  assumes "probeInv p" "mayReport phase p"
  shows "phase \<notin> set (lineReports p)" "lineReports p = [] \<longleftrightarrow> phase = ''initial-onhook''"
    "phase = ''initial-onhook'' \<or> phase = ''offhook'' \<or> phase = ''final-onhook''"
proof -
  show "phase \<notin> set (lineReports p)"
    unfolding probeInvD(2) [OF assms(1)] using assms(2) by (auto simp: mayReport_def reportFlag_def)
  show "phase = ''initial-onhook'' \<or> phase = ''offhook'' \<or> phase = ''final-onhook''"
    using assms(2) by (auto simp: mayReport_def)
  show "lineReports p = [] \<longleftrightarrow> phase = ''initial-onhook''"
  proof (cases "pbInitialOnhook p")
    case True
    then have "''initial-onhook'' \<in> set (lineReports p)" unfolding probeInvD(2) [OF assms(1)] by (simp add: reportFlag_def)
    moreover have "phase \<noteq> ''initial-onhook''" using True assms(2) by (auto simp: mayReport_def)
    ultimately show ?thesis by auto
  next
    case False
    then show ?thesis using probeInv_empty [OF assms(1)] assms(2) by (simp add: mayReport_def)
  qed
qed

lemma markReport_flag:
  assumes "phase = ''initial-onhook'' \<or> phase = ''offhook'' \<or> phase = ''final-onhook''"
  shows "reportFlag ph (snd (markReport e phase tid p)) \<longleftrightarrow> reportFlag ph p \<or> ph = phase"
    "lineReports (snd (markReport e phase tid p)) = lineReports p"
    "pbOptions (snd (markReport e phase tid p)) = pbOptions p"
    "pbOffhookAt (snd (markReport e phase tid p)) = pbOffhookAt p"
    "pbDigitsAt (snd (markReport e phase tid p)) = pbDigitsAt p"
    "pbDigitsSent (snd (markReport e phase tid p)) = pbDigitsSent p"
    "pbLatestRequestID (snd (markReport e phase tid p)) = pbLatestRequestID p"
  using assms by (auto simp: markReport_def reportFlag_def lineReports_def)

lemma report_inv:
  assumes inv: "probeInv p" and may: "mayReport phase p"
  shows "probeInv (snd (andThen (probeSend e (LReport phase) m p) (markReport e phase tid)))"
proof (cases rule: andThen_cases [of "probeSend e (LReport phase) m p" "markReport e phase tid"])
  case (stop err)
  then show ?thesis
    using lineReports_send [of e "LReport phase" m p] by (intro probeInv_view [OF _ inv]) (simp add: probeView_def)
next
  case go
  let ?p = "snd (probeSend e (LReport phase) m p)" and ?q = "snd (markReport e phase tid (snd (probeSend e (LReport phase) m p)))"
  note new = mayReport_new [OF inv may]
  note mark = markReport_flag [OF new(3), where e = e and tid = tid and p = ?p]
  have reports: "lineReports ?q = lineReports p @ [phase]" using go(1) by (simp add: mark(2) lineReports_send)
  have flags: "reportFlag ph ?q \<longleftrightarrow> reportFlag ph p \<or> ph = phase" for ph
    unfolding mark(1) by (simp add: reportFlag_def)
  have "distinct (lineReports ?q)" using probeInvD(1) [OF inv] new(1) by (simp add: reports)
  moreover have "ph \<in> set (lineReports ?q) \<longleftrightarrow> reportFlag ph ?q" for ph
    using probeInvD(2) [OF inv] by (auto simp: reports flags)
  moreover have "hd (lineReports ?q) = ''initial-onhook''"
    unfolding reports using new(2) probeInvD(3) [OF inv] by (cases "lineReports p") simp_all
  moreover have "(pbOffhookAt ?q \<noteq> None \<or> pbDigitsAt ?q \<noteq> None \<or> pbOnhookAt ?q \<noteq> None \<longrightarrow>
        pbInitialOnhook ?q \<and> poMode (pbOptions ?q) \<noteq> ''inbound-observe'') \<and>
     (poMode (pbOptions ?q) = ''inbound-observe'' \<longrightarrow> \<not> pbOffhookSent ?q \<and> \<not> pbOnhookSent ?q) \<and>
     pbLatestRequestID ?q \<noteq> []"
    using inv may by (simp add: probeInv_def mayReport_def markReport_def) (elim disjE conjE; simp)
  ultimately show ?thesis using inv go(2) mark(3,5,6) by (simp add: probeInv_def)
qed


lemma sendNotify_inv: "probeInv p \<Longrightarrow> mayReport phase p \<Longrightarrow> probeInv (snd (sendNotify e event requestID phase p))"
proof -
  assume inv: "probeInv p" and may: "mayReport phase p"
  have "probeInv (snd (probeTID p))" using inv by (rule probeInv_view [OF probeTID_view])
  moreover have "mayReport phase (snd (probeTID p))" using may by (simp add: mayReport_def probeTID_def Let_def)
  ultimately show ?thesis
    using inv by (auto simp: sendNotify_def case_prod_unfold Let_def report_inv split: option.split)
qed

lemma digits_inv:
  assumes inv: "probeInv p" and "pbDigitsAt p \<noteq> None" "\<not> pbDigitsSent p"
  shows "probeInv (snd (sendDigitMapComplete e requestID p))"
proof (cases "requestID = []")
  case False
  let ?p = "snd (probeTID p)"
  let ?m = "probeDigitMapCompleteNotify (poMID (pbOptions p)) (fst (probeTID p)) (poTermination (pbOptions p)) requestID
    (formatH248Time (pCivil e)) (poNumber (pbOptions p))"
  let ?r = "probeSend e (LReport ''digits'') ?m ?p"
  have r: "sendDigitMapComplete e requestID p =
      andThen ?r (\<lambda>p2. (None, p2\<lparr>pbDigitsSent := True, pbDigitsTID := fst (probeTID p)\<rparr>))"
    using False by (simp add: sendDigitMapComplete_def case_prod_unfold)
  have view: "probeView ?p = probeView p" by simp
  have new: "''digits'' \<notin> set (lineReports p)" and first: "''initial-onhook'' \<in> set (lineReports p)"
    unfolding probeInvD(2) [OF inv] using assms by (auto simp: reportFlag_def probeInv_def)
  show ?thesis
  proof (cases rule: andThen_cases [of ?r "\<lambda>p2. (None, p2\<lparr>pbDigitsSent := True, pbDigitsTID := fst (probeTID p)\<rparr>)"])
    case (stop err)
    then show ?thesis
      using lineReports_send [of e "LReport ''digits''" ?m ?p] view unfolding r
      by (intro probeInv_view [OF _ inv]) (simp add: probeView_def)
  next
    case go
    let ?q = "(snd ?r)\<lparr>pbDigitsSent := True, pbDigitsTID := fst (probeTID p)\<rparr>"
    have reports: "lineReports ?q = lineReports p @ [''digits'']"
      using lineReports_send [of e "LReport ''digits''" ?m ?p] go(1) view by (simp add: lineReports_def probeView_def)
    have flags: "reportFlag ph ?q \<longleftrightarrow> reportFlag ph p \<or> ph = ''digits''" for ph
      using view assms(3) by (auto simp: reportFlag_def probeView_def)
    have "ph \<in> set (lineReports ?q) \<longleftrightarrow> reportFlag ph ?q" for ph
      using probeInvD(2) [OF inv] by (auto simp: reports flags)
    moreover have "hd (lineReports ?q) = ''initial-onhook''" "distinct (lineReports ?q)"
      unfolding reports using first new probeInvD [OF inv] by (cases "lineReports p"; simp)+
    ultimately show ?thesis using inv assms(2) view go(2) unfolding r by (simp add: probeInv_def probeView_def)
  qed
qed (simp add: sendDigitMapComplete_def inv)

text \<open>The invariant together with the options, which never change.\<close>

definition probeOK :: "call_probe_options \<Rightarrow> call_probe \<Rightarrow> bool" where
  "probeOK cfg p \<longleftrightarrow> probeInv p \<and> pbOptions p = cfg"

lemma andThen_ok:
  "probeOK cfg (snd r) \<Longrightarrow> (\<And>p. fst r = None \<Longrightarrow> p = snd r \<Longrightarrow> probeOK cfg (snd (k p))) \<Longrightarrow>
     probeOK cfg (snd (andThen r k))"
  by (cases rule: andThen_cases [of r k]) auto

lemma andThen_options:
  "pbOptions (snd r) = cfg \<Longrightarrow> (\<And>p. pbOptions p = cfg \<Longrightarrow> pbOptions (snd (k p)) = cfg) \<Longrightarrow> pbOptions (snd (andThen r k)) = cfg"
  by (cases rule: andThen_cases [of r k]) auto

lemma report_options [simp]:
  "pbOptions (snd (probeTID p)) = pbOptions p" "pbOptions (snd (markReport e phase tid p)) = pbOptions p"
  "pbOptions (snd (sendNotify e event requestID phase p)) = pbOptions p"
  "pbOptions (snd (sendDigitMapComplete e requestID p)) = pbOptions p"
proof -
  show tid: "pbOptions (snd (probeTID p)) = pbOptions p" by (simp add: probeTID_def Let_def)
  show mark: "pbOptions (snd (markReport e phase tid p)) = pbOptions p" for tid p by (simp add: markReport_def)
  show "pbOptions (snd (sendNotify e event requestID phase p)) = pbOptions p"
    using tid by (auto simp: sendNotify_def case_prod_unfold Let_def mark intro: andThen_options split: option.split)
  show "pbOptions (snd (sendDigitMapComplete e requestID p)) = pbOptions p"
    using tid by (auto simp: sendDigitMapComplete_def case_prod_unfold intro: andThen_options)
qed

lemma ok_view: "probeOK cfg p \<Longrightarrow> probeView p' = probeView p \<Longrightarrow> pbOptions p' = pbOptions p \<Longrightarrow> probeOK cfg p'"
  using probeInv_view by (auto simp: probeOK_def)

lemma ok_reply: "probeOK cfg p \<Longrightarrow> (\<And>phase. lab \<noteq> LReport phase) \<Longrightarrow> probeOK cfg (snd (probeSend e lab m p))"
  by (auto simp: probeOK_def intro: reply_inv)

lemma ok_notify: "probeOK cfg p \<Longrightarrow> mayReport phase p \<Longrightarrow> probeOK cfg (snd (sendNotify e event requestID phase p))"
  by (auto simp: probeOK_def intro: sendNotify_inv)

lemma ok_digits:
  "probeOK cfg p \<Longrightarrow> pbDigitsAt p \<noteq> None \<Longrightarrow> \<not> pbDigitsSent p \<Longrightarrow> probeOK cfg (snd (sendDigitMapComplete e requestID p))"
  by (auto simp: probeOK_def intro: digits_inv)

text \<open>Arming a timer.\<close>

lemma ok_arm:
  assumes "probeOK cfg p" "pbInitialOnhook p" "poMode cfg \<noteq> ''inbound-observe''"
  shows "probeOK cfg (p\<lparr>pbOffhookAt := t\<rparr>)" "probeOK cfg (p\<lparr>pbOnhookAt := t\<rparr>)"
    "poMode cfg = ''outbound'' \<Longrightarrow> probeOK cfg (p\<lparr>pbDigitsAt := t\<rparr>)"
  using assms by (auto simp: probeOK_def probeInv_def reportFlag_def lineReports_def)

lemma ok_upd [simp]:
  "probeOK cfg (p\<lparr>pbReplyCache := c\<rparr>) = probeOK cfg p"
  "probeOK cfg (p\<lparr>pbIncomingSetup := b\<rparr>) = probeOK cfg p" "probeOK cfg (p\<lparr>pbMediaConn := b\<rparr>) = probeOK cfg p"
  "probeOK cfg (p\<lparr>pbContextID := r\<rparr>) = probeOK cfg p" "probeOK cfg (p\<lparr>pbEphemeralTerm := r\<rparr>) = probeOK cfg p"
  "probeOK cfg (p\<lparr>pbOnhookTID := r\<rparr>) = probeOK cfg p" "probeOK cfg (p\<lparr>pbFinishAt := t\<rparr>) = probeOK cfg p"
  "probeOK cfg (p\<lparr>pbServiceChangeTID := r\<rparr>) = probeOK cfg p" "probeOK cfg (p\<lparr>pbDeferLineEvents := b\<rparr>) = probeOK cfg p"
  by (simp_all add: probeOK_def probeInv_def lineReports_def reportFlag_def)

lemma ok_latest:
  assumes "probeOK cfg p" "r \<noteq> [] \<or> r = pbLatestRequestID p"
  shows "probeOK cfg (p\<lparr>pbLatestRequestID := r\<rparr>)"
proof -
  have "lineReports (p\<lparr>pbLatestRequestID := r\<rparr>) = lineReports p" "reportFlag ph (p\<lparr>pbLatestRequestID := r\<rparr>) = reportFlag ph p" for ph
    by (simp_all add: lineReports_def reportFlag_def)
  moreover have "cfg = pbOptions p" using assms(1) by (simp add: probeOK_def)
  ultimately show ?thesis using assms unfolding probeOK_def probeInv_def by (auto simp del: not_None_eq)
qed

lemma ok_tid: "probeOK cfg p \<Longrightarrow> probeOK cfg (snd (probeTID p))"
  by (erule ok_view) simp_all

text \<open>Disarming one.\<close>

lemma ok_clear: "probeOK cfg p \<Longrightarrow> probeOK cfg (p\<lparr>pbOffhookAt := None\<rparr>)"
  by (auto simp: probeOK_def probeInv_def reportFlag_def lineReports_def)

lemma lineSubscribed_ok:
  assumes ok: "probeOK cfg p" and "pbLatestRequestID p \<noteq> []"
  shows "probeOK cfg (snd (lineSubscribed e msg requestID p))"
proof -
  have "pbOptions p = cfg" using ok by (simp add: probeOK_def)
  then show ?thesis
    using ok ok_arm [OF ok] ok_notify [OF ok] assms(2)
    by (auto simp: lineSubscribed_def Let_def mayReport_def)
qed

lemma handleIncomingAdd_ok: "probeOK cfg p \<Longrightarrow> probeOK cfg (snd (handleIncomingAdd e msg p))"
  unfolding handleIncomingAdd_def Let_def by (auto intro!: andThen_ok ok_reply ok_latest)

lemma handleMGCTransaction_ok: "probeOK cfg p \<Longrightarrow> probeOK cfg (snd (handleMGCTransaction e msg p))"
  unfolding handleMGCTransaction_def Let_def
  by (auto intro!: andThen_ok ok_reply handleIncomingAdd_ok lineSubscribed_ok ok_latest split: sum.split)

lemma handleDatagram_ok: "probeOK cfg p \<Longrightarrow> probeOK cfg (snd (handleDatagram e data p))"
  by (simp add: handleDatagram_def handleReply_def handleMGCTransaction_ok split: sum.split)

lemma registerAttempts_ok: "probeOK cfg p \<Longrightarrow> probeOK cfg (snd (registerAttempts attempts request p))"
proof (induction attempts arbitrary: p)
  case (Cons x attempts)
  obtain e rs where x: "x = (e, rs)" by force
  have sent: "probeOK cfg (snd (probeSend e LServiceChange request p))" by (rule ok_reply [OF Cons.prems]) simp
  show ?case unfolding x registerAttempts.simps
    by (rule andThen_ok [OF sent]) (use sent Cons.IH [OF sent] in \<open>simp split: option.split\<close>)
qed simp

lemma terminationReads_ok: "probeOK cfg p \<Longrightarrow> probeOK cfg (snd (terminationReads rs tid p))"
proof (induction rs arbitrary: p)
  case (Cons er rs)
  then show ?case
    by (cases er) (auto intro!: andThen_ok handleMGCTransaction_ok split: probe_read.split sum.split)
qed simp

lemma probeRegister_ok: "probeOK cfg p \<Longrightarrow> probeOK cfg (snd (probeRegister attempts p))"
  by (simp add: probeRegister_def case_prod_unfold registerAttempts_ok ok_tid)

lemma lineRestart_ok: "probeOK cfg p \<Longrightarrow> probeOK cfg (snd (lineRestart i p))"
  unfolding lineRestart_def probeRegisterTermination_def Let_def case_prod_unfold
  by (auto intro!: andThen_ok ok_reply ok_tid terminationReads_ok ok_notify simp: mayReport_def)

lemma timers_ok:
  assumes "probeOK cfg p"
  shows "probeOK cfg (snd (offhookTimer e p))" "probeOK cfg (snd (digitsTimer e p))" "probeOK cfg (snd (onhookTimer e p))"
proof -
  have inv: "probeInv p" "pbOptions p = cfg" using assms by (simp_all add: probeOK_def)
  have armed: "pbInitialOnhook p" "poMode cfg \<noteq> ''inbound-observe''"
    if "due (pNow e) (pbOffhookAt p) \<or> due (pNow e) (pbDigitsAt p) \<or> due (pNow e) (pbOnhookAt p)"
  proof -
    have "pbOffhookAt p \<noteq> None \<or> pbDigitsAt p \<noteq> None \<or> pbOnhookAt p \<noteq> None" using that by (auto simp: due_def)
    then show "pbInitialOnhook p" "poMode cfg \<noteq> ''inbound-observe''" using inv by (simp_all add: probeInv_def)
  qed
  show "probeOK cfg (snd (onhookTimer e p))"
    using assms armed inv(2) by (simp add: onhookTimer_def mayReport_def ok_notify)
  show "probeOK cfg (snd (offhookTimer e p))"
    using assms armed inv(2) by (simp add: offhookTimer_def mayReport_def ok_notify ok_clear andThen_ok)
  show "probeOK cfg (snd (digitsTimer e p))"
  proof (cases "due (pNow e) (pbDigitsAt p) \<and> \<not> pbDigitsSent p")
    case True
    let ?r = "sendDigitMapComplete e (pbLatestRequestID p) p"
    have "pbDigitsAt p \<noteq> None" using True by (auto simp: due_def split: option.splits)
    then have ok: "probeOK cfg (snd ?r)" using ok_digits [OF assms] True by blast
    have "pbInitialOnhook (snd ?r)" if "fst ?r = None"
      using armed(1) True by (simp add: sendDigitMapComplete_def case_prod_unfold andThen_def probeSend_def probeTID_def Let_def)
    then show ?thesis using True armed(2) by (simp add: digitsTimer_def andThen_ok [OF ok] ok_arm(2) [OF ok])
  qed (use assms in \<open>auto simp: digitsTimer_def\<close>)
qed

lemma probeTimers_ok: "probeOK cfg p \<Longrightarrow> probeOK cfg (snd (probeTimers e p))"
  by (auto simp: probeTimers_def intro!: andThen_ok timers_ok)

lemma probeLoop_ok: "probeOK cfg p \<Longrightarrow> probeOK cfg (snd (probeLoop deadline rounds p))"
proof (induction rounds arbitrary: p)
  case (Cons x rounds)
  obtain e r e' where x: "x = (e, r, e')" by (cases x)
  have t: "probeOK cfg (snd (probeTimers e p))" by (rule probeTimers_ok [OF Cons.prems])
  have d: "probeOK cfg (snd (handleDatagram e' data (snd (probeTimers e p))))" for data by (rule handleDatagram_ok [OF t])
  show ?case
    using Cons t d unfolding x
    by (auto simp: case_prod_unfold split: option.split probe_read.split)
qed simp

lemma offhook_initial:
  assumes "probeInv p" "pbOffhookSent p"
  shows "pbInitialOnhook p"
proof (rule ccontr)
  assume "\<not> pbInitialOnhook p"
  then have "''offhook'' \<notin> set (lineReports p)" using probeInv_empty [OF assms(1)] by simp
  then show False using probeInvD(2) [OF assms(1)] assms(2) by (simp add: reportFlag_def)
qed

lemma finalOnhook_ok:
  assumes "probeOK cfg p"
  shows "probeOK cfg (finalOnhook e p)"
proof -
  have inv: "probeInv p" "pbOptions p = cfg" using assms by (simp_all add: probeOK_def)
  note offhook_initial [OF inv(1)]
  moreover have "poMode cfg \<noteq> ''inbound-observe''" if "pbOffhookSent p" using inv that by (simp add: probeInv_def)
  ultimately show ?thesis using assms inv(2) by (simp add: finalOnhook_def mayReport_def ok_notify)
qed

lemma probeRun_ok: "probeOK cfg p \<Longrightarrow> probeOK cfg (snd (probeRun i p))"
proof -
  assume "probeOK cfg p"
  then have start: "probeOK cfg (snd (andThen (probeRegister (inRegister i) p) (lineRestart i)))"
    by (intro andThen_ok) (auto intro: probeRegister_ok lineRestart_ok)
  then show ?thesis
    using probeLoop_ok finalOnhook_ok by (auto simp: probeRun_def case_prod_unfold split: option.split)
qed

subsection \<open>Off-hook only in the loop\<close>

text \<open>Before the loop, where no on-hook is deferred yet, the line is never reported off-hook.\<close>

definition onhookOnly :: "bool \<Rightarrow> call_probe \<Rightarrow> bool" where
  "onhookOnly d p \<longleftrightarrow> \<not> pbOffhookSent p \<and> (d \<longrightarrow> pbDeferLineEvents p)"

lemma andThen_onhookOnly:
  "onhookOnly d (snd r) \<Longrightarrow> (\<And>p. onhookOnly d p \<Longrightarrow> onhookOnly d (snd (k p))) \<Longrightarrow> onhookOnly d (snd (andThen r k))"
  by (cases rule: andThen_cases [of r k]) auto

lemma onhookOnly_send [simp]: "onhookOnly d (snd (probeSend e lab m p)) = onhookOnly d p"
  by (simp add: onhookOnly_def probeSend_def Let_def)

lemma onhookOnly_tid [simp]: "onhookOnly d (snd (probeTID p)) = onhookOnly d p"
  by (simp add: onhookOnly_def probeTID_def Let_def)

lemma onhookOnly_upd [simp]:
  "onhookOnly d (p\<lparr>pbReplyCache := c\<rparr>) = onhookOnly d p" "onhookOnly d (p\<lparr>pbLatestRequestID := r\<rparr>) = onhookOnly d p"
  "onhookOnly d (p\<lparr>pbIncomingSetup := b\<rparr>) = onhookOnly d p" "onhookOnly d (p\<lparr>pbMediaConn := b\<rparr>) = onhookOnly d p"
  "onhookOnly d (p\<lparr>pbContextID := r\<rparr>) = onhookOnly d p" "onhookOnly d (p\<lparr>pbEphemeralTerm := r\<rparr>) = onhookOnly d p"
  "onhookOnly d (p\<lparr>pbServiceChangeTID := r\<rparr>) = onhookOnly d p"
  by (simp_all add: onhookOnly_def)

lemma onhookOnly_transaction: "onhookOnly True p \<Longrightarrow> onhookOnly True (snd (handleMGCTransaction e msg p))"
proof -
  assume p: "onhookOnly True p"
  have add: "onhookOnly True (snd (handleIncomingAdd e msg p))"
    unfolding handleIncomingAdd_def Let_def using p by (simp add: andThen_onhookOnly)
  have sub: "onhookOnly True (snd (lineSubscribed e msg r q))" if "onhookOnly True q" for r q
    using that by (simp add: lineSubscribed_def onhookOnly_def Let_def)
  show ?thesis unfolding handleMGCTransaction_def Let_def
    using p add by (simp add: andThen_onhookOnly sub split: sum.split)
qed

lemma onhookOnly_reads: "onhookOnly True p \<Longrightarrow> onhookOnly True (snd (terminationReads rs tid p))"
proof (induction rs arbitrary: p)
  case (Cons er rs)
  then show ?case
    by (cases er) (auto intro!: andThen_onhookOnly onhookOnly_transaction split: probe_read.split sum.split)
qed simp

lemma onhookOnly_attempts: "onhookOnly False p \<Longrightarrow> onhookOnly False (snd (registerAttempts attempts request p))"
proof (induction attempts arbitrary: p)
  case (Cons x attempts)
  obtain e rs where x: "x = (e, rs)" by force
  show ?case unfolding x registerAttempts.simps
    by (rule andThen_onhookOnly) (use Cons in \<open>auto split: option.split\<close>)
qed simp

lemma onhookOnly_initial: "onhookOnly False p \<Longrightarrow> onhookOnly False (snd (sendNotify e event requestID ''initial-onhook'' p))"
  by (auto simp: sendNotify_def case_prod_unfold Let_def markReport_def onhookOnly_def andThen_def probeSend_def probeTID_def
      split: option.split)

lemma onhookOnly_start:
  assumes "onhookOnly False p"
  shows "onhookOnly False (snd (andThen (probeRegister attempts p) (lineRestart i)))"
proof (rule andThen_onhookOnly)
  show "onhookOnly False (snd (probeRegister attempts p))"
    using assms by (simp add: probeRegister_def case_prod_unfold onhookOnly_attempts)
next
  fix q :: call_probe
  assume q: "onhookOnly False q"
  then have "onhookOnly True (q\<lparr>pbDeferLineEvents := True\<rparr>)" by (simp add: onhookOnly_def)
  then have "onhookOnly True (snd (probeRegisterTermination e rs (q\<lparr>pbDeferLineEvents := True\<rparr>)))" for e rs
    unfolding probeRegisterTermination_def case_prod_unfold by (intro andThen_onhookOnly) (simp_all add: onhookOnly_reads)
  then have "onhookOnly False (snd (probeRegisterTermination e rs (q\<lparr>pbDeferLineEvents := True\<rparr>)))" for e rs
    unfolding onhookOnly_def by blast
  moreover have "onhookOnly False (p1\<lparr>pbDeferLineEvents := False\<rparr>) = onhookOnly False p1" for p1
    by (simp add: onhookOnly_def)
  ultimately show "onhookOnly False (snd (lineRestart i q))"
    using q unfolding lineRestart_def Let_def by (auto intro!: andThen_onhookOnly onhookOnly_initial)
qed

subsection \<open>A run\<close>

definition probeDemoOptions :: "string \<Rightarrow> call_probe_options" where
  "probeDemoOptions mode = \<lparr> poMGC = ''192.0.2.9:2944'', poSource = ''127.0.0.1:0'', poBindDevice = [], poMID = ''mgw'',
     poTermination = ''A0'', poMode = mode, poEventStyle = ''plain'', poLineRestart = False, poNumber = ''100'',
     poRTPIP = ''127.0.0.1'', poRTPPort = 4000, poHold = 3, poOffhookDelay = 0, poDigitDelay = 1, poCallHold = 12,
     poTimeout = 30 \<rparr>"

definition probeDemoEnv :: "int \<Rightarrow> probe_env" where
  "probeDemoEnv t = \<lparr> pNow = t, pCivil = \<lparr> ctYear = 2025, ctMonth = 1, ctDay = 1, ctHour = 0, ctMinute = 0,
     ctSecond = 0, ctNanosecond = 0 \<rparr>, pWrites = (\<lambda>_. True), pListens = True \<rparr>"

definition probeDemoMGC :: udp_addr where
  "probeDemoMGC = \<lparr> ip = ''192.0.2.9'', port = 2944, zone = [] \<rparr>"

definition probeDemoInputs :: "string list \<Rightarrow> probe_inputs" where
  "probeDemoInputs datagrams = \<lparr>
     inRegister = (\<lambda>_. (probeDemoEnv 0, [PRDatagram ''!/1 M P=1{C=-{SC=ROOT}}'' probeDemoMGC])),
     inLine = (probeDemoEnv 0, []), inRestart = probeDemoEnv 0, inStart = 0,
     inRounds = map (\<lambda>(n, d). (probeDemoEnv (int n), PRDatagram d probeDemoMGC, probeDemoEnv (int n)))
         (List.enumerate 1 datagrams) @ [(probeDemoEnv 29, PRTimeout, probeDemoEnv 29), (probeDemoEnv 30, PRTimeout, probeDemoEnv 30)],
     inEnd = probeDemoEnv 30 \<rparr>"

definition probeDemo :: "string \<Rightarrow> call_probe" where
  "probeDemo mode = projr (newCallProbe (\<lambda>_. Some probeDemoMGC) (\<lambda>_ _. True) 0 (probeDemoOptions mode))"

subsection \<open>Properties\<close>

lemma newCallProbe_ok:
  assumes "newCallProbe resolve listens now cfg = Inr p"
  shows "probeOK cfg p" "onhookOnly False p"
proof -
  have "pbOut p = []" "pbOptions p = cfg" "\<not> pbInitialOnhook p" "\<not> pbOffhookSent p" "\<not> pbDigitsSent p" "\<not> pbOnhookSent p"
      "pbOnhookAt p = None" "pbOffhookAt p = None" "pbDigitsAt p = None"
    using assms by (auto simp: newCallProbe_def split: option.splits if_splits)
  then show "probeOK cfg p" "onhookOnly False p"
    by (simp_all add: probeOK_def probeInv_def lineReports_def reportFlag_def onhookOnly_def)
qed

lemma finalOnhook_sent:
  assumes "probeOK cfg p" "checkProbeArguments cfg = None" "\<forall>n. pWrites e n" "pbOffhookSent p"
  shows "pbOnhookSent (finalOnhook e p)"
proof (cases "pbOnhookSent p")
  case False
  have inv: "probeInv p" "pbOptions p = cfg" using assms(1) by (simp_all add: probeOK_def)
  have "pbInitialOnhook p" by (rule offhook_initial [OF inv(1) assms(4)])
  then have "pbLatestRequestID p \<noteq> []" using inv(1) by (simp add: probeInv_def)
  moreover have "\<exists>oe. formatObservedEvent ''al/on'' (poEventStyle cfg) = Some oe"
    using assms(2) by (auto simp: checkProbeArguments_def formatObservedEvent_def split: if_splits)
  ultimately show ?thesis
    using False assms(3,4) inv(2)
    by (auto simp: finalOnhook_def sendNotify_def case_prod_unfold Let_def andThen_def probeSend_def markReport_def)
qed (simp add: finalOnhook_def)


definition subscriptions :: "string \<Rightarrow> probe_inputs" where
  "subscriptions termination = probeDemoInputs [''!/1 M T=5{C=-{MF=A0{E=7{}}}}'',
     ''!/1 M T=6{C=-{MF='' @ termination @ ''{E=8{}}}}'']"

lemma offhook_run:
  "checkProbeArguments (probeDemoOptions ''offhook-only'') = None"
  "(case probeRun (subscriptions ''A0'') (probeDemo ''offhook-only'') of (r, p) \<Rightarrow> (r, lineReports p)) =
     (Some (Some TestTimedOut), [''initial-onhook'', ''offhook'', ''final-onhook''])"
  by code_simp+


text \<open>The digits may come before any off-hook: a subscription to another termination, here the wildcard, that
  follows the initial on-hook is taken for the one that follows the off-hook.\<close>

theorem call_probe_digits_without_offhook:
  "lineReports (snd (probeRun (subscriptions ''*'') (probeDemo ''outbound''))) = [''initial-onhook'', ''digits'']"
  by code_simp

end
