(* ===== verification/Go_Hash.thy ===== *)
theory Go_Hash
  imports Go_Strings "HOL-Library.Word"
begin

text \<open>
  Prelude of the development: the hash functions of Go's packages \<^verbatim>\<open>crypto/md5\<close> and
  \<^verbatim>\<open>crypto/sha256\<close> (RFC 1321 and FIPS 180-4) and \<^verbatim>\<open>hex.EncodeToString\<close>, which the digest
  authentication calls.  Words are 32 bits wide and their sums wrap around.
\<close>

unbundle bit_operations_syntax

type_synonym word32 = "32 word"

abbreviation rotl :: "nat \<Rightarrow> word32 \<Rightarrow> word32" where
  "rotl n w \<equiv> push_bit n w OR drop_bit (32 - n) w"

abbreviation rotr :: "nat \<Rightarrow> word32 \<Rightarrow> word32" where
  "rotr n w \<equiv> drop_bit n w OR push_bit (32 - n) w"

subsection \<open>Bytes and blocks\<close>

definition byteList :: "string \<Rightarrow> int list" where
  "byteList s = map of_char s"

definition bigEndian :: "nat \<Rightarrow> int \<Rightarrow> int list" where
  "bigEndian n v = map (\<lambda>k. v div 256 ^ k mod 256) (rev [0..<n])"

definition littleEndian :: "nat \<Rightarrow> int \<Rightarrow> int list" where
  "littleEndian n v = map (\<lambda>k. v div 256 ^ k mod 256) [0..<n]"

text \<open>The message, the byte 128, zeros up to eight bytes before a block ends, and the bit length.\<close>

definition padMessage :: "(int \<Rightarrow> int list) \<Rightarrow> int list \<Rightarrow> int list" where
  "padMessage len bs =
     (let n = length bs in bs @ [128] @ replicate ((119 - n mod 64) mod 64) 0 @ len (int n * 8))"

fun chunks :: "nat \<Rightarrow> 'a list \<Rightarrow> 'a list list" where
  "chunks 0 xs = []"
| "chunks (Suc n) [] = []"
| "chunks (Suc n) (x # xs) = (x # take n xs) # chunks (Suc n) (drop n xs)"

definition wordLE :: "int list \<Rightarrow> word32" where
  "wordLE bs = word_of_int (foldr (\<lambda>b acc. b + 256 * acc) bs 0)"

definition wordBE :: "int list \<Rightarrow> word32" where
  "wordBE bs = word_of_int (foldl (\<lambda>acc b. 256 * acc + b) 0 bs)"

definition hexPair :: "int \<Rightarrow> string" where
  "hexPair b = [hexDigit (b div 16), hexDigit (b mod 16)]"

definition EncodeToString :: "int list \<Rightarrow> string" where
  "EncodeToString bs = concat (map hexPair bs)"

subsection \<open>MD5\<close>

definition md5K :: "word32 list" where
  "md5K = [
      0xd76aa478, 0xe8c7b756, 0x242070db, 0xc1bdceee, 0xf57c0faf, 0x4787c62a,
      0xa8304613, 0xfd469501, 0x698098d8, 0x8b44f7af, 0xffff5bb1, 0x895cd7be,
      0x6b901122, 0xfd987193, 0xa679438e, 0x49b40821, 0xf61e2562, 0xc040b340,
      0x265e5a51, 0xe9b6c7aa, 0xd62f105d, 0x02441453, 0xd8a1e681, 0xe7d3fbc8,
      0x21e1cde6, 0xc33707d6, 0xf4d50d87, 0x455a14ed, 0xa9e3e905, 0xfcefa3f8,
      0x676f02d9, 0x8d2a4c8a, 0xfffa3942, 0x8771f681, 0x6d9d6122, 0xfde5380c,
      0xa4beea44, 0x4bdecfa9, 0xf6bb4b60, 0xbebfbc70, 0x289b7ec6, 0xeaa127fa,
      0xd4ef3085, 0x04881d05, 0xd9d4d039, 0xe6db99e5, 0x1fa27cf8, 0xc4ac5665,
      0xf4292244, 0x432aff97, 0xab9423a7, 0xfc93a039, 0x655b59c3, 0x8f0ccc92,
      0xffeff47d, 0x85845dd1, 0x6fa87e4f, 0xfe2ce6e0, 0xa3014314, 0x4e0811a1,
      0xf7537e82, 0xbd3af235, 0x2ad7d2bb, 0xeb86d391]"

definition md5S :: "nat list" where
  "md5S = concat (replicate 4 [7, 12, 17, 22]) @ concat (replicate 4 [5, 9, 14, 20]) @
     concat (replicate 4 [4, 11, 16, 23]) @ concat (replicate 4 [6, 10, 15, 21])"

type_synonym md5_state = "word32 \<times> word32 \<times> word32 \<times> word32"

definition md5Round :: "word32 list \<Rightarrow> nat \<Rightarrow> md5_state \<Rightarrow> md5_state" where
  "md5Round m i s =
     (case s of (a, b, c, d) \<Rightarrow>
        (let fg = (if i < 16 then ((b AND c) OR (NOT b AND d), i)
                   else if i < 32 then ((d AND b) OR (NOT d AND c), (5 * i + 1) mod 16)
                   else if i < 48 then (b XOR c XOR d, (3 * i + 5) mod 16)
                   else (c XOR (b OR NOT d), (7 * i) mod 16));
             f = fst fg + a + md5K ! i + m ! snd fg
         in (d, b + rotl (md5S ! i) f, b, c)))"

definition md5Block :: "md5_state \<Rightarrow> int list \<Rightarrow> md5_state" where
  "md5Block s block =
     (let m = map wordLE (chunks 4 block) in
      case (s, fold (md5Round m) [0..<64] s) of
        ((a, b, c, d), (a', b', c', d')) \<Rightarrow> (a + a', b + b', c + c', d + d'))"

definition md5Sum :: "string \<Rightarrow> int list" where
  "md5Sum s =
     (case foldl md5Block (0x67452301, 0xefcdab89, 0x98badcfe, 0x10325476)
             (chunks 64 (padMessage (littleEndian 8) (byteList s))) of
        (a, b, c, d) \<Rightarrow> concat (map (\<lambda>w. littleEndian 4 (uint w)) [a, b, c, d]))"

subsection \<open>SHA-256\<close>

text \<open>
  The constants are the first 32 bits of the fractional parts of the cube roots of the first 64 primes
  and of the square roots of the first eight.  The integer root is found bit by bit from the top.
\<close>

primrec rootBits :: "nat \<Rightarrow> int \<Rightarrow> nat \<Rightarrow> int \<Rightarrow> int" where
  "rootBits k n 0 acc = acc"
| "rootBits k n (Suc i) acc = rootBits k n i (if (acc + 2 ^ i) ^ k \<le> n then acc + 2 ^ i else acc)"

definition firstPrimes :: "int list" where
  "firstPrimes =
     [2, 3, 5, 7, 11, 13, 17, 19, 23, 29, 31, 37, 41, 43, 47, 53,
      59, 61, 67, 71, 73, 79, 83, 89, 97, 101, 103, 107, 109, 113, 127, 131,
      137, 139, 149, 151, 157, 163, 167, 173, 179, 181, 191, 193, 197, 199, 211, 223,
      227, 229, 233, 239, 241, 251, 257, 263, 269, 271, 277, 281, 283, 293, 307, 311]"

definition rootFraction :: "nat \<Rightarrow> int \<Rightarrow> word32" where
  "rootFraction k p = word_of_int (rootBits k (p * 2 ^ (32 * k)) 40 0)"

definition sha256K :: "word32 list" where
  "sha256K = map (rootFraction 3) firstPrimes"

definition sha256H :: "word32 list" where
  "sha256H = map (rootFraction 2) (take 8 firstPrimes)"

text \<open>The message schedule, from sixteen words to sixty-four.\<close>

definition scheduleStep :: "word32 list \<Rightarrow> word32 list" where
  "scheduleStep w =
     (let i = length w; x = w ! (i - 15); y = w ! (i - 2);
          s0 = rotr 7 x XOR rotr 18 x XOR drop_bit 3 x;
          s1 = rotr 17 y XOR rotr 19 y XOR drop_bit 10 y
      in w @ [w ! (i - 16) + s0 + w ! (i - 7) + s1])"

definition schedule :: "word32 list \<Rightarrow> word32 list" where
  "schedule w = (scheduleStep ^^ 48) w"

definition sha256Round :: "word32 list \<Rightarrow> word32 list \<Rightarrow> nat \<Rightarrow> word32 list" where
  "sha256Round w s i =
     (let a = s ! 0; b = s ! 1; c = s ! 2; d = s ! 3; e = s ! 4; f = s ! 5; g = s ! 6; h = s ! 7;
          t1 = h + (rotr 6 e XOR rotr 11 e XOR rotr 25 e) + ((e AND f) XOR (NOT e AND g)) + sha256K ! i + w ! i;
          t2 = (rotr 2 a XOR rotr 13 a XOR rotr 22 a) + ((a AND b) XOR (a AND c) XOR (b AND c))
      in [t1 + t2, a, b, c, d + t1, e, f, g])"

definition sha256Block :: "word32 list \<Rightarrow> int list \<Rightarrow> word32 list" where
  "sha256Block s block =
     map2 (+) s (foldl (sha256Round (schedule (map wordBE (chunks 4 block)))) s [0..<64])"

definition sha256Sum :: "string \<Rightarrow> int list" where
  "sha256Sum s =
     concat (map (\<lambda>w. bigEndian 4 (uint w))
       (foldl sha256Block sha256H (chunks 64 (padMessage (bigEndian 8) (byteList s)))))"

subsection \<open>Shape of the results\<close>

lemma hexPair_length [simp]: "length (hexPair b) = 2"
  by (simp add: hexPair_def)

lemma EncodeToString_length: "length (EncodeToString bs) = 2 * length bs"
  by (induction bs) (simp_all add: EncodeToString_def)

lemma md5Sum_length: "length (md5Sum s) = 16"
  by (simp add: md5Sum_def littleEndian_def split: prod.splits)

end
