(* ===== verification/Sip_Digest.thy ===== *)
theory Sip_Digest
  imports Go_Hash Go_Laws
begin

text \<open>
  Digest authentication (\<^verbatim>\<open>internal/sip/digest.go\<close>): the parser of a challenge and the builder of
  the authorization header, with \<^verbatim>\<open>strconv.Unquote\<close>.  The parameters of a header that is built are
  read back by the splitter and the unquoting of the parser, whatever quotes and backslashes the
  user name or the challenge hold.
\<close>

subsection \<open>Unquoting a Go string literal\<close>

text \<open>\<^verbatim>\<open>utf8.AppendRune\<close>.\<close>

definition encodeRune :: "int \<Rightarrow> string" where
  "encodeRune r =
     (if r < 128 then [char_of r]
      else if r < 2048 then [char_of (192 + r div 64), char_of (128 + r mod 64)]
      else if r < 65536 then [char_of (224 + r div 4096), char_of (128 + r div 64 mod 64), char_of (128 + r mod 64)]
      else [char_of (240 + r div 262144), char_of (128 + r div 4096 mod 64),
            char_of (128 + r div 64 mod 64), char_of (128 + r mod 64)])"

definition validRune :: "int \<Rightarrow> bool" where
  "validRune r \<longleftrightarrow> (0 \<le> r \<and> r < 0xD800) \<or> (0xDFFF < r \<and> r \<le> 0x10FFFF)"

definition unhex :: "char \<Rightarrow> int option" where
  "unhex c =
     (if isDigit c then Some (byte c - 48)
      else if 97 \<le> byte c \<and> byte c \<le> 102 then Some (byte c - 87)
      else if 65 \<le> byte c \<and> byte c \<le> 70 then Some (byte c - 55)
      else None)"

fun digitsValue :: "(char \<Rightarrow> int option) \<Rightarrow> int \<Rightarrow> int \<Rightarrow> string \<Rightarrow> int option" where
  "digitsValue f b v [] = Some v"
| "digitsValue f b v (c # cs) = (case f c of None \<Rightarrow> None | Some x \<Rightarrow> digitsValue f b (b * v + x) cs)"

definition unoctal :: "char \<Rightarrow> int option" where
  "unoctal c = (if 48 \<le> byte c \<and> byte c \<le> 55 then Some (byte c - 48) else None)"

text \<open>
  \<^verbatim>\<open>strconv.UnquoteChar\<close> on a non-empty input: the bytes of the character and the rest.  Bytes
  from 128 on stand for themselves.
\<close>

definition unquoteHex :: "nat \<Rightarrow> string \<Rightarrow> (int \<times> string) option" where
  "unquoteHex n s =
     (if length s < n then None else map_option (\<lambda>v. (v, drop n s)) (digitsValue unhex 16 0 (take n s)))"

definition unquoteRune :: "nat \<Rightarrow> string \<Rightarrow> (string \<times> string) option" where
  "unquoteRune n s =
     (case unquoteHex n s of None \<Rightarrow> None
      | Some (v, t) \<Rightarrow> if validRune v then Some (encodeRune v, t) else None)"

definition unquoteEscape :: "char \<Rightarrow> char \<Rightarrow> string \<Rightarrow> (string \<times> string) option" where
  "unquoteEscape quote c s =
     (if c = CHR ''a'' then Some ([char_of (7 :: int)], s)
      else if c = CHR ''b'' then Some ([char_of (8 :: int)], s)
      else if c = CHR ''f'' then Some ([char_of (12 :: int)], s)
      else if c = CHR ''n'' then Some ([NL], s)
      else if c = CHR ''r'' then Some ([CR], s)
      else if c = CHR ''t'' then Some ([TAB], s)
      else if c = CHR ''v'' then Some ([char_of (11 :: int)], s)
      else if c = CHR ''x'' then map_option (\<lambda>(v, t). ([char_of v], t)) (unquoteHex 2 s)
      else if c = CHR ''u'' then unquoteRune 4 s
      else if c = CHR ''U'' then unquoteRune 8 s
      else if unoctal c \<noteq> None then
        (if length s < 2 then None
         else (case digitsValue unoctal 8 0 (c # take 2 s) of
                 None \<Rightarrow> None
               | Some v \<Rightarrow> if v > 255 then None else Some ([char_of v], drop 2 s)))
      else if c = BSL then Some ([BSL], s)
      else if (c = CHR 0x27 \<or> c = DQ) \<and> c = quote then Some ([c], s)
      else None)"

definition UnquoteChar :: "char \<Rightarrow> string \<Rightarrow> (string \<times> string) option" where
  "UnquoteChar quote s =
     (case s of
        [] \<Rightarrow> None
      | c # t \<Rightarrow>
          if c = quote \<and> (quote = CHR 0x27 \<or> quote = DQ) then None
          else if c \<noteq> BSL then Some ([c], t)
          else (case t of [] \<Rightarrow> None | d # u \<Rightarrow> unquoteEscape quote d u))"

lemma unquoteRune_length: "unquoteRune n s = Some (o', t) \<Longrightarrow> length t \<le> length s"
  by (auto simp: unquoteRune_def unquoteHex_def split: option.splits if_splits)

lemma unquoteEscape_length: "unquoteEscape q c s = Some (o', t) \<Longrightarrow> length t \<le> length s"
  using unquoteRune_length [of 4 s o' t] unquoteRune_length [of 8 s o' t]
  by (auto simp: unquoteEscape_def unquoteHex_def split: option.splits if_splits)

lemma UnquoteChar_length: "UnquoteChar q s = Some (o', t) \<Longrightarrow> length t < length s"
  using unquoteEscape_length
  by (fastforce simp: UnquoteChar_def split: list.splits if_splits)

text \<open>The loop of \<^verbatim>\<open>unquote\<close> for a double-quoted literal: the text and what follows the quote.\<close>

function unquoteLoop :: "string \<Rightarrow> (string \<times> string) option" where
  "unquoteLoop s =
     (if s = [] then None
      else if hd s = DQ then Some ([], tl s)
      else if hd s = NL then None
      else (case UnquoteChar DQ s of
              None \<Rightarrow> None
            | Some (c, t) \<Rightarrow> map_option (\<lambda>(r, u). (c @ r, u)) (unquoteLoop t)))"
  by pat_completeness auto
termination
  by (relation "measure length") (auto dest: UnquoteChar_length)

declare unquoteLoop.simps [simp del]

text \<open>A single-quoted literal holds one character; the empty one is accepted by the first case.\<close>

definition unquoteSingle :: "string \<Rightarrow> (string \<times> string) option" where
  "unquoteSingle s =
     (if s = [] \<or> hd s = NL then None
      else if hd s = CHR 0x27 then Some ([], tl s)
      else (case UnquoteChar (CHR 0x27) s of
              None \<Rightarrow> None
            | Some (c, t) \<Rightarrow> if t \<noteq> [] \<and> hd t = CHR 0x27 then Some (c, tl t) else None))"

definition unquoteRaw :: "string \<Rightarrow> (string \<times> string) option" where
  "unquoteRaw s =
     Some (filter (\<lambda>c. c \<noteq> CR) (takeWhile (\<lambda>c. c \<noteq> CHR 0x60) s), tl (dropWhile (\<lambda>c. c \<noteq> CHR 0x60) s))"

definition Unquote :: "string \<Rightarrow> string option" where
  "Unquote s =
     (if length s < 2 \<or> hd s \<notin> set (tl s) then None
      else (let r = (if hd s = CHR 0x60 then unquoteRaw (tl s)
                     else if hd s = DQ then unquoteLoop (tl s)
                     else if hd s = CHR 0x27 then unquoteSingle (tl s)
                     else None)
            in case r of Some (v, []) \<Rightarrow> Some v | _ \<Rightarrow> None))"

subsection \<open>Parameters\<close>

definition unquoteDigestValue :: "string \<Rightarrow> string" where
  "unquoteDigestValue v =
     (let t = TrimSpace v in case Unquote t of Some u \<Rightarrow> u | None \<Rightarrow> Trim t [DQ])"

definition escapeDigestValue :: "string \<Rightarrow> string" where
  "escapeDigestValue v = ReplaceAll (ReplaceAll v [BSL] [BSL, BSL]) [DQ] [BSL, DQ]"

text \<open>The scan of \<^verbatim>\<open>splitDigestParameters\<close>; \<open>cur\<close> is the slice from \<^verbatim>\<open>start\<close> to the index.\<close>

fun splitParams :: "string \<Rightarrow> bool \<Rightarrow> bool \<Rightarrow> string \<Rightarrow> string list" where
  "splitParams cur quoted escaped [] = [TrimSpace cur]"
| "splitParams cur quoted escaped (c # cs) =
     (if escaped then splitParams (cur @ [c]) quoted False cs
      else if c = BSL \<and> quoted then splitParams (cur @ [c]) quoted True cs
      else if c = DQ then splitParams (cur @ [c]) (\<not> quoted) False cs
      else if c = CHR '','' \<and> \<not> quoted then TrimSpace cur # splitParams [] quoted False cs
      else splitParams (cur @ [c]) quoted False cs)"

definition splitDigestParameters :: "string \<Rightarrow> string list" where
  "splitDigestParameters v = splitParams [] False False v"

text \<open>The map of parameters that \<^verbatim>\<open>ParseDigestChallenge\<close> builds.\<close>

definition addParam :: "(string \<rightharpoonup> string) \<Rightarrow> string \<Rightarrow> (string \<rightharpoonup> string)" where
  "addParam m item =
     (case Cut item ''='' of (name, parameter, found) \<Rightarrow>
        if found then m(ToLower (TrimSpace name) \<mapsto> unquoteDigestValue parameter) else m)"

definition digestValues :: "string \<Rightarrow> (string \<rightharpoonup> string)" where
  "digestValues parameters = foldl addParam Map.empty (splitDigestParameters parameters)"

subsection \<open>Challenges\<close>

record digest_challenge =
  Realm :: string
  Nonce :: string
  Opaque :: string
  Algorithm :: string
  QOP :: "string list"
  Stale :: bool

datatype digest_error =
    UnsupportedChallenge string
  | MissingRealmOrNonce
  | MissingOptions
  | UnsupportedAlgorithm string
  | UnsupportedQOP "string list"
  | CNonceRequired

definition paramOr :: "(string \<rightharpoonup> string) \<Rightarrow> string \<Rightarrow> string" where
  "paramOr m k = (case m k of None \<Rightarrow> [] | Some v \<Rightarrow> v)"

definition ParseDigestChallenge :: "string \<Rightarrow> digest_error + digest_challenge" where
  "ParseDigestChallenge v =
     (case Cut (TrimSpace v) '' '' of (scheme, parameters, ok) \<Rightarrow>
        if \<not> ok \<or> \<not> EqualFold scheme ''Digest'' then Inl (UnsupportedChallenge v)
        else
          (let m = digestValues parameters;
               realm = paramOr m ''realm''; nonce = paramOr m ''nonce'';
               algorithm = paramOr m ''algorithm''
           in if realm = [] \<or> nonce = [] then Inl MissingRealmOrNonce
              else Inr \<lparr> Realm = realm, Nonce = nonce, Opaque = paramOr m ''opaque'',
                Algorithm = (if algorithm = [] then ''MD5'' else algorithm),
                QOP = filter (\<lambda>q. q \<noteq> [])
                  (map (\<lambda>q. ToLower (TrimSpace q)) (SplitByte (CHR '','') (paramOr m ''qop''))),
                Stale = EqualFold (paramOr m ''stale'') ''true'' \<rparr>))"

subsection \<open>Authorization\<close>

record digest_options =
  doMethod :: string
  doURI :: string
  doUsername :: string
  doPassword :: string
  doBody :: string
  doNonceCount :: "32 word"
  doCNonce :: string

definition selectDigestQOP :: "string list \<Rightarrow> string" where
  "selectDigestQOP vs =
     (if \<exists>v \<in> set vs. EqualFold v ''auth'' then ''auth''
      else if \<exists>v \<in> set vs. EqualFold v ''auth-int'' then ''auth-int''
      else [])"

definition digestHash :: "string \<Rightarrow> (string \<Rightarrow> string) option" where
  "digestHash algorithm =
     (if ToUpper algorithm = ''MD5'' then Some (\<lambda>v. EncodeToString (md5Sum v))
      else if ToUpper algorithm = ''SHA-256'' then Some (\<lambda>v. EncodeToString (sha256Sum v))
      else None)"

definition nonceCountText :: "32 word \<Rightarrow> string" where
  "nonceCountText n = padZero 8 (hexDigits (uint n))"

text \<open>The response of the client: \<open>sess\<close> for a session algorithm, \<open>qop\<close> the selected protection.\<close>

definition digestResponse ::
  "(string \<Rightarrow> string) \<Rightarrow> bool \<Rightarrow> string \<Rightarrow> digest_challenge \<Rightarrow> digest_options \<Rightarrow> string" where
  "digestResponse h sess qop c opts =
     (let ha0 = h (doUsername opts @ '':'' @ Realm c @ '':'' @ doPassword opts);
          ha1 = (if sess then h (ha0 @ '':'' @ Nonce c @ '':'' @ doCNonce opts) else ha0);
          ha2 = h (doMethod opts @ '':'' @ doURI opts @
                   (if qop = ''auth-int'' then '':'' @ h (doBody opts) else []))
      in h (ha1 @ '':'' @ Nonce c @ '':'' @
            (if qop = [] then ha2
             else nonceCountText (doNonceCount opts) @ '':'' @ doCNonce opts @ '':'' @ qop @ '':'' @ ha2)))"

definition quotedParam :: "string \<Rightarrow> string \<Rightarrow> string" where
  "quotedParam name v = name @ ''='' @ [DQ] @ escapeDigestValue v @ [DQ]"

definition authorizationParameters ::
  "(string \<Rightarrow> string) \<Rightarrow> bool \<Rightarrow> string \<Rightarrow> digest_challenge \<Rightarrow> digest_options \<Rightarrow> string list" where
  "authorizationParameters h sess qop c opts =
     [quotedParam ''username'' (doUsername opts), quotedParam ''realm'' (Realm c),
      quotedParam ''nonce'' (Nonce c), quotedParam ''uri'' (doURI opts),
      ''response='' @ [DQ] @ digestResponse h sess qop c opts @ [DQ],
      ''algorithm='' @ Algorithm c] @
     (if Opaque c \<noteq> [] then [quotedParam ''opaque'' (Opaque c)] else []) @
     (if qop \<noteq> [] then [''qop='' @ qop, ''nc='' @ nonceCountText (doNonceCount opts),
                         quotedParam ''cnonce'' (doCNonce opts)] else [])"

definition BuildDigestAuthorization ::
  "digest_challenge \<Rightarrow> digest_options \<Rightarrow> digest_error + string" where
  "BuildDigestAuthorization c opts =
     (if doMethod opts = [] \<or> doURI opts = [] \<or> doUsername opts = [] then Inl MissingOptions
      else
        (let algorithm = ToUpper (TrimSpace (Algorithm c));
             sess = HasSuffix algorithm ''-SESS'';
             base = TrimSuffix algorithm ''-SESS''
         in case digestHash base of
              None \<Rightarrow> Inl (UnsupportedAlgorithm base)
            | Some h \<Rightarrow>
                (let qop = selectDigestQOP (QOP c)
                 in if QOP c \<noteq> [] \<and> qop = [] then Inl (UnsupportedQOP (QOP c))
                    else if (qop \<noteq> [] \<or> sess) \<and> doCNonce opts = [] then Inl CNonceRequired
                    else Inr (''Digest '' @ Join (authorizationParameters h sess qop c opts) '', ''))))"

subsection \<open>Escaping and unquoting\<close>

definition escapeByte :: "char \<Rightarrow> string" where
  "escapeByte c = (if c = BSL then [BSL, BSL] else if c = DQ then [BSL, DQ] else [c])"

lemma ReplaceAll_byte: "ReplaceAll s [x] new = concat (map (\<lambda>c. if c = x then new else [c]) s)"
  by (induction s) auto

lemma escapeDigestValue_bytes: "escapeDigestValue v = concat (map escapeByte v)"
  by (induction v) (auto simp: escapeDigestValue_def ReplaceAll_byte escapeByte_def)

lemma unquoteLoop_escape:
  "lineFree v \<Longrightarrow> unquoteLoop (concat (map escapeByte v) @ DQ # t) = Some (v, t)"
proof (induction v)
  case Nil
  then show ?case by (simp add: unquoteLoop.simps)
next
  case (Cons c v)
  let ?r = "concat (map escapeByte v) @ DQ # t"
  have "UnquoteChar DQ (escapeByte c @ ?r) = Some ([c], ?r)"
    by (auto simp: UnquoteChar_def escapeByte_def unquoteEscape_def unoctal_def)
  moreover have "escapeByte c @ ?r \<noteq> []" "hd (escapeByte c @ ?r) \<noteq> DQ" "hd (escapeByte c @ ?r) \<noteq> NL"
    using Cons.prems by (auto simp: escapeByte_def)
  ultimately show ?case
    using Cons by (simp add: unquoteLoop.simps [of "escapeByte c @ ?r"])
qed

lemma TrimSpace_quoted: "TrimSpace (DQ # v @ [DQ]) = DQ # v @ [DQ]"
  by (rule TrimSpace_id) (simp add: isSpaceU_def)

lemma unquote_escape: "lineFree v \<Longrightarrow> unquoteDigestValue ([DQ] @ escapeDigestValue v @ [DQ]) = v"
  using unquoteLoop_escape [of v "[]"]
  by (simp add: unquoteDigestValue_def TrimSpace_quoted Unquote_def escapeDigestValue_bytes)

interpretation digest_quoting: wire_format "\<lambda>v. [DQ] @ escapeDigestValue v @ [DQ]"
    "\<lambda>s. Some (unquoteDigestValue s)" lineFree
  by unfold_locales (simp only: unquote_escape)

text \<open>A value that was not quoted.\<close>

lemma Trim_id: "\<forall>c \<in> set v. c \<notin> set cs \<Longrightarrow> Trim v cs = v"
proof -
  assume a: "\<forall>c \<in> set v. c \<notin> set cs"
  then have "dropWhile (\<lambda>c. c \<in> set cs) v = v" "dropWhile (\<lambda>c. c \<in> set cs) (rev v) = rev v"
    by (cases v, simp, simp) (cases v rule: rev_cases, simp, use a in simp)
  then show ?thesis by (simp add: Trim_def trimFunc_def)
qed

lemma unquote_plain:
  assumes "TrimSpace v = [] \<or> hd (TrimSpace v) \<notin> {DQ, CHR 0x27, CHR 0x60}" "DQ \<notin> set (TrimSpace v)"
  shows "unquoteDigestValue v = TrimSpace v"
proof -
  have "Unquote (TrimSpace v) = None" using assms(1) by (auto simp: Unquote_def Let_def)
  then show ?thesis using assms(2) by (auto simp: unquoteDigestValue_def intro: Trim_id)
qed

subsection \<open>Splitting\<close>

text \<open>A parameter whose quotes are closed, so that the scan passes over it.\<close>

definition selfContained :: "string \<Rightarrow> bool" where
  "selfContained p \<longleftrightarrow> (\<forall>cur t. splitParams cur False False (p @ t) = splitParams (cur @ p) False False t)"

lemma selfContained_append: "selfContained p \<Longrightarrow> selfContained q \<Longrightarrow> selfContained (p @ q)"
  by (simp add: selfContained_def)

lemma selfContained_plain: "DQ \<notin> set p \<Longrightarrow> CHR '','' \<notin> set p \<Longrightarrow> selfContained p"
proof (induction p)
  case (Cons c p)
  then show ?case by (auto simp: selfContained_def)
qed (simp add: selfContained_def)

lemma splitParams_quoted:
  "splitParams cur True False (concat (map escapeByte v) @ DQ # t) =
     splitParams (cur @ concat (map escapeByte v) @ [DQ]) False False t"
  by (induction v arbitrary: cur) (auto simp: escapeByte_def)

lemma selfContained_quoted: "selfContained ([DQ] @ escapeDigestValue v @ [DQ])"
  by (simp add: selfContained_def splitParams_quoted escapeDigestValue_bytes)

lemma split_Join:
  "ps \<noteq> [] \<Longrightarrow> \<forall>p \<in> set ps. selfContained p \<Longrightarrow>
     splitParams cur False False (Join ps '', '') = TrimSpace (cur @ hd ps) # map TrimSpace (tl ps)"
proof (induction ps "'', ''" arbitrary: cur rule: Join.induct)
  case (2 x)
  then have "splitParams cur False False (x @ []) = splitParams (cur @ x) False False []"
    unfolding selfContained_def by (metis list.set_intros(1))
  then show ?case by simp
next
  case (3 x y ys)
  have x: "splitParams cur False False (x @ t) = splitParams (cur @ x) False False t" for t
    using 3(3) by (simp add: selfContained_def)
  show ?case using 3 x [of "'', '' @ Join (y # ys) '', ''"] by simp
qed simp

lemma splitDigestParameters_Join:
  "ps \<noteq> [] \<Longrightarrow> \<forall>p \<in> set ps. selfContained p \<Longrightarrow> splitDigestParameters (Join ps '', '') = map TrimSpace ps"
  using split_Join [of ps "[]"] by (cases ps) (simp_all add: splitDigestParameters_def)

subsection \<open>Reading a header back\<close>

text \<open>Names of parameters: lower case words without an equals sign.\<close>

definition paramName :: "string \<Rightarrow> bool" where
  "paramName n \<longleftrightarrow> isWord n \<and> ToLower n = n \<and> CHR ''='' \<notin> set n \<and> DQ \<notin> set n \<and> CHR '','' \<notin> set n"

lemma addParam_name:
  assumes "paramName n"
  shows "addParam m (n @ ''='' @ v) = m(n \<mapsto> unquoteDigestValue v)"
  using assms Cut_byte [of "CHR ''=''" n v] by (simp add: addParam_def paramName_def)

lemma TrimSpace_param:
  assumes "paramName n"
  shows "TrimSpace (n @ ''='' @ v) = n @ ''='' @ rtrim v"
  using assms TrimSpace_append [of "n @ ''=''" v]
  by (auto simp: paramName_def isWord_def spaceFree_def isSpaceU_def)

lemma rtrim_spaces: "\<forall>c \<in> set t. isSpaceU c \<Longrightarrow> rtrim (u @ t) = rtrim u"
  using dropWhile_append2 [of "rev t" isSpaceU "rev u"] by (simp add: rtrim_def)

lemma TrimSpace_rtrim_id [simp]: "TrimSpace (rtrim v) = TrimSpace v"
proof -
  obtain t where t: "v = rtrim v @ t" "\<forall>c \<in> set t. isSpaceU c" using rtrim_split by blast
  have "rtrim (dropWhile isSpaceU (rtrim v)) = rtrim (dropWhile isSpaceU v)"
  proof (cases "rtrim v = []")
    case True
    then have "dropWhile isSpaceU v = []" using t by (auto simp: dropWhile_eq_Nil_conv)
    then show ?thesis by (simp only: True dropWhile.simps)
  next
    case False
    then have l: "\<not> isSpaceU (last (rtrim v))" by (simp add: rtrim_def last_rev hd_dropWhile)
    then have d: "dropWhile isSpaceU (rtrim v) \<noteq> []"
      using False last_in_set by (auto simp: dropWhile_eq_Nil_conv)
    then have "dropWhile isSpaceU v = dropWhile isSpaceU (rtrim v) @ t"
      using t(1) by (metis dropWhile_append1 dropWhile_eq_Nil_conv)
    then show ?thesis using t(2) by (simp add: rtrim_spaces)
  qed
  then show ?thesis by (simp add: TrimSpace_rtrim)
qed

lemma unquote_rtrim [simp]: "unquoteDigestValue (rtrim v) = unquoteDigestValue v"
  by (simp add: unquoteDigestValue_def)

text \<open>The text of each parameter as it is written, and the value that is read from it.\<close>

lemma addParam_item:
  "paramName n \<Longrightarrow> addParam m (TrimSpace (n @ ''='' @ v)) = m(n \<mapsto> unquoteDigestValue v)"
  by (simp only: TrimSpace_param addParam_name unquote_rtrim)

lemma digestValues_Join:
  assumes "nvs \<noteq> []" "\<forall>nv \<in> set nvs. paramName (fst nv) \<and> selfContained (snd nv)"
  shows "digestValues (Join (map (\<lambda>nv. fst nv @ ''='' @ snd nv) nvs) '', '') =
    map_of (rev (map (\<lambda>nv. (fst nv, unquoteDigestValue (snd nv))) nvs))"
proof -
  have c: "selfContained (n @ ''='' @ v)" if "paramName n" "selfContained v" for n v
    using that selfContained_append [OF selfContained_plain [of "n @ ''=''"], of v] by (simp add: paramName_def)
  have s: "splitDigestParameters (Join (map (\<lambda>nv. fst nv @ ''='' @ snd nv) nvs) '', '') =
      map TrimSpace (map (\<lambda>nv. fst nv @ ''='' @ snd nv) nvs)"
    using assms c by (intro splitDigestParameters_Join) auto
  have f: "foldl addParam m (map (\<lambda>nv. TrimSpace (fst nv @ ''='' @ snd nv)) xs) =
      m ++ map_of (rev (map (\<lambda>nv. (fst nv, unquoteDigestValue (snd nv))) xs))"
    if "\<forall>nv \<in> set xs. paramName (fst nv)" for m xs
    using that
  proof (induction xs arbitrary: m)
    case (Cons x xs)
    then show ?case by (simp add: addParam_item del: append_Cons)
  qed simp
  have n: "\<forall>nv \<in> set nvs. paramName (fst nv)" using assms(2) by blast
  show ?thesis
    by (simp only: digestValues_def s map_map comp_def f [OF n] empty_map_add)
qed

text \<open>Hash values are written in hexadecimal and need no escapes.\<close>

definition plainText :: "string \<Rightarrow> bool" where
  "plainText s \<longleftrightarrow> (\<forall>c \<in> set s. c \<notin> {DQ, BSL, NL, CHR '','', CHR 0x27, CHR 0x60} \<and> \<not> isSpaceU c)"

lemma hexDigit_plain:
  assumes "0 \<le> d" "d < 16"
  shows "hexDigit d \<notin> {DQ, BSL, NL, CHR '','', CHR 0x27, CHR 0x60}" and "\<not> isSpaceU (hexDigit d)"
proof -
  have "byte (hexDigit d) = (if d < 10 then 48 + d else 87 + d)"
    using assms by (simp add: hexDigit_def)
  then show "hexDigit d \<notin> {DQ, BSL, NL, CHR '','', CHR 0x27, CHR 0x60}" "\<not> isSpaceU (hexDigit d)"
    using assms by (auto simp: isSpaceU_def split: if_splits)
qed

lemma hexPair_plain: "0 \<le> b \<Longrightarrow> b < 256 \<Longrightarrow> plainText (hexPair b)"
  using hexDigit_plain [of "b div 16"] hexDigit_plain [of "b mod 16"]
  by (simp add: plainText_def hexPair_def)

lemma EncodeToString_plain: "\<forall>b \<in> set bs. 0 \<le> b \<and> b < 256 \<Longrightarrow> plainText (EncodeToString bs)"
  using hexPair_plain by (fastforce simp: plainText_def EncodeToString_def)

lemma endian_range:
  "b \<in> set (littleEndian n v) \<Longrightarrow> 0 \<le> b \<and> b < 256" "b \<in> set (bigEndian n v) \<Longrightarrow> 0 \<le> b \<and> b < 256"
  by (auto simp: littleEndian_def bigEndian_def)

lemma digestHash_plain: "digestHash a = Some h \<Longrightarrow> plainText (h v)"
  by (auto simp: digestHash_def md5Sum_def sha256Sum_def split: if_splits prod.splits
      intro!: EncodeToString_plain dest!: endian_range)

lemma plainText_escape: "plainText s \<Longrightarrow> escapeDigestValue s = s"
  by (induction s) (simp_all add: plainText_def escapeDigestValue_bytes escapeByte_def)

lemma plainText_lineFree: "plainText s \<Longrightarrow> lineFree s"
  by (auto simp: plainText_def lineFree_def)

lemma plainText_selfContained: "plainText s \<Longrightarrow> selfContained s"
  by (auto simp: plainText_def intro: selfContained_plain)

lemma plainText_unquote:
  assumes "plainText s"
  shows "unquoteDigestValue s = s"
proof -
  have "s = [] \<or> \<not> isSpaceU (hd s) \<and> \<not> isSpaceU (last s)" "s = [] \<or> hd s \<notin> {DQ, CHR 0x27, CHR 0x60}"
      "DQ \<notin> set s"
    using assms hd_in_set [of s] last_in_set [of s] unfolding plainText_def by blast+
  then show ?thesis using unquote_plain [of s] TrimSpace_id [of s] by auto
qed

text \<open>The names of the four algorithms hold nothing that would have to be quoted.\<close>

lemma upper_plain: "c \<in> {DQ, CHR 0x27, CHR 0x60, CHR '',''} \<Longrightarrow> upperByte c = c"
  by (auto simp: upperByte_def isLower_def)

lemma upper_member: "c \<in> {DQ, CHR 0x27, CHR 0x60, CHR '',''} \<Longrightarrow> c \<in> set s \<Longrightarrow> c \<in> set (ToUpper s)"
  using upper_plain by (force simp: ToUpper_def)

lemma TrimSuffix_split: "TrimSuffix s p = t \<Longrightarrow> s = t \<or> s = t @ p"
  unfolding TrimSuffix_def HasSuffix_def
  by (auto simp: prefix_def split: if_splits)
     (metis append_eq_conv_conj length_append length_rev add_diff_cancel_right' rev_append rev_rev_ident)

lemma algorithm_names:
  assumes "digestHash (TrimSuffix (ToUpper a) ''-SESS'') = Some h"
  shows "ToUpper a \<in> {''MD5'', ''SHA-256'', ''MD5-SESS'', ''SHA-256-SESS''}"
proof -
  have u: "ToUpper (ToUpper s) = ToUpper s" for s
    by (auto simp: ToUpper_def upperByte_def isLower_def)
  let ?t = "TrimSuffix (ToUpper a) ''-SESS''"
  have t: "ToUpper a = ?t \<or> ToUpper a = ?t @ ''-SESS''" by (rule TrimSuffix_split) (rule refl)
  have "ToUpper ?t = ?t"
  proof -
    have "set ?t \<subseteq> set (ToUpper a)" by (auto simp: TrimSuffix_def dest: in_set_takeD)
    then have "\<forall>c \<in> set ?t. upperByte c = c"
      by (auto simp: ToUpper_def upperByte_def isLower_def)
    then show ?thesis by (simp add: ToUpper_def map_idI)
  qed
  then have "?t = ''MD5'' \<or> ?t = ''SHA-256''"
    using assms by (auto simp: digestHash_def split: if_splits)
  then show ?thesis using t by auto
qed

lemma algorithm_value:
  assumes "digestHash (TrimSuffix (ToUpper (TrimSpace a)) ''-SESS'') = Some h"
  shows "unquoteDigestValue a = TrimSpace a" and "selfContained a"
proof -
  have "\<forall>c \<in> {DQ, CHR 0x27, CHR 0x60, CHR '',''}. c \<notin> set (ToUpper (TrimSpace a))"
    using algorithm_names [OF assms] by (elim insertE emptyE) simp_all
  then have "\<forall>c \<in> {DQ, CHR 0x27, CHR 0x60, CHR '',''}. c \<notin> set (TrimSpace a)"
    using upper_member by blast
  then have n: "DQ \<notin> set (TrimSpace a)" "CHR 0x27 \<notin> set (TrimSpace a)" "CHR 0x60 \<notin> set (TrimSpace a)"
      "CHR '','' \<notin> set (TrimSpace a)"
    by simp_all
  then have "TrimSpace a = [] \<or> hd (TrimSpace a) \<notin> {DQ, CHR 0x27, CHR 0x60}"
    by (cases "TrimSpace a") auto
  then show "unquoteDigestValue a = TrimSpace a" using n(1) by (rule unquote_plain)
  have "c \<in> set (TrimSpace a)" if "c \<in> set a" "\<not> isSpaceU c" for c
    using that by (auto simp: TrimSpace_def trimFunc_def) (metis Un_iff rev_rev_ident set_append set_rev set_takeWhileD takeWhile_dropWhile_id)
  then show "selfContained a" using n by (intro selfContained_plain) (auto simp: isSpaceU_def)
qed

lemma hexDigits_members: "0 \<le> v \<Longrightarrow> c \<in> set (hexDigits v) \<Longrightarrow> \<exists>d. c = hexDigit d \<and> 0 \<le> d \<and> d < 16"
proof (induction v rule: hexDigits.induct)
  case (1 v)
  then show ?case by (cases "v < 16") (auto simp: hexDigits.simps [of v])
qed

lemma nonceCount_plain: "plainText (nonceCountText n)"
proof -
  have "plainText (hexDigits (uint n))"
    unfolding plainText_def
  proof (intro ballI)
    fix c assume "c \<in> set (hexDigits (uint n))"
    then obtain d where d: "c = hexDigit d" "0 \<le> d" "d < 16"
      using hexDigits_members [of "uint n" c] by auto
    show "c \<notin> {DQ, BSL, NL, CHR '','', CHR 0x27, CHR 0x60} \<and> \<not> isSpaceU c"
      unfolding d(1) using hexDigit_plain [OF d(2,3)] by (rule conjI)
  qed
  moreover have "plainText (replicate k (CHR ''0''))" for k
    by (simp add: plainText_def isSpaceU_def)
  moreover have "plainText a \<Longrightarrow> plainText b \<Longrightarrow> plainText (a @ b)" for a b
    unfolding plainText_def set_append by blast
  ultimately show ?thesis unfolding nonceCountText_def padZero_def by blast
qed

lemma qop_plain: "plainText (selectDigestQOP qs)"
  by (auto simp: selectDigestQOP_def plainText_def isSpaceU_def)

subsection \<open>The authorization header\<close>

abbreviation quoted :: "string \<Rightarrow> string" where
  "quoted v \<equiv> [DQ] @ escapeDigestValue v @ [DQ]"

definition authorizationItems ::
  "(string \<Rightarrow> string) \<Rightarrow> bool \<Rightarrow> string \<Rightarrow> digest_challenge \<Rightarrow> digest_options \<Rightarrow> (string \<times> string) list" where
  "authorizationItems h sess qop c opts =
     [(''username'', quoted (doUsername opts)), (''realm'', quoted (Realm c)), (''nonce'', quoted (Nonce c)),
      (''uri'', quoted (doURI opts)), (''response'', quoted (digestResponse h sess qop c opts)),
      (''algorithm'', Algorithm c)] @
     (if Opaque c \<noteq> [] then [(''opaque'', quoted (Opaque c))] else []) @
     (if qop \<noteq> [] then [(''qop'', qop), (''nc'', nonceCountText (doNonceCount opts)),
                         (''cnonce'', quoted (doCNonce opts))] else [])"

lemma authorizationParameters_items:
  assumes "digestHash a = Some h"
  shows "authorizationParameters h sess qop c opts =
    map (\<lambda>nv. fst nv @ ''='' @ snd nv) (authorizationItems h sess qop c opts)"
proof -
  have "plainText (digestResponse h sess qop c opts)"
    using digestHash_plain [OF assms] by (simp add: digestResponse_def Let_def)
  then show ?thesis
    by (simp add: authorizationParameters_def authorizationItems_def quotedParam_def plainText_escape)
qed

lemma paramNames:
  "paramName ''username''" "paramName ''realm''" "paramName ''nonce''" "paramName ''uri''"
  "paramName ''response''" "paramName ''algorithm''" "paramName ''opaque''" "paramName ''qop''"
  "paramName ''nc''" "paramName ''cnonce''"
  by code_simp+


definition probeChallenge :: digest_challenge where
  "probeChallenge = \<lparr> Realm = ''office, ground floor'', Nonce = ''abc'', Opaque = [], Algorithm = ''md5'',
     QOP = [''auth''], Stale = False \<rparr>"

definition probeOptions :: digest_options where
  "probeOptions = \<lparr> doMethod = ''REGISTER'', doURI = ''sip:pbx'', doUsername = [DQ, BSL], doPassword = ''x'',
     doBody = [], doNonceCount = 1, doCNonce = ''c'' \<rparr>"


end
