(* ===== verification/Register_Probe.thy ===== *)
theory Register_Probe
  imports Sip_Digest Sip_Message
begin

text \<open>
  The registration probe (\<^verbatim>\<open>cmd/sip-register-probe/main.go\<close>): one authenticated registration with a
  registrar, a hold phase in which \<^verbatim>\<open>OPTIONS\<close> are answered, and the removal of the registration.  The
  resolver, the sockets, the random tokens in the order in which they are drawn and the datagrams that are read are
  inputs; printing is left out.  What is sent is recorded with the fields it was built from.
\<close>

subsection \<open>Options, inputs and outputs\<close>

record register_options =
  roTarget :: string
  roSource :: string
  roAdvertisedIP :: string
  roBindDevice :: string
  roUsername :: string
  roPasswordFile :: string
  roDomain :: string
  roExpires :: int
  roUnregister :: bool

datatype hold_event = HoldTimeout | HoldFailed | HoldDatagram string udp_addr bool

text \<open>\<open>rnReads n\<close>: the datagrams read in the \<open>n\<close>-th transaction until a read fails; \<open>rnHold\<close>: what happens until the
  end of the hold phase, with the outcome of the write of an answer.\<close>

record register_inputs =
  rnFile :: "string \<Rightarrow> string option"
  rnResolve :: "string \<Rightarrow> udp_addr option"
  rnDial :: "udp_addr \<Rightarrow> string option"
  rnListen :: "string \<Rightarrow> string \<Rightarrow> int option"
  rnNano :: int
  rnToken :: "nat \<Rightarrow> string"
  rnWrites :: "nat \<Rightarrow> bool"
  rnReads :: "nat \<Rightarrow> string list"
  rnHold :: "hold_event list"

datatype register_error =
    CredentialsRequired | PasswordUnreadable | PasswordEmpty | RegistrarUnresolved | RouteUnknown | SourceUnresolved
  | SocketRefused | RequestNotSent | ResponseMissing | UnexpectedStatus int string | ChallengeInvalid digest_error
  | AuthorizationFailed digest_error | HoldReadFailed | AnswerNotSent

datatype register_out =
    Registered int int "(digest_challenge \<times> digest_options) option" string
  | OptionsAnswered string udp_addr

text \<open>A \<open>Registered\<close> output: sequence number, lifetime, what the authorization was computed from, and the message.\<close>

type_synonym register_result = "(register_error + sip_message) \<times> register_out list"

subsection \<open>Messages\<close>

definition contactHostPort :: "string \<Rightarrow> string" where
  "contactHostPort contact =
     (let v0 = TrimPrefix contact ''<sip:'';
          v1 = (case IndexByte v0 (CHR ''@'') of None \<Rightarrow> v0 | Some i \<Rightarrow> drop (Suc i) v0)
      in case IndexAny v1 '';>'' of None \<Rightarrow> v1 | Some i \<Rightarrow> take i v1)"

definition registerHeaders ::
  "string \<Rightarrow> string \<Rightarrow> string \<Rightarrow> string \<Rightarrow> string \<Rightarrow> int \<Rightarrow> int \<Rightarrow> string \<Rightarrow> (string \<times> string) list" where
  "registerHeaders token from to contact callID cseq expires authorization =
     [(''Via'', ''SIP/2.0/UDP '' @ contactHostPort contact @ '';branch=z9hG4bK-'' @ token @ '';rport''),
      (''Max-Forwards'', ''70''), (''From'', from), (''To'', to), (''Call-ID'', callID),
      (''CSeq'', Itoa cseq @ '' REGISTER''), (''Contact'', contact @ '';expires='' @ Itoa expires),
      (''Expires'', Itoa expires), (''User-Agent'', ''h248-sip-gateway-register-probe'')] @
     (if authorization \<noteq> [] then [(''Authorization'', authorization)] else [])"

text \<open>The source keeps the headers in a Go map, whose order is arbitrary; here they have the order of the text.\<close>

definition buildRegister ::
  "string \<Rightarrow> string \<Rightarrow> string \<Rightarrow> string \<Rightarrow> string \<Rightarrow> string \<Rightarrow> int \<Rightarrow> int \<Rightarrow> string \<Rightarrow> string" where
  "buildRegister token requestURI from to contact callID cseq expires authorization =
     BuildRequest ''REGISTER'' requestURI (registerHeaders token from to contact callID cseq expires authorization) []"

subsection \<open>Transactions\<close>

fun awaitResponse :: "string list \<Rightarrow> string \<Rightarrow> string \<Rightarrow> sip_message option" where
  "awaitResponse [] callID mth = None"
| "awaitResponse (data # rest) callID mth =
     (case sipParse data of
        Inl e \<Rightarrow> awaitResponse rest callID mth
      | Inr m \<Rightarrow>
          if smStatus m \<noteq> 0 \<and> CallID m = callID \<and> CSeqMethod m = mth then Some m
          else awaitResponse rest callID mth)"

text \<open>What all requests of a run share.\<close>

record register_session =
  rsURI :: string
  rsFrom :: string
  rsIdentity :: string
  rsContact :: string
  rsCallID :: string

definition sendRegister ::
  "register_inputs \<Rightarrow> nat \<Rightarrow> string \<Rightarrow> register_session \<Rightarrow> int \<Rightarrow> int \<Rightarrow> (digest_challenge \<times> digest_options) option \<Rightarrow>
     string \<Rightarrow> register_out list \<Rightarrow> register_result" where
  "sendRegister i n token s cseq expires basis authorization outs =
     (let request = buildRegister token (rsURI s) (rsFrom s) (rsIdentity s) (rsContact s) (rsCallID s) cseq expires authorization;
          outs' = outs @ [Registered cseq expires basis request]
      in if \<not> rnWrites i n then (Inl RequestNotSent, outs')
         else (case awaitResponse (rnReads i n) (rsCallID s) ''REGISTER'' of
                 None \<Rightarrow> (Inl ResponseMissing, outs')
               | Some m \<Rightarrow> (Inr m, outs')))"

definition authorizationOptions :: "register_session \<Rightarrow> string \<Rightarrow> string \<Rightarrow> 32 word \<Rightarrow> string \<Rightarrow> digest_options" where
  "authorizationOptions s username password count cnonce =
     \<lparr> doMethod = ''REGISTER'', doURI = rsURI s, doUsername = username, doPassword = password, doBody = [],
       doNonceCount = count, doCNonce = cnonce \<rparr>"

text \<open>An authenticated request: the authorization is computed, then the request is sent.\<close>

definition sendAuthenticated ::
  "register_inputs \<Rightarrow> nat \<Rightarrow> string \<Rightarrow> register_session \<Rightarrow> int \<Rightarrow> int \<Rightarrow> digest_challenge \<Rightarrow> digest_options \<Rightarrow>
     register_out list \<Rightarrow> register_result" where
  "sendAuthenticated i n token s cseq expires c opts outs =
     (case BuildDigestAuthorization c opts of
        Inl e \<Rightarrow> (Inl (AuthorizationFailed e), outs)
      | Inr authorization \<Rightarrow> sendRegister i n token s cseq expires (Some (c, opts)) authorization outs)"

subsection \<open>The run\<close>

definition routeSourceIP :: "register_inputs \<Rightarrow> udp_addr \<Rightarrow> string option" where
  "routeSourceIP i remote =
     (case rnDial i remote of
        None \<Rightarrow> None
      | Some local \<Rightarrow>
          (case ParseIP local of
             None \<Rightarrow> None
           | Some a \<Rightarrow> if IsUnspecified a then None else Some local))"

definition sourceAddress :: "udp_addr \<Rightarrow> string \<Rightarrow> string" where
  "sourceAddress source advertised =
     (if ip source = [] \<or> (case ParseIP (ip source) of None \<Rightarrow> False | Some a \<Rightarrow> IsUnspecified a)
      then addrString (source\<lparr>ip := (if ParseIP advertised = None then [] else advertised)\<rparr>)
      else addrString source)"

text \<open>The part of \<^verbatim>\<open>run\<close> before the first request: the password and the session.\<close>

definition openSession :: "register_inputs \<Rightarrow> register_options \<Rightarrow> register_error + string \<times> register_session" where
  "openSession i cfg =
     (if roUsername cfg = [] \<or> roPasswordFile cfg = [] then Inl CredentialsRequired
      else case rnFile i (roPasswordFile cfg) of
        None \<Rightarrow> Inl PasswordUnreadable
      | Some content \<Rightarrow>
          if TrimSpace content = [] then Inl PasswordEmpty
          else case rnResolve i (roTarget cfg) of
            None \<Rightarrow> Inl RegistrarUnresolved
          | Some remote \<Rightarrow>
              (case (if roAdvertisedIP cfg = [] then routeSourceIP i remote else Some (roAdvertisedIP cfg)) of
                 None \<Rightarrow> Inl RouteUnknown
               | Some advertised \<Rightarrow>
                   (let domain = (if roDomain cfg = [] then Trim (ip remote) ''[]'' else roDomain cfg) in
                    case rnResolve i (roSource cfg) of
                      None \<Rightarrow> Inl SourceUnresolved
                    | Some source \<Rightarrow>
                        (case rnListen i (sourceAddress source advertised) (roBindDevice cfg) of
                           None \<Rightarrow> Inl SocketRefused
                         | Some localPort \<Rightarrow>
                             (let identity = ''<sip:'' @ roUsername cfg @ ''@'' @ domain @ ''>'' in
                              Inr (TrimSpace content,
                                \<lparr> rsURI = ''sip:'' @ domain, rsFrom = identity @ '';tag='' @ rnToken i 0, rsIdentity = identity,
                                  rsContact = ''<sip:'' @ roUsername cfg @ ''@'' @ JoinHostPort advertised (Itoa localPort) @
                                    '';transport=udp>'',
                                  rsCallID = ''register-'' @ Itoa (rnNano i) @ ''@'' @ advertised \<rparr>))))))"

fun holdPhase :: "hold_event list \<Rightarrow> register_out list \<Rightarrow> register_error option \<times> register_out list" where
  "holdPhase [] outs = (None, outs)"
| "holdPhase (ev # evs) outs =
     (case ev of
        HoldTimeout \<Rightarrow> holdPhase evs outs
      | HoldFailed \<Rightarrow> (Some HoldReadFailed, outs)
      | HoldDatagram data peer written \<Rightarrow>
          (case sipParse data of
             Inl e \<Rightarrow> holdPhase evs outs
           | Inr m \<Rightarrow>
               if smStatus m \<noteq> 0 \<or> smMethod m \<noteq> ''OPTIONS'' then holdPhase evs outs
               else if \<not> written then (Some AnswerNotSent, outs)
               else holdPhase evs (outs @ [OptionsAnswered (BuildResponse m 200 ''OK'' [] []
                      [(''Allow'', ''INVITE, ACK, CANCEL, BYE, OPTIONS'')]) peer])))"

text \<open>The end of a run: the last response has to be a 200.\<close>

definition finish :: "register_result \<Rightarrow> (register_error + unit) \<times> register_out list" where
  "finish r =
     (case r of
        (Inl e, outs) \<Rightarrow> (Inl e, outs)
      | (Inr m, outs) \<Rightarrow>
          if smStatus m \<noteq> 200 then (Inl (UnexpectedStatus (smStatus m) (smReason m)), outs) else (Inr (), outs))"

definition unregister ::
  "register_inputs \<Rightarrow> register_options \<Rightarrow> string \<Rightarrow> register_session \<Rightarrow> digest_challenge \<Rightarrow> register_out list \<Rightarrow>
     (register_error + unit) \<times> register_out list" where
  "unregister i cfg password s c outs =
     (case sendAuthenticated i 2 (rnToken i 4) s 3 0 c (authorizationOptions s (roUsername cfg) password 2 (rnToken i 2)) outs of
        (Inl e, outs) \<Rightarrow> (Inl e, outs)
      | (Inr m, outs) \<Rightarrow>
          if smStatus m = 401 then
            (case ParseDigestChallenge (Header m ''WWW-Authenticate'') of
               Inl e \<Rightarrow> (Inl (ChallengeInvalid e), outs)
             | Inr c' \<Rightarrow>
                 finish (sendAuthenticated i 3 (rnToken i 6) s 4 0 c'
                   (authorizationOptions s (roUsername cfg) password 1 (rnToken i 5)) outs))
          else finish (Inr m, outs))"

text \<open>After the challenge of the first response: the authenticated request, the hold phase and the removal.\<close>

definition registerWith ::
  "register_inputs \<Rightarrow> register_options \<Rightarrow> string \<Rightarrow> register_session \<Rightarrow> digest_challenge \<Rightarrow> register_out list \<Rightarrow>
     (register_error + unit) \<times> register_out list" where
  "registerWith i cfg password s c outs =
     (case sendAuthenticated i 1 (rnToken i 3) s 2 (roExpires cfg) c
             (authorizationOptions s (roUsername cfg) password 1 (rnToken i 2)) outs of
        (Inl e, outs) \<Rightarrow> (Inl e, outs)
      | (Inr m, outs) \<Rightarrow>
          if smStatus m \<noteq> 200 then (Inl (UnexpectedStatus (smStatus m) (smReason m)), outs)
          else
            (case holdPhase (rnHold i) outs of
               (Some e, outs) \<Rightarrow> (Inl e, outs)
             | (None, outs) \<Rightarrow>
                 if \<not> roUnregister cfg then (Inr (), outs) else unregister i cfg password s c outs))"

definition registerRun :: "register_inputs \<Rightarrow> register_options \<Rightarrow> (register_error + unit) \<times> register_out list" where
  "registerRun i cfg =
     (case openSession i cfg of
        Inl e \<Rightarrow> (Inl e, [])
      | Inr (password, s) \<Rightarrow>
          (case sendRegister i 0 (rnToken i 1) s 1 (roExpires cfg) None [] [] of
             (Inl e, outs) \<Rightarrow> (Inl e, outs)
           | (Inr m, outs) \<Rightarrow>
               if smStatus m \<noteq> 401 then (Inl (UnexpectedStatus (smStatus m) (smReason m)), outs)
               else
                 (case ParseDigestChallenge (Header m ''WWW-Authenticate'') of
                    Inl e \<Rightarrow> (Inl (ChallengeInvalid e), outs)
                  | Inr c \<Rightarrow> registerWith i cfg password s c outs)))"

subsection \<open>Laws\<close>

fun registration :: "register_out \<Rightarrow> (int \<times> int \<times> (digest_challenge \<times> digest_options) option) list" where
  "registration (Registered cseq expires basis m) = [(cseq, expires, basis)]"
| "registration (OptionsAnswered m peer) = []"

definition registrations :: "register_out list \<Rightarrow> (int \<times> int \<times> (digest_challenge \<times> digest_options) option) list" where
  "registrations outs = concat (map registration outs)"

lemma registrations_simps [simp]:
  "registrations [] = []" "registrations (xs @ ys) = registrations xs @ registrations ys"
  "registrations (x # xs) = registration x @ registrations xs"
  by (simp_all add: registrations_def)

lemma sendRegister_out [simp]:
  "registrations (snd (sendRegister i n token s cseq expires basis authorization outs)) =
     registrations outs @ [(cseq, expires, basis)]"
  by (simp add: sendRegister_def Let_def split: option.split)

lemma holdPhase_out [simp]: "registrations (snd (holdPhase evs outs)) = registrations outs"
  by (induction evs arbitrary: outs) (simp_all split: hold_event.split sum.split)

lemma finish_out [simp]: "snd (finish r) = snd r"
  by (simp add: finish_def split: prod.split sum.split)

lemma awaitResponse_sound:
  "awaitResponse reads callID mth = Some m \<Longrightarrow>
     \<exists>data \<in> set reads. sipParse data = Inr m \<and> smStatus m \<noteq> 0 \<and> CallID m = callID \<and> CSeqMethod m = mth"
  by (induction reads) (auto split: sum.splits if_splits)

text \<open>The sequence of registrations, which every run follows for some way.\<close>

definition registrationPlan ::
  "register_options \<Rightarrow> string \<Rightarrow> register_session \<Rightarrow> register_inputs \<Rightarrow> digest_challenge \<Rightarrow> digest_challenge \<Rightarrow>
     (int \<times> int \<times> (digest_challenge \<times> digest_options) option) list" where
  "registrationPlan cfg password s i c c' =
     [(1, roExpires cfg, None),
      (2, roExpires cfg, Some (c, authorizationOptions s (roUsername cfg) password 1 (rnToken i 2))),
      (3, 0, Some (c, authorizationOptions s (roUsername cfg) password 2 (rnToken i 2))),
      (4, 0, Some (c', authorizationOptions s (roUsername cfg) password 1 (rnToken i 5)))]"

abbreviation answer :: "register_inputs \<Rightarrow> nat \<Rightarrow> register_session \<Rightarrow> sip_message option" where
  "answer i n s \<equiv> awaitResponse (rnReads i n) (rsCallID s) ''REGISTER''"

lemma sendRegister_answer:
  "fst (sendRegister i n token s cseq expires basis authorization outs) = Inr m \<Longrightarrow> answer i n s = Some m"
  by (auto simp: sendRegister_def Let_def split: if_splits option.splits)

lemma sendAuthenticated_cases:
  obtains (failed) e outs' where "sendAuthenticated i n token s cseq expires c opts outs = (Inl e, outs')"
      "registrations outs' = registrations outs \<or> registrations outs' = registrations outs @ [(cseq, expires, Some (c, opts))]"
  | (answered) m outs' where "sendAuthenticated i n token s cseq expires c opts outs = (Inr m, outs')"
      "registrations outs' = registrations outs @ [(cseq, expires, Some (c, opts))]" "answer i n s = Some m"
proof (cases "BuildDigestAuthorization c opts")
  case (Inl e)
  then show ?thesis using failed by (simp add: sendAuthenticated_def)
next
  case (Inr authorization)
  let ?r = "sendRegister i n token s cseq expires (Some (c, opts)) authorization outs"
  have r: "sendAuthenticated i n token s cseq expires c opts outs = (fst ?r, snd ?r)"
    using Inr by (simp add: sendAuthenticated_def)
  show ?thesis
  proof (cases "fst ?r")
    case (Inl e)
    then show ?thesis using failed [of e "snd ?r"] r by simp
  next
    case (Inr m)
    then show ?thesis using answered [of m "snd ?r"] r sendRegister_answer by simp
  qed
qed

lemma finish_ok: "fst (finish r) = Inr () \<longleftrightarrow> (\<exists>m. fst r = Inr m \<and> smStatus m = 200)"
  by (auto simp: finish_def split: prod.split sum.split)

text \<open>How far a run got, and what its success means.\<close>

definition followsPlan ::
  "register_inputs \<Rightarrow> register_options \<Rightarrow> string \<Rightarrow> register_session \<Rightarrow> digest_challenge \<Rightarrow> (register_error + unit) \<times> register_out list \<Rightarrow> bool" where
  "followsPlan i cfg password s c r \<longleftrightarrow>
     (\<exists>c' n. n \<le> 4 \<and> registrations (snd r) = take n (registrationPlan cfg password s i c c') \<and>
        (fst r = Inr () \<longrightarrow>
           (if roUnregister cfg then n \<in> {3, 4} else n = 2) \<and>
           (\<exists>m. answer i (n - 1) s = Some m \<and> smStatus m = 200)))"

lemma followsPlan_error:
  "registrations outs = take n (registrationPlan cfg password s i c c') \<Longrightarrow> n \<le> 4 \<Longrightarrow> followsPlan i cfg password s c (Inl e, outs)"
  by (auto simp: followsPlan_def)

lemma unregister_plan:
  assumes "registrations outs = take 2 (registrationPlan cfg password s i c c0)" "roUnregister cfg"
  shows "followsPlan i cfg password s c (unregister i cfg password s c outs)"
proof -
  let ?opts = "authorizationOptions s (roUsername cfg) password 2 (rnToken i 2)"
  show ?thesis
  proof (cases rule: sendAuthenticated_cases [of i 2 "rnToken i 4" s 3 0 c ?opts outs])
    case (failed e outs')
    then have "registrations outs' = take 2 (registrationPlan cfg password s i c c0) \<or>
        registrations outs' = take 3 (registrationPlan cfg password s i c c0)"
      using assms(1) by (auto simp: registrationPlan_def)
    then show ?thesis using failed(1) by (auto simp: unregister_def dest: followsPlan_error [where e = e])
  next
    case (answered m outs')
    have three: "registrations outs' = take 3 (registrationPlan cfg password s i c c')" for c'
      using answered(2) assms(1) by (simp add: registrationPlan_def)
    show ?thesis
    proof (cases "smStatus m = 401")
      case False
      then show ?thesis using answered three [of c0] assms(2)
        by (auto simp: unregister_def finish_def followsPlan_def intro!: exI [of _ c0] exI [of _ 3])
    next
      case True
      show ?thesis
      proof (cases "ParseDigestChallenge (Header m ''WWW-Authenticate'')")
        case (Inl e)
        then show ?thesis using True answered(1) followsPlan_error [OF three] by (simp add: unregister_def)
      next
        case (Inr c')
        let ?opts' = "authorizationOptions s (roUsername cfg) password 1 (rnToken i 5)"
        let ?r = "sendAuthenticated i 3 (rnToken i 6) s 4 0 c' ?opts' outs'"
        have u: "unregister i cfg password s c outs = finish ?r"
          using True Inr answered(1) by (simp add: unregister_def)
        show ?thesis
        proof (cases rule: sendAuthenticated_cases [of i 3 "rnToken i 6" s 4 0 c' ?opts' outs'])
          case (failed e outs2)
          then have "registrations outs2 = take 3 (registrationPlan cfg password s i c c') \<or>
              registrations outs2 = take 4 (registrationPlan cfg password s i c c')"
            using three [of c'] by (auto simp: registrationPlan_def)
          then show ?thesis using failed(1) u by (auto simp: finish_def dest: followsPlan_error [where e = e])
        next
          case (answered m' outs2)
          then have "registrations outs2 = take 4 (registrationPlan cfg password s i c c')"
            using three [of c'] by (simp add: registrationPlan_def)
          then show ?thesis using answered(1,3) u assms(2)
            by (auto simp: finish_def followsPlan_def intro!: exI [of _ c'] exI [of _ 4])
        qed
      qed
    qed
  qed
qed

lemma registerWith_plan:
  assumes "registrations outs = [(1, roExpires cfg, None)]"
  shows "followsPlan i cfg password s c (registerWith i cfg password s c outs) \<and>
    (fst (registerWith i cfg password s c outs) = Inr () \<longrightarrow> (\<exists>m. answer i 1 s = Some m \<and> smStatus m = 200))"
proof -
  let ?opts = "authorizationOptions s (roUsername cfg) password 1 (rnToken i 2)"
  show ?thesis
  proof (cases rule: sendAuthenticated_cases [of i 1 "rnToken i 3" s 2 "roExpires cfg" c ?opts outs])
    case (failed e outs')
    then have "registrations outs' = take 1 (registrationPlan cfg password s i c c) \<or>
        registrations outs' = take 2 (registrationPlan cfg password s i c c)"
      using assms by (auto simp: registrationPlan_def)
    then show ?thesis using failed(1) by (auto simp: registerWith_def dest: followsPlan_error [where e = e])
  next
    case (answered m outs')
    have two: "registrations outs' = take 2 (registrationPlan cfg password s i c c)"
      using answered(2) assms by (simp add: registrationPlan_def)
    obtain he houts where h: "holdPhase (rnHold i) outs' = (he, houts)" by force
    then have two': "registrations houts = take 2 (registrationPlan cfg password s i c c)"
      using holdPhase_out [of "rnHold i" outs'] two by simp
    show ?thesis
    proof (cases "smStatus m = 200 \<and> he = None")
      case False
      then show ?thesis using answered(1) two two' h
        by (auto simp: registerWith_def dest: followsPlan_error split: option.split)
    next
      case True
      then show ?thesis using answered h two' unregister_plan [OF two']
        by (auto simp: registerWith_def followsPlan_def intro!: exI [of _ c] exI [of _ 2])
    qed
  qed
qed

subsection \<open>Properties\<close>

definition registerDemoOptions :: register_options where
  "registerDemoOptions = \<lparr> roTarget = ''192.0.2.7:5060'', roSource = ''127.0.0.1:0'', roAdvertisedIP = ''127.0.0.1'',
     roBindDevice = [], roUsername = ''line'', roPasswordFile = ''secret'', roDomain = ''pbx.local'', roExpires = 300,
     roUnregister = True \<rparr>"

definition registerDemoInputs :: "string list \<Rightarrow> register_inputs" where
  "registerDemoInputs reads = \<lparr> rnFile = (\<lambda>_. Some ''pass''),
     rnResolve = (\<lambda>_. Some \<lparr> ip = ''192.0.2.7'', port = 5060, zone = [] \<rparr>), rnDial = (\<lambda>_. None),
     rnListen = (\<lambda>_ _. Some 40000), rnNano = 1, rnToken = (\<lambda>_. ''00''), rnWrites = (\<lambda>_. True),
     rnReads = (\<lambda>_. reads), rnHold = [] \<rparr>"

definition tryingResponse :: string where
  "tryingResponse = ''SIP/2.0 100 Trying'' @ CRLF @ ''Call-ID: register-1@127.0.0.1'' @ CRLF @ ''CSeq: 1 REGISTER'' @ CRLF @ CRLF"

lemma trying_run:
  "fst (registerRun (registerDemoInputs [tryingResponse]) registerDemoOptions) = Inl (UnexpectedStatus 100 ''Trying'')"
  "registrations (snd (registerRun (registerDemoInputs [tryingResponse]) registerDemoOptions)) = [(1, 300, None)]"
  by code_simp+



text \<open>The first response ends a transaction even when it is provisional: a registrar that sends 100 before its
  challenge is reported as a failure.\<close>

definition challengeResponse :: string where
  "challengeResponse = ''SIP/2.0 401 Unauthorized'' @ CRLF @ ''Call-ID: register-1@127.0.0.1'' @ CRLF @ ''CSeq: 1 REGISTER'' @ CRLF @
     ''WWW-Authenticate: Digest realm=pbx, nonce=abc'' @ CRLF @ CRLF"

theorem register_probe_stops_at_provisional:
  "fst (registerRun (registerDemoInputs [tryingResponse, challengeResponse]) registerDemoOptions) =
     Inl (UnexpectedStatus 100 ''Trying'')"
  by code_simp

end
