(* ===== verification/Sip_Probe.thy ===== *)
theory Sip_Probe
  imports Sip_Sdp Sip_Message "HOL-Library.Word"
begin

text \<open>
  The SIP probe (\<^verbatim>\<open>cmd/sip-probe/main.go\<close>): one call to the gateway with an INVITE, an ACK, a hold time and a
  BYE, and a stream of silence.  The process is a function of the time, the reads and the writes; printing is left
  out.  What is sent is recorded with its method.
\<close>

subsection \<open>Options and state\<close>

record sip_probe_options =
  spTarget :: string
  spSource :: string
  spAdvertisedIP :: string
  spRTPSource :: string
  spBindDevice :: string
  spNumber :: string
  spHold :: int
  spTimeout :: int

datatype sip_probe_error =
    SPBadNumber | SPUnresolved | SPNoSocket | SPWriteFailed | SPTimedOut | SPReadFailed | SPInviteFailed int string

datatype sip_probe_read = SPTimeout bool | SPClosed bool | SPReadError | SPDatagram string

text \<open>The flags say whether the context has ended.  What the messages of the call share:\<close>

record sip_probe_session =
  spRemote :: udp_addr
  spURI :: string
  spFrom :: string
  spTo :: string
  spContact :: string
  spCallID :: string
  spHostPort :: string
  spOffer :: string

record sip_probe =
  spAnswered :: bool
  spByeSent :: bool
  spHangupAt :: "int option"
  spRemoteTo :: string
  spMediaRemote :: "udp_addr option"
  spSent :: "(string \<times> string) list"

record sip_probe_env =
  spNow :: int
  spResolve :: "string \<Rightarrow> udp_addr option"
  spWrites :: "nat \<Rightarrow> bool"

definition checkSipProbeNumber :: "string \<Rightarrow> sip_probe_error option" where
  "checkSipProbeNumber number =
     (if number = [] \<or> Trim number ''0123456789*#'' \<noteq> [] then Some SPBadNumber else None)"

subsection \<open>Messages\<close>

definition probeHeaders :: "sip_probe_session \<Rightarrow> string \<Rightarrow> string \<Rightarrow> string \<Rightarrow> (string \<times> string) list" where
  "probeHeaders s branch to cseq =
     [(''Via'', ''SIP/2.0/UDP '' @ spHostPort s @ '';branch=z9hG4bK-probe-'' @ branch @ '';rport''), (''Max-Forwards'', ''70''),
      (''From'', spFrom s), (''To'', to), (''Call-ID'', spCallID s), (''CSeq'', cseq)]"

definition probeInvite :: "sip_probe_session \<Rightarrow> string" where
  "probeInvite s = BuildRequest ''INVITE'' (spURI s)
     (probeHeaders s ''invite'' (spTo s) ''1 INVITE'' @ [(''Contact'', spContact s)]) (spOffer s)"

definition probeAck :: "sip_probe_session \<Rightarrow> string \<Rightarrow> string" where
  "probeAck s to = BuildRequest ''ACK'' (spURI s) (probeHeaders s ''ack'' to ''1 ACK'') []"

definition probeBye :: "sip_probe_session \<Rightarrow> string \<Rightarrow> string" where
  "probeBye s to = BuildRequest ''BYE'' (spURI s) (probeHeaders s ''bye'' to ''2 BYE'') []"

subsection \<open>The call\<close>

type_synonym sip_probe_result = "sip_probe_error option option \<times> sip_probe"

definition sipProbeSend :: "sip_probe_env \<Rightarrow> string \<Rightarrow> string \<Rightarrow> sip_probe \<Rightarrow> bool \<times> sip_probe" where
  "sipProbeSend e mth message p = (spWrites e (length (spSent p)), p\<lparr>spSent := spSent p @ [(mth, message)]\<rparr>)"

text \<open>The start: sockets, session and INVITE.  \<open>listens\<close> gives the local port of a socket; the
  clock is read twice, for the Call-ID and for the tag.\<close>

definition openSipProbe ::
  "sip_probe_env \<Rightarrow> (string \<Rightarrow> string \<Rightarrow> int option) \<Rightarrow> int \<Rightarrow> int \<Rightarrow> sip_probe_options \<Rightarrow> sip_probe_error + sip_probe_session" where
  "openSipProbe e listens nano nano2 cfg =
     (case spResolve e (spTarget cfg) of
        None \<Rightarrow> Inl SPUnresolved
      | Some remote \<Rightarrow>
          (case listens (spSource cfg) (spBindDevice cfg) of
             None \<Rightarrow> Inl SPNoSocket
           | Some sipPort \<Rightarrow>
               (case listens (spRTPSource cfg) (spBindDevice cfg) of
                  None \<Rightarrow> Inl SPNoSocket
                | Some rtpPort \<Rightarrow>
                    (let hostPort = JoinHostPort (spAdvertisedIP cfg) (Itoa sipPort) in
                     Inr \<lparr> spRemote = remote,
                       spURI = ''sip:'' @ spNumber cfg @ ''@'' @ addrString remote,
                       spFrom = ''<sip:probe@'' @ spAdvertisedIP cfg @ ''>;tag=probe-'' @ Itoa nano2,
                       spTo = ''<sip:'' @ spNumber cfg @ ''@'' @ addrString remote @ ''>'',
                       spContact = ''<sip:probe@'' @ hostPort @ ''>'',
                       spCallID = ''probe-'' @ Itoa nano @ ''@'' @ spAdvertisedIP cfg,
                       spHostPort = hostPort,
                       spOffer = BuildSDP ''probe'' (spAdvertisedIP cfg) rtpPort [''PCMA/8000''] 97 \<rparr>))))"

definition newSipProbe :: "sip_probe_session \<Rightarrow> sip_probe" where
  "newSipProbe s = \<lparr> spAnswered = False, spByeSent = False, spHangupAt = None, spRemoteTo = spTo s,
     spMediaRemote = None, spSent = [] \<rparr>"

definition hangupDue :: "int \<Rightarrow> sip_probe \<Rightarrow> bool" where
  "hangupDue now p \<longleftrightarrow> spAnswered p \<and> \<not> spByeSent p \<and>
     (case spHangupAt p of None \<Rightarrow> False | Some t \<Rightarrow> t \<le> now)"

definition hangup :: "sip_probe_env \<Rightarrow> sip_probe_session \<Rightarrow> sip_probe \<Rightarrow> sip_probe_result" where
  "hangup e s p =
     (if hangupDue (spNow e) p then
        (case sipProbeSend e ''BYE'' (probeBye s (spRemoteTo p)) p of (ok, p1) \<Rightarrow>
           if ok then (None, p1\<lparr>spByeSent := True\<rparr>) else (Some (Some SPWriteFailed), p1))
      else (None, p))"

definition learnMedia :: "sip_probe_env \<Rightarrow> sip_message \<Rightarrow> sip_probe \<Rightarrow> sip_probe" where
  "learnMedia e m p =
     (if smBody m = [] then p
      else (case ParseSDP (smBody m) of
              Inl err \<Rightarrow> p
            | Inr d \<Rightarrow>
                (case spResolve e (JoinHostPort (sdpIP d) (Itoa (sdpPort d))) of
                   None \<Rightarrow> p
                 | Some candidate \<Rightarrow> if spMediaRemote p = None then p\<lparr>spMediaRemote := Some candidate\<rparr> else p)))"

definition inviteResponse ::
  "sip_probe_env \<Rightarrow> sip_probe_options \<Rightarrow> sip_probe_session \<Rightarrow> sip_message \<Rightarrow> sip_probe \<Rightarrow> sip_probe_result" where
  "inviteResponse e cfg s m p =
     (if 200 \<le> smStatus m \<and> smStatus m < 300 \<and> \<not> spAnswered p then
        (let p0 = p\<lparr>spRemoteTo := Header m ''To''\<rparr> in
         case sipProbeSend e ''ACK'' (probeAck s (spRemoteTo p0)) p0 of (ok, p1) \<Rightarrow>
           if ok then (None, p1\<lparr>spAnswered := True, spHangupAt := Some (spNow e + spHold cfg)\<rparr>)
           else (Some (Some SPWriteFailed), p1))
      else if smStatus m \<ge> 300 then (Some (Some (SPInviteFailed (smStatus m) (smReason m))), p)
      else (None, p))"

definition sipProbeDatagram ::
  "sip_probe_env \<Rightarrow> sip_probe_options \<Rightarrow> sip_probe_session \<Rightarrow> string \<Rightarrow> sip_probe \<Rightarrow> sip_probe_result" where
  "sipProbeDatagram e cfg s data p =
     (case sipParse data of
        Inl err \<Rightarrow> (None, p)
      | Inr m \<Rightarrow>
          if CallID m \<noteq> spCallID s \<or> smStatus m = 0 then (None, p)
          else if CSeqMethod m = ''BYE'' \<and> smStatus m \<ge> 200 then (Some None, p)
          else if CSeqMethod m \<noteq> ''INVITE'' then (None, p)
          else inviteResponse e cfg s m (learnMedia e m p))"

text \<open>The loop, one element of the list per round; \<open>None\<close> when the rounds given do not end it.\<close>

fun sipProbeLoop ::
  "sip_probe_options \<Rightarrow> sip_probe_session \<Rightarrow> (sip_probe_env \<times> sip_probe_read) list \<Rightarrow> sip_probe \<Rightarrow> sip_probe_result" where
  "sipProbeLoop cfg s [] p = (None, p)"
| "sipProbeLoop cfg s ((e, r) # rounds) p =
     (case hangup e s p of
        (Some result, p1) \<Rightarrow> (Some result, p1)
      | (None, p1) \<Rightarrow>
          (case r of
             SPTimeout ended \<Rightarrow> if ended then (Some (Some SPTimedOut), p1) else sipProbeLoop cfg s rounds p1
           | SPClosed ended \<Rightarrow> (Some (Some (if ended then SPTimedOut else SPReadFailed)), p1)
           | SPReadError \<Rightarrow> (Some (Some SPReadFailed), p1)
           | SPDatagram data \<Rightarrow>
               (case sipProbeDatagram e cfg s data p1 of
                  (Some result, p2) \<Rightarrow> (Some result, p2)
                | (None, p2) \<Rightarrow> sipProbeLoop cfg s rounds p2)))"

definition sipProbeRun ::
  "sip_probe_env \<Rightarrow> (string \<Rightarrow> string \<Rightarrow> int option) \<Rightarrow> int \<Rightarrow> int \<Rightarrow> sip_probe_options \<Rightarrow>
     (sip_probe_env \<times> sip_probe_read) list \<Rightarrow> sip_probe_error option option \<times> (string \<times> string) list" where
  "sipProbeRun e listens nano nano2 cfg rounds =
     (case openSipProbe e listens nano nano2 cfg of
        Inl err \<Rightarrow> (Some (Some err), [])
      | Inr s \<Rightarrow>
          (case sipProbeSend e ''INVITE'' (probeInvite s) (newSipProbe s) of (ok, p) \<Rightarrow>
             if \<not> ok then (Some (Some SPWriteFailed), spSent p)
             else (case sipProbeLoop cfg s rounds p of (result, p') \<Rightarrow> (result, spSent p'))))"

subsection \<open>The stream of silence\<close>

text \<open>One tick of \<^verbatim>\<open>sendPCMASilence\<close>: the sequence number, the time stamp and the packet.\<close>

record silence =
  slSequence :: "16 word"
  slTimestamp :: "32 word"
  slPacket :: "8 word list"

definition initSilence :: silence where
  "initSilence = \<lparr> slSequence = 0, slTimestamp = 0, slPacket = [0x80, 8] @ replicate 10 0 @ replicate 160 0xd5 \<rparr>"

definition silenceTick :: "silence \<Rightarrow> silence" where
  "silenceTick s =
     (let q = slSequence s + 1; t = slTimestamp s + 160 in
      \<lparr> slSequence = q, slTimestamp = t,
        slPacket = (slPacket s)[2 := ucast (drop_bit 8 q), 3 := ucast q, 4 := ucast (drop_bit 24 t),
          5 := ucast (drop_bit 16 t), 6 := ucast (drop_bit 8 t), 7 := ucast t] \<rparr>)"

text \<open>\<^verbatim>\<open>receiveRTP\<close>: the packets that were read; the other reads fail.\<close>

definition countRTPPackets :: "bool list \<Rightarrow> 64 word" where
  "countRTPPackets reads = fold (\<lambda>ok n. if ok then n + 1 else n) reads 0"

lemma countRTPPackets_eq: "countRTPPackets reads = of_nat (length (filter id reads))"
proof -
  have "fold (\<lambda>ok n. if ok then n + 1 else n) reads k = k + of_nat (length (filter id reads))" for k :: "64 word"
    by (induction reads arbitrary: k) (simp_all add: algebra_simps)
  then show ?thesis by (simp add: countRTPPackets_def)
qed

subsection \<open>The order of the requests\<close>

definition callPlan :: "sip_probe_session \<Rightarrow> string \<Rightarrow> (string \<times> string) list" where
  "callPlan s to = [(''INVITE'', probeInvite s), (''ACK'', probeAck s to), (''BYE'', probeBye s to)]"

definition onPlan :: "sip_probe_session \<Rightarrow> sip_probe \<Rightarrow> bool" where
  "onPlan s p \<longleftrightarrow> (\<exists>to n. spSent p = take n (callPlan s to))"

lemma onPlanI: "spSent p = take n (callPlan s to) \<Longrightarrow> onPlan s p"
  by (auto simp: onPlan_def)

text \<open>Between the rounds the flags say how far the call is.\<close>

definition callInv :: "sip_probe_session \<Rightarrow> sip_probe \<Rightarrow> bool" where
  "callInv s p \<longleftrightarrow>
     spSent p = take (if \<not> spAnswered p then 1 else if \<not> spByeSent p then 2 else 3) (callPlan s (spRemoteTo p)) \<and>
     (spByeSent p \<longrightarrow> spAnswered p)"

lemma callInv_onPlan: "callInv s p \<Longrightarrow> onPlan s p"
  by (auto simp: callInv_def intro: onPlanI)

lemma hangup_plan:
  assumes "callInv s p" "hangup e s p = (r, p')"
  shows "onPlan s p'" "r = None \<Longrightarrow> callInv s p'"
proof -
  have "callInv s p' \<or> r \<noteq> None \<and> spSent p' = take 3 (callPlan s (spRemoteTo p))"
    using assms by (auto simp: hangup_def hangupDue_def sipProbeSend_def callInv_def callPlan_def split: if_splits)
  then show "onPlan s p'" "r = None \<Longrightarrow> callInv s p'" using callInv_onPlan onPlanI by auto
qed

lemma learnMedia_frame [simp]:
  "spSent (learnMedia e m p) = spSent p" "spAnswered (learnMedia e m p) = spAnswered p"
  "spByeSent (learnMedia e m p) = spByeSent p" "spRemoteTo (learnMedia e m p) = spRemoteTo p"
  "spHangupAt (learnMedia e m p) = spHangupAt p"
  by (simp_all add: learnMedia_def split: sum.split option.split)

lemma datagram_plan:
  assumes "callInv s p" "sipProbeDatagram e cfg s data p = (r, p')"
  shows "onPlan s p'" "r = None \<Longrightarrow> callInv s p'"
proof -
  have "callInv s p' \<or> r \<noteq> None \<and> spSent p' = take 2 (callPlan s (spRemoteTo p'))"
    using assms
    by (auto simp: sipProbeDatagram_def inviteResponse_def sipProbeSend_def callInv_def callPlan_def Let_def
        split: sum.splits if_splits)
  then show "onPlan s p'" "r = None \<Longrightarrow> callInv s p'" using callInv_onPlan onPlanI by auto
qed

lemma sipProbeLoop_plan: "callInv s p \<Longrightarrow> onPlan s (snd (sipProbeLoop cfg s rounds p))"
proof (induction rounds arbitrary: p)
  case Nil
  then show ?case by (simp add: callInv_onPlan)
next
  case (Cons x rounds)
  obtain e r where x: "x = (e, r)" by force
  obtain h p1 where h: "hangup e s p = (h, p1)" by force
  note hp = hangup_plan [OF Cons.prems h]
  show ?case
  proof (cases h)
    case None
    then have p1: "callInv s p1" by (rule hp(2))
    show ?thesis
    proof (cases r)
      case (SPDatagram data)
      obtain d p2 where d: "sipProbeDatagram e cfg s data p1 = (d, p2)" by force
      note dp = datagram_plan [OF p1 d]
      show ?thesis using dp Cons.IH [of p2] None SPDatagram h d by (cases d) (simp_all add: x)
    qed (use None h hp(1) Cons.IH [OF p1] in \<open>simp_all add: x\<close>)
  qed (use h hp(1) in \<open>simp add: x\<close>)
qed

text \<open>The requests of a run are an INVITE, the ACK of a 2xx and a BYE, in this order and each at most once; ACK and
  BYE carry the same To.\<close>

theorem sip_probe_call_order:
  assumes "sipProbeRun e listens nano nano2 cfg rounds = (result, sent)"
  shows "sent = [] \<or> (\<exists>s to n. openSipProbe e listens nano nano2 cfg = Inr s \<and>
    sent = take n [(''INVITE'', probeInvite s), (''ACK'', probeAck s to), (''BYE'', probeBye s to)])"
proof (cases "openSipProbe e listens nano nano2 cfg")
  case (Inr s)
  obtain ok p where p: "sipProbeSend e ''INVITE'' (probeInvite s) (newSipProbe s) = (ok, p)" by force
  then have inv: "callInv s p" by (auto simp: sipProbeSend_def newSipProbe_def callInv_def callPlan_def)
  have "sent = spSent p \<or> sent = spSent (snd (sipProbeLoop cfg s rounds p))"
    using assms Inr p by (auto simp: sipProbeRun_def case_prod_unfold split: if_splits)
  then have "\<exists>to n. sent = take n (callPlan s to)"
    using callInv_onPlan [OF inv] sipProbeLoop_plan [OF inv, of cfg rounds] by (auto simp: onPlan_def)
  then show ?thesis using Inr by (auto simp: callPlan_def)
qed (use assms in \<open>simp add: sipProbeRun_def\<close>)

text \<open>An answered call is hung up: the first round at or after the end of the hold time sends the BYE.\<close>

lemma hangup_in_time:
  assumes "spAnswered p" "\<not> spByeSent p" "spHangupAt p = Some t" "t \<le> spNow e" "spWrites e (length (spSent p))"
  shows "hangup e s p = (None, p\<lparr>spSent := spSent p @ [(''BYE'', probeBye s (spRemoteTo p))], spByeSent := True\<rparr>)"
  using assms by (simp add: hangup_def hangupDue_def sipProbeSend_def)

text \<open>A call that is refused is not acknowledged: the run ends at the final response without another request.\<close>

lemma sip_probe_refusal_not_acknowledged:
  assumes "sipParse data = Inr m" "CallID m = spCallID s" "CSeqMethod m = ''INVITE''" "300 \<le> smStatus m"
  shows "sipProbeDatagram e cfg s data p = (Some (Some (SPInviteFailed (smStatus m) (smReason m))), learnMedia e m p)"
  using assms by (simp add: sipProbeDatagram_def inviteResponse_def)

subsection \<open>The packets of the stream\<close>

lemma word_bytes:
  fixes q :: "16 word"
  shows "word_cat (ucast (drop_bit 8 q) :: 8 word) (ucast q :: 8 word) = q"
  by (rule bit_word_eqI) (auto simp: bit_simps)

lemma word_bytes4:
  fixes t :: "32 word"
  shows "word_cat (word_cat (ucast (drop_bit 24 t) :: 8 word) (ucast (drop_bit 16 t) :: 8 word) :: 16 word)
    (word_cat (ucast (drop_bit 8 t) :: 8 word) (ucast t :: 8 word) :: 16 word) = t"
  by (rule bit_word_eqI) (auto simp: bit_simps)

definition silenceAfter :: "nat \<Rightarrow> silence" where
  "silenceAfter n = (silenceTick ^^ n) initSilence"

lemma silenceAfter_counters: "slSequence (silenceAfter n) = of_nat n \<and> slTimestamp (silenceAfter n) = of_nat (160 * n)"
  by (induction n) (simp_all add: silenceAfter_def initSilence_def silenceTick_def Let_def algebra_simps)

lemma silenceAfter_frame:
  "length (slPacket (silenceAfter n)) = 172 \<and> take 2 (slPacket (silenceAfter n)) = [0x80, 8] \<and>
   drop 12 (slPacket (silenceAfter n)) = replicate 160 0xd5"
proof (induction n)
  case (Suc n)
  then show ?case by (simp add: silenceAfter_def silenceTick_def Let_def)
qed (simp add: silenceAfter_def initSilence_def)

text \<open>The \<open>n\<close>-th packet is one of 172 bytes with version 2 and payload type 8, sequence number \<open>n\<close> and time stamp
  160 \<open>n\<close>, both wrapping around at their width, and 160 samples of silence.\<close>

theorem silence_packets:
  fixes n :: nat
  defines "p \<equiv> slPacket (silenceAfter (Suc n))"
  shows "length p = 172 \<and> take 2 p = [0x80, 8] \<and> drop 12 p = replicate 160 0xd5 \<and>
    word_cat (p ! 2) (p ! 3) = (of_nat (Suc n) :: 16 word) \<and>
    word_cat (word_cat (p ! 4) (p ! 5) :: 16 word) (word_cat (p ! 6) (p ! 7) :: 16 word) = (of_nat (160 * Suc n) :: 32 word)"
proof -
  let ?s = "silenceAfter n"
  let ?q = "slSequence ?s + 1" and ?t = "slTimestamp ?s + 160"
  have q: "?q = of_nat (Suc n)" "?t = of_nat (160 * Suc n)" using silenceAfter_counters [of n] by (simp_all add: algebra_simps)
  have p: "p = (slPacket ?s)[2 := ucast (drop_bit 8 ?q), 3 := ucast ?q, 4 := ucast (drop_bit 24 ?t),
      5 := ucast (drop_bit 16 ?t), 6 := ucast (drop_bit 8 ?t), 7 := ucast ?t]"
    by (simp add: p_def silenceAfter_def silenceTick_def Let_def)
  have len: "length (slPacket ?s) = 172" using silenceAfter_frame [of n] by simp
  have b: "p ! 2 = ucast (drop_bit 8 ?q)" "p ! 3 = ucast ?q" "p ! 4 = ucast (drop_bit 24 ?t)"
      "p ! 5 = ucast (drop_bit 16 ?t)" "p ! 6 = ucast (drop_bit 8 ?t)" "p ! 7 = ucast ?t"
    using len by (simp_all add: p)
  show ?thesis
    using silenceAfter_frame [of "Suc n"] word_bytes [of ?q] word_bytes4 [of ?t]
    unfolding b q p_def [symmetric] by simp
qed

end
