(* ===== verification/Service_Probe.thy ===== *)
theory Service_Probe
  imports H248_Message
begin

text \<open>
  The H.248 probe (\<^verbatim>\<open>cmd/h248-probe/main.go\<close>): a ServiceChange that is repeated until a reply arrives, or a
  fixed sequence of four transactions.  Reads and writes are inputs; printing is left out.
\<close>

record service_probe_options =
  svVersion :: int
  svMID :: string
  svRawMID :: bool
  svProfile :: string
  svAdvertisedAddress :: string
  svMethod :: string
  svReason :: string
  svTransactionID :: string
  svCount :: int
  svTimeout :: int

datatype service_read = SVTimeout | SVFailed | SVReply string

datatype service_result = SVFatal | SVNoResponse | SVAnswered string "h248_message option"

definition serviceProbeMessage :: "int \<Rightarrow> service_probe_options \<Rightarrow> string" where
  "serviceProbeMessage now opts =
     BuildServiceChange \<lparr> scVersion = svVersion opts, scMID = svMID opts, scRawMID = svRawMID opts,
       scTID = (if svTransactionID opts = [] then FormatUint (and now 0x7fffffff) else svTransactionID opts),
       scTermination = [], scMethod = svMethod opts, scReason = svReason opts, scProfile = svProfile opts,
       scAddress = svAdvertisedAddress opts \<rparr>"

definition serviceProbeCount :: "service_probe_options \<Rightarrow> nat" where
  "serviceProbeCount opts = nat (if svCount opts \<le> 0 then 1 else svCount opts)"

definition serviceProbeTimeout :: "service_probe_options \<Rightarrow> int" where
  "serviceProbeTimeout opts = (if svTimeout opts \<le> 0 then 3 * Second else svTimeout opts)"

text \<open>The attempts that are left and the number of the next; the result and the number of transmissions.\<close>

fun serviceAttempts :: "(nat \<Rightarrow> bool) \<Rightarrow> (nat \<Rightarrow> service_read) \<Rightarrow> nat \<Rightarrow> nat \<Rightarrow> service_result \<times> nat" where
  "serviceAttempts writes reads n 0 = (SVNoResponse, n)"
| "serviceAttempts writes reads n (Suc left) =
     (if \<not> writes n then (SVFatal, Suc n)
      else (case reads n of
              SVTimeout \<Rightarrow> serviceAttempts writes reads (Suc n) left
            | SVFailed \<Rightarrow> (SVFatal, Suc n)
            | SVReply data \<Rightarrow>
                (SVAnswered data (case Parse data of Inl e \<Rightarrow> None | Inr m \<Rightarrow> Some m), Suc n)))"

definition serviceProbe :: "(nat \<Rightarrow> bool) \<Rightarrow> (nat \<Rightarrow> service_read) \<Rightarrow> service_probe_options \<Rightarrow> service_result \<times> nat" where
  "serviceProbe writes reads opts = serviceAttempts writes reads 0 (serviceProbeCount opts)"

subsection \<open>The smoke test\<close>

definition smokeMessages :: "string list" where
  "smokeMessages =
     [''!/1 [mgc.example]'' @ [NL] @ ''P=mgc.example{'' @ [NL] @ ''  T=1{'' @ [NL] @
        ''    C=-{ServiceChange=root{Services{Method=Restart}}}'' @ [NL] @ ''  }'' @ [NL] @ ''}'',
      ''!/1 [mgc.example]'' @ [NL] @ ''P=mgc.example{'' @ [NL] @ ''  T=2{'' @ [NL] @
        ''    C=${Add=$ {Media{LocalControl{Mode=ReceiveOnly}}}}'' @ [NL] @ ''  }'' @ [NL] @ ''}'',
      ''!/1 [mgc.example]'' @ [NL] @ ''P=mgc.example{'' @ [NL] @ ''  T=3{'' @ [NL] @
        ''    C=1001{Modify=rtp/1 {Media{LocalControl{Mode=SendReceive}}}}'' @ [NL] @ ''  }'' @ [NL] @ ''}'',
      ''!/1 [mgc.example]'' @ [NL] @ ''P=mgc.example{'' @ [NL] @ ''  T=4{'' @ [NL] @
        ''    C=1001{Subtract=rtp/1 {}}'' @ [NL] @ ''  }'' @ [NL] @ ''}'']"

fun smokeTest :: "(nat \<Rightarrow> bool) \<Rightarrow> (nat \<Rightarrow> service_read) \<Rightarrow> string list \<Rightarrow> nat \<Rightarrow> string list \<Rightarrow> string list option" where
  "smokeTest writes reads [] n replies = Some replies"
| "smokeTest writes reads (m # ms) n replies =
     (if \<not> writes n then None
      else (case reads n of
              SVReply data \<Rightarrow> smokeTest writes reads ms (Suc n) (replies @ [data])
            | _ \<Rightarrow> None))"

subsection \<open>Behaviour\<close>

lemma serviceAttempts_sent: "snd (serviceAttempts writes reads n left) \<le> n + left"
proof (induction left arbitrary: n)
  case (Suc left)
  then show ?case using Suc [of "Suc n"] by (auto split: service_read.split)
qed simp

text \<open>The ServiceChange is sent at most as often as asked for, at least once, and the probe gives up only after every
  transmission went without a reply.\<close>

theorem service_probe_transmissions:
  "0 < snd (serviceProbe writes reads opts) \<and>
   snd (serviceProbe writes reads opts) \<le> serviceProbeCount opts \<and>
   (fst (serviceProbe writes reads opts) = SVNoResponse \<longleftrightarrow>
      (\<forall>n < serviceProbeCount opts. writes n \<and> reads n = SVTimeout))"
proof -
  have none: "fst (serviceAttempts writes reads n k) = SVNoResponse \<longleftrightarrow>
      (\<forall>j. n \<le> j \<and> j < n + k \<longrightarrow> writes j \<and> reads j = SVTimeout)" for n k
  proof (induction k arbitrary: n)
    case (Suc k)
    have split: "(\<forall>j. n \<le> j \<and> j < n + Suc k \<longrightarrow> P j) \<longleftrightarrow> P n \<and> (\<forall>j. Suc n \<le> j \<and> j < Suc n + k \<longrightarrow> P j)" for P
      by (auto simp: Suc_le_eq) (metis le_neq_implies_less)
    show ?case unfolding split using Suc [of "Suc n"] by (auto split: service_read.split)
  qed auto
  obtain k where k: "serviceProbeCount opts = Suc k"
    by (cases "serviceProbeCount opts") (auto simp: serviceProbeCount_def split: if_splits)
  have "0 < snd (serviceProbe writes reads opts)"
  proof -
    have "n \<le> snd (serviceAttempts writes reads n j)" for n j
    proof (induction j arbitrary: n)
      case (Suc j)
      have "Suc n \<le> snd (serviceAttempts writes reads (Suc n) j)" by (rule Suc)
      then show ?case by (simp split: service_read.split)
    qed simp
    from this [of "Suc 0" k] show ?thesis by (simp add: serviceProbe_def k split: service_read.split)
  qed
  then show ?thesis
    using serviceAttempts_sent [of writes reads 0 "serviceProbeCount opts"] none [of 0 "serviceProbeCount opts"]
    by (simp add: serviceProbe_def)
qed

end
