(* ===== verification/Spec2Isabelle.thy ===== *)
theory Spec2Isabelle
  imports Bridge_Properties Gateway_System Sdp_Codec Socket_Bind Call_Probe Register_Probe Sip_Probe Service_Probe
begin

text \<open>
  A gateway between an H.248 (Megaco) media gateway controller and a SIP IP-PBX
  (\<^verbatim>\<open>Yunisky/megaco-sip-gateway\<close>).  It registers one analogue line with the controller, turns calls
  the carrier places on that line into SIP INVITEs, and INVITEs of the IP-PBX into off-hook and digit
  reports on the line, and relays RTP and RTCP between the two sides.

  \<^bold>\<open>Parts and their theories.\<close>  \<^verbatim>\<open>Go_Strings\<close>, \<^verbatim>\<open>Go_Net\<close> and \<^verbatim>\<open>Go_Regexp\<close> are the prelude: what the program
  uses of Go's \<^verbatim>\<open>strings\<close>, \<^verbatim>\<open>strconv\<close>, \<^verbatim>\<open>net\<close> and \<^verbatim>\<open>regexp\<close>.  \<^verbatim>\<open>Transitions\<close> (invariants and measures of
  transition systems) and \<^verbatim>\<open>Txn_Cache\<close> (the contract of a bounded first-in first-out cache of transactions)
  hold the locales the components share.  \<^verbatim>\<open>Go_Laws\<close> has the laws of the prelude the codecs rest on, with the
  locale of a wire format (what is written is read back), and \<^verbatim>\<open>Go_Hash\<close> the hash functions MD5 and SHA-256.

  \<^item> \<^verbatim>\<open>Gateway_Config\<close>: \<^verbatim>\<open>internal/config/config.go\<close>; defaults, reader, validation.
  \<^item> \<^verbatim>\<open>H248_Message\<close>, \<^verbatim>\<open>H248_Interop\<close>: \<^verbatim>\<open>internal/h248/message.go\<close>, \<^verbatim>\<open>interop.go\<close>; the text codec, the Notify
    messages, caller identification and media descriptors.
  \<^item> \<^verbatim>\<open>H248_Server\<close>: \<^verbatim>\<open>internal/h248/server.go\<close>; admission of datagrams, reply cache, registration client with
    retries, watchdog and fail-over.
  \<^item> \<^verbatim>\<open>Sip_Message\<close>, \<^verbatim>\<open>Sip_Sdp\<close>, \<^verbatim>\<open>Sip_Server\<close>, \<^verbatim>\<open>Sip_Digest\<close>: \<^verbatim>\<open>internal/sip\<close>; message codec, session
    descriptions, response cache and transactions in flight, digest authentication.  \<^verbatim>\<open>Sip_Codec\<close> and \<^verbatim>\<open>Sdp_Codec\<close>
    show that messages and session descriptions that are built are read back.
  \<^item> \<^verbatim>\<open>Media_Relay\<close>: \<^verbatim>\<open>internal/bridge/media.go\<close>; sockets, peers, payload types, tones.
  \<^item> \<^verbatim>\<open>Bridge_Uri\<close>, \<^verbatim>\<open>Bridge_State\<close>, \<^verbatim>\<open>Bridge_Line\<close>, \<^verbatim>\<open>Bridge_Dialog\<close>, \<^verbatim>\<open>Bridge_H248\<close>, \<^verbatim>\<open>Bridge_Sip\<close>:
    \<^verbatim>\<open>internal/bridge/bridge.go\<close>, \<^verbatim>\<open>h248.go\<close>, \<^verbatim>\<open>sip.go\<close>; the state of the bridge and every handler.
  \<^item> \<^verbatim>\<open>Gateway_System\<close>: \<^verbatim>\<open>cmd/gateway/main.go\<close>; the start from a configuration file, the two servers composed with
    the bridge, and the end.
  \<^item> \<^verbatim>\<open>Call_Probe\<close>, \<^verbatim>\<open>Register_Probe\<close>, \<^verbatim>\<open>Sip_Probe\<close>, \<^verbatim>\<open>Service_Probe\<close>: the diagnostic tools under \<^verbatim>\<open>cmd\<close>, each a
    function of times, reads and writes.  \<^verbatim>\<open>Socket_Bind\<close>: \<^verbatim>\<open>internal/socketbind\<close>.

  The servers parse a datagram, answer retransmissions from their caches and hand requests to the bridge
  with a responder; the bridge replies through it, keeps the calls, and drives both signalling sides and the
  relay of each call.

  \<^bold>\<open>State and steps.\<close>  Structures of the source are records with its fields, mutable calls live in a store
  indexed by references, Go maps that are iterated are association lists, others are maps.  A handler is a
  function from the environment (time, resolver, which sockets open, which writes succeed), a message and the
  state to the state; what it writes is appended to \<open>outputs\<close> and what it schedules to \<open>timers\<close>.  One handler
  or timer is one step: interleavings inside a handler are not considered.  All loops of the source are
  structural recursions or functions with a measure, so nothing needs fuel; the retransmission loop of an
  INVITE, which sleeps, is a pair of timers.

  \<^bold>\<open>Bridge proofs.\<close>  \<^verbatim>\<open>Bridge_Machine\<close> is the abstract specification of the bridge: the elementary changes
  \<open>bstep\<close> that are allowed and the invariant \<open>bridgeInv\<close> they keep (tables, the outbound call, sockets,
  marks and reports, timers, ports, line, retained transactions).  \<^verbatim>\<open>Bridge_Refine\<close> and \<^verbatim>\<open>Bridge_Handlers\<close>
  show that every handler and every timer is a sequence of such changes and define the reachable states;
  \<^verbatim>\<open>Bridge_Behaviour\<close> has the lemmas on what single operations do.  \<^verbatim>\<open>Gateway_Scenario\<close> computes concrete runs,
  which serve as witnesses.  \<^verbatim>\<open>Bridge_Replies\<close> shows that every transaction is answered once, on which
  \<^verbatim>\<open>Gateway_System\<close> builds its properties of the whole process.  \<^verbatim>\<open>Bridge_Properties\<close> states the properties of
  single operations, this theory those of all reachable states.

  \<^bold>\<open>Bounds.\<close>  A loop that waits for the network (the probes, the registration client, the run of the gateway) is a
  recursion over the list of what it reads, so it needs no fuel either; its result says when the inputs given do not
  end it.  The identifiers, sequence numbers and payload types that wrap around in the source are words of
  its widths.

  \<^bold>\<open>Not modelled.\<close>  Logging and printing, the parsing of flags, contexts, signals and mutexes; the reading loops
  \<^verbatim>\<open>ListenAndServe\<close> of the servers apart from what they do with a datagram; the operating system's sockets, whose
  outcomes are inputs.  Interleavings inside a handler are not modelled; the one that matters for the replies, two
  copies of a request in flight, is stated on the dispatch (\<open>h248_in_flight_duplicate_dispatched\<close>).  The order of the headers
  of a SIP message, which in the source is that of a Go map, is fixed.  The floating point sine of a
  tone sample is a parameter of the relay.
\<close>

subsection \<open>Reachable states of the gateway\<close>

text \<open>C1: In every reachable state the media sockets that were opened and not closed are exactly those
  of the relays of live calls: a released call holds none, and a relay that could not be set up left none behind.\<close>

theorem no_socket_leak:
  assumes "reach cfg b"
  shows "opened (outputs b) =
    closed (outputs b) + (\<Sum>r \<in> {r. r < nextRef b \<and> \<not> Released (heap b r)}. heldBy (heap b r))"
proof -
  have inv: "okMedia b" using reach_inv[OF assms] by (simp add: bridgeInv_def)
  have "held b = (\<Sum>r \<in> {r. r < nextRef b \<and> \<not> Released (heap b r)}. heldBy (heap b r))"
    unfolding held_def using inv
    by (intro sum.mono_neutral_right) (auto simp: okMedia_def heldBy_def okRelay_def split: option.splits)
  with inv show ?thesis by (simp add: okMedia_def)
qed

theorem no_socket_leak_witness:
  "reach demoConfig carrier1 \<and> size (opened (outputs carrier1)) = 4 \<and>
   opened (outputs carrier1) = closed (outputs carrier1) +
     (\<Sum>r \<in> {r. r < nextRef carrier1 \<and> \<not> Released (heap carrier1 r)}. heldBy (heap carrier1 r))"
proof -
  have "size (opened (outputs carrier1)) = 4" using carrier1_view by (simp add: viewOf_def)
  with no_socket_leak[OF carrier_reach(2)] carrier_reach(2) show ?thesis by blast
qed

text \<open>C3: In every reachable state the two tables of calls have distinct keys, and every entry refers to an
  allocated call that is not released, under the context identifier or the SIP Call-ID of that call.\<close>

theorem tables_hold_live_calls:
  assumes "reach cfg b"
  shows "distinct (map fst (callsByH248 b)) \<and> distinct (map fst (callsBySIP b)) \<and>
    (\<forall>(k, r) \<in> set (callsByH248 b). r < nextRef b \<and> \<not> Released (heap b r) \<and> H248ContextID (heap b r) = k) \<and>
    (\<forall>(k, r) \<in> set (callsBySIP b). r < nextRef b \<and> \<not> Released (heap b r) \<and> SIPCallID (heap b r) = k \<and> k \<noteq> [])"
proof -
  have inv: "okTables b" using reach_inv[OF assms] by (simp add: bridgeInv_def)
  then show ?thesis unfolding okTables_def using map_of_is_SomeI[of "callsByH248 b"] map_of_is_SomeI[of "callsBySIP b"] by blast
qed

theorem tables_hold_live_calls_witness:
  "reach demoConfig carrier1 \<and> (''1001'', 0) \<in> set (callsByH248 carrier1) \<and> H248ContextID (heap carrier1 0) = ''1001''"
  using tables_hold_live_calls[OF carrier_reach(2)] carrier_reach(2) carrier1_view by (simp add: viewOf_def)

text \<open>C7: The line carries at most one call that the IP-PBX placed: two live calls of that direction are the
  same one, and it is the one the bridge keeps as its outbound call.\<close>

theorem one_outbound_call:
  assumes "reach cfg b" "r < nextRef b" "Direction (heap b r) = ''sip-to-h248''" "\<not> Released (heap b r)"
    "q < nextRef b" "Direction (heap b q) = ''sip-to-h248''" "\<not> Released (heap b q)"
  shows "r = q \<and> outboundCall b = Some r"
proof -
  have "okOutbound b" using reach_inv[OF assms(1)] by (simp add: bridgeInv_def)
  with assms show ?thesis unfolding okOutbound_def by (metis option.inject)
qed

theorem one_outbound_call_witness: "reach demoConfig pbx2 \<and> outboundCall pbx2 = Some 0"
  using one_outbound_call[OF pbx_reach(2), of 0 0] pbx_reach(2) pbx2_view by (simp add: viewOf_def)



text \<open>C9: The answer of a call is reported to the controller, and the call marked as answered there, only when
  the SIP side has answered.\<close>

theorem answer_after_sip_answer:
  assumes "reach cfg b" "r < nextRef b"
  shows "SIPAnswered (heap b r) \<or> reports r ''answer'' (outputs b) = 0 \<and> H248Answered (heap b r) = False"
proof -
  have "okReports b" "okMarks b" using reach_inv[OF assms(1)] by (simp_all add: bridgeInv_def)
  with assms(2) show ?thesis by (auto simp: okReports_def okMarks_def)
qed

theorem answer_after_sip_answer_witness:
  "reach demoConfig pbx2 \<and> 0 < nextRef pbx2 \<and>
   (SIPAnswered (heap pbx2 0) \<or> reports 0 ''answer'' (outputs pbx2) = 0 \<and> H248Answered (heap pbx2 0) = False)"
  using answer_after_sip_answer[OF pbx_reach(2), of 0] pbx_reach(2) pbx2_view by (simp add: viewOf_def)

text \<open>C10: Under a valid configuration both RTP ports of every call are even, within the configured range, leave
  room for the RTCP port below 65536, and differ from each other.\<close>

theorem call_ports_in_range:
  assumes "reach cfg b" "Validate cfg = None" "r < nextRef b" "p \<in> {H248RTPPort (heap b r), SIPRTPPort (heap b r)}"
  shows "even p \<and> mediaPortMin (cfgMedia cfg) \<le> p \<and> p \<le> mediaPortMax (cfgMedia cfg) \<and> 0 < p \<and> p + 1 \<le> 65535 \<and>
    H248RTPPort (heap b r) \<noteq> SIPRTPPort (heap b r)"
proof -
  have "callPortsOK (bCfg b) (heap b r)"
    using reach_inv[OF assms(1)] assms(3) by (simp add: bridgeInv_def okPorts_def)
  moreover have "mediaPortMin (cfgMedia cfg) \<le> firstRTPPort (cfgMedia cfg)" by (simp add: firstRTPPort_def)
  ultimately show ?thesis
    using assms(2,4) Validate_ports[OF assms(2)] reach_config[OF assms(1)] by (auto simp: callPortsOK_def portOK_def)
qed

theorem call_ports_in_range_witness:
  "reach demoConfig carrier1 \<and> Validate demoConfig = None \<and> 0 < nextRef carrier1 \<and>
   even (SIPRTPPort (heap carrier1 0)) \<and> SIPRTPPort (heap carrier1 0) \<noteq> 20000"
  using call_ports_in_range[OF carrier_reach(2) demoConfig_valid, of 0 "SIPRTPPort (heap carrier1 0)"]
    carrier_reach(2) carrier1_view demoConfig_valid by (simp add: viewOf_def)

text \<open>C2: Every callback of the bridge and every timer that is armed refines the abstract machine: its effect is
  a sequence of elementary changes, each of which keeps the invariant.\<close>

theorem handlers_refine_machine:
  assumes "bridgeInv b"
  shows "bstep\<^sup>*\<^sup>* b (HandleH248 e msg rp b) \<and> bstep\<^sup>*\<^sup>* b (HandleH248Ready e rp b) \<and>
    bstep\<^sup>*\<^sup>* b (HandleH248Unavailable e b) \<and> bstep\<^sup>*\<^sup>* b (HandleH248Response e msg b) \<and>
    bstep\<^sup>*\<^sup>* b (HandleSIP e smsg srp b) \<and>
    (\<forall>t \<in> set (timers b). bstep\<^sup>*\<^sup>* b (fireTimer e t b))"
  by (intro conjI ballI HandleH248_steps HandleH248Ready_steps HandleH248Unavailable_steps HandleH248Response_steps
      HandleSIP_steps assms) (use fireTimer_steps[OF assms] in auto)

theorem handlers_refine_machine_witness: "bridgeInv pbx2 \<and> bstep\<^sup>*\<^sup>* pbx2 pbx3"
proof -
  have inv: "bridgeInv pbx2" by (rule reach_inv[OF pbx_reach(2)])
  have "(2 + seconds 5, TOffhook 0) \<in> set (timers pbx2)" using pbx2_view by (simp add: viewOf_def)
  with handlers_refine_machine[OF inv, of _ _ _ undefined undefined] inv show ?thesis unfolding pbx3_def by blast
qed

text \<open>C11: When the controller is lost every call of the line is released, the table of contexts, the outbound
  call and the pending transactions are gone, and the line is back in its initial state.\<close>

theorem controller_loss_clears_line:
  assumes "reach cfg b"
  shows "callsByH248 (HandleH248Unavailable e b) = [] \<and> outboundCall (HandleH248Unavailable e b) = None \<and>
    line (HandleH248Unavailable e b) = initLine \<and> pendingH248 (HandleH248Unavailable e b) = Map.empty \<and>
    (\<forall>r \<in> set (lineCalls b). Released (heap (HandleH248Unavailable e b) r))"
  by (rule unavailable_clears_line[OF reach_inv[OF assms]])

theorem controller_loss_clears_line_witness:
  "reach demoConfig carrier1 \<and> callsByH248 carrier1 \<noteq> [] \<and>
   callsByH248 (HandleH248Unavailable (demoEnv 9) carrier1) = [] \<and>
   Released (heap (HandleH248Unavailable (demoEnv 9) carrier1) 0)"
proof -
  have "callsByH248 carrier1 = [(''1001'', 0)]" "lineCalls carrier1 = [0]"
    using carrier1_view by (auto simp: viewOf_def lineCalls_def)
  with controller_loss_clears_line[OF carrier_reach(2), of "demoEnv 9"] carrier_reach(2) show ?thesis by simp
qed

text \<open>C17: Releasing a call twice is releasing it once; afterwards no table refers to it, its relay holds no
  socket, and it stays released in every later state.\<close>

theorem release_is_final:
  assumes "reach cfg b" "r < nextRef b"
  shows "releaseCall r (releaseCall r b) = releaseCall r b \<and>
    r \<notin> snd ` set (callsByH248 (releaseCall r b)) \<and> r \<notin> snd ` set (callsBySIP (releaseCall r b)) \<and>
    outboundCall (releaseCall r b) \<noteq> Some r \<and> heldBy (heap (releaseCall r b) r) = {#} \<and>
    (\<forall>b'. bstep\<^sup>*\<^sup>* (releaseCall r b) b' \<longrightarrow> Released (heap b' r))"
proof -
  have "r < nextRef (releaseCall r b) \<and> Released (heap (releaseCall r b) r)" using assms(2) by simp
  then show ?thesis
    using releaseCall_idem releaseCall_forgets[OF reach_inv[OF assms(1)] assms(2)] released.steps_inv by blast
qed

theorem release_is_final_witness:
  "reach demoConfig carrier1 \<and> 0 < nextRef carrier1 \<and> 0 \<notin> snd ` set (callsByH248 (releaseCall 0 carrier1)) \<and>
   heldBy (heap (releaseCall 0 carrier1) 0) = {#}"
  using release_is_final[OF carrier_reach(2), of 0] carrier_reach(2) carrier1_view by (simp add: viewOf_def)

text \<open>C12: A BYE of the IP-PBX for a call of the table arms a timer two seconds ahead; whatever happens in between, the
  call is released and gone from the table of dialogs when that timer has fired.\<close>

theorem bye_releases_call:
  assumes "map_of (callsBySIP b) (CallID msg) = Some r" "reach cfg b" "smStatus msg = 0" "ToUpper (smMethod msg) = ''BYE''"
  shows "(now e + seconds 2, TReleaseCall r) \<in> set (timers (HandleSIP e msg rp b)) \<and>
    (\<forall>b'. bstep\<^sup>*\<^sup>* (HandleSIP e msg rp b) b' \<longrightarrow>
       Released (heap (fireTimer e' (now e + seconds 2, TReleaseCall r) b') r) \<and>
       r \<notin> snd ` set (callsBySIP (fireTimer e' (now e + seconds 2, TReleaseCall r) b')))"
proof -
  have armed: "(now e + releaseDelay, TReleaseCall r) \<in> set (timers (HandleSIP e msg rp b))"
    using handleSIPBye_arms[OF assms(1), of e rp] assms(3,4) by (simp add: HandleSIP_def Let_def)
  have inv: "bridgeInv b" and ref: "r < nextRef b"
    using reach_inv[OF assms(2)] assms(1) by (auto simp: bridgeInv_def okTables_def)
  have "Released (heap (fireTimer e' (now e + releaseDelay, TReleaseCall r) b') r) \<and>
      r \<notin> snd ` set (callsBySIP (fireTimer e' (now e + releaseDelay, TReleaseCall r) b'))"
    if st: "bstep\<^sup>*\<^sup>* (HandleSIP e msg rp b) b'" for b'
  proof -
    have all: "bstep\<^sup>*\<^sup>* b (dropTimer t b')" for t
      using HandleSIP_steps[OF inv] st dropTimer_steps by (meson rtranclp_trans)
    show ?thesis
      using releaseCall_forgets(2)[OF br.steps_inv[OF all inv] bsteps_ref[OF all ref]]
      by (simp add: fireTimer_def runTimer_def)
  qed
  with armed show ?thesis by (simp add: releaseDelay_def)
qed

theorem bye_releases_call_witness:
  "reach demoConfig pbx2 \<and> map_of (callsBySIP pbx2) (CallID demoBye) = Some 0 \<and>
   Released (heap (fireTimer (demoEnv 9) (4 + seconds 2, TReleaseCall 0) (HandleSIP (demoEnv 4) demoBye demoSip pbx2)) 0)"
proof -
  have cid: "CallID demoBye = ''pbx-1''"
    by code_simp
  have call: "map_of (callsBySIP pbx2) (CallID demoBye) = Some 0" using pbx2_view cid by (simp add: viewOf_def)
  have bye: "smStatus demoBye = 0" "ToUpper (smMethod demoBye) = ''BYE''" by (simp add: demoBye_def demoInvite_def) code_simp
  have now: "now (demoEnv 4) = 4" by (simp add: demoEnv_def)
  show ?thesis
    using bye_releases_call[OF call pbx_reach(2) bye, of "demoEnv 4" demoSip "demoEnv 9"] pbx_reach(2) call now by auto
qed

end
